(* ===== verification/Egg_Prelude.thy ===== *)
theory Egg_Prelude
  imports Main
    "HOL-Library.Word" "HOL-Library.Multiset" "HOL-Library.Sublist"
    "HOL-Library.List_Lexorder" "HOL-Library.Char_ord" "HOL-Library.Product_Lexorder"
begin

text \<open>
  Shared vocabulary of the development: Rust's fixed-width integers and their saturating
  arithmetic, byte strings (a Rust \<^verbatim>\<open>String\<close> is the list of its UTF-8 bytes, so
  \<^term>\<open>length\<close> is \<^verbatim>\<open>str::len\<close>), the \<^verbatim>\<open>Result\<close> type as a sum, splitting, ASCII classes,
  stable sorting and the ordered map \<^verbatim>\<open>BTreeMap\<close>.
\<close>

section \<open>Collections of facts\<close>

named_theorems result_simps \<open>rewriting of early returns\<close>
named_theorems bytes_simps \<open>byte classes and string scanning\<close>

section \<open>Integers\<close>

type_synonym u8 = "8 word"
type_synonym u16 = "16 word"
type_synonym u32 = "32 word"
type_synonym u64 = "64 word"

text \<open>\<^verbatim>\<open>u64::saturating_add\<close> and \<^verbatim>\<open>usize::saturating_add\<close> (a 64-bit target).\<close>

definition usize_max :: nat where
  "usize_max = 2 ^ 64 - 1"

definition usize_saturating_add :: "nat \<Rightarrow> nat \<Rightarrow> nat" where
  "usize_saturating_add a b = min (a + b) usize_max"

definition u64_saturating_add :: "u64 \<Rightarrow> u64 \<Rightarrow> u64" where
  "u64_saturating_add a b = (if unat a + unat b < 2 ^ 64 then a + b else - 1)"

definition u64_saturating_sub :: "u64 \<Rightarrow> u64 \<Rightarrow> u64" where
  "u64_saturating_sub a b = (if b \<le> a then a - b else 0)"

lemma unat_minus_one_u64: "unat (- 1 :: u64) = 2 ^ 64 - 1"
  by (simp add: unsigned_minus_1_eq_mask mask_eq_exp_minus_1)

lemma unat_u64_saturating_add:
  "unat (u64_saturating_add a b) = min (unat a + unat b) (2 ^ 64 - 1)"
proof (cases "unat a + unat b < 2 ^ 64")
  case True
  then have "unat (a + b) = unat a + unat b"
    by (simp add: unat_word_ariths)
  with True show ?thesis by (simp add: u64_saturating_add_def)
next
  case False
  then show ?thesis by (simp add: u64_saturating_add_def unat_minus_one_u64)
qed

text \<open>\<^verbatim>\<open>as i64\<close> on a \<^verbatim>\<open>u64\<close>, and wrap-around of \<^verbatim>\<open>i64\<close> arithmetic; an \<^verbatim>\<open>i64\<close> is kept as \<^typ>\<open>int\<close>.\<close>

definition i64_max :: int where
  "i64_max = 2 ^ 63 - 1"

definition as_i64 :: "u64 \<Rightarrow> int" where
  "as_i64 w = sint w"

definition wrap_i64 :: "int \<Rightarrow> int" where
  "wrap_i64 i = (i + 2 ^ 63) mod 2 ^ 64 - 2 ^ 63"

definition as_u64 :: "int \<Rightarrow> u64" where
  "as_u64 i = word_of_int i"

definition i64_saturating_add :: "int \<Rightarrow> int \<Rightarrow> int" where
  "i64_saturating_add a b = max (- (2 ^ 63)) (min i64_max (a + b))"

definition i64_saturating_sub :: "int \<Rightarrow> int \<Rightarrow> int" where
  "i64_saturating_sub a b = max (- (2 ^ 63)) (min i64_max (a - b))"

lemma wrap_i64_id: "- (2 ^ 63) \<le> i \<Longrightarrow> i \<le> i64_max \<Longrightarrow> wrap_i64 i = i"
  by (simp add: wrap_i64_def i64_max_def)

lemma as_i64_inj: "as_i64 a = as_i64 b \<Longrightarrow> a = b"
  by (simp add: as_i64_def signed_word_eqI)

lemma as_u64_as_i64 [simp]: "as_u64 (as_i64 w) = w"
  by (simp add: as_u64_def as_i64_def)

lemma as_u64_uint: "0 \<le> i \<Longrightarrow> i \<le> i64_max \<Longrightarrow> uint (as_u64 i) = i"
  by (simp add: as_u64_def i64_max_def uint_word_of_int)

lemma as_i64_small: "uint w \<le> i64_max \<Longrightarrow> as_i64 w = uint w"
  unfolding as_i64_def sint_uint
  by (rule signed_take_bit_int_eq_self)
     (rule order_trans [OF _ uint_ge_0], simp, simp add: i64_max_def)

lemma uint_u64_saturating_add: "uint (u64_saturating_add a b) = min (uint a + uint b) (2 ^ 64 - 1)"
proof -
  have "int (unat (u64_saturating_add a b)) = min (int (unat a) + int (unat b)) (int (2 ^ 64 - 1))"
    by (simp only: unat_u64_saturating_add of_nat_min of_nat_add)
  moreover have "int (2 ^ 64 - 1) = 2 ^ 64 - 1" by (simp add: of_nat_diff)
  ultimately show ?thesis by (simp only: uint_nat)
qed

lemma saturating_succ_less:
  assumes "uint a \<le> i64_max"
  shows "u64_saturating_add a 1 < b \<longleftrightarrow> uint a + 1 < uint b"
proof -
  have "uint (u64_saturating_add a 1) = uint a + 1"
    unfolding uint_u64_saturating_add using assms by (simp add: i64_max_def)
  then show ?thesis by (simp only: word_less_def)
qed

section \<open>Results\<close>

text \<open>\<^verbatim>\<open>Result<T, E>\<close> is a sum with the error on the left.\<close>

abbreviation Ok :: "'a \<Rightarrow> 'e + 'a" where
  "Ok \<equiv> Inr"

abbreviation Err :: "'e \<Rightarrow> 'e + 'a" where
  "Err \<equiv> Inl"

text \<open>The \<^verbatim>\<open>?\<close> operator: pass an error on, otherwise continue with the value.\<close>

definition and_then :: "'e + 'a \<Rightarrow> ('a \<Rightarrow> 'e + 'b) \<Rightarrow> 'e + 'b" where
  "and_then r f = (case r of Inl e \<Rightarrow> Inl e | Inr x \<Rightarrow> f x)"

lemma and_then_simps [simp]:
  "and_then (Inl e) f = Inl e" "and_then (Inr x) f = f x"
  by (simp_all add: and_then_def)

lemma and_then_Ok [result_simps]:
  "and_then r f = Inr y \<longleftrightarrow> (\<exists>x. r = Inr x \<and> f x = Inr y)"
  by (cases r) auto

lemma if_Err_Ok [result_simps]:
  "(if c then Inl e else r) = Inr y \<longleftrightarrow> \<not> c \<and> r = Inr y"
  by simp

text \<open>A \<^verbatim>\<open>for\<close> loop over checks that returns at the first error.\<close>

fun for_each :: "('a \<Rightarrow> 'e + unit) \<Rightarrow> 'a list \<Rightarrow> 'e + unit" where
  "for_each f [] = Inr ()"
| "for_each f (x # xs) = and_then (f x) (\<lambda>_. for_each f xs)"

lemma for_each_Ok [result_simps]:
  "for_each f xs = Inr u \<longleftrightarrow> (\<forall>x \<in> set xs. f x = Inr ())"
  by (induction xs) (auto simp: result_simps)

section \<open>Byte strings\<close>

definition byte_of :: "char \<Rightarrow> nat" where
  "byte_of c = of_char c"

definition is_ascii_upper :: "char \<Rightarrow> bool" where
  "is_ascii_upper c \<longleftrightarrow> 65 \<le> byte_of c \<and> byte_of c \<le> 90"

definition is_ascii_lower :: "char \<Rightarrow> bool" where
  "is_ascii_lower c \<longleftrightarrow> 97 \<le> byte_of c \<and> byte_of c \<le> 122"

definition is_ascii_digit :: "char \<Rightarrow> bool" where
  "is_ascii_digit c \<longleftrightarrow> 48 \<le> byte_of c \<and> byte_of c \<le> 57"

definition is_ascii_alphanumeric :: "char \<Rightarrow> bool" where
  "is_ascii_alphanumeric c \<longleftrightarrow> is_ascii_upper c \<or> is_ascii_lower c \<or> is_ascii_digit c"

definition is_ascii_hexdigit :: "char \<Rightarrow> bool" where
  "is_ascii_hexdigit c \<longleftrightarrow>
     is_ascii_digit c \<or> (65 \<le> byte_of c \<and> byte_of c \<le> 70) \<or> (97 \<le> byte_of c \<and> byte_of c \<le> 102)"

definition is_ascii :: "string \<Rightarrow> bool" where
  "is_ascii s \<longleftrightarrow> (\<forall>c \<in> set s. byte_of c < 128)"

definition to_ascii_lower_char :: "char \<Rightarrow> char" where
  "to_ascii_lower_char c = (if is_ascii_upper c then char_of (byte_of c + 32) else c)"

definition to_ascii_upper_char :: "char \<Rightarrow> char" where
  "to_ascii_upper_char c = (if is_ascii_lower c then char_of (byte_of c - 32) else c)"

definition to_ascii_lowercase :: "string \<Rightarrow> string" where
  "to_ascii_lowercase s = map to_ascii_lower_char s"

definition to_ascii_uppercase :: "string \<Rightarrow> string" where
  "to_ascii_uppercase s = map to_ascii_upper_char s"

definition nul :: char where
  "nul = CHR 0x00"

definition slash :: char where
  "slash = CHR ''/''"

definition backslash :: char where
  "backslash = CHR 0x5C"

lemmas ascii_defs [bytes_simps] =
  byte_of_def is_ascii_upper_def is_ascii_lower_def is_ascii_digit_def
  is_ascii_alphanumeric_def is_ascii_hexdigit_def is_ascii_def
  to_ascii_lower_char_def to_ascii_upper_char_def to_ascii_lowercase_def
  to_ascii_uppercase_def nul_def slash_def backslash_def

lemmas [bytes_simps] = char_of_eq_iff

text \<open>\<^verbatim>\<open>str::split\<close> with a one-byte separator: the empty string has one empty component.\<close>

fun split_on :: "char \<Rightarrow> string \<Rightarrow> string list" where
  "split_on c [] = [[]]"
| "split_on c (x # xs) =
     (if x = c then [] # split_on c xs
      else (case split_on c xs of [] \<Rightarrow> [[x]] | p # ps \<Rightarrow> (x # p) # ps))"

lemma split_on_nonempty [simp]: "split_on c s \<noteq> []"
  by (cases s) (auto split: list.splits)

text \<open>\<^verbatim>\<open>str::split_once\<close>: the parts before and after the first separator.\<close>

fun split_once :: "char \<Rightarrow> string \<Rightarrow> (string \<times> string) option" where
  "split_once c [] = None"
| "split_once c (x # xs) =
     (if x = c then Some ([], xs)
      else map_option (\<lambda>(a, b). (x # a, b)) (split_once c xs))"

text \<open>\<^verbatim>\<open>str::rsplit_once\<close>\<close>

definition rsplit_once :: "char \<Rightarrow> string \<Rightarrow> (string \<times> string) option" where
  "rsplit_once c s = map_option (\<lambda>(a, b). (rev b, rev a)) (split_once c (rev s))"

fun strip_prefix :: "string \<Rightarrow> string \<Rightarrow> string option" where
  "strip_prefix [] s = Some s"
| "strip_prefix (c # cs) [] = None"
| "strip_prefix (c # cs) (d # ds) = (if c = d then strip_prefix cs ds else None)"

fun join_with :: "char \<Rightarrow> string list \<Rightarrow> string" where
  "join_with c [] = []"
| "join_with c [p] = p"
| "join_with c (p # q # ps) = p @ c # join_with c (q # ps)"

lemma join_with_split_on: "join_with c (split_on c s) = s"
proof (induction s)
  case (Cons x xs)
  then show ?case
    by (cases "split_on c xs"; cases "tl (split_on c xs)") auto
qed simp

lemma split_on_no_sep: "p \<in> set (split_on c s) \<Longrightarrow> c \<notin> set p"
proof (induction s arbitrary: p)
  case (Cons x xs)
  show ?case
  proof (cases "split_on c xs")
    case (Cons q qs)
    with Cons.prems Cons.IH [of q] Cons.IH [of p] show ?thesis
      by (auto split: if_splits)
  qed simp
qed simp

lemma split_on_inj: "split_on c s = split_on c t \<Longrightarrow> s = t"
  by (metis join_with_split_on)

section \<open>Stable sorting by a key\<close>

text \<open>
  \<^verbatim>\<open>slice::sort_by\<close> is stable; so is \<^term>\<open>sort_key\<close>. Two lists with the same elements sort to
  the same list when the key is injective on them.
\<close>

lemma sort_key_mset_unique:
  assumes "mset xs = mset ys" and "inj_on k (set xs)"
  shows "sort_key k xs = sort_key k ys"
proof (rule properties_for_sort_key)
  show "mset (sort_key k ys) = mset xs" using assms(1) by simp
next
  fix x assume x: "x \<in> set (sort_key k ys)"
  have eq: "set ys = set xs" using assms(1) by (metis set_mset_mset)
  have key: "filter (\<lambda>y. k x = k y) zs = replicate (count (mset zs) x) x" if "set zs = set xs" for zs
  proof -
    have "filter (\<lambda>y. k x = k y) zs = filter (HOL.eq x) zs"
      using assms(2) x eq that by (intro filter_cong) (auto simp: inj_on_def)
    then show ?thesis by (simp add: replicate_count_mset_eq_filter_eq)
  qed
  show "filter (\<lambda>y. k x = k y) (sort_key k ys) = filter (\<lambda>y. k x = k y) xs"
    using key [of "sort_key k ys"] key [of xs] eq assms(1) by simp
qed simp

lemma sort_key_idem [simp]: "sort_key k (sort_key k xs) = sort_key k xs"
  by (rule sort_key_id_if_sorted) simp

section \<open>Chunks\<close>

text \<open>\<^verbatim>\<open>slice::chunks\<close>\<close>

function chunks :: "nat \<Rightarrow> 'a list \<Rightarrow> 'a list list" where
  "chunks n xs = (if xs = [] \<or> n = 0 then [] else take n xs # chunks n (drop n xs))"
  by pat_completeness auto
termination
  by (relation "measure (\<lambda>(n, xs). length xs)") auto

declare chunks.simps [simp del]

section \<open>Decimal numbers\<close>

text \<open>\<^verbatim>\<open>to_string\<close> of an unsigned integer, and \<^verbatim>\<open>str::parse\<close> at an unsigned type with the given maximum: an
  optional plus sign, then digits, within the range.\<close>

fun decimal :: "nat \<Rightarrow> string" where
  "decimal n = (if n < 10 then [char_of (48 + n)] else decimal (n div 10) @ [char_of (48 + n mod 10)])"

declare decimal.simps [simp del]

definition digits_value :: "string \<Rightarrow> nat" where
  "digits_value s = foldl (\<lambda>n c. 10 * n + (byte_of c - 48)) 0 s"

definition parse_unsigned :: "nat \<Rightarrow> string \<Rightarrow> nat option" where
  "parse_unsigned maximum s =
     (let digits = (case s of [] \<Rightarrow> [] | c # cs \<Rightarrow> if c = CHR ''+'' then cs else s) in
      if digits = [] \<or> \<not> list_all is_ascii_digit digits \<or> digits_value digits > maximum then None
      else Some (digits_value digits))"

definition parse_u64 :: "string \<Rightarrow> u64 option" where
  "parse_u64 s = map_option of_nat (parse_unsigned (2 ^ 64 - 1) s)"

definition parse_u32 :: "string \<Rightarrow> u32 option" where
  "parse_u32 s = map_option of_nat (parse_unsigned (2 ^ 32 - 1) s)"

lemma byte_of_digit: "(n :: nat) < 10 \<Longrightarrow> byte_of (char_of (48 + n)) = 48 + n"
  by (simp add: byte_of_def)

lemma digit_char: "(n :: nat) < 10 \<Longrightarrow> is_ascii_digit (char_of (48 + n))"
  by (simp add: is_ascii_digit_def byte_of_digit)

lemma decimal_digits: "decimal n \<noteq> [] \<and> list_all is_ascii_digit (decimal n)"
proof (induction n rule: decimal.induct)
  case (1 n)
  then show ?case
    by (subst (1 2) decimal.simps) (auto simp: digit_char)
qed

lemma digits_value_decimal: "digits_value (decimal n) = n"
proof (induction n rule: decimal.induct)
  case (1 n)
  show ?case
  proof (cases "n < 10")
    case True
    then show ?thesis by (simp add: decimal.simps [of n] digits_value_def byte_of_digit)
  next
    case False
    then have "digits_value (decimal n) = 10 * digits_value (decimal (n div 10)) + n mod 10"
      by (simp add: decimal.simps [of n] digits_value_def byte_of_digit)
    then show ?thesis using 1 False by simp
  qed
qed

lemma plus_not_digit [simp]: "\<not> is_ascii_digit CHR ''+''"
  by (simp add: is_ascii_digit_def byte_of_def)

lemma parse_unsigned_decimal: "n \<le> maximum \<Longrightarrow> parse_unsigned maximum (decimal n) = Some n"
  using decimal_digits [of n] digits_value_decimal [of n]
  by (auto simp: parse_unsigned_def Let_def split: list.splits)

lemma parse_u64_decimal: "parse_u64 (decimal (unat (w :: u64))) = Some w"
proof -
  have "unat w < 2 ^ LENGTH(64)" by (rule unsigned_less)
  then have "unat w \<le> 2 ^ 64 - 1" by simp
  then show ?thesis by (simp add: parse_u64_def parse_unsigned_decimal)
qed

end
