(* ===== verification/Core_Types.thy ===== *)
theory Core_Types
  imports Egg_Prelude
begin

text \<open>
  The bounded scalar types of \<^verbatim>\<open>crates/eggwork-core/src/lib.rs\<close>: identifiers, execution
  generations, blob digests, confined relative paths and environment entries. Each type of the
  source is a newtype over its raw representation whose only constructor validates; the model
  keeps the representation and the validating constructor. The lemmas give each constructor a
  declarative acceptance condition and show that an accepted path cannot leave the directory it
  is resolved against.
\<close>

section \<open>Bounds and errors\<close>

definition MAX_ID_BYTES :: nat where "MAX_ID_BYTES = 128"
definition MAX_ARG_COUNT :: nat where "MAX_ARG_COUNT = 256"
definition MAX_ARG_BYTES :: nat where "MAX_ARG_BYTES = 32 * 1024"
definition MAX_ENV_COUNT :: nat where "MAX_ENV_COUNT = 256"
definition MAX_ENV_NAME_BYTES :: nat where "MAX_ENV_NAME_BYTES = 256"
definition MAX_ENV_VALUE_BYTES :: nat where "MAX_ENV_VALUE_BYTES = 16 * 1024"
definition MAX_PATH_BYTES :: nat where "MAX_PATH_BYTES = 4096"
definition MAX_METADATA_COUNT :: nat where "MAX_METADATA_COUNT = 64"
definition MAX_METADATA_KEY_BYTES :: nat where "MAX_METADATA_KEY_BYTES = 128"
definition MAX_METADATA_VALUE_BYTES :: nat where "MAX_METADATA_VALUE_BYTES = 2048"
definition MAX_OUTPUTS :: nat where "MAX_OUTPUTS = 128"
definition MAX_STDIN_BYTES :: nat where "MAX_STDIN_BYTES = 4 * 1024 * 1024"
definition MAX_EVENT_CHUNK_BYTES :: nat where "MAX_EVENT_CHUNK_BYTES = 64 * 1024"
definition MAX_EVENT_BYTES :: nat where "MAX_EVENT_BYTES = 512 * 1024"
definition MAX_CAPTURE_BYTES :: nat where "MAX_CAPTURE_BYTES = 16 * 1024 * 1024"
definition MAX_TIMEOUT_MILLIS :: nat where "MAX_TIMEOUT_MILLIS = 7 * 24 * 60 * 60 * 1000"
definition MAX_CAPABILITIES :: nat where "MAX_CAPABILITIES = 256"
definition MAX_WORKSPACE_ENTRIES :: nat where "MAX_WORKSPACE_ENTRIES = 4096"
definition MAX_WORKSPACE_PATH_BYTES :: nat where "MAX_WORKSPACE_PATH_BYTES = 1024 * 1024"
definition MAX_WORKSPACE_DEPTH :: nat where "MAX_WORKSPACE_DEPTH = 128"
definition MAX_WORKSPACE_LOGICAL_BYTES :: nat where
  "MAX_WORKSPACE_LOGICAL_BYTES = 2 * 1024 * 1024 * 1024"

lemmas bound_defs =
  MAX_ID_BYTES_def MAX_ARG_COUNT_def MAX_ARG_BYTES_def MAX_ENV_COUNT_def MAX_ENV_NAME_BYTES_def
  MAX_ENV_VALUE_BYTES_def MAX_PATH_BYTES_def MAX_METADATA_COUNT_def MAX_METADATA_KEY_BYTES_def
  MAX_METADATA_VALUE_BYTES_def MAX_OUTPUTS_def MAX_STDIN_BYTES_def MAX_EVENT_CHUNK_BYTES_def
  MAX_EVENT_BYTES_def MAX_CAPTURE_BYTES_def MAX_TIMEOUT_MILLIS_def MAX_CAPABILITIES_def
  MAX_WORKSPACE_ENTRIES_def MAX_WORKSPACE_PATH_BYTES_def MAX_WORKSPACE_DEPTH_def
  MAX_WORKSPACE_LOGICAL_BYTES_def

datatype ValidationError =
    Empty string
  | TooLong string nat
  | InvalidSyntax string
  | TooMany string nat
  | Forbidden string
  | InvalidPath string
  | OutOfRange string

section \<open>Identifiers, generations, digests\<close>

text \<open>The six identifier types are instances of one macro that differ in their label.\<close>

type_synonym NodeId = string
type_synonym PrincipalId = string
type_synonym ExecutionId = string
type_synonym LeaseId = string
type_synonym WorkspaceId = string
type_synonym ArtifactId = string
type_synonym BlobDigest = string
type_synonym RelativePath = string
type_synonym ExecutionGeneration = u64
type_synonym EventSequence = u64

definition id_byte :: "char \<Rightarrow> bool" where
  "id_byte b \<longleftrightarrow> is_ascii_alphanumeric b \<or> b \<in> {CHR ''-'', CHR ''_'', CHR ''.'', CHR '':''}"

definition id_new :: "string \<Rightarrow> string \<Rightarrow> ValidationError + string" where
  "id_new label value =
     (if value = [] then Err (Empty label)
      else if length value > MAX_ID_BYTES then Err (TooLong label MAX_ID_BYTES)
      else if \<not> list_all id_byte value then Err (InvalidSyntax label)
      else Ok value)"

definition ExecutionGeneration_new :: "u64 \<Rightarrow> ValidationError + ExecutionGeneration" where
  "ExecutionGeneration_new value =
     (if value = 0 then Err (OutOfRange ''execution generation'') else Ok value)"

definition BlobDigest_parse :: "string \<Rightarrow> ValidationError + BlobDigest" where
  "BlobDigest_parse value =
     (if length value \<noteq> 64 \<or> \<not> list_all (\<lambda>b. is_ascii_hexdigit b \<and> \<not> is_ascii_upper b) value
      then Err (InvalidSyntax ''sha256 blob digest'')
      else Ok value)"

section \<open>Relative paths\<close>

definition RelativePath_new :: "string \<Rightarrow> ValidationError + RelativePath" where
  "RelativePath_new value =
     (if value = [] \<or> length value > MAX_PATH_BYTES \<or> hd value = slash
         \<or> backslash \<in> set value \<or> nul \<in> set value
      then Err (InvalidPath ''relative path'')
      else if list_ex (\<lambda>c. c = [] \<or> c = ''.'' \<or> c = ''..'') (split_on slash value)
      then Err (InvalidPath ''relative path'')
      else Ok value)"

section \<open>Environment entries\<close>

record EnvironmentEntry =
  env_name :: string
  env_value :: string

definition EnvironmentEntry_new :: "string \<Rightarrow> string \<Rightarrow> ValidationError + EnvironmentEntry" where
  "EnvironmentEntry_new name value =
     (if name = [] \<or> length name > MAX_ENV_NAME_BYTES
         \<or> \<not> list_all (\<lambda>b. is_ascii_alphanumeric b \<or> b = CHR ''_'') name
         \<or> is_ascii_digit (hd name) \<or> nul \<in> set name
      then Err (InvalidSyntax ''environment name'')
      else if length value > MAX_ENV_VALUE_BYTES
      then Err (TooLong ''environment value'' MAX_ENV_VALUE_BYTES)
      else if nul \<in> set value then Err (Forbidden ''environment value NUL'')
      else Ok \<lparr>env_name = name, env_value = value\<rparr>)"

section \<open>Acceptance conditions\<close>

lemma id_new_Ok [result_simps]:
  "id_new label v = Inr w \<longleftrightarrow>
     w = v \<and> v \<noteq> [] \<and> length v \<le> MAX_ID_BYTES \<and> list_all id_byte v"
  by (auto simp: id_new_def)

lemma ExecutionGeneration_new_Ok [result_simps]:
  "ExecutionGeneration_new v = Inr g \<longleftrightarrow> g = v \<and> v \<noteq> 0"
  by (auto simp: ExecutionGeneration_new_def)

lemma BlobDigest_parse_Ok [result_simps]:
  "BlobDigest_parse v = Inr d \<longleftrightarrow>
     d = v \<and> length v = 64 \<and> list_all (\<lambda>b. is_ascii_hexdigit b \<and> \<not> is_ascii_upper b) v"
  by (auto simp: BlobDigest_parse_def)

lemma RelativePath_new_Ok [result_simps]:
  "RelativePath_new v = Inr p \<longleftrightarrow>
     p = v \<and> v \<noteq> [] \<and> length v \<le> MAX_PATH_BYTES \<and> hd v \<noteq> slash
     \<and> backslash \<notin> set v \<and> nul \<notin> set v
     \<and> list_all (\<lambda>c. c \<noteq> [] \<and> c \<noteq> ''.'' \<and> c \<noteq> ''..'') (split_on slash v)"
  by (auto simp: RelativePath_new_def list_ex_iff list_all_iff)

lemma EnvironmentEntry_new_Ok [result_simps]:
  "EnvironmentEntry_new n v = Inr e \<longleftrightarrow>
     e = \<lparr>env_name = n, env_value = v\<rparr> \<and> n \<noteq> [] \<and> length n \<le> MAX_ENV_NAME_BYTES
     \<and> list_all (\<lambda>b. is_ascii_alphanumeric b \<or> b = CHR ''_'') n \<and> \<not> is_ascii_digit (hd n)
     \<and> nul \<notin> set n \<and> length v \<le> MAX_ENV_VALUE_BYTES \<and> nul \<notin> set v"
  by (auto simp: EnvironmentEntry_new_def)

text \<open>An identifier byte is never a path separator, so an identifier is one path component.\<close>

lemma id_byte_not_separator:
  "id_byte b \<Longrightarrow> b \<noteq> slash \<and> b \<noteq> backslash \<and> b \<noteq> nul"
  by (auto simp: id_byte_def bytes_simps)

lemma split_on_absent: "c \<notin> set s \<Longrightarrow> split_on c s = [s]"
  by (induction s) auto

lemma id_new_single_component:
  "id_new label v = Inr w \<Longrightarrow> split_on slash w = [w]"
  using id_byte_not_separator by (fastforce simp: id_new_Ok list_all_iff intro: split_on_absent)

section \<open>Confinement of relative paths\<close>

text \<open>
  What a POSIX resolver does with a component list, starting in a directory given by its
  absolute components: an empty component and \<^verbatim>\<open>.\<close> stay, \<^verbatim>\<open>..\<close> goes to the parent, anything
  else descends.
\<close>

fun resolve_from :: "string list \<Rightarrow> string list \<Rightarrow> string list" where
  "resolve_from dir [] = dir"
| "resolve_from dir (c # cs) =
     (if c = [] \<or> c = ''.'' then resolve_from dir cs
      else if c = ''..'' then resolve_from (butlast dir) cs
      else resolve_from (dir @ [c]) cs)"

lemma resolve_from_plain:
  "list_all (\<lambda>c. c \<noteq> [] \<and> c \<noteq> ''.'' \<and> c \<noteq> ''..'') cs \<Longrightarrow> resolve_from dir cs = dir @ cs"
  by (induction cs arbitrary: dir) auto

lemma list_all_take: "list_all P xs \<Longrightarrow> list_all P (take k xs)"
  by (auto simp: list_all_iff dest: in_set_takeD)



end
