(* ===== verification/Core_Spec.thy ===== *)
theory Core_Spec
  imports Core_Types
begin

text \<open>
  The execution request of \<^verbatim>\<open>crates/eggwork-core/src/lib.rs\<close>: output policy, resource and
  isolation requirements, \<^verbatim>\<open>CommandSpec\<close> and \<^verbatim>\<open>ExecutionSpec\<close> with their validators, the lifecycle
  data (\<^verbatim>\<open>ExecutionState\<close>, \<^verbatim>\<open>ExecutionResult\<close>, \<^verbatim>\<open>ExecutionEvent\<close>, \<^verbatim>\<open>ExecutionSnapshot\<close>) and the
  canonical form a request is hashed in. The lemmas characterise what the validators accept and
  show that canonicalisation forgets exactly the order of the unordered fields.
\<close>

section \<open>Standard input and output policy\<close>

datatype StdinPolicy = Null | Bytes "u8 list"

definition StdinPolicy_validate :: "StdinPolicy \<Rightarrow> ValidationError + unit" where
  "StdinPolicy_validate p =
     (case p of
        Bytes v \<Rightarrow> if length v > MAX_STDIN_BYTES then Err (TooLong ''stdin'' MAX_STDIN_BYTES) else Ok ()
      | Null \<Rightarrow> Ok ())"

datatype OverflowPolicy = Truncate | Terminate

record OutputPolicy =
  capture_limit_bytes :: nat
  event_chunk_bytes :: nat
  overflow :: OverflowPolicy

definition OutputPolicy_default :: OutputPolicy where
  "OutputPolicy_default =
     \<lparr>capture_limit_bytes = 1024 * 1024, event_chunk_bytes = 16 * 1024, overflow = Truncate\<rparr>"

definition OutputPolicy_validate :: "OutputPolicy \<Rightarrow> ValidationError + unit" where
  "OutputPolicy_validate p =
     (if capture_limit_bytes p > MAX_CAPTURE_BYTES \<or> event_chunk_bytes p = 0
         \<or> event_chunk_bytes p > MAX_EVENT_CHUNK_BYTES
      then Err (OutOfRange ''output policy'') else Ok ())"

record DeclaredOutput =
  do_path :: RelativePath
  do_required :: bool

section \<open>Requirements\<close>

datatype 'a Requirement = NotRequested | BestEffort 'a | Required 'a

text \<open>
  The wire form of a requirement, over \<^verbatim>\<open>serde_json::Value\<close>: nothing is \<^verbatim>\<open>null\<close>, best effort is the
  bare value, required is an object with the single key \<^verbatim>\<open>required\<close>. The (de)serialiser of the
  carried value is a parameter.
\<close>

datatype Json = JNull | JBool bool | JNumber nat | JString string | JArray "Json list"
  | JObject "(string \<times> Json) list"

definition Requirement_serialize :: "('a \<Rightarrow> Json) \<Rightarrow> 'a Requirement \<Rightarrow> Json" where
  "Requirement_serialize ser r =
     (case r of NotRequested \<Rightarrow> JNull | BestEffort v \<Rightarrow> ser v
      | Required v \<Rightarrow> JObject [(''required'', ser v)])"

definition Requirement_deserialize :: "(Json \<Rightarrow> 'e + 'a) \<Rightarrow> Json \<Rightarrow> 'e + 'a Requirement" where
  "Requirement_deserialize de value =
     (if value = JNull then Ok NotRequested
      else case value of
        JObject [(k, v)] \<Rightarrow>
          if k = ''required'' then and_then (de v) (\<lambda>x. Ok (Required x))
          else and_then (de value) (\<lambda>x. Ok (BestEffort x))
      | _ \<Rightarrow> and_then (de value) (\<lambda>x. Ok (BestEffort x)))"

record ResourceRequirements =
  memory_bytes :: "u64 Requirement"
  cpu_millis :: "u64 Requirement"
  pids :: "u32 Requirement"

text \<open>The range pattern \<^verbatim>\<open>1..=max\<close> under either constructor, or no request at all.\<close>

definition requirement_in_range :: "nat \<Rightarrow> 'a::len word Requirement \<Rightarrow> bool" where
  "requirement_in_range hi r =
     (case r of
        NotRequested \<Rightarrow> True
      | BestEffort v \<Rightarrow> 1 \<le> unat v \<and> unat v \<le> hi
      | Required v \<Rightarrow> 1 \<le> unat v \<and> unat v \<le> hi)"

definition ResourceRequirements_validate :: "ResourceRequirements \<Rightarrow> ValidationError + unit" where
  "ResourceRequirements_validate r =
     (if requirement_in_range 1125899906842624 (memory_bytes r)
         \<and> requirement_in_range 1000000 (cpu_millis r)
         \<and> requirement_in_range 1000000 (pids r)
      then Ok () else Err (OutOfRange ''resource requirements''))"

datatype IsolationRequirement = IsolationNone | IsolationBestEffort | IsolationRequired

datatype NetworkRequirement = Unrestricted | Disabled | AllowListed "string list"

section \<open>Command and execution specifications\<close>

record CommandSpec =
  argv :: "string list"
  cwd :: "RelativePath option"
  environment :: "EnvironmentEntry list"
  stdin :: StdinPolicy
  timeout_millis :: u64
  cs_output :: OutputPolicy
  declared_outputs :: "DeclaredOutput list"
  resources :: ResourceRequirements
  isolation :: IsolationRequirement
  network :: NetworkRequirement

text \<open>\<^verbatim>\<open>iter().any(|e| !names.insert(e.name))\<close>: stops at the first name already in the set.\<close>

fun any_repeated :: "string set \<Rightarrow> string list \<Rightarrow> bool" where
  "any_repeated seen [] = False"
| "any_repeated seen (n # ns) = (n \<in> seen \<or> any_repeated (insert n seen) ns)"

definition CommandSpec_validate :: "CommandSpec \<Rightarrow> ValidationError + unit" where
  "CommandSpec_validate c =
     (if argv c = [] then Err (Empty ''argv'')
      else if length (argv c) > MAX_ARG_COUNT then Err (TooMany ''argv'' MAX_ARG_COUNT)
      else if list_ex (\<lambda>a. length a > MAX_ARG_BYTES \<or> nul \<in> set a) (argv c)
      then Err (OutOfRange ''argv entry'')
      else if length (environment c) > MAX_ENV_COUNT
      then Err (TooMany ''environment'' MAX_ENV_COUNT)
      else and_then
        (for_each (\<lambda>e. and_then (EnvironmentEntry_new (env_name e) (env_value e)) (\<lambda>_. Ok ()))
          (environment c)) (\<lambda>_.
        if any_repeated {} (map env_name (environment c))
        then Err (InvalidSyntax ''duplicate environment name'')
        else if length (declared_outputs c) > MAX_OUTPUTS
        then Err (TooMany ''declared outputs'' MAX_OUTPUTS)
        else if timeout_millis c = 0 \<or> unat (timeout_millis c) > MAX_TIMEOUT_MILLIS
        then Err (OutOfRange ''timeout'')
        else and_then (StdinPolicy_validate (stdin c)) (\<lambda>_.
          and_then (OutputPolicy_validate (cs_output c)) (\<lambda>_.
          and_then (ResourceRequirements_validate (resources c)) (\<lambda>_. Ok ())))))"

record ExecutionSpec =
  es_schema_version :: u16
  command :: CommandSpec
  metadata :: "(string \<times> string) list"

definition ExecutionSpec_validate :: "ExecutionSpec \<Rightarrow> ValidationError + unit" where
  "ExecutionSpec_validate s =
     and_then (CommandSpec_validate (command s)) (\<lambda>_.
       if es_schema_version s = 0 then Err (OutOfRange ''schema version'')
       else if length (metadata s) > MAX_METADATA_COUNT
       then Err (TooMany ''metadata'' MAX_METADATA_COUNT)
       else if list_ex (\<lambda>(k, v). k = [] \<or> length k > MAX_METADATA_KEY_BYTES
                 \<or> length v > MAX_METADATA_VALUE_BYTES \<or> nul \<in> set k \<or> nul \<in> set v) (metadata s)
       then Err (OutOfRange ''metadata entry'')
       else Ok ())"

section \<open>Lifecycle data\<close>

datatype ExecutionState =
    Accepted | Preparing | Running | Cancelling
  | Succeeded | Failed | Cancelled | TimedOut | Interrupted

datatype ExecutionFailure =
    FailSpawn | FailInternal | FailOutputLimit | FailSandbox | FailResourceLimit
  | FailInterrupted | FailLeaseExpired

datatype SandboxResult =
    SandboxNotRequested | SandboxNotApplied string | SandboxApplied string | SandboxFailed string

datatype ResourceDimensionResult =
    DimNotRequested | DimNotApplied string | DimApplied string | DimLimitExceeded string

record ResourceResult =
  rr_memory_bytes :: ResourceDimensionResult
  rr_cpu_millis :: ResourceDimensionResult
  rr_pids :: ResourceDimensionResult

datatype ExecutionFinalizationFailure = FinArtifactCapture | FinRetention

record ExecutionResult =
  er_state :: ExecutionState
  exit_code :: "int option"
  failure :: "ExecutionFailure option"
  stdout_bytes :: u64
  stderr_bytes :: u64
  stdout_omitted :: u64
  stderr_omitted :: u64
  cleanup_warning :: "string option"
  finalization_failure :: "ExecutionFinalizationFailure option"
  artifact_count :: u32
  sandbox :: "SandboxResult option"
  er_resources :: "ResourceResult option"

type_synonym EventMetadata = "(string \<times> string) list"

definition EventMetadata_validate :: "EventMetadata \<Rightarrow> ValidationError + unit" where
  "EventMetadata_validate md =
     (if length md > MAX_METADATA_COUNT then Err (TooMany ''event metadata'' MAX_METADATA_COUNT)
      else if list_ex (\<lambda>(k, v). length k > MAX_METADATA_KEY_BYTES
                \<or> length v > MAX_METADATA_VALUE_BYTES) md
      then Err (OutOfRange ''event metadata'')
      else Ok ())"

datatype ExecutionEventKind =
    EvState ExecutionState | EvStdout "u8 list" | EvStderr "u8 list" | EvDiagnostic string

record ExecutionEvent =
  ev_sequence :: EventSequence
  ev_kind :: ExecutionEventKind
  ev_metadata :: EventMetadata

definition event_payload_len :: "ExecutionEventKind \<Rightarrow> nat" where
  "event_payload_len k =
     (case k of EvStdout v \<Rightarrow> length v | EvStderr v \<Rightarrow> length v | EvDiagnostic v \<Rightarrow> length v
      | EvState _ \<Rightarrow> 0)"

definition ExecutionEvent_validate :: "ExecutionEvent \<Rightarrow> ValidationError + unit" where
  "ExecutionEvent_validate e =
     and_then (EventMetadata_validate (ev_metadata e)) (\<lambda>_.
       if event_payload_len (ev_kind e) > MAX_EVENT_CHUNK_BYTES
       then Err (TooLong ''event payload'' MAX_EVENT_CHUNK_BYTES) else Ok ())"

record ExecutionSnapshot =
  sn_schema_version :: u16
  sn_execution_id :: ExecutionId
  sn_generation :: ExecutionGeneration
  sn_state :: ExecutionState
  sn_result :: "ExecutionResult option"

record ExecutionHandle =
  eh_execution_id :: ExecutionId
  eh_generation :: ExecutionGeneration
  eh_lease_id :: LeaseId

section \<open>Node capabilities\<close>

record ProtocolVersion =
  major :: u16
  minor :: u16

text \<open>The derived \<^verbatim>\<open>PartialOrd\<close> compares the fields in order.\<close>

definition ProtocolVersion_gt :: "ProtocolVersion \<Rightarrow> ProtocolVersion \<Rightarrow> bool" where
  "ProtocolVersion_gt a b \<longleftrightarrow> major b < major a \<or> (major b = major a \<and> minor b < minor a)"

record NodeCapabilities =
  protocol_min :: ProtocolVersion
  protocol_max :: ProtocolVersion
  features :: "string list"
  max_active_executions :: u32

definition NodeCapabilities_validate :: "NodeCapabilities \<Rightarrow> ValidationError + unit" where
  "NodeCapabilities_validate c =
     (if ProtocolVersion_gt (protocol_min c) (protocol_max c)
      then Err (OutOfRange ''protocol version range'')
      else if length (features c) > MAX_CAPABILITIES then Err (TooMany ''capabilities'' MAX_CAPABILITIES)
      else if list_ex (\<lambda>f. f = [] \<or> length f > MAX_METADATA_VALUE_BYTES \<or> nul \<in> set f) (features c)
      then Err (OutOfRange ''capability'')
      else Ok ())"

record NodeStatus =
  ns_node_id :: NodeId
  ns_draining :: bool
  ns_active_executions :: u32
  ns_capabilities :: NodeCapabilities

section \<open>Canonical requests\<close>

definition CANONICAL_REQUEST_VERSION :: u16 where "CANONICAL_REQUEST_VERSION = 2"
definition CANONICAL_WORKSPACE_REQUEST_VERSION :: u16 where "CANONICAL_WORKSPACE_REQUEST_VERSION = 3"

definition normalize_execution_spec :: "ExecutionSpec \<Rightarrow> ExecutionSpec" where
  "normalize_execution_spec s =
     s\<lparr>command := (command s)
         \<lparr>environment := sort_key env_name (environment (command s)),
          declared_outputs := sort_key (\<lambda>d. (do_path d, do_required d)) (declared_outputs (command s))\<rparr>,
       metadata := sort_key (\<lambda>m. m) (metadata s)\<rparr>"

text \<open>
  JSON serialisation (\<^verbatim>\<open>serde_json::to_vec\<close>, which may fail) and the hash (\<^verbatim>\<open>sha2\<close> with \<^verbatim>\<open>hex\<close>) are
  libraries and so parameters.
\<close>

definition request_digest ::
  "(string \<Rightarrow> BlobDigest) \<Rightarrow> (ExecutionSpec \<Rightarrow> string option) \<Rightarrow> ExecutionSpec \<Rightarrow> BlobDigest option" where
  "request_digest sha256_hex to_vec spec =
     map_option (\<lambda>json. sha256_hex (''eggwork-execution-spec'' @ [nul] @ ''canonical-json-v2'' @ [nul] @ json))
       (to_vec (normalize_execution_spec spec))"

definition request_digest_with_workspace ::
  "(string \<Rightarrow> BlobDigest) \<Rightarrow> (ExecutionSpec \<Rightarrow> string option)
     \<Rightarrow> (ExecutionSpec \<times> WorkspaceId \<Rightarrow> string option)
     \<Rightarrow> ExecutionSpec \<Rightarrow> WorkspaceId option \<Rightarrow> (u16 \<times> BlobDigest) option" where
  "request_digest_with_workspace sha256_hex to_vec to_vec_ws spec workspace_id =
     (case workspace_id of
        None \<Rightarrow> map_option (\<lambda>d. (CANONICAL_REQUEST_VERSION, d)) (request_digest sha256_hex to_vec spec)
      | Some w \<Rightarrow>
          map_option (\<lambda>json. (CANONICAL_WORKSPACE_REQUEST_VERSION,
              sha256_hex (''eggwork-execution-spec'' @ [nul] @ ''canonical-json-v3'' @ [nul] @ json)))
            (to_vec_ws (normalize_execution_spec spec, w)))"

section \<open>What the validators accept\<close>

lemma any_repeated_iff:
  "any_repeated seen ns \<longleftrightarrow> \<not> distinct ns \<or> set ns \<inter> seen \<noteq> {}"
  by (induction ns arbitrary: seen) auto

text \<open>The declarative contract of a command: every bound of the crate, clause by clause.\<close>

definition wf_environment :: "EnvironmentEntry list \<Rightarrow> bool" where
  "wf_environment es \<longleftrightarrow>
     length es \<le> MAX_ENV_COUNT \<and> distinct (map env_name es)
     \<and> (\<forall>e \<in> set es. EnvironmentEntry_new (env_name e) (env_value e) = Ok e)"

definition wf_stdin :: "StdinPolicy \<Rightarrow> bool" where
  "wf_stdin p \<longleftrightarrow> (\<forall>v. p = Bytes v \<longrightarrow> length v \<le> MAX_STDIN_BYTES)"

definition wf_output :: "OutputPolicy \<Rightarrow> bool" where
  "wf_output p \<longleftrightarrow> capture_limit_bytes p \<le> MAX_CAPTURE_BYTES
     \<and> 0 < event_chunk_bytes p \<and> event_chunk_bytes p \<le> MAX_EVENT_CHUNK_BYTES"

definition wf_command :: "CommandSpec \<Rightarrow> bool" where
  "wf_command c \<longleftrightarrow>
     argv c \<noteq> [] \<and> length (argv c) \<le> MAX_ARG_COUNT
     \<and> (\<forall>a \<in> set (argv c). length a \<le> MAX_ARG_BYTES \<and> nul \<notin> set a)
     \<and> wf_environment (environment c)
     \<and> length (declared_outputs c) \<le> MAX_OUTPUTS
     \<and> 0 < unat (timeout_millis c) \<and> unat (timeout_millis c) \<le> MAX_TIMEOUT_MILLIS
     \<and> wf_stdin (stdin c) \<and> wf_output (cs_output c)
     \<and> requirement_in_range 1125899906842624 (memory_bytes (resources c))
     \<and> requirement_in_range 1000000 (cpu_millis (resources c))
     \<and> requirement_in_range 1000000 (pids (resources c))"

lemma StdinPolicy_validate_Ok [result_simps]: "StdinPolicy_validate p = Inr u \<longleftrightarrow> wf_stdin p"
  by (auto simp: StdinPolicy_validate_def wf_stdin_def split: StdinPolicy.splits)

lemma OutputPolicy_validate_Ok [result_simps]: "OutputPolicy_validate p = Inr u \<longleftrightarrow> wf_output p"
  by (auto simp: OutputPolicy_validate_def wf_output_def)

lemma ResourceRequirements_validate_Ok [result_simps]:
  "ResourceRequirements_validate r = Inr u \<longleftrightarrow>
     requirement_in_range 1125899906842624 (memory_bytes r)
     \<and> requirement_in_range 1000000 (cpu_millis r) \<and> requirement_in_range 1000000 (pids r)"
  by (auto simp: ResourceRequirements_validate_def)

lemma environment_check_Ok [result_simps]:
  "for_each (\<lambda>e. and_then (EnvironmentEntry_new (env_name e) (env_value e)) (\<lambda>_. Ok ())) es = Inr u
     \<longleftrightarrow> (\<forall>e \<in> set es. EnvironmentEntry_new (env_name e) (env_value e) = Ok e)"
  by (auto simp: for_each_Ok and_then_Ok EnvironmentEntry_new_Ok)

lemma CommandSpec_validate_Ok [result_simps]:
  "CommandSpec_validate c = Inr u \<longleftrightarrow> wf_command c"
  by (auto simp: CommandSpec_validate_def wf_command_def wf_environment_def result_simps
      any_repeated_iff list_ex_iff unat_gt_0 not_less)

definition wf_metadata :: "(string \<times> string) list \<Rightarrow> bool" where
  "wf_metadata m \<longleftrightarrow> length m \<le> MAX_METADATA_COUNT
     \<and> (\<forall>(k, v) \<in> set m. k \<noteq> [] \<and> length k \<le> MAX_METADATA_KEY_BYTES
          \<and> length v \<le> MAX_METADATA_VALUE_BYTES \<and> nul \<notin> set k \<and> nul \<notin> set v)"

lemma ExecutionSpec_validate_Ok [result_simps]:
  "ExecutionSpec_validate s = Inr u \<longleftrightarrow>
     wf_command (command s) \<and> es_schema_version s \<noteq> 0 \<and> wf_metadata (metadata s)"
  by (auto simp: ExecutionSpec_validate_def wf_metadata_def result_simps list_ex_iff not_less
      split: prod.splits)

lemma ExecutionEvent_validate_Ok [result_simps]:
  "ExecutionEvent_validate e = Inr u \<longleftrightarrow>
     event_payload_len (ev_kind e) \<le> MAX_EVENT_CHUNK_BYTES \<and> length (ev_metadata e) \<le> MAX_METADATA_COUNT
     \<and> (\<forall>(k, v) \<in> set (ev_metadata e). length k \<le> MAX_METADATA_KEY_BYTES
          \<and> length v \<le> MAX_METADATA_VALUE_BYTES)"
  by (auto simp: ExecutionEvent_validate_def EventMetadata_validate_def result_simps list_ex_iff
      not_less split: prod.splits)

section \<open>Canonical form\<close>

lemma normalize_idem: "normalize_execution_spec (normalize_execution_spec s) = normalize_execution_spec s"
  by (simp add: normalize_execution_spec_def)

lemma inj_on_env_name: "distinct (map env_name es) \<Longrightarrow> inj_on env_name (set es)"
  by (simp add: distinct_map)

lemma inj_on_output_key: "inj_on (\<lambda>d. (do_path d, do_required d)) (S :: DeclaredOutput set)"
  by (auto intro!: inj_onI DeclaredOutput.equality)

text \<open>Two requests that differ only in the order of their unordered fields.\<close>

definition same_up_to_order :: "ExecutionSpec \<Rightarrow> ExecutionSpec \<Rightarrow> bool" where
  "same_up_to_order s t \<longleftrightarrow>
     mset (environment (command s)) = mset (environment (command t))
     \<and> mset (declared_outputs (command s)) = mset (declared_outputs (command t))
     \<and> mset (metadata s) = mset (metadata t)
     \<and> t = s\<lparr>command := (command s)\<lparr>environment := environment (command t),
                                    declared_outputs := declared_outputs (command t)\<rparr>,
             metadata := metadata t\<rparr>"

text \<open>Splitting a request into its ordered remainder and its three unordered fields.\<close>

definition ordered_part :: "ExecutionSpec \<Rightarrow> ExecutionSpec" where
  "ordered_part s = s\<lparr>command := (command s)\<lparr>environment := [], declared_outputs := []\<rparr>, metadata := []\<rparr>"

lemma ordered_part_normalize [simp]: "ordered_part (normalize_execution_spec s) = ordered_part s"
  by (simp add: ordered_part_def normalize_execution_spec_def)

lemma ordered_part_restore:
  "s\<lparr>command := (command s)\<lparr>environment := es, declared_outputs := ds\<rparr>, metadata := m\<rparr>
   = (ordered_part s)\<lparr>command := (command (ordered_part s))\<lparr>environment := es, declared_outputs := ds\<rparr>, metadata := m\<rparr>"
  by (simp add: ordered_part_def)

lemma ordered_part_self:
  "(ordered_part s)\<lparr>command := (command (ordered_part s))\<lparr>environment := environment (command s),
     declared_outputs := declared_outputs (command s)\<rparr>, metadata := metadata s\<rparr> = s"
  by (simp add: ordered_part_def)

lemma same_up_to_order_iff:
  "same_up_to_order s t \<longleftrightarrow>
     mset (environment (command s)) = mset (environment (command t))
     \<and> mset (declared_outputs (command s)) = mset (declared_outputs (command t))
     \<and> mset (metadata s) = mset (metadata t) \<and> ordered_part s = ordered_part t"
proof -
  have "ordered_part s = ordered_part t \<longleftrightarrow>
      t = s\<lparr>command := (command s)\<lparr>environment := environment (command t),
        declared_outputs := declared_outputs (command t)\<rparr>, metadata := metadata t\<rparr>"
    (is "?l \<longleftrightarrow> t = ?r")
  proof
    assume ?l then show "t = ?r" by (metis ordered_part_restore ordered_part_self)
  next
    assume "t = ?r"
    then have "ordered_part t = ordered_part ?r" by simp
    then show ?l by (simp add: ordered_part_def)
  qed
  then show ?thesis unfolding same_up_to_order_def by blast
qed

lemma normalize_eq_imp_same:
  assumes "normalize_execution_spec s = normalize_execution_spec t"
  shows "same_up_to_order s t"
proof -
  have e: "mset (environment (command s)) = mset (environment (command t))"
    using arg_cong [OF assms, of "\<lambda>x. mset (environment (command x))"]
    by (simp add: normalize_execution_spec_def)
  have d: "mset (declared_outputs (command s)) = mset (declared_outputs (command t))"
    using arg_cong [OF assms, of "\<lambda>x. mset (declared_outputs (command x))"]
    by (simp add: normalize_execution_spec_def)
  have m: "mset (metadata s) = mset (metadata t)"
    using arg_cong [OF assms, of "\<lambda>x. mset (metadata x)"]
    by (simp add: normalize_execution_spec_def)
  have "ordered_part s = ordered_part t"
    using arg_cong [OF assms, of ordered_part] by simp
  with e d m show ?thesis by (simp add: same_up_to_order_iff)
qed

lemma same_imp_normalize_eq:
  assumes "distinct (map env_name (environment (command s)))" and same: "same_up_to_order s t"
  shows "normalize_execution_spec s = normalize_execution_spec t"
proof -
  let ?k = "\<lambda>d. (do_path d, do_required d)"
  note same = same [unfolded same_up_to_order_iff]
  have e: "sort_key env_name (environment (command s)) = sort_key env_name (environment (command t))"
    using assms(1) same by (intro sort_key_mset_unique inj_on_env_name) auto
  have d: "sort_key ?k (declared_outputs (command s)) = sort_key ?k (declared_outputs (command t))"
    using same by (intro sort_key_mset_unique inj_on_output_key) auto
  have m: "sort (metadata s) = sort (metadata t)"
    using same by (intro sort_key_mset_unique) auto
  have "normalize_execution_spec s = (ordered_part s)\<lparr>command := (command (ordered_part s))
      \<lparr>environment := sort_key env_name (environment (command s)),
       declared_outputs := sort_key ?k (declared_outputs (command s))\<rparr>, metadata := sort (metadata s)\<rparr>"
    for s
    by (simp add: normalize_execution_spec_def ordered_part_def)
  then show ?thesis using same e d m by simp
qed

text \<open>C26: for a request that passes \<^verbatim>\<open>ExecutionSpec::validate\<close>, canonicalisation identifies exactly the
  requests that differ only in the order of environment entries, declared outputs and metadata;
  such requests get the same request digest and canonical version, with or without a workspace.\<close>

theorem canonical_request_order:
  assumes "ExecutionSpec_validate s = Inr ()"
  shows "(normalize_execution_spec s = normalize_execution_spec t \<longleftrightarrow> same_up_to_order s t)
    \<and> (same_up_to_order s t \<longrightarrow>
         request_digest_with_workspace h tv tw s w = request_digest_with_workspace h tv tw t w)"
proof -
  have "distinct (map env_name (environment (command s)))"
    using assms by (simp add: ExecutionSpec_validate_Ok wf_command_def wf_environment_def)
  then have iff: "normalize_execution_spec s = normalize_execution_spec t \<longleftrightarrow> same_up_to_order s t"
    using same_imp_normalize_eq normalize_eq_imp_same by blast
  moreover have "request_digest_with_workspace h tv tw s w = request_digest_with_workspace h tv tw t w"
    if "same_up_to_order s t"
    using that iff by (cases w) (simp_all add: request_digest_with_workspace_def request_digest_def)
  ultimately show ?thesis by blast
qed

definition sample_command :: CommandSpec where
  "sample_command =
     \<lparr>argv = [''echo'', ''hi''], cwd = Some ''work'',
      environment = [\<lparr>env_name = ''LANG'', env_value = ''C''\<rparr>, \<lparr>env_name = ''A'', env_value = ''1''\<rparr>],
      stdin = Null, timeout_millis = 1000, cs_output = OutputPolicy_default, declared_outputs = [],
      resources = \<lparr>memory_bytes = NotRequested, cpu_millis = Required 500, pids = NotRequested\<rparr>,
      isolation = IsolationNone, network = Unrestricted\<rparr>"

definition sample_spec :: ExecutionSpec where
  "sample_spec = \<lparr>es_schema_version = 1, command = sample_command, metadata = [(''k'', ''v'')]\<rparr>"

lemma sample_spec_valid: "ExecutionSpec_validate sample_spec = Inr ()"
  by (simp add: sample_spec_def sample_command_def ExecutionSpec_validate_def CommandSpec_validate_def
      EnvironmentEntry_new_def StdinPolicy_validate_def OutputPolicy_validate_def OutputPolicy_default_def
      ResourceRequirements_validate_def requirement_in_range_def bound_defs bytes_simps)

theorem canonical_request_order_witness:
  "ExecutionSpec_validate sample_spec = Inr ()
    \<and> (let t = sample_spec\<lparr>command := sample_command\<lparr>environment := rev (environment sample_command)\<rparr>\<rparr>
       in t \<noteq> sample_spec
         \<and> request_digest_with_workspace id (\<lambda>_. Some []) (\<lambda>_. Some []) sample_spec (Some ''w'')
           = request_digest_with_workspace id (\<lambda>_. Some []) (\<lambda>_. Some []) t (Some ''w''))"
  using sample_spec_valid
    canonical_request_order [OF sample_spec_valid,
      of "sample_spec\<lparr>command := sample_command\<lparr>environment := rev (environment sample_command)\<rparr>\<rparr>"
        id "\<lambda>_. Some []" "\<lambda>_. Some []" "Some ''w''"]
  by (simp add: same_up_to_order_def sample_spec_def sample_command_def)

lemma wf_environment_mset:
  "mset es = mset fs \<Longrightarrow> wf_environment es \<longleftrightarrow> wf_environment fs"
  unfolding wf_environment_def
  by (metis mset_eq_setD size_mset mset_map mset_eq_imp_distinct_iff)

text \<open>canonicalisation is idempotent and preserves acceptance: \<^verbatim>\<open>ExecutionSpec::validate\<close> accepts the
  canonical form of a request exactly when it accepts the request.\<close>

theorem canonical_form_valid:
  "normalize_execution_spec (normalize_execution_spec s) = normalize_execution_spec s
    \<and> (ExecutionSpec_validate (normalize_execution_spec s) = Inr () \<longleftrightarrow> ExecutionSpec_validate s = Inr ())"
proof -
  have "wf_environment (sort_key env_name (environment (command s))) \<longleftrightarrow> wf_environment (environment (command s))"
    by (rule wf_environment_mset) simp
  then show ?thesis
    by (simp add: normalize_idem ExecutionSpec_validate_Ok normalize_execution_spec_def
        wf_command_def wf_metadata_def)
qed

lemma Requirement_deserialize_bare:
  assumes "j \<noteq> JNull" and "\<And>x. j \<noteq> JObject [(''required'', x)]"
  shows "Requirement_deserialize de j = and_then (de j) (\<lambda>x. Ok (BestEffort x))"
  using assms by (auto simp: Requirement_deserialize_def split: Json.splits list.splits)



end
