(* ===== verification/Ordered_Map.thy ===== *)
theory Ordered_Map
  imports Egg_Prelude
begin

text \<open>
  The interface of an ordered map as the sources use \<^verbatim>\<open>std::collections::BTreeMap\<close>: insert and
  remove by key, look up, and iterate in key order. The locale states the laws; the client lemmas
  show that a batch of updates on pairwise different keys has a result that does not depend on
  the order of the batch. The provider is a key-sorted association list.
\<close>

section \<open>The interface\<close>

locale ordered_map =
  fixes invar :: "'m \<Rightarrow> bool"
    and insert_at :: "'k::linorder \<Rightarrow> 'v \<Rightarrow> 'm \<Rightarrow> 'm"
    and remove_at :: "'k \<Rightarrow> 'm \<Rightarrow> 'm"
    and lookup :: "'m \<Rightarrow> 'k \<Rightarrow> 'v option"
    and entries :: "'m \<Rightarrow> ('k \<times> 'v) list"
  assumes invar_insert: "invar m \<Longrightarrow> invar (insert_at k v m)"
    and invar_remove: "invar m \<Longrightarrow> invar (remove_at k m)"
    and lookup_insert: "invar m \<Longrightarrow> lookup (insert_at k v m) = (lookup m)(k \<mapsto> v)"
    and lookup_remove: "invar m \<Longrightarrow> lookup (remove_at k m) = (lookup m)(k := None)"
    and lookup_entries: "invar m \<Longrightarrow> lookup m = map_of (entries m)"
    and entries_sorted: "invar m \<Longrightarrow> sorted_wrt (<) (map fst (entries m))"
begin

lemma entries_distinct: "invar m \<Longrightarrow> distinct (map fst (entries m))"
  using entries_sorted strict_sorted_iff by blast

lemma entries_set: "invar m \<Longrightarrow> set (entries m) = {(k, v). lookup m k = Some v}"
  using entries_distinct lookup_entries by (auto simp: map_of_eq_Some_iff)

lemma entries_ext:
  assumes "invar m" "invar n" "lookup m = lookup n"
  shows "entries m = entries n"
proof (rule map_sorted_distinct_set_unique [where f = fst])
  show "inj_on fst (set (entries m) \<union> set (entries n))"
    using assms by (auto simp: entries_set inj_on_def)
  show "sorted (map fst (entries m))" "sorted (map fst (entries n))"
    using assms entries_sorted by (auto simp: strict_sorted_iff)
  show "distinct (map fst (entries m))" "distinct (map fst (entries n))"
    using assms entries_distinct by auto
  show "set (entries m) = set (entries n)" using assms by (simp add: entries_set)
qed

text \<open>One update of a batch: \<^term>\<open>None\<close> removes the key, \<^term>\<open>Some v\<close> stores a value.\<close>

definition update1 :: "'k \<times> 'v option \<Rightarrow> 'm \<Rightarrow> 'm" where
  "update1 u m = (case snd u of None \<Rightarrow> remove_at (fst u) m | Some v \<Rightarrow> insert_at (fst u) v m)"

lemma invar_update1: "invar m \<Longrightarrow> invar (update1 u m)"
  by (auto simp: update1_def invar_insert invar_remove split: option.splits)

lemma lookup_update1: "invar m \<Longrightarrow> lookup (update1 u m) = (lookup m)(fst u := snd u)"
  by (auto simp: update1_def lookup_insert lookup_remove split: option.splits)

lemma invar_updates: "invar m \<Longrightarrow> invar (fold update1 us m)"
  by (induction us arbitrary: m) (auto simp: invar_update1)

lemma lookup_updates:
  assumes "invar m" "distinct (map fst us)"
  shows "lookup (fold update1 us m) k = (case map_of us k of None \<Rightarrow> lookup m k | Some u \<Rightarrow> u)"
  using assms
proof (induction us arbitrary: m)
  case (Cons u us)
  then show ?case
    by (cases u) (auto simp: invar_update1 lookup_update1 split: option.splits
        dest: map_of_SomeD intro: rev_image_eqI)
qed simp

lemma updates_order_irrelevant:
  assumes "invar m" "distinct (map fst us)" "mset us = mset vs"
  shows "entries (fold update1 us m) = entries (fold update1 vs m)"
proof (rule entries_ext)
  have d: "distinct (map fst vs)"
    using assms(2,3) by (metis mset_eq_imp_distinct_iff mset_map)
  have "map_of us = map_of vs"
    using assms d by (metis map_of_inject_set set_mset_mset)
  then show "lookup (fold update1 us m) = lookup (fold update1 vs m)"
    using assms d by (auto simp: lookup_updates)
qed (simp_all add: assms invar_updates)

end

section \<open>The provider: a key-sorted association list\<close>

type_synonym ('k, 'v) btree_map = "('k \<times> 'v) list"

fun bt_insert :: "'k::linorder \<Rightarrow> 'v \<Rightarrow> ('k, 'v) btree_map \<Rightarrow> ('k, 'v) btree_map" where
  "bt_insert k v [] = [(k, v)]"
| "bt_insert k v (e # es) =
     (if k < fst e then (k, v) # e # es
      else if fst e < k then e # bt_insert k v es
      else (k, v) # es)"

definition bt_remove :: "'k \<Rightarrow> ('k, 'v) btree_map \<Rightarrow> ('k, 'v) btree_map" where
  "bt_remove k m = filter (\<lambda>e. fst e \<noteq> k) m"

definition bt_invar :: "('k::linorder, 'v) btree_map \<Rightarrow> bool" where
  "bt_invar m \<longleftrightarrow> sorted_wrt (<) (map fst m)"

lemma bt_insert_keys: "fst ` set (bt_insert k v m) = insert k (fst ` set m)"
  by (induction m) auto

lemma bt_insert_invar: "bt_invar m \<Longrightarrow> bt_invar (bt_insert k v m)"
  unfolding bt_invar_def
proof (induction m)
  case (Cons e es)
  moreover have "\<forall>y \<in> fst ` set (bt_insert k v es). fst e < y" if "fst e < k"
    using Cons.prems that unfolding bt_insert_keys by auto
  ultimately show ?case by auto
qed simp

lemma bt_insert_lookup: "map_of (bt_insert k v m) = (map_of m)(k \<mapsto> v)"
  by (induction m) (auto simp: fun_eq_iff not_less_iff_gr_or_eq)

lemma bt_remove_lookup: "map_of (bt_remove k m) = (map_of m)(k := None)"
  by (induction m) (auto simp: bt_remove_def fun_eq_iff)

lemma bt_remove_invar: "bt_invar m \<Longrightarrow> bt_invar (bt_remove k m)"
  by (induction m) (auto simp: bt_remove_def bt_invar_def)

interpretation bt: ordered_map bt_invar bt_insert bt_remove map_of "\<lambda>m. m"
  by unfold_locales
    (simp_all add: bt_insert_invar bt_remove_invar bt_insert_lookup bt_remove_lookup,
      simp add: bt_invar_def)

end
