(* ===== verification/Core_Manifest.thy ===== *)
theory Core_Manifest
  imports Core_Types Ordered_Map
begin

text \<open>
  The portable file tree of \<^verbatim>\<open>crates/eggwork-core/src/lib.rs\<close>: \<^verbatim>\<open>WorkspaceManifest\<close> with its
  validator, logical size and digest, and \<^verbatim>\<open>WorkspaceManifestPatch\<close> with its application to a base
  manifest. The lemmas give the validator's one-pass scan a declarative contract, and show that a
  patch has one result whatever the order of its entries.
\<close>

section \<open>Manifests\<close>

datatype WorkspaceEntry =
    Directory (we_path: RelativePath)
  | File (we_path: RelativePath) BlobDigest u64 bool
  | Symlink (we_path: RelativePath) string

record WorkspaceManifest =
  wm_schema_version :: u16
  wm_entries :: "WorkspaceEntry list"

definition is_directory :: "WorkspaceEntry \<Rightarrow> bool" where
  "is_directory e = (case e of Directory _ \<Rightarrow> True | _ \<Rightarrow> False)"

definition entry_size :: "WorkspaceEntry \<Rightarrow> u64" where
  "entry_size e = (case e of File _ _ n _ \<Rightarrow> n | _ \<Rightarrow> 0)"

section \<open>Portable paths\<close>

definition forbidden_byte :: "char \<Rightarrow> bool" where
  "forbidden_byte b \<longleftrightarrow> byte_of b < 32
     \<or> b \<in> {CHR ''<'', CHR ''>'', CHR '':'', CHR 0x22, CHR ''|'', CHR ''?'', CHR ''*''}"

definition reserved_basename :: "string \<Rightarrow> bool" where
  "reserved_basename base \<longleftrightarrow>
     base \<in> {''CON'', ''PRN'', ''AUX'', ''NUL'', ''CONIN$'', ''CONOUT$'', ''CLOCK$''}
     \<or> (take 3 base \<in> {''COM'', ''LPT''}
         \<and> drop 3 base \<in> {''1'', ''2'', ''3'', ''4'', ''5'', ''6'', ''7'', ''8'', ''9''})"

definition component_basename :: "string \<Rightarrow> string" where
  "component_basename component = to_ascii_uppercase (hd (split_on (CHR ''.'') component))"

definition validate_component :: "string \<Rightarrow> ValidationError + unit" where
  "validate_component component =
     (if component = [] \<or> component = ''.'' \<or> component = ''..'' \<or> last component = CHR ''.''
         \<or> last component = CHR '' '' \<or> list_ex forbidden_byte component
      then Err (InvalidPath ''portable workspace path'')
      else if reserved_basename (component_basename component)
      then Err (InvalidPath ''reserved workspace path'')
      else Ok ())"

definition validate_portable_workspace_path :: "string \<Rightarrow> ValidationError + unit" where
  "validate_portable_workspace_path path =
     (if path = [] \<or> length path > MAX_PATH_BYTES
         \<or> length (split_on slash path) > MAX_WORKSPACE_DEPTH
         \<or> \<not> is_ascii path \<or> hd path = slash \<or> backslash \<in> set path \<or> nul \<in> set path
      then Err (InvalidPath ''portable workspace path'')
      else for_each validate_component (split_on slash path))"

section \<open>The validator\<close>

text \<open>The locals of \<^verbatim>\<open>WorkspaceManifest::validate\<close>: the path map, the folded names and both totals.\<close>

record ManifestScan =
  ms_paths :: "string \<rightharpoonup> bool"
  ms_folded :: "string set"
  ms_path_bytes :: nat
  ms_file_bytes :: u64

definition scan_start :: ManifestScan where
  "scan_start = \<lparr>ms_paths = Map.empty, ms_folded = {}, ms_path_bytes = 0, ms_file_bytes = 0\<rparr>"

text \<open>One iteration of the first loop, in the order of its checks.\<close>

definition scan_entry :: "WorkspaceEntry \<Rightarrow> ManifestScan \<Rightarrow> ValidationError + ManifestScan" where
  "scan_entry entry st =
     (let raw_path = we_path entry in
      and_then (validate_portable_workspace_path raw_path) (\<lambda>_.
        let total_path = usize_saturating_add (ms_path_bytes st) (length raw_path) in
        if total_path > MAX_WORKSPACE_PATH_BYTES then Err (OutOfRange ''workspace path bytes'')
        else if to_ascii_lowercase raw_path \<in> ms_folded st
        then Err (InvalidSyntax ''workspace case collision'')
        else if ms_paths st raw_path \<noteq> None then Err (InvalidSyntax ''duplicate workspace path'')
        else
          let st' = st\<lparr>ms_paths := (ms_paths st)(raw_path \<mapsto> is_directory entry),
                       ms_folded := insert (to_ascii_lowercase raw_path) (ms_folded st),
                       ms_path_bytes := total_path\<rparr> in
          (case entry of
             File _ _ size_bytes _ \<Rightarrow>
               let total_file = u64_saturating_add (ms_file_bytes st) size_bytes in
               if unat total_file > MAX_WORKSPACE_LOGICAL_BYTES
               then Err (OutOfRange ''workspace logical bytes'')
               else Ok (st'\<lparr>ms_file_bytes := total_file\<rparr>)
           | Symlink _ _ \<Rightarrow> Err (Forbidden ''workspace symlink'')
           | Directory _ \<Rightarrow> Ok st')))"

fun scan_entries :: "WorkspaceEntry list \<Rightarrow> ManifestScan \<Rightarrow> ValidationError + ManifestScan" where
  "scan_entries [] st = Ok st"
| "scan_entries (e # es) st = and_then (scan_entry e st) (scan_entries es)"

text \<open>
  The inner \<^verbatim>\<open>while let\<close> of the second loop: every prefix that ends just before a slash must be a
  directory of the manifest. The first argument is the part of the path already passed.
\<close>

fun check_parents :: "(string \<rightharpoonup> bool) \<Rightarrow> string \<Rightarrow> string \<Rightarrow> ValidationError + unit" where
  "check_parents paths passed [] = Ok ()"
| "check_parents paths passed (c # rest) =
     (if c = slash \<and> paths passed \<noteq> Some True
      then Err (InvalidPath ''workspace parent directory'')
      else check_parents paths (passed @ [c]) rest)"

definition WorkspaceManifest_validate :: "WorkspaceManifest \<Rightarrow> ValidationError + unit" where
  "WorkspaceManifest_validate m =
     (if wm_schema_version m \<noteq> 1 then Err (OutOfRange ''workspace schema version'')
      else if length (wm_entries m) > MAX_WORKSPACE_ENTRIES
      then Err (TooMany ''workspace entries'' MAX_WORKSPACE_ENTRIES)
      else and_then (scan_entries (wm_entries m) scan_start) (\<lambda>st.
        for_each (\<lambda>e. check_parents (ms_paths st) [] (we_path e)) (wm_entries m)))"

definition logical_bytes :: "WorkspaceManifest \<Rightarrow> u64" where
  "logical_bytes m = foldl u64_saturating_add 0 (map entry_size (wm_entries m))"

definition WorkspaceManifest_normalized :: "WorkspaceManifest \<Rightarrow> WorkspaceManifest" where
  "WorkspaceManifest_normalized m = m\<lparr>wm_entries := sort_key we_path (wm_entries m)\<rparr>"

definition WorkspaceManifest_digest ::
  "(string \<Rightarrow> BlobDigest) \<Rightarrow> (WorkspaceManifest \<Rightarrow> string option) \<Rightarrow> WorkspaceManifest \<Rightarrow> BlobDigest option" where
  "WorkspaceManifest_digest sha256_hex to_vec m =
     map_option (\<lambda>json. sha256_hex (''eggwork-workspace-manifest'' @ [nul] @ ''canonical-json-v1'' @ [nul] @ json))
       (to_vec (WorkspaceManifest_normalized m))"

section \<open>Patches\<close>

datatype WorkspacePatchEntry =
    PatchRemove (wp_path: RelativePath)
  | PatchDirectory (wp_path: RelativePath)
  | PatchFile (wp_path: RelativePath) BlobDigest u64 bool

record WorkspaceManifestPatch =
  wp_schema_version :: u16
  wp_base_manifest_digest :: BlobDigest
  wp_entries :: "WorkspacePatchEntry list"

fun check_patch_paths :: "string set \<Rightarrow> WorkspacePatchEntry list \<Rightarrow> ValidationError + unit" where
  "check_patch_paths seen [] = Ok ()"
| "check_patch_paths seen (e # es) =
     (if wp_path e \<in> seen then Err (InvalidSyntax ''duplicate workspace patch path'')
      else check_patch_paths (insert (wp_path e) seen) es)"

definition WorkspaceManifestPatch_validate :: "WorkspaceManifestPatch \<Rightarrow> ValidationError + unit" where
  "WorkspaceManifestPatch_validate p =
     (if wp_schema_version p \<noteq> 1 then Err (OutOfRange ''workspace patch schema version'')
      else if length (wp_entries p) > MAX_WORKSPACE_ENTRIES
      then Err (TooMany ''workspace patch entries'' MAX_WORKSPACE_ENTRIES)
      else check_patch_paths {} (wp_entries p))"

definition patch_tree ::
  "WorkspacePatchEntry \<Rightarrow> (string, WorkspaceEntry) btree_map \<Rightarrow> (string, WorkspaceEntry) btree_map" where
  "patch_tree e tree =
     (case e of
        PatchRemove path \<Rightarrow> bt_remove path tree
      | PatchDirectory path \<Rightarrow> bt_insert path (Directory path) tree
      | PatchFile path digest size_bytes executable \<Rightarrow>
          bt_insert path (File path digest size_bytes executable) tree)"

definition base_tree :: "WorkspaceManifest \<Rightarrow> (string, WorkspaceEntry) btree_map" where
  "base_tree base = fold (\<lambda>e tree. bt_insert (we_path e) e tree) (wm_entries base) []"

definition patched_manifest :: "WorkspaceManifestPatch \<Rightarrow> WorkspaceManifest \<Rightarrow> WorkspaceManifest" where
  "patched_manifest p base =
     \<lparr>wm_schema_version = 1, wm_entries = map snd (fold patch_tree (wp_entries p) (base_tree base))\<rparr>"

definition apply_to ::
  "WorkspaceManifestPatch \<Rightarrow> WorkspaceManifest \<Rightarrow> ValidationError + WorkspaceManifest" where
  "apply_to p base =
     and_then (WorkspaceManifestPatch_validate p) (\<lambda>_.
       let final_manifest = patched_manifest p base in
       and_then (WorkspaceManifest_validate final_manifest) (\<lambda>_. Ok final_manifest))"

section \<open>The contract of the validator\<close>

text \<open>The proper ancestors of a path, outermost first.\<close>

definition ancestors :: "string \<Rightarrow> string list" where
  "ancestors path = [take i path. i \<leftarrow> [0..<length path], path ! i = slash]"

lemma check_parents_iff:
  "check_parents paths passed rest = Inr () \<longleftrightarrow>
     (\<forall>i < length rest. rest ! i = slash \<longrightarrow> paths (passed @ take i rest) = Some True)"
proof (induction rest arbitrary: passed)
  case (Cons c rest)
  show ?case
    by (auto simp: Cons.IH All_less_Suc2)
qed simp

lemma check_parents_ancestors:
  "check_parents paths [] path = Inr () \<longleftrightarrow> (\<forall>a \<in> set (ancestors path). paths a = Some True)"
  by (auto simp: check_parents_iff ancestors_def)

definition tree_wf :: "WorkspaceEntry list \<Rightarrow> bool" where
  "tree_wf es \<longleftrightarrow>
     (\<forall>e \<in> set es. validate_portable_workspace_path (we_path e) = Ok () \<and> \<not> is_Symlink e)
     \<and> sum_list (map (length \<circ> we_path) es) \<le> MAX_WORKSPACE_PATH_BYTES
     \<and> sum_list (map (unat \<circ> entry_size) es) \<le> MAX_WORKSPACE_LOGICAL_BYTES
     \<and> distinct (map (to_ascii_lowercase \<circ> we_path) es)
     \<and> (\<forall>e \<in> set es. \<forall>a \<in> set (ancestors (we_path e)). Directory a \<in> set es)"

text \<open>The scan state after an accepted entry, and the condition for accepting it.\<close>

definition scan_next :: "WorkspaceEntry \<Rightarrow> ManifestScan \<Rightarrow> ManifestScan" where
  "scan_next e st =
     \<lparr>ms_paths = (ms_paths st)(we_path e \<mapsto> is_directory e),
      ms_folded = insert (to_ascii_lowercase (we_path e)) (ms_folded st),
      ms_path_bytes = ms_path_bytes st + length (we_path e),
      ms_file_bytes = ms_file_bytes st + entry_size e\<rparr>"

definition scan_inv :: "ManifestScan \<Rightarrow> bool" where
  "scan_inv st \<longleftrightarrow> ms_path_bytes st \<le> MAX_WORKSPACE_PATH_BYTES
     \<and> unat (ms_file_bytes st) \<le> MAX_WORKSPACE_LOGICAL_BYTES
     \<and> to_ascii_lowercase ` dom (ms_paths st) \<subseteq> ms_folded st"

lemma path_total_bound:
  "a \<le> MAX_WORKSPACE_PATH_BYTES \<Longrightarrow>
     usize_saturating_add a n \<le> MAX_WORKSPACE_PATH_BYTES \<longleftrightarrow> a + n \<le> MAX_WORKSPACE_PATH_BYTES"
  "a + n \<le> MAX_WORKSPACE_PATH_BYTES \<Longrightarrow> usize_saturating_add a n = a + n"
  by (auto simp: usize_saturating_add_def usize_max_def MAX_WORKSPACE_PATH_BYTES_def min_def)

lemma file_total_bound:
  "unat (u64_saturating_add a n) \<le> MAX_WORKSPACE_LOGICAL_BYTES
     \<longleftrightarrow> unat a + unat n \<le> MAX_WORKSPACE_LOGICAL_BYTES"
  by (simp add: unat_u64_saturating_add MAX_WORKSPACE_LOGICAL_BYTES_def min_def)

lemma file_total_exact:
  assumes "unat a + unat n \<le> MAX_WORKSPACE_LOGICAL_BYTES"
  shows "u64_saturating_add a n = a + n" and "unat (a + n) = unat a + unat n"
  using assms by (simp_all add: u64_saturating_add_def MAX_WORKSPACE_LOGICAL_BYTES_def unat_word_ariths)

lemma scan_entry_iff:
  assumes "scan_inv st"
  shows "scan_entry e st = Inr st' \<longleftrightarrow>
     validate_portable_workspace_path (we_path e) = Ok () \<and> \<not> is_Symlink e
     \<and> ms_path_bytes st + length (we_path e) \<le> MAX_WORKSPACE_PATH_BYTES
     \<and> unat (ms_file_bytes st) + unat (entry_size e) \<le> MAX_WORKSPACE_LOGICAL_BYTES
     \<and> to_ascii_lowercase (we_path e) \<notin> ms_folded st \<and> st' = scan_next e st"
proof (cases "to_ascii_lowercase (we_path e) \<in> ms_folded st")
  case True
  then show ?thesis by (auto simp: scan_entry_def Let_def result_simps)
next
  case False
  then have "ms_paths st (we_path e) = None"
    using assms by (fastforce simp: scan_inv_def)
  then show ?thesis using False assms
    by (cases e) (auto simp: scan_entry_def Let_def result_simps scan_next_def scan_inv_def
        path_total_bound file_total_bound file_total_exact is_directory_def entry_size_def not_less)
qed

lemma scan_next_inv:
  assumes "scan_inv st" and "scan_entry e st = Inr st'"
  shows "scan_inv st'"
proof -
  from assms have "st' = scan_next e st"
    and "ms_path_bytes st + length (we_path e) \<le> MAX_WORKSPACE_PATH_BYTES"
    and "unat (ms_file_bytes st) + unat (entry_size e) \<le> MAX_WORKSPACE_LOGICAL_BYTES"
    by (simp_all add: scan_entry_iff)
  with assms(1) show ?thesis
    by (auto simp: scan_inv_def scan_next_def file_total_exact(2))
qed

lemma scan_entries_iff:
  assumes "scan_inv st"
  shows "scan_entries es st = Inr st' \<longleftrightarrow>
     (\<forall>e \<in> set es. validate_portable_workspace_path (we_path e) = Ok () \<and> \<not> is_Symlink e)
     \<and> ms_path_bytes st + sum_list (map (length \<circ> we_path) es) \<le> MAX_WORKSPACE_PATH_BYTES
     \<and> unat (ms_file_bytes st) + sum_list (map (unat \<circ> entry_size) es) \<le> MAX_WORKSPACE_LOGICAL_BYTES
     \<and> distinct (map (to_ascii_lowercase \<circ> we_path) es)
     \<and> ms_folded st \<inter> (to_ascii_lowercase \<circ> we_path) ` set es = {}
     \<and> st' = fold scan_next es st"
  using assms
proof (induction es arbitrary: st)
  case Nil
  then show ?case by (auto simp: scan_inv_def)
next
  case (Cons e es)
  show ?case
  proof (cases "scan_entry e st")
    case (Inl err)
    then have "\<not> scan_entry e st = Inr (scan_next e st)" by simp
    then show ?thesis
      unfolding scan_entry_iff [OF Cons.prems] using Inl by auto
  next
    case (Inr s1)
    note s1 = Inr [unfolded scan_entry_iff [OF Cons.prems]]
    have "scan_inv s1" by (rule scan_next_inv [OF Cons.prems Inr])
    from Cons.IH [OF this] show ?thesis
      using s1 Inr by (auto simp: scan_next_def file_total_exact(2) ac_simps)
  qed
qed

lemma scan_start_inv: "scan_inv scan_start"
  by (simp add: scan_inv_def scan_start_def)

lemma scan_start_simps [simp]:
  "ms_paths scan_start = Map.empty" "ms_folded scan_start = {}" "ms_path_bytes scan_start = 0"
  "ms_file_bytes scan_start = 0"
  by (simp_all add: scan_start_def)

lemma fold_scan_paths:
  "distinct (map we_path es) \<Longrightarrow> set (map we_path es) \<inter> dom (ms_paths st) = {} \<Longrightarrow>
     ms_paths (fold scan_next es st) p = Some True \<longleftrightarrow> ms_paths st p = Some True \<or> Directory p \<in> set es"
proof (induction es arbitrary: st)
  case (Cons e es)
  have dir: "is_directory e \<longleftrightarrow> e = Directory (we_path e)"
    by (cases e) (auto simp: is_directory_def)
  have "ms_paths (fold scan_next es (scan_next e st)) p = Some True
      \<longleftrightarrow> ms_paths (scan_next e st) p = Some True \<or> Directory p \<in> set es"
    using Cons.prems by (intro Cons.IH) (auto simp: scan_next_def dom_def split: if_splits, metis imageI)
  moreover have "ms_paths (scan_next e st) p = Some True
      \<longleftrightarrow> ms_paths st p = Some True \<or> Directory p = e"
    using Cons.prems dir by (auto simp: scan_next_def)
  ultimately show ?case by auto
qed simp

lemma distinct_lower_paths:
  "distinct (map (to_ascii_lowercase \<circ> we_path) es) \<Longrightarrow> distinct (map we_path es)"
  by (metis distinct_map map_map)

lemma WorkspaceManifest_validate_Ok [result_simps]:
  "WorkspaceManifest_validate m = Inr u \<longleftrightarrow>
     wm_schema_version m = 1 \<and> length (wm_entries m) \<le> MAX_WORKSPACE_ENTRIES \<and> tree_wf (wm_entries m)"
proof -
  let ?es = "wm_entries m"
  have parents: "(\<forall>e \<in> set ?es. check_parents (ms_paths (fold scan_next ?es scan_start)) [] (we_path e) = Ok ())
      \<longleftrightarrow> (\<forall>e \<in> set ?es. \<forall>a \<in> set (ancestors (we_path e)). Directory a \<in> set ?es)"
    if "distinct (map (to_ascii_lowercase \<circ> we_path) ?es)"
    using fold_scan_paths [OF distinct_lower_paths [OF that], of scan_start]
    by (simp add: check_parents_ancestors)
  show ?thesis
    using parents
    by (auto simp: WorkspaceManifest_validate_def result_simps tree_wf_def not_less
        scan_entries_iff [OF scan_start_inv])
qed

section \<open>Order and size\<close>

lemma tree_wf_mset:
  assumes "mset es = mset fs"
  shows "tree_wf es \<longleftrightarrow> tree_wf fs"
proof -
  have set_eq: "set es = set fs" using assms by (metis set_mset_mset)
  have "sum_list (map f es) = sum_list (map f fs)" for f :: "WorkspaceEntry \<Rightarrow> nat"
    using assms by (metis mset_map sum_mset_sum_list)
  moreover have "distinct (map f es) \<longleftrightarrow> distinct (map f fs)" for f :: "WorkspaceEntry \<Rightarrow> string"
    using assms by (metis mset_eq_imp_distinct_iff mset_map)
  ultimately show ?thesis by (simp add: tree_wf_def set_eq)
qed

lemma tree_wf_paths_inj: "tree_wf es \<Longrightarrow> inj_on we_path (set es)"
  using distinct_lower_paths by (auto simp: tree_wf_def distinct_map)

lemma fold_saturating_exact:
  "unat a + sum_list (map unat ns) \<le> MAX_WORKSPACE_LOGICAL_BYTES \<Longrightarrow>
     unat (foldl u64_saturating_add a ns) = unat a + sum_list (map unat ns)"
proof (induction ns arbitrary: a)
  case (Cons n ns)
  then have "unat a + unat n \<le> MAX_WORKSPACE_LOGICAL_BYTES" by simp
  with Cons show ?case by (simp add: file_total_exact)
qed simp

section \<open>Patches as updates of an ordered map\<close>

definition patch_value :: "WorkspacePatchEntry \<Rightarrow> WorkspaceEntry option" where
  "patch_value e =
     (case e of PatchRemove _ \<Rightarrow> None | PatchDirectory p \<Rightarrow> Some (Directory p)
      | PatchFile p d n x \<Rightarrow> Some (File p d n x))"

definition patch_updates :: "WorkspaceManifestPatch \<Rightarrow> (string \<times> WorkspaceEntry option) list" where
  "patch_updates p = map (\<lambda>e. (wp_path e, patch_value e)) (wp_entries p)"

lemma patch_tree_update: "patch_tree e = bt.update1 (wp_path e, patch_value e)"
  by (cases e) (auto simp: patch_tree_def patch_value_def bt.update1_def fun_eq_iff)

lemma fold_patch_tree: "fold patch_tree (wp_entries p) = fold bt.update1 (patch_updates p)"
proof -
  have "patch_tree = (\<lambda>e. bt.update1 (wp_path e, patch_value e))"
    by (rule ext) (rule patch_tree_update)
  then show ?thesis by (simp add: patch_updates_def fold_map comp_def)
qed

lemma check_patch_paths_Ok [result_simps]:
  "check_patch_paths seen es = Inr u \<longleftrightarrow> distinct (map wp_path es) \<and> set (map wp_path es) \<inter> seen = {}"
  by (induction es arbitrary: seen) auto

lemma WorkspaceManifestPatch_validate_Ok [result_simps]:
  "WorkspaceManifestPatch_validate p = Inr u \<longleftrightarrow>
     wp_schema_version p = 1 \<and> length (wp_entries p) \<le> MAX_WORKSPACE_ENTRIES
     \<and> distinct (map wp_path (wp_entries p))"
  by (auto simp: WorkspaceManifestPatch_validate_def result_simps not_less)

lemma patch_updates_keys: "map fst (patch_updates p) = map wp_path (wp_entries p)"
  by (simp add: patch_updates_def)

lemma base_tree_invar: "bt_invar (base_tree base)"
proof -
  have "bt_invar t \<Longrightarrow> bt_invar (fold (\<lambda>e tree. bt_insert (we_path e) e tree) es t)" for t es
    by (induction es arbitrary: t) (auto simp: bt_insert_invar)
  then show ?thesis by (simp add: base_tree_def bt_invar_def)
qed

lemma base_tree_lookup:
  assumes "inj_on we_path (set (wm_entries base))"
  shows "map_of (base_tree base) q = Some e \<longleftrightarrow> e \<in> set (wm_entries base) \<and> we_path e = q"
proof -
  have "inj_on we_path (set es) \<Longrightarrow>
      map_of (fold (\<lambda>e tree. bt_insert (we_path e) e tree) es t) q = Some e
      \<longleftrightarrow> (e \<in> set es \<and> we_path e = q) \<or> (q \<notin> we_path ` set es \<and> map_of t q = Some e)" for es t
  proof (induction es arbitrary: t)
    case (Cons x xs)
    then show ?case by (auto simp: bt_insert_lookup inj_on_def)
  qed simp
  with assms show ?thesis by (simp add: base_tree_def)
qed

lemma fold_insert_keys_match:
  "\<forall>(k, e) \<in> set t. we_path e = k \<Longrightarrow>
     \<forall>(k, e) \<in> set (fold (\<lambda>e tree. bt_insert (we_path e) e tree) es t). we_path e = k"
proof (induction es arbitrary: t)
  case (Cons x xs)
  have "set (bt_insert k v t) \<subseteq> insert (k, v) (set t)" for k and v :: WorkspaceEntry
    by (induction t) auto
  with Cons.prems have "\<forall>(k, e) \<in> set (bt_insert (we_path x) x t). we_path e = k" by fastforce
  then show ?case using Cons.IH by simp
qed simp

lemma base_tree_keys: "\<forall>(k, e) \<in> set (base_tree base). we_path e = k"
  unfolding base_tree_def by (rule fold_insert_keys_match) simp

lemma patched_tree_keys:
  "\<forall>(k, e) \<in> set (fold patch_tree ps t). we_path e = k"
  if "\<forall>(k, e) \<in> set t. we_path e = k"
  using that
proof (induction ps arbitrary: t)
  case (Cons x xs)
  have "set (bt_insert k v t) \<subseteq> insert (k, v) (set t)" for k and v :: WorkspaceEntry
    by (induction t) auto
  with Cons.prems have "\<forall>(k, e) \<in> set (patch_tree x t). we_path e = k"
    by (cases x) (fastforce simp: patch_tree_def bt_remove_def)+
  then show ?case using Cons.IH by simp
qed simp

lemma patched_paths:
  "map we_path (wm_entries (patched_manifest p base)) = map fst (fold patch_tree (wp_entries p) (base_tree base))"
  using patched_tree_keys [OF base_tree_keys, of "wp_entries p" base]
  by (auto simp: patched_manifest_def)

lemma patched_sorted: "sorted_wrt (<) (map we_path (wm_entries (patched_manifest p base)))"
  unfolding patched_paths fold_patch_tree
  using bt.entries_sorted [OF bt.invar_updates [OF base_tree_invar]] by simp

lemma patched_entries:
  assumes "distinct (map wp_path (wp_entries p))" and "inj_on we_path (set (wm_entries base))"
  shows "e \<in> set (wm_entries (patched_manifest p base)) \<longleftrightarrow>
    (case map_of (patch_updates p) (we_path e) of None \<Rightarrow> e \<in> set (wm_entries base) | Some u \<Rightarrow> u = Some e)"
proof -
  let ?t = "fold patch_tree (wp_entries p) (base_tree base)"
  have inv: "bt_invar ?t" unfolding fold_patch_tree by (rule bt.invar_updates [OF base_tree_invar])
  have keys: "\<forall>(k, x) \<in> set ?t. we_path x = k"
    by (rule patched_tree_keys) (rule base_tree_keys)
  have "e \<in> set (wm_entries (patched_manifest p base)) \<longleftrightarrow> (we_path e, e) \<in> set ?t"
    using keys by (force simp: patched_manifest_def)
  also have "\<dots> \<longleftrightarrow> map_of ?t (we_path e) = Some e"
    using bt.entries_set [OF inv] by auto
  also have "map_of ?t (we_path e)
      = (case map_of (patch_updates p) (we_path e) of None \<Rightarrow> map_of (base_tree base) (we_path e) | Some u \<Rightarrow> u)"
    unfolding fold_patch_tree
    by (rule bt.lookup_updates [OF base_tree_invar]) (simp add: assms(1) patch_updates_keys)
  finally show ?thesis
    by (auto simp: base_tree_lookup [OF assms(2)] split: option.splits)
qed

lemma patched_manifest_order:
  assumes "distinct (map wp_path (wp_entries p))" and "mset (wp_entries p) = mset (wp_entries q)"
  shows "patched_manifest p base = patched_manifest q base"
proof -
  have "fold bt.update1 (patch_updates p) (base_tree base) = fold bt.update1 (patch_updates q) (base_tree base)"
  proof (rule bt.updates_order_irrelevant [OF base_tree_invar])
    show "distinct (map fst (patch_updates p))" by (simp add: assms(1) patch_updates_keys)
    show "mset (patch_updates p) = mset (patch_updates q)" using assms(2) by (simp add: patch_updates_def)
  qed
  then show ?thesis by (simp add: patched_manifest_def fold_patch_tree)
qed

lemma apply_to_Ok:
  "apply_to p base = Inr m \<longleftrightarrow>
     WorkspaceManifestPatch_validate p = Inr () \<and> m = patched_manifest p base
     \<and> WorkspaceManifest_validate m = Inr ()"
  by (auto simp: apply_to_def Let_def and_then_Ok)

section \<open>Properties\<close>

text \<open>C6: \<^verbatim>\<open>WorkspaceManifest::validate\<close>, a single scan with saturating counters, a set of case-folded
  names and a path map, accepts exactly the well-formed trees: version 1, at most 4096 entries, every
  path portable, no symlink, names pairwise different ignoring ASCII case, true totals of path and file
  bytes inside their limits, and every ancestor of every path present as a directory.\<close>

theorem manifest_validate_exact:
  "WorkspaceManifest_validate m = Inr () \<longleftrightarrow>
     wm_schema_version m = 1 \<and> length (wm_entries m) \<le> MAX_WORKSPACE_ENTRIES \<and> tree_wf (wm_entries m)"
  by (rule WorkspaceManifest_validate_Ok)

text \<open>C32: a manifest that validates keeps validating, and keeps its digest, under any reordering of its
  entries; and its \<^verbatim>\<open>logical_bytes\<close> is the true sum of its file sizes, with no saturation, at most 2 GiB.\<close>

theorem manifest_order_and_size:
  assumes "WorkspaceManifest_validate m = Inr ()"
    and "mset (wm_entries n) = mset (wm_entries m)" and "wm_schema_version n = wm_schema_version m"
  shows "WorkspaceManifest_validate n = Inr ()
    \<and> WorkspaceManifest_digest h to_vec n = WorkspaceManifest_digest h to_vec m
    \<and> unat (logical_bytes n) = sum_list (map (unat \<circ> entry_size) (wm_entries m))
    \<and> unat (logical_bytes n) \<le> MAX_WORKSPACE_LOGICAL_BYTES"
proof -
  note m = assms(1) [unfolded WorkspaceManifest_validate_Ok]
  have n: "WorkspaceManifest_validate n = Inr ()"
    using m assms(2,3) tree_wf_mset [OF assms(2)]
    by (metis WorkspaceManifest_validate_Ok size_mset)
  have "sort_key we_path (wm_entries n) = sort_key we_path (wm_entries m)"
    using m assms(2) tree_wf_mset [OF assms(2)]
    by (intro sort_key_mset_unique tree_wf_paths_inj) simp_all
  then have "WorkspaceManifest_normalized n = WorkspaceManifest_normalized m"
    using assms(3) by (simp add: WorkspaceManifest_normalized_def)
  then have dig: "WorkspaceManifest_digest h to_vec n = WorkspaceManifest_digest h to_vec m"
    by (simp add: WorkspaceManifest_digest_def)
  have tot: "sum_list (map (unat \<circ> entry_size) (wm_entries n)) = sum_list (map (unat \<circ> entry_size) (wm_entries m))"
    using assms(2) by (metis mset_map sum_mset_sum_list)
  have bound: "sum_list (map (unat \<circ> entry_size) (wm_entries m)) \<le> MAX_WORKSPACE_LOGICAL_BYTES"
    using m by (simp add: tree_wf_def)
  have "unat (logical_bytes n) = sum_list (map (unat \<circ> entry_size) (wm_entries n))"
    using fold_saturating_exact [of 0 "map entry_size (wm_entries n)"] tot bound
    by (simp add: logical_bytes_def)
  with n dig tot bound show ?thesis by simp
qed

definition sample_manifest :: WorkspaceManifest where
  "sample_manifest = \<lparr>wm_schema_version = 1,
     wm_entries = [File ''src/a'' (replicate 64 CHR ''0'') 7 False, Directory ''src'']\<rparr>"

lemmas manifest_eval =
  WorkspaceManifest_validate_def validate_portable_workspace_path_def validate_component_def
  reserved_basename_def component_basename_def forbidden_byte_def scan_entry_def scan_start_def
  usize_saturating_add_def usize_max_def u64_saturating_add_def is_directory_def Let_def
  bound_defs bytes_simps

lemma sample_manifest_valid: "WorkspaceManifest_validate sample_manifest = Inr ()"
  by (simp add: sample_manifest_def manifest_eval)

theorem manifest_order_and_size_witness:
  "WorkspaceManifest_validate sample_manifest = Inr ()
    \<and> unat (logical_bytes (sample_manifest\<lparr>wm_entries := rev (wm_entries sample_manifest)\<rparr>)) = 7"
  using sample_manifest_valid
    manifest_order_and_size [OF sample_manifest_valid,
      of "sample_manifest\<lparr>wm_entries := rev (wm_entries sample_manifest)\<rparr>"]
  by (simp add: sample_manifest_def entry_size_def)

text \<open>C30: applying a patch is deterministic in its content. The result holds, for each path, the patched
  entry if the patch names the path and the base entry otherwise; it validates, is already in canonical
  order, does not depend on the order of the patch entries, and has the digest of the same tree submitted
  directly in any order.\<close>

theorem patch_apply_canonical:
  assumes "WorkspaceManifest_validate base = Inr ()" and "apply_to p base = Inr m"
  shows "WorkspaceManifest_validate m = Inr ()
    \<and> (\<forall>e. e \<in> set (wm_entries m) \<longleftrightarrow>
         (case map_of (patch_updates p) (we_path e) of None \<Rightarrow> e \<in> set (wm_entries base) | Some u \<Rightarrow> u = Some e))
    \<and> WorkspaceManifest_normalized m = m
    \<and> (mset (wp_entries q) = mset (wp_entries p) \<and> wp_schema_version q = 1 \<longrightarrow> apply_to q base = Inr m)
    \<and> (mset (wm_entries n) = mset (wm_entries m) \<and> wm_schema_version n = 1
         \<longrightarrow> WorkspaceManifest_digest h to_vec n = WorkspaceManifest_digest h to_vec m)"
proof -
  from assms(2) have p: "WorkspaceManifestPatch_validate p = Inr ()"
    and m: "m = patched_manifest p base" and v: "WorkspaceManifest_validate m = Inr ()"
    by (auto simp: apply_to_Ok)
  have d: "distinct (map wp_path (wp_entries p))"
    using p by (simp add: WorkspaceManifestPatch_validate_Ok)
  have inj: "inj_on we_path (set (wm_entries base))"
    using assms(1) by (simp add: WorkspaceManifest_validate_Ok tree_wf_paths_inj)
  have wfm: "tree_wf (wm_entries m)" using v by (simp add: WorkspaceManifest_validate_Ok)
  have sorted: "sort_key we_path (wm_entries m) = wm_entries m"
    using patched_sorted [of p base] by (simp add: m strict_sorted_iff sort_key_id_if_sorted)
  have order: "apply_to q base = Inr m" if "mset (wp_entries q) = mset (wp_entries p)" "wp_schema_version q = 1"
  proof -
    have "WorkspaceManifestPatch_validate q = Inr ()"
      using p that unfolding WorkspaceManifestPatch_validate_Ok
      by (metis mset_map mset_eq_imp_distinct_iff size_mset)
    then show ?thesis
      using that v m patched_manifest_order [OF d, of q base] by (simp add: apply_to_Ok)
  qed
  have digest: "WorkspaceManifest_digest h to_vec n = WorkspaceManifest_digest h to_vec m"
    if "mset (wm_entries n) = mset (wm_entries m)" "wm_schema_version n = 1"
  proof -
    have "sort_key we_path (wm_entries n) = sort_key we_path (wm_entries m)"
      using that wfm tree_wf_mset [OF that(1)] by (intro sort_key_mset_unique tree_wf_paths_inj) simp_all
    then have "WorkspaceManifest_normalized n = WorkspaceManifest_normalized m"
      using that(2) by (simp add: WorkspaceManifest_normalized_def m patched_manifest_def)
    then show ?thesis by (simp add: WorkspaceManifest_digest_def)
  qed
  show ?thesis
    using v order digest sorted patched_entries [OF d inj]
    by (auto simp: m WorkspaceManifest_normalized_def)
qed

definition sample_patch :: WorkspaceManifestPatch where
  "sample_patch = \<lparr>wp_schema_version = 1, wp_base_manifest_digest = [],
     wp_entries = [PatchRemove ''src/a'', PatchFile ''src/b'' (replicate 64 CHR ''1'') 3 True]\<rparr>"

lemma sample_patch_applies:
  "apply_to sample_patch sample_manifest = Inr \<lparr>wm_schema_version = 1,
     wm_entries = [Directory ''src'', File ''src/b'' (replicate 64 CHR ''1'') 3 True]\<rparr>"
  by (simp add: apply_to_def sample_patch_def sample_manifest_def WorkspaceManifestPatch_validate_def
      patched_manifest_def base_tree_def patch_tree_def bt_remove_def manifest_eval)

theorem patch_apply_canonical_witness:
  "apply_to (sample_patch\<lparr>wp_entries := rev (wp_entries sample_patch)\<rparr>) sample_manifest
     = Inr \<lparr>wm_schema_version = 1,
         wm_entries = [Directory ''src'', File ''src/b'' (replicate 64 CHR ''1'') 3 True]\<rparr>"
  using patch_apply_canonical [OF sample_manifest_valid sample_patch_applies,
      of "sample_patch\<lparr>wp_entries := rev (wp_entries sample_patch)\<rparr>"]
  by (simp add: sample_patch_def)

end
