(* ===== verification/Store.thy ===== *)
theory Store
  imports Core_Spec
begin

text \<open>
  The durable execution journal of \<^verbatim>\<open>crates/eggwork-server/src/store.rs\<close>. The three SQLite tables are
  lists of rows in insertion order; each operation of \<^verbatim>\<open>ExecutionStore\<close> is one definition that performs
  its transaction on them. A transaction that fails, for whatever reason, is rolled back, so every error
  leaves the tables as they were; the flag \<open>io\<close> of an operation is the environment's verdict that the
  connection and its statements work. JSON coding is a parameter (\<open>serde\<close>).
\<close>

section \<open>Rows, tables, results\<close>

definition MAX_RETAINED_EVENTS :: nat where "MAX_RETAINED_EVENTS = 256"
definition MAX_RETAINED_EVENT_BYTES :: nat where "MAX_RETAINED_EVENT_BYTES = MAX_EVENT_BYTES"
definition MAX_EXECUTION_IDENTITIES :: nat where "MAX_EXECUTION_IDENTITIES = 2048"

datatype StoreError = Sql | JsonError | Worker | InvalidEvent

text \<open>\<^verbatim>\<open>serde_json::to_vec\<close> and \<^verbatim>\<open>serde_json::from_slice\<close> at the two stored types, and the size of a blob.\<close>

record 'b serde =
  snapshot_to_vec :: "ExecutionSnapshot \<Rightarrow> 'b option"
  snapshot_from_slice :: "'b \<Rightarrow> ExecutionSnapshot option"
  event_to_vec :: "ExecutionEvent \<Rightarrow> 'b option"
  event_from_slice :: "'b \<Rightarrow> ExecutionEvent option"
  blob_length :: "'b \<Rightarrow> nat"

record 'b exec_row =
  x_execution_id :: ExecutionId
  x_generation :: int
  x_canonical_version :: int
  x_digest :: string
  x_principal_id :: string
  x_lease_token_hash :: string
  x_lease_expires :: int
  x_last_renewal_id :: "string option"
  x_state :: string
  x_next_sequence :: int
  x_snapshot :: 'b
  x_created :: int
  x_updated :: int

record 'b event_row =
  v_execution_id :: ExecutionId
  v_generation :: int
  v_sequence :: int
  v_encoded :: 'b

record 'b ExecutionStore =
  st_executions :: "'b exec_row list"
  st_events :: "'b event_row list"
  st_metrics :: "(string \<times> int) list"

datatype ReserveResult = Created | Existing ExecutionSnapshot | Conflict | StaleGeneration | StorageFull

record ExistingExecution =
  ex_canonical_version :: u16
  ex_digest :: string
  ex_principal_id :: string
  ex_lease_token_hash :: string
  ex_snapshot :: ExecutionSnapshot

record EventPage =
  pg_base_sequence :: u64
  pg_next_sequence :: u64
  pg_events :: "ExecutionEvent list"

section \<open>Names of states\<close>

fun state_name :: "ExecutionState \<Rightarrow> string" where
  "state_name Accepted = ''Accepted''"
| "state_name Preparing = ''Preparing''"
| "state_name Running = ''Running''"
| "state_name Cancelling = ''Cancelling''"
| "state_name Succeeded = ''Succeeded''"
| "state_name Failed = ''Failed''"
| "state_name Cancelled = ''Cancelled''"
| "state_name TimedOut = ''TimedOut''"
| "state_name Interrupted = ''Interrupted''"

definition is_terminal_name :: "string \<Rightarrow> bool" where
  "is_terminal_name s \<longleftrightarrow>
     s \<in> {''Succeeded'', ''Failed'', ''Cancelled'', ''TimedOut'', ''Interrupted''}"

definition is_active_name :: "string \<Rightarrow> bool" where
  "is_active_name s \<longleftrightarrow> s \<in> {''Accepted'', ''Preparing'', ''Running'', ''Cancelling''}"

section \<open>Queries\<close>

definition key_is :: "ExecutionId \<Rightarrow> int \<Rightarrow> 'b exec_row \<Rightarrow> bool" where
  "key_is i g r \<longleftrightarrow> x_execution_id r = i \<and> x_generation r = g"

definition ev_key_is :: "ExecutionId \<Rightarrow> int \<Rightarrow> 'b event_row \<Rightarrow> bool" where
  "ev_key_is i g v \<longleftrightarrow> v_execution_id v = i \<and> v_generation v = g"

definition find_exec :: "'b ExecutionStore \<Rightarrow> ExecutionId \<Rightarrow> int \<Rightarrow> 'b exec_row option" where
  "find_exec st i g = List.find (key_is i g) (st_executions st)"

text \<open>\<^verbatim>\<open>ORDER BY generation DESC LIMIT 1\<close>\<close>

definition newest :: "'b exec_row list \<Rightarrow> 'b exec_row option" where
  "newest rs = (case sort_key (\<lambda>r. - x_generation r) rs of [] \<Rightarrow> None | r # _ \<Rightarrow> Some r)"

definition events_of :: "ExecutionId \<Rightarrow> int \<Rightarrow> 'b event_row list \<Rightarrow> 'b event_row list" where
  "events_of i g vs = filter (ev_key_is i g) vs"

section \<open>Opening and reserving\<close>

text \<open>A fresh database: \<^verbatim>\<open>CREATE TABLE IF NOT EXISTS\<close> leaves existing tables alone.\<close>

definition ExecutionStore_open :: "'b ExecutionStore option \<Rightarrow> 'b ExecutionStore" where
  "ExecutionStore_open existing =
     (case existing of Some st \<Rightarrow> st | None \<Rightarrow> \<lparr>st_executions = [], st_events = [], st_metrics = []\<rparr>)"

definition reserve ::
  "'b serde \<Rightarrow> bool \<Rightarrow> int \<Rightarrow> ExecutionSnapshot \<Rightarrow> u16 \<Rightarrow> string \<Rightarrow> string \<Rightarrow> string \<Rightarrow> int
     \<Rightarrow> 'b ExecutionStore \<Rightarrow> (StoreError + ReserveResult) \<times> 'b ExecutionStore" where
  "reserve c io now snapshot canonical_version digest principal_id lease_token_hash lease_expires st =
     (if \<not> io then (Err Sql, st)
      else
        let i = sn_execution_id snapshot; generation = as_i64 (sn_generation snapshot) in
        case find_exec st i generation of
          Some r \<Rightarrow>
            if x_canonical_version r = uint canonical_version \<and> x_digest r = digest
               \<and> x_principal_id r = principal_id \<and> x_lease_token_hash r = lease_token_hash
            then (case snapshot_from_slice c (x_snapshot r) of
                    None \<Rightarrow> (Err JsonError, st) | Some s \<Rightarrow> (Ok (Existing s), st))
            else (Ok Conflict, st)
        | None \<Rightarrow>
            (let stale =
               (case newest (filter (\<lambda>r. x_execution_id r = i) (st_executions st)) of
                  None \<Rightarrow> generation \<noteq> 1
                | Some r \<Rightarrow> generation \<noteq> wrap_i64 (x_generation r + 1) \<or> \<not> is_terminal_name (x_state r))
             in
             if stale then (Ok StaleGeneration, st)
             else if length (st_executions st) \<ge> MAX_EXECUTION_IDENTITIES then (Ok StorageFull, st)
             else (case snapshot_to_vec c snapshot of
                     None \<Rightarrow> (Err JsonError, st)
                   | Some encoded \<Rightarrow>
                       (Ok Created,
                        st\<lparr>st_executions := st_executions st @
                          [\<lparr>x_execution_id = i, x_generation = generation,
                            x_canonical_version = uint canonical_version, x_digest = digest,
                            x_principal_id = principal_id, x_lease_token_hash = lease_token_hash,
                            x_lease_expires = lease_expires, x_last_renewal_id = None,
                            x_state = state_name (sn_state snapshot), x_next_sequence = 1,
                            x_snapshot = encoded, x_created = now, x_updated = now\<rparr>]\<rparr>))))"

section \<open>Reading\<close>

definition lookup_execution ::
  "'b serde \<Rightarrow> bool \<Rightarrow> ExecutionId \<Rightarrow> ExecutionGeneration \<Rightarrow> 'b ExecutionStore
     \<Rightarrow> StoreError + ExistingExecution option" where
  "lookup_execution c io i generation st =
     (if \<not> io then Err Sql
      else case find_exec st i (as_i64 generation) of
        None \<Rightarrow> Ok None
      | Some r \<Rightarrow>
          (case snapshot_from_slice c (x_snapshot r) of
             None \<Rightarrow> Err JsonError
           | Some s \<Rightarrow> Ok (Some \<lparr>ex_canonical_version = word_of_int (x_canonical_version r),
               ex_digest = x_digest r, ex_principal_id = x_principal_id r,
               ex_lease_token_hash = x_lease_token_hash r, ex_snapshot = s\<rparr>)))"

definition decode_snapshot :: "'b serde \<Rightarrow> 'b exec_row option \<Rightarrow> StoreError + ExecutionSnapshot option" where
  "decode_snapshot c row =
     (case row of None \<Rightarrow> Ok None
      | Some r \<Rightarrow> (case snapshot_from_slice c (x_snapshot r) of
                     None \<Rightarrow> Err JsonError | Some s \<Rightarrow> Ok (Some s)))"

definition load_snapshot_for_principal ::
  "'b serde \<Rightarrow> bool \<Rightarrow> ExecutionId \<Rightarrow> ExecutionGeneration option \<Rightarrow> string \<Rightarrow> 'b ExecutionStore
     \<Rightarrow> StoreError + ExecutionSnapshot option" where
  "load_snapshot_for_principal c io i generation principal_id st =
     (if \<not> io then Err Sql
      else decode_snapshot c
        (case generation of
           Some g \<Rightarrow> List.find (\<lambda>r. key_is i (as_i64 g) r \<and> x_principal_id r = principal_id) (st_executions st)
         | None \<Rightarrow> newest (filter (\<lambda>r. x_execution_id r = i \<and> x_principal_id r = principal_id)
                            (st_executions st))))"

definition load_snapshot ::
  "'b serde \<Rightarrow> bool \<Rightarrow> ExecutionId \<Rightarrow> ExecutionGeneration option \<Rightarrow> 'b ExecutionStore
     \<Rightarrow> StoreError + ExecutionSnapshot option" where
  "load_snapshot c io i generation st =
     (if \<not> io then Err Sql
      else decode_snapshot c
        (case generation of
           Some g \<Rightarrow> find_exec st i (as_i64 g)
         | None \<Rightarrow> newest (filter (\<lambda>r. x_execution_id r = i) (st_executions st))))"

text \<open>\<^verbatim>\<open>rows.map(..).collect::<Result<Vec<_>, _>>()\<close>: the first undecodable row is the result.\<close>

fun decode_all :: "('b \<Rightarrow> 'a option) \<Rightarrow> 'b list \<Rightarrow> StoreError + 'a list" where
  "decode_all f [] = Ok []"
| "decode_all f (b # bs) =
     (case f b of None \<Rightarrow> Err JsonError
      | Some x \<Rightarrow> and_then (decode_all f bs) (\<lambda>xs. Ok (x # xs)))"

definition load_all :: "'b serde \<Rightarrow> bool \<Rightarrow> 'b ExecutionStore \<Rightarrow> StoreError + ExecutionSnapshot list" where
  "load_all c io st =
     (if \<not> io then Err Sql
      else decode_all (snapshot_from_slice c)
        (map x_snapshot (sort_key (\<lambda>r. (x_execution_id r, x_generation r)) (st_executions st))))"

definition load_page ::
  "'b serde \<Rightarrow> bool \<Rightarrow> ExecutionId \<Rightarrow> ExecutionGeneration \<Rightarrow> u64 \<Rightarrow> 'b ExecutionStore
     \<Rightarrow> StoreError + EventPage option" where
  "load_page c io i generation after_sequence st =
     (if \<not> io then Err Sql
      else case find_exec st i (as_i64 generation) of
        None \<Rightarrow> Ok None
      | Some r \<Rightarrow>
          let mine = events_of i (as_i64 generation) (st_events st);
              base = as_u64 (max 1 (if mine = [] then x_next_sequence r else Min (set (map v_sequence mine))));
              next = as_u64 (x_next_sequence r)
          in if u64_saturating_add after_sequence 1 < base
             then Ok (Some \<lparr>pg_base_sequence = base, pg_next_sequence = next, pg_events = []\<rparr>)
             else and_then
               (decode_all (event_from_slice c)
                 (map v_encoded (sort_key v_sequence
                   (filter (\<lambda>v. v_sequence v > as_i64 after_sequence) mine))))
               (\<lambda>events. Ok (Some \<lparr>pg_base_sequence = base, pg_next_sequence = next, pg_events = events\<rparr>)))"

section \<open>Trimming\<close>

definition events_fit :: "'b serde \<Rightarrow> 'b event_row list \<Rightarrow> bool" where
  "events_fit c vs \<longleftrightarrow> length vs \<le> MAX_RETAINED_EVENTS
     \<and> sum_list (map (blob_length c \<circ> v_encoded) vs) \<le> MAX_RETAINED_EVENT_BYTES"

definition drop_oldest :: "ExecutionId \<Rightarrow> int \<Rightarrow> 'b event_row list \<Rightarrow> 'b event_row list" where
  "drop_oldest i g vs =
     filter (\<lambda>v. \<not> (ev_key_is i g v \<and> v_sequence v = Min (set (map v_sequence (events_of i g vs))))) vs"

lemma drop_oldest_shorter:
  assumes "\<not> events_fit c (events_of i g vs)"
  shows "length (drop_oldest i g vs) < length vs"
proof -
  have ne: "events_of i g vs \<noteq> []" using assms by (auto simp: events_fit_def)
  then have "Min (set (map v_sequence (events_of i g vs))) \<in> set (map v_sequence (events_of i g vs))"
    by (intro Min_in) auto
  then obtain v where "v \<in> set vs" "ev_key_is i g v"
    "v_sequence v = Min (set (map v_sequence (events_of i g vs)))"
    by (auto simp: events_of_def)
  then show ?thesis
    unfolding drop_oldest_def by (intro length_filter_less) auto
qed

function trim_events :: "'b serde \<Rightarrow> ExecutionId \<Rightarrow> int \<Rightarrow> 'b event_row list \<Rightarrow> 'b event_row list" where
  "trim_events c i g vs =
     (if events_fit c (events_of i g vs) then vs else trim_events c i g (drop_oldest i g vs))"
  by pat_completeness auto
termination
  by (relation "measure (\<lambda>(c, i, g, vs). length vs)") (auto simp: drop_oldest_shorter)

declare trim_events.simps [simp del]

section \<open>Committing events\<close>

definition update_exec ::
  "ExecutionId \<Rightarrow> int \<Rightarrow> ('b exec_row \<Rightarrow> 'b exec_row) \<Rightarrow> 'b exec_row list \<Rightarrow> 'b exec_row list" where
  "update_exec i g f rs = map (\<lambda>r. if key_is i g r then f r else r) rs"

text \<open>
  The two writes every journal append makes: the row's state, sequence and snapshot, then the event,
  then the trim. An event with the same key and sequence violates the primary key.
\<close>

definition append_event ::
  "'b serde \<Rightarrow> int \<Rightarrow> ExecutionId \<Rightarrow> int \<Rightarrow> string \<Rightarrow> int \<Rightarrow> 'b \<Rightarrow> 'b \<Rightarrow> 'b ExecutionStore
     \<Rightarrow> StoreError + 'b ExecutionStore" where
  "append_event c now i g state_col sequence snap_blob event_blob st =
     (if \<exists>v \<in> set (st_events st). ev_key_is i g v \<and> v_sequence v = sequence then Err Sql
      else Ok (st\<lparr>
        st_executions := update_exec i g
          (\<lambda>r. r\<lparr>x_state := state_col, x_next_sequence := wrap_i64 (sequence + 1),
                 x_snapshot := snap_blob, x_updated := now\<rparr>) (st_executions st),
        st_events := trim_events c i g (st_events st @
          [\<lparr>v_execution_id = i, v_generation = g, v_sequence = sequence, v_encoded = event_blob\<rparr>])\<rparr>))"

definition commit_event ::
  "'b serde \<Rightarrow> bool \<Rightarrow> int \<Rightarrow> ExecutionSnapshot \<Rightarrow> ExecutionEventKind \<Rightarrow> 'b ExecutionStore
     \<Rightarrow> (StoreError + ExecutionEvent option) \<times> 'b ExecutionStore" where
  "commit_event c io now snapshot kind st =
     (if \<not> io then (Err Sql, st)
      else
        let i = sn_execution_id snapshot; generation = as_i64 (sn_generation snapshot) in
        case find_exec st i generation of
          None \<Rightarrow> (Ok None, st)
        | Some r \<Rightarrow>
            if is_terminal_name (x_state r) then (Ok None, st)
            else
              let sequence = x_next_sequence r;
                  event = \<lparr>ev_sequence = as_u64 sequence, ev_kind = kind, ev_metadata = []\<rparr>
              in
              case ExecutionEvent_validate event of
                Inl _ \<Rightarrow> (Err InvalidEvent, st)
              | Inr _ \<Rightarrow>
                  (case event_to_vec c event of
                     None \<Rightarrow> (Err JsonError, st)
                   | Some encoded \<Rightarrow>
                       if blob_length c encoded > MAX_RETAINED_EVENT_BYTES then (Err InvalidEvent, st)
                       else
                         (case snapshot_to_vec c snapshot of
                            None \<Rightarrow> (Err JsonError, st)
                          | Some snap \<Rightarrow>
                              (case append_event c now i generation (state_name (sn_state snapshot))
                                      sequence snap encoded st of
                                 Inl e \<Rightarrow> (Err e, st)
                               | Inr st' \<Rightarrow> (Ok (Some event), st')))))"

section \<open>Leases\<close>

definition update_lease ::
  "bool \<Rightarrow> int \<Rightarrow> int \<Rightarrow> ExecutionId \<Rightarrow> ExecutionGeneration \<Rightarrow> string \<Rightarrow> string \<Rightarrow> int \<Rightarrow> 'b ExecutionStore
     \<Rightarrow> (StoreError + int option) \<times> 'b ExecutionStore" where
  "update_lease io now now2 i generation lease_token_hash renewal_id lease_expires st =
     (if \<not> io then (Err Sql, st)
      else
        let g = as_i64 generation in
        case find_exec st i g of
          None \<Rightarrow> (Ok None, st)
        | Some r \<Rightarrow>
            if x_lease_token_hash r \<noteq> lease_token_hash \<or> is_terminal_name (x_state r)
               \<or> x_lease_expires r \<le> now
            then (Ok None, st)
            else if x_last_renewal_id r = Some renewal_id then (Ok (Some (x_lease_expires r)), st)
            else
              let expires = max (x_lease_expires r) lease_expires in
              (Ok (Some expires),
               st\<lparr>st_executions :=
                 map (\<lambda>r. if key_is i g r \<and> x_lease_token_hash r = lease_token_hash
                      then r\<lparr>x_lease_expires := expires, x_last_renewal_id := Some renewal_id,
                             x_updated := now2\<rparr> else r) (st_executions st)\<rparr>))"

section \<open>Metrics\<close>

text \<open>\<^verbatim>\<open>INSERT .. ON CONFLICT DO UPDATE\<close> with the saturating \<^verbatim>\<open>CASE\<close> of the statement.\<close>

fun upsert_metric :: "string \<Rightarrow> int \<Rightarrow> (string \<times> int) list \<Rightarrow> (string \<times> int) list" where
  "upsert_metric n a [] = [(n, a)]"
| "upsert_metric n a ((m, v) # ms) =
     (if m = n then (m, if v > i64_max - a then i64_max else v + a) # ms
      else (m, v) # upsert_metric n a ms)"

definition increment_metrics ::
  "bool \<Rightarrow> (string \<times> u64) list \<Rightarrow> 'b ExecutionStore \<Rightarrow> (StoreError + unit) \<times> 'b ExecutionStore" where
  "increment_metrics io deltas st =
     (if list_ex (\<lambda>(n, _). n = [] \<or> length n > 64) deltas then (Err InvalidEvent, st)
      else if deltas = [] then (Ok (), st)
      else if \<not> io then (Err Sql, st)
      else (Ok (), st\<lparr>st_metrics :=
             fold (\<lambda>(n, a). upsert_metric n (min (uint a) i64_max)) deltas (st_metrics st)\<rparr>))"

definition increment_metric ::
  "bool \<Rightarrow> string \<Rightarrow> u64 \<Rightarrow> 'b ExecutionStore \<Rightarrow> (StoreError + unit) \<times> 'b ExecutionStore" where
  "increment_metric io n amount st = increment_metrics io [(n, amount)] st"

section \<open>Recovery\<close>

definition interrupted_result :: ExecutionResult where
  "interrupted_result =
     \<lparr>er_state = Interrupted, exit_code = None, failure = Some FailInterrupted, stdout_bytes = 0,
      stderr_bytes = 0, stdout_omitted = 0, stderr_omitted = 0, cleanup_warning = None,
      finalization_failure = None, artifact_count = 0, sandbox = None, er_resources = None\<rparr>"

definition interrupt_snapshot :: "ExecutionSnapshot \<Rightarrow> ExecutionSnapshot" where
  "interrupt_snapshot s = s\<lparr>sn_state := Interrupted, sn_result := Some interrupted_result\<rparr>"

definition recover_one ::
  "'b serde \<Rightarrow> int \<Rightarrow> ExecutionSnapshot \<Rightarrow> 'b ExecutionStore \<Rightarrow> StoreError + 'b ExecutionStore" where
  "recover_one c now snapshot st =
     (let i = sn_execution_id snapshot; g = as_i64 (sn_generation snapshot) in
      case find_exec st i g of
        None \<Rightarrow> Err Sql
      | Some r \<Rightarrow>
          let sequence = x_next_sequence r;
              event = \<lparr>ev_sequence = as_u64 sequence, ev_kind = EvState Interrupted, ev_metadata = []\<rparr>
          in
          (case (snapshot_to_vec c snapshot, event_to_vec c event) of
             (Some snap, Some encoded) \<Rightarrow> append_event c now i g ''Interrupted'' sequence snap encoded st
           | _ \<Rightarrow> Err JsonError))"

fun recover_each ::
  "'b serde \<Rightarrow> int \<Rightarrow> ExecutionSnapshot list \<Rightarrow> 'b ExecutionStore \<Rightarrow> StoreError + 'b ExecutionStore" where
  "recover_each c now [] st = Ok st"
| "recover_each c now (s # ss) st = and_then (recover_one c now s st) (recover_each c now ss)"

definition recover ::
  "'b serde \<Rightarrow> bool \<Rightarrow> int \<Rightarrow> 'b ExecutionStore
     \<Rightarrow> (StoreError + ExecutionSnapshot list) \<times> 'b ExecutionStore" where
  "recover c io now st =
     (if \<not> io then (Err Sql, st)
      else case decode_all (snapshot_from_slice c)
                  (map x_snapshot (filter (\<lambda>r. is_active_name (x_state r)) (st_executions st))) of
        Inl e \<Rightarrow> (Err e, st)
      | Inr snapshots \<Rightarrow>
          let interrupted = map interrupt_snapshot snapshots in
          (case recover_each c now interrupted st of
             Inl e \<Rightarrow> (Err e, st)
           | Inr st' \<Rightarrow> (Ok interrupted, st')))"

end
