(* ===== verification/Store_Inv.thy ===== *)
theory Store_Inv
  imports Store
begin

text \<open>
  The invariant of the execution journal and its preservation by every operation of \<open>Store\<close>. The
  invariant says: one row per execution generation; the stored snapshot decodes to the row's own
  identity and state; generations of one execution start at 1 without gaps and all but the newest are
  terminal; the retained events of a generation are the contiguous run that ends just before its next
  sequence number, inside both retention limits; every event belongs to a row.
\<close>

named_theorems store_defs \<open>definitions of the journal operations\<close>

lemmas [store_defs] = reserve_def commit_event_def update_lease_def increment_metrics_def recover_def
  recover_one_def append_event_def Let_def

section \<open>Terminal names\<close>

definition is_terminal :: "ExecutionState \<Rightarrow> bool" where
  "is_terminal s \<longleftrightarrow> s \<in> {Succeeded, Failed, Cancelled, TimedOut, Interrupted}"

lemma terminal_state_name [simp]: "is_terminal_name (state_name s) \<longleftrightarrow> is_terminal s"
  by (cases s) (simp_all add: is_terminal_name_def is_terminal_def)

lemma active_state_name [simp]: "is_active_name (state_name s) \<longleftrightarrow> \<not> is_terminal s"
  by (cases s) (simp_all add: is_active_name_def is_terminal_def)

lemma Interrupted_terminal [simp]: "is_terminal Interrupted"
  by (simp add: is_terminal_def)

lemma state_name_inj: "state_name s = state_name t \<Longrightarrow> s = t"
  by (cases s; cases t; simp)

section \<open>Rows by key\<close>

definition row_key :: "'b exec_row \<Rightarrow> ExecutionId \<times> int" where
  "row_key r = (x_execution_id r, x_generation r)"

lemma key_is_row_key: "key_is i g r \<longleftrightarrow> row_key r = (i, g)"
  by (auto simp: key_is_def row_key_def)

lemma find_exec_Some:
  assumes "distinct (map row_key (st_executions st))"
  shows "find_exec st i g = Some r \<longleftrightarrow> r \<in> set (st_executions st) \<and> key_is i g r"
proof -
  have "distinct (map row_key rs) \<Longrightarrow> List.find (key_is i g) rs = Some r \<longleftrightarrow> r \<in> set rs \<and> key_is i g r" for rs
    by (induction rs) (auto simp: key_is_row_key rev_image_eqI)
  with assms show ?thesis by (simp add: find_exec_def)
qed

lemma find_exec_None: "find_exec st i g = None \<longleftrightarrow> (\<forall>r \<in> set (st_executions st). \<not> key_is i g r)"
  by (auto simp: find_exec_def find_None_iff)

lemma find_exec_in: "find_exec st i g = Some r \<Longrightarrow> r \<in> set (st_executions st) \<and> key_is i g r"
  by (auto simp: find_exec_def find_Some_iff)

lemma set_update_exec:
  "r' \<in> set (update_exec i g f rs) \<longleftrightarrow>
     (\<exists>r \<in> set rs. key_is i g r \<and> r' = f r) \<or> (r' \<in> set rs \<and> \<not> key_is i g r')"
  by (auto simp: update_exec_def)

lemma update_exec_keys:
  "(\<And>r. row_key (f r) = row_key r) \<Longrightarrow> map row_key (update_exec i g f rs) = map row_key rs"
  by (simp add: update_exec_def)

lemma newest_Some:
  assumes "newest rs = Some r"
  shows "r \<in> set rs \<and> (\<forall>q \<in> set rs. x_generation q \<le> x_generation r)"
proof -
  let ?s = "sort_key (\<lambda>r. - x_generation r) rs"
  from assms obtain qs where s: "?s = r # qs" by (auto simp: newest_def split: list.splits)
  have "sorted (map (\<lambda>r. - x_generation r) ?s)" by simp
  with s have "\<forall>q \<in> set qs. x_generation q \<le> x_generation r" by simp
  moreover have "set rs = set ?s" by simp
  ultimately show ?thesis using s by auto
qed

lemma newest_None: "newest rs = None \<longleftrightarrow> rs = []"
proof -
  have "sort_key (\<lambda>r. - x_generation r) rs = [] \<longleftrightarrow> rs = []" by (metis length_0_conv length_sort)
  then show ?thesis by (auto simp: newest_def split: list.splits)
qed

section \<open>Trimming keeps the longest suffix that fits\<close>

fun longest_fit :: "'b serde \<Rightarrow> 'b event_row list \<Rightarrow> 'b event_row list" where
  "longest_fit c [] = []"
| "longest_fit c (v # vs) = (if events_fit c (v # vs) then v # vs else longest_fit c vs)"

lemma events_fit_Nil [simp]: "events_fit c []"
  by (simp add: events_fit_def)

lemma longest_fit_fits: "events_fit c (longest_fit c vs)"
  by (induction vs) auto

lemma longest_fit_suffix: "suffix (longest_fit c vs) vs"
  by (induction vs) (auto simp: suffix_Cons)

lemma longest_fit_maximal: "suffix ws vs \<Longrightarrow> events_fit c ws \<Longrightarrow> suffix ws (longest_fit c vs)"
  by (induction vs) (auto simp: suffix_Cons)

lemma longest_fit_id: "events_fit c vs \<Longrightarrow> longest_fit c vs = vs"
  by (cases vs) auto

lemma longest_fit_snoc:
  assumes "blob_length c (v_encoded v) \<le> MAX_RETAINED_EVENT_BYTES"
  shows "\<exists>ws. longest_fit c (vs @ [v]) = ws @ [v]"
proof -
  have "events_fit c [v]" using assms by (simp add: events_fit_def MAX_RETAINED_EVENTS_def)
  then have "suffix [v] (longest_fit c (vs @ [v]))"
    by (intro longest_fit_maximal) (auto simp: suffix_def)
  then show ?thesis by (auto simp: suffix_def)
qed

lemma events_of_drop_other:
  "(i', g') \<noteq> (i, g) \<Longrightarrow> events_of i' g' (drop_oldest i g vs) = events_of i' g' vs"
  by (auto simp: events_of_def drop_oldest_def ev_key_is_def intro!: filter_cong)

lemma events_of_drop:
  assumes "events_of i g vs = v # ws" and "sorted_wrt (<) (map v_sequence (v # ws))"
  shows "events_of i g (drop_oldest i g vs) = ws"
proof -
  have min: "Min (set (map v_sequence (events_of i g vs))) = v_sequence v"
    using assms by (auto intro!: Min_eqI)
  have "events_of i g (drop_oldest i g vs) = filter (\<lambda>w. v_sequence w \<noteq> v_sequence v) (events_of i g vs)"
    unfolding drop_oldest_def min by (auto simp: events_of_def intro: filter_cong)
  also have "\<dots> = filter (\<lambda>w. v_sequence w \<noteq> v_sequence v) ws" by (simp add: assms(1))
  also have "\<dots> = ws" using assms(2) by (auto simp: filter_id_conv)
  finally show ?thesis .
qed

lemma events_of_trim_other:
  "(i', g') \<noteq> (i, g) \<Longrightarrow> events_of i' g' (trim_events c i g vs) = events_of i' g' vs"
proof (induction c i g vs rule: trim_events.induct)
  case (1 c i g vs)
  then show ?case by (subst trim_events.simps) (simp add: events_of_drop_other)
qed

lemma events_of_trim:
  "sorted_wrt (<) (map v_sequence (events_of i g vs)) \<Longrightarrow>
     events_of i g (trim_events c i g vs) = longest_fit c (events_of i g vs)"
proof (induction c i g vs rule: trim_events.induct)
  case (1 c i g vs)
  show ?case
  proof (cases "events_fit c (events_of i g vs)")
    case True
    then show ?thesis by (subst trim_events.simps) (simp add: longest_fit_id)
  next
    case False
    then obtain v ws where e: "events_of i g vs = v # ws" by (cases "events_of i g vs") auto
    with "1.prems" have d: "events_of i g (drop_oldest i g vs) = ws"
      by (intro events_of_drop) auto
    with "1.IH" False "1.prems" e have
      "events_of i g (trim_events c i g (drop_oldest i g vs)) = longest_fit c ws" by simp
    then show ?thesis using False e by (subst trim_events.simps) simp
  qed
qed

lemma set_trim_events: "set (trim_events c i g vs) \<subseteq> set vs"
proof (induction c i g vs rule: trim_events.induct)
  case (1 c i g vs)
  then show ?case by (subst trim_events.simps) (auto simp: drop_oldest_def)
qed

section \<open>The invariant\<close>

text \<open>The documented behaviour of the JSON coding: what is written can be read back.\<close>

definition serde_ok :: "'b serde \<Rightarrow> bool" where
  "serde_ok c \<longleftrightarrow>
     (\<forall>s. \<exists>b. snapshot_to_vec c s = Some b \<and> snapshot_from_slice c b = Some s)
     \<and> (\<forall>e. \<exists>b. event_to_vec c e = Some b \<and> event_from_slice c b = Some e)"

definition row_ok :: "'b serde \<Rightarrow> 'b exec_row \<Rightarrow> bool" where
  "row_ok c r \<longleftrightarrow>
     1 \<le> x_generation r \<and> x_next_sequence r \<le> i64_max
     \<and> (\<exists>s. snapshot_from_slice c (x_snapshot r) = Some s \<and> sn_execution_id s = x_execution_id r
          \<and> as_i64 (sn_generation s) = x_generation r \<and> x_state r = state_name (sn_state s))"

definition journal_ok :: "'b serde \<Rightarrow> 'b exec_row \<Rightarrow> 'b event_row list \<Rightarrow> bool" where
  "journal_ok c r mine \<longleftrightarrow>
     (\<exists>b \<ge> 1. b \<le> x_next_sequence r \<and> map v_sequence mine = [b..x_next_sequence r - 1])
     \<and> events_fit c mine
     \<and> (\<forall>v \<in> set mine. \<exists>e. event_from_slice c (v_encoded v) = Some e \<and> ev_sequence e = as_u64 (v_sequence v))"

definition events_of_row :: "'b exec_row \<Rightarrow> 'b ExecutionStore \<Rightarrow> 'b event_row list" where
  "events_of_row r st = events_of (x_execution_id r) (x_generation r) (st_events st)"

definition predecessor_terminal :: "'b exec_row list \<Rightarrow> 'b exec_row \<Rightarrow> bool" where
  "predecessor_terminal rs r \<longleftrightarrow> x_generation r = 1
     \<or> (\<exists>p \<in> set rs. key_is (x_execution_id r) (x_generation r - 1) p \<and> is_terminal_name (x_state p))"

definition store_inv :: "'b serde \<Rightarrow> 'b ExecutionStore \<Rightarrow> bool" where
  "store_inv c st \<longleftrightarrow>
     distinct (map row_key (st_executions st))
     \<and> length (st_executions st) \<le> MAX_EXECUTION_IDENTITIES
     \<and> (\<forall>r \<in> set (st_executions st). row_ok c r \<and> journal_ok c r (events_of_row r st)
          \<and> predecessor_terminal (st_executions st) r)
     \<and> (\<forall>v \<in> set (st_events st). \<exists>r \<in> set (st_executions st). key_is (v_execution_id v) (v_generation v) r)"

lemma store_invD:
  assumes "store_inv c st"
  shows "distinct (map row_key (st_executions st))"
    and "length (st_executions st) \<le> MAX_EXECUTION_IDENTITIES"
    and "r \<in> set (st_executions st) \<Longrightarrow> row_ok c r"
    and "r \<in> set (st_executions st) \<Longrightarrow> journal_ok c r (events_of_row r st)"
    and "r \<in> set (st_executions st) \<Longrightarrow> predecessor_terminal (st_executions st) r"
    and "v \<in> set (st_events st) \<Longrightarrow> \<exists>r \<in> set (st_executions st). key_is (v_execution_id v) (v_generation v) r"
  using assms by (auto simp: store_inv_def)

lemma empty_store_inv: "store_inv c (ExecutionStore_open None)"
  by (simp add: store_inv_def ExecutionStore_open_def)

section \<open>Appending to the journal\<close>

text \<open>The row an append leaves behind.\<close>

definition advance_row :: "string \<Rightarrow> int \<Rightarrow> 'b \<Rightarrow> int \<Rightarrow> 'b exec_row \<Rightarrow> 'b exec_row" where
  "advance_row state_col sequence snap now r =
     r\<lparr>x_state := state_col, x_next_sequence := wrap_i64 (sequence + 1), x_snapshot := snap, x_updated := now\<rparr>"

lemma advance_row_simps [simp]:
  "row_key (advance_row sc q b n r) = row_key r"
  "x_execution_id (advance_row sc q b n r) = x_execution_id r"
  "x_generation (advance_row sc q b n r) = x_generation r"
  "x_state (advance_row sc q b n r) = sc"
  "x_next_sequence (advance_row sc q b n r) = wrap_i64 (q + 1)"
  "x_snapshot (advance_row sc q b n r) = b"
  "x_principal_id (advance_row sc q b n r) = x_principal_id r"
  "x_lease_token_hash (advance_row sc q b n r) = x_lease_token_hash r"
  by (simp_all add: advance_row_def row_key_def)

lemma journal_fresh_sequence:
  assumes "store_inv c st" and "find_exec st i g = Some r"
  shows "\<not> (\<exists>v \<in> set (st_events st). ev_key_is i g v \<and> v_sequence v = x_next_sequence r)"
proof
  assume "\<exists>v \<in> set (st_events st). ev_key_is i g v \<and> v_sequence v = x_next_sequence r"
  then obtain v where v: "v \<in> set (st_events st)" "ev_key_is i g v" "v_sequence v = x_next_sequence r"
    by blast
  from find_exec_in [OF assms(2)] have r: "r \<in> set (st_executions st)" "key_is i g r" by auto
  from v(1,2) r(2) have "v \<in> set (events_of_row r st)"
    by (simp add: events_of_row_def events_of_def key_is_def)
  then have "v_sequence v \<in> set (map v_sequence (events_of_row r st))" by simp
  moreover obtain b where "map v_sequence (events_of_row r st) = [b..x_next_sequence r - 1]"
    using store_invD(4) [OF assms(1) r(1)] by (auto simp: journal_ok_def)
  ultimately show False using v(3) by simp
qed

lemma append_event_eq:
  assumes "store_inv c st" and "find_exec st i g = Some r"
  shows "append_event c now i g sc (x_next_sequence r) snap ev st =
    Ok (st\<lparr>st_executions := update_exec i g (advance_row sc (x_next_sequence r) snap now) (st_executions st),
          st_events := trim_events c i g (st_events st @
            [\<lparr>v_execution_id = i, v_generation = g, v_sequence = x_next_sequence r, v_encoded = ev\<rparr>])\<rparr>)"
  using journal_fresh_sequence [OF assms]
  by (simp add: append_event_def advance_row_def [abs_def])

lemma upto_snoc: "b \<le> n \<Longrightarrow> [b..n - 1] @ [n] = [b..(n::int)]"
  by (metis add_diff_cancel_right' append.right_neutral diff_add_cancel upto_rec2)

lemma drop_upto_int: "drop k [b..n] = [b + int k..(n::int)]"
proof (induction k arbitrary: b)
  case (Suc k)
  show ?case
  proof (cases "b \<le> n")
    case True
    then have "drop (Suc k) [b..n] = drop k [b + 1..n]" by (simp add: upto_rec1)
    then show ?thesis by (simp add: Suc.IH ac_simps)
  qed simp
qed simp

lemma journal_ok_append:
  assumes ok: "journal_ok c r mine" and bound: "x_next_sequence r < i64_max"
    and v: "v_sequence v = x_next_sequence r" "event_from_slice c (v_encoded v) = Some e"
      "ev_sequence e = as_u64 (x_next_sequence r)"
    and r': "x_next_sequence r' = wrap_i64 (x_next_sequence r + 1)"
  shows "sorted_wrt (<) (map v_sequence (mine @ [v]))"
    and "journal_ok c r' (longest_fit c (mine @ [v]))"
proof -
  let ?n = "x_next_sequence r"
  from ok obtain b where b: "1 \<le> b" "b \<le> ?n" and mine: "map v_sequence mine = [b..?n - 1]"
    by (auto simp: journal_ok_def)
  have n': "x_next_sequence r' = ?n + 1"
    using r' b bound by (simp add: wrap_i64_id i64_max_def)
  have full: "map v_sequence (mine @ [v]) = [b..?n]"
    using mine v(1) upto_snoc [OF b(2)] by simp
  then show "sorted_wrt (<) (map v_sequence (mine @ [v]))"
    by (simp add: sorted_wrt_upto)
  obtain ws where ws: "mine @ [v] = ws @ longest_fit c (mine @ [v])"
    using longest_fit_suffix [of c "mine @ [v]"] by (auto simp: suffix_def)
  have k: "longest_fit c (mine @ [v]) = drop (length ws) (mine @ [v])"
    using ws by (metis append_eq_conv_conj)
  have "length ws \<le> length [b..?n]" using ws full by (metis length_append length_map le_add1)
  then have kle: "int (length ws) \<le> ?n - b + 1" using b by simp
  have seqs: "map v_sequence (longest_fit c (mine @ [v])) = [b + int (length ws)..?n]"
    using k full by (metis drop_map drop_upto_int)
  have dec: "\<forall>w \<in> set (mine @ [v]). \<exists>e. event_from_slice c (v_encoded w) = Some e \<and> ev_sequence e = as_u64 (v_sequence w)"
    using ok v by (auto simp: journal_ok_def)
  have "set (longest_fit c (mine @ [v])) \<subseteq> set (mine @ [v])"
    using longest_fit_suffix by (rule set_mono_suffix)
  with dec seqs show "journal_ok c r' (longest_fit c (mine @ [v]))"
    using b kle n' longest_fit_fits [of c "mine @ [v]"]
    unfolding journal_ok_def by (intro conjI exI [of _ "b + int (length ws)"]) auto
qed

lemma key_in_update_exec:
  assumes "\<And>r. row_key (f r) = row_key r"
  shows "(\<exists>r \<in> set (update_exec i g f rs). key_is j h r) \<longleftrightarrow> (\<exists>r \<in> set rs. key_is j h r)"
proof -
  have "row_key ` set (update_exec i g f rs) = row_key ` set rs"
    using update_exec_keys [of f i g rs] assms by (metis set_map)
  then have "(j, h) \<in> row_key ` set (update_exec i g f rs) \<longleftrightarrow> (j, h) \<in> row_key ` set rs" by simp
  then show ?thesis by (auto simp: key_is_row_key image_iff eq_commute)
qed

lemma distinct_key_unique:
  assumes "distinct (map row_key rs)" "r \<in> set rs" "q \<in> set rs" "key_is i g r" "key_is i g q"
  shows "q = r"
  using assms by (auto simp: distinct_map inj_on_def key_is_row_key)

lemma append_event_inv:
  assumes inv: "store_inv c st" and find: "find_exec st i g = Some r"
    and active: "\<not> is_terminal_name (x_state r)" and bound: "x_next_sequence r < i64_max"
    and snap: "snapshot_from_slice c snap = Some s" "sn_execution_id s = i" "as_i64 (sn_generation s) = g"
    and ev: "event_from_slice c ev = Some e" "ev_sequence e = as_u64 (x_next_sequence r)"
    and app: "append_event c now i g (state_name (sn_state s)) (x_next_sequence r) snap ev st = Ok st'"
  shows "store_inv c st'"
proof -
  let ?adv = "advance_row (state_name (sn_state s)) (x_next_sequence r) snap now"
  let ?v = "\<lparr>v_execution_id = i, v_generation = g, v_sequence = x_next_sequence r, v_encoded = ev\<rparr>"
  let ?E = "st_executions st"
  from app append_event_eq [OF inv find]
  have E': "st_executions st' = update_exec i g ?adv ?E"
    and V': "st_events st' = trim_events c i g (st_events st @ [?v])" by auto
  from find_exec_in [OF find] have r: "r \<in> set ?E" "key_is i g r" by auto
  note uniq = distinct_key_unique [OF store_invD(1) [OF inv] r(1) _ r(2)]
  have mine: "events_of i g (st_events st @ [?v]) = events_of_row r st @ [?v]"
    using r(2) by (simp add: events_of_row_def events_of_def key_is_def ev_key_is_def)
  have J: "sorted_wrt (<) (map v_sequence (events_of_row r st @ [?v]))"
    "journal_ok c (?adv r) (longest_fit c (events_of_row r st @ [?v]))"
    using journal_ok_append [OF store_invD(4) [OF inv r(1)] bound, of ?v e "?adv r"] ev by simp_all
  have n1: "1 \<le> x_next_sequence r"
    using store_invD(4) [OF inv r(1)] by (auto simp: journal_ok_def)
  have row: "row_ok c r' \<and> journal_ok c r' (events_of_row r' st') \<and> predecessor_terminal (st_executions st') r'"
    if "r' \<in> set (st_executions st')" for r'
  proof (cases "key_is i g r'")
    case True
    with that E' have "r' = ?adv r" using uniq by (auto simp: set_update_exec)
    moreover have "row_ok c (?adv r)"
      using store_invD(3) [OF inv r(1)] snap r(2) bound n1
      by (auto simp: row_ok_def key_is_def wrap_i64_id i64_max_def)
    moreover have "events_of_row (?adv r) st' = longest_fit c (events_of_row r st @ [?v])"
      using r(2) J(1) events_of_trim [of i g "st_events st @ [?v]" c]
      by (simp add: events_of_row_def [of "?adv r"] V' key_is_def mine)
    moreover have "predecessor_terminal (st_executions st') (?adv r)"
      using store_invD(5) [OF inv r(1)] r(2)
      by (auto simp: predecessor_terminal_def E' set_update_exec key_is_def)
    ultimately show ?thesis using J(2) by simp
  next
    case False
    with that E' have in_E: "r' \<in> set ?E" by (auto simp: set_update_exec key_is_row_key)
    have "events_of_row r' st' = events_of_row r' st"
      using False by (auto simp: events_of_row_def V' key_is_def events_of_trim_other)
        (auto simp: events_of_def ev_key_is_def)
    moreover have "predecessor_terminal (st_executions st') r'"
      using store_invD(5) [OF inv in_E] active uniq
      unfolding predecessor_terminal_def E' set_update_exec
      by (metis set_update_exec)
    ultimately show ?thesis using store_invD(3,4) [OF inv in_E] by simp
  qed
  have "\<exists>r \<in> set (st_executions st'). key_is (v_execution_id v) (v_generation v) r"
    if "v \<in> set (st_events st')" for v
  proof -
    have "v \<in> set (st_events st) \<or> v = ?v"
      using that V' set_trim_events [of c i g "st_events st @ [?v]"] by auto
    then have "\<exists>r \<in> set ?E. key_is (v_execution_id v) (v_generation v) r"
      using store_invD(6) [OF inv] r by auto
    then show ?thesis by (simp add: E' key_in_update_exec)
  qed
  with row show ?thesis
    using store_invD(1,2) [OF inv] by (simp add: store_inv_def E' update_exec_keys) (simp add: update_exec_def)
qed

section \<open>The abstract view of the journal\<close>

text \<open>
  What a client of the journal can rely on: for each execution generation, the durable snapshot and
  the next event sequence number.
\<close>

definition journal_view ::
  "'b serde \<Rightarrow> 'b ExecutionStore \<Rightarrow> ExecutionId \<times> int \<rightharpoonup> ExecutionSnapshot \<times> int" where
  "journal_view c st k =
     map_option (\<lambda>r. (the (snapshot_from_slice c (x_snapshot r)), x_next_sequence r))
       (find_exec st (fst k) (snd k))"

definition snapshot_key :: "ExecutionSnapshot \<Rightarrow> ExecutionId \<times> int" where
  "snapshot_key s = (sn_execution_id s, as_i64 (sn_generation s))"

definition sequence_room :: "'b ExecutionStore \<Rightarrow> bool" where
  "sequence_room st \<longleftrightarrow> (\<forall>r \<in> set (st_executions st). x_next_sequence r < i64_max)"

lemma find_exec_update:
  assumes "\<And>r. row_key (f r) = row_key r"
  shows "find_exec (st\<lparr>st_executions := update_exec i g f (st_executions st), st_events := vs\<rparr>) j h
    = map_option (if (j, h) = (i, g) then f else id) (find_exec st j h)"
proof -
  have "List.find (key_is j h) (update_exec i g f rs)
      = map_option (if (j, h) = (i, g) then f else id) (List.find (key_is j h) rs)" for rs
    using assms by (induction rs) (auto simp: update_exec_def key_is_row_key)
  then show ?thesis by (simp add: find_exec_def)
qed

lemma view_row:
  assumes "store_inv c st" and "find_exec st i g = Some r"
  obtains s where "snapshot_from_slice c (x_snapshot r) = Some s" "snapshot_key s = (i, g)"
    "x_state r = state_name (sn_state s)" "journal_view c st (i, g) = Some (s, x_next_sequence r)"
proof -
  from find_exec_in [OF assms(2)] have r: "r \<in> set (st_executions st)" "key_is i g r" by auto
  from store_invD(3) [OF assms(1) r(1)] obtain s where
    s: "snapshot_from_slice c (x_snapshot r) = Some s" "sn_execution_id s = x_execution_id r"
      "as_i64 (sn_generation s) = x_generation r" "x_state r = state_name (sn_state s)"
    by (auto simp: row_ok_def)
  show ?thesis
    by (rule that [of s]) (use s r assms(2) in \<open>auto simp: snapshot_key_def key_is_def journal_view_def\<close>)
qed

lemma view_None: "journal_view c st (i, g) = None \<longleftrightarrow> find_exec st i g = None"
  by (simp add: journal_view_def)

lemma next_sequence_pos:
  assumes "store_inv c st" and "find_exec st i g = Some r"
  shows "1 \<le> x_next_sequence r"
proof -
  have "r \<in> set (st_executions st)" using find_exec_in [OF assms(2)] by simp
  then show ?thesis using store_invD(4) [OF assms(1)] by (fastforce simp: journal_ok_def)
qed

text \<open>One append, seen abstractly.\<close>

lemma append_event_view:
  assumes "store_inv c st" and "find_exec st i g = Some r" and "x_next_sequence r < i64_max"
    and "snapshot_from_slice c snap = Some s"
    and "append_event c now i g sc (x_next_sequence r) snap ev st = Ok st'"
  shows "journal_view c st' = (journal_view c st)((i, g) \<mapsto> (s, x_next_sequence r + 1))"
    and "(j, h) \<noteq> (i, g) \<Longrightarrow> events_of j h (st_events st') = events_of j h (st_events st)"
    and "(j, h) \<noteq> (i, g) \<Longrightarrow> find_exec st' j h = find_exec st j h"
proof -
  from assms(5) append_event_eq [OF assms(1,2)]
  have st': "st' = st\<lparr>st_executions := update_exec i g (advance_row sc (x_next_sequence r) snap now) (st_executions st),
      st_events := trim_events c i g (st_events st @
        [\<lparr>v_execution_id = i, v_generation = g, v_sequence = x_next_sequence r, v_encoded = ev\<rparr>])\<rparr>"
    by simp
  have fe: "find_exec st' j h = map_option (if (j, h) = (i, g) then
      advance_row sc (x_next_sequence r) snap now else id) (find_exec st j h)" for j h
    unfolding st' by (rule find_exec_update) simp
  have n: "wrap_i64 (x_next_sequence r + 1) = x_next_sequence r + 1"
    using assms(3) next_sequence_pos [OF assms(1,2)] by (simp add: wrap_i64_id i64_max_def)
  show "journal_view c st' = (journal_view c st)((i, g) \<mapsto> (s, x_next_sequence r + 1))"
  proof
    fix k show "journal_view c st' k = ((journal_view c st)((i, g) \<mapsto> (s, x_next_sequence r + 1))) k"
      using assms(2,4) n by (cases k) (auto simp: journal_view_def fe option.map_comp comp_def)
  qed
  show "(j, h) \<noteq> (i, g) \<Longrightarrow> events_of j h (st_events st') = events_of j h (st_events st)"
    by (simp add: st' events_of_trim_other) (auto simp: events_of_def ev_key_is_def)
  show "(j, h) \<noteq> (i, g) \<Longrightarrow> find_exec st' j h = find_exec st j h"
    using fe [of j h] by (auto simp: option.map_id)
qed

section \<open>commit\_event\<close>

text \<open>The event a commit of \<open>kind\<close> would write for a row.\<close>

definition next_event :: "'b exec_row \<Rightarrow> ExecutionEventKind \<Rightarrow> ExecutionEvent" where
  "next_event r kind = \<lparr>ev_sequence = as_u64 (x_next_sequence r), ev_kind = kind, ev_metadata = []\<rparr>"

lemma serde_okE:
  assumes "serde_ok c"
  obtains b where "snapshot_to_vec c s = Some b" "snapshot_from_slice c b = Some s"
  using assms by (auto simp: serde_ok_def)

lemma serde_okEe:
  assumes "serde_ok c"
  obtains b where "event_to_vec c e = Some b" "event_from_slice c b = Some e"
  using assms by (auto simp: serde_ok_def)

lemma commit_event_Some:
  assumes "serde_ok c" "store_inv c st" "commit_event c io now s k st = (Inr (Some e), st')"
  obtains r snap ev where "find_exec st (sn_execution_id s) (as_i64 (sn_generation s)) = Some r"
    "\<not> is_terminal_name (x_state r)" "e = next_event r k"
    "snapshot_from_slice c snap = Some s" "event_to_vec c e = Some ev" "event_from_slice c ev = Some e"
    "event_payload_len k \<le> MAX_EVENT_CHUNK_BYTES" "blob_length c ev \<le> MAX_RETAINED_EVENT_BYTES"
    "append_event c now (sn_execution_id s) (as_i64 (sn_generation s)) (state_name (sn_state s))
       (x_next_sequence r) snap ev st = Ok st'"
proof -
  from assms(3) obtain r where
    r: "find_exec st (sn_execution_id s) (as_i64 (sn_generation s)) = Some r" "\<not> is_terminal_name (x_state r)"
    by (auto simp: commit_event_def Let_def split: if_splits option.splits sum.splits)
  obtain snap where snap: "snapshot_to_vec c s = Some snap" "snapshot_from_slice c snap = Some s"
    using serde_okE [OF assms(1)] .
  obtain ev where ev: "event_to_vec c (next_event r k) = Some ev" "event_from_slice c ev = Some (next_event r k)"
    using serde_okEe [OF assms(1)] .
  have io: io using assms(3) by (auto simp: commit_event_def split: if_splits)
  have val: "event_payload_len k \<le> MAX_EVENT_CHUNK_BYTES"
    using assms(3) r io
    by (auto simp: commit_event_def Let_def ExecutionEvent_validate_def EventMetadata_validate_def
        split: if_splits)
  have "ExecutionEvent_validate (next_event r k) = Inr ()"
    using val by (simp add: ExecutionEvent_validate_Ok next_event_def)
  with assms(3) r io snap ev show ?thesis
    by (intro that [of r snap ev])
      (auto simp: commit_event_def Let_def next_event_def [symmetric] val split: if_splits sum.splits)
qed

lemma commit_event_None:
  assumes "store_inv c st" "commit_event c io now s k st = (Inr None, st')"
  shows "st' = st \<and> (case journal_view c st (snapshot_key s) of None \<Rightarrow> True
     | Some (old, _) \<Rightarrow> is_terminal (sn_state old))"
proof (cases "find_exec st (sn_execution_id s) (as_i64 (sn_generation s))")
  case None
  then show ?thesis using assms(2)
    by (auto simp: commit_event_def Let_def snapshot_key_def journal_view_def split: if_splits)
next
  case (Some r)
  obtain old where old: "x_state r = state_name (sn_state old)"
    "journal_view c st (snapshot_key s) = Some (old, x_next_sequence r)"
    using view_row [OF assms(1) Some] by (metis snapshot_key_def)
  from assms(2) Some have "st' = st \<and> is_terminal_name (x_state r)"
    by (auto simp: commit_event_def Let_def split: if_splits option.splits sum.splits)
  with old show ?thesis by simp
qed

lemma commit_event_Err: "commit_event c io now s k st = (Inl e, st') \<Longrightarrow> st' = st"
  by (auto simp: commit_event_def Let_def split: if_splits option.splits sum.splits)

lemma commit_event_inv:
  assumes "serde_ok c" "store_inv c st" "sequence_room st" "commit_event c io now s k st = (res, st')"
  shows "store_inv c st'"
proof (cases res)
  case (Inr oe)
  show ?thesis
  proof (cases oe)
    case None
    then show ?thesis using assms commit_event_None Inr by blast
  next
    case (Some e)
    from assms(4) Inr Some have "commit_event c io now s k st = (Inr (Some e), st')" by simp
    from commit_event_Some [OF assms(1,2) this] obtain r snap ev where
      c: "find_exec st (sn_execution_id s) (as_i64 (sn_generation s)) = Some r"
      "\<not> is_terminal_name (x_state r)" "e = next_event r k"
      "snapshot_from_slice c snap = Some s" "event_from_slice c ev = Some e"
      "append_event c now (sn_execution_id s) (as_i64 (sn_generation s)) (state_name (sn_state s))
         (x_next_sequence r) snap ev st = Ok st'" by metis
    have "x_next_sequence r < i64_max"
      using assms(3) find_exec_in [OF c(1)] by (auto simp: sequence_room_def)
    from append_event_inv [OF assms(2) c(1,2) this c(4) refl refl c(5) _ c(6)] show ?thesis
      using c(3) by (simp add: next_event_def)
  qed
qed (use assms commit_event_Err in blast)

lemma commit_event_view:
  assumes "serde_ok c" "store_inv c st" "sequence_room st"
    and "commit_event c io now s k st = (Inr (Some e), st')"
  obtains old n where "journal_view c st (snapshot_key s) = Some (old, n)" "\<not> is_terminal (sn_state old)"
    "ev_sequence e = as_u64 n" "ev_kind e = k"
    "journal_view c st' = (journal_view c st)(snapshot_key s \<mapsto> (s, n + 1))"
proof -
  from commit_event_Some [OF assms(1,2,4)] obtain r snap ev where
    c: "find_exec st (sn_execution_id s) (as_i64 (sn_generation s)) = Some r"
    "\<not> is_terminal_name (x_state r)" "e = next_event r k" "snapshot_from_slice c snap = Some s"
    "append_event c now (sn_execution_id s) (as_i64 (sn_generation s)) (state_name (sn_state s))
       (x_next_sequence r) snap ev st = Ok st'" by metis
  have room: "x_next_sequence r < i64_max"
    using assms(3) find_exec_in [OF c(1)] by (auto simp: sequence_room_def)
  obtain old where old: "x_state r = state_name (sn_state old)"
    "journal_view c st (snapshot_key s) = Some (old, x_next_sequence r)"
    using view_row [OF assms(2) c(1)] by (metis snapshot_key_def)
  show ?thesis
    using that [OF old(2)] old(1) c append_event_view(1) [OF assms(2) c(1) room c(4,5)]
    by (simp add: next_event_def snapshot_key_def)
qed

section \<open>reserve\<close>

lemma generations_contiguous:
  assumes "store_inv c st" "r \<in> set (st_executions st)" "1 \<le> k" "k \<le> x_generation r"
  shows "\<exists>p \<in> set (st_executions st). key_is (x_execution_id r) k p"
proof -
  have "\<exists>p \<in> set (st_executions st). key_is (x_execution_id r) (x_generation r - int d) p"
    if "int d < x_generation r" for d
    using that
  proof (induction d)
    case 0
    then show ?case using assms(2) by (auto simp: key_is_def)
  next
    case (Suc d)
    then obtain p where p: "p \<in> set (st_executions st)" "key_is (x_execution_id r) (x_generation r - int d) p"
      by auto
    from store_invD(5) [OF assms(1) p(1)] show ?case
      using p(2) Suc.prems by (auto simp: predecessor_terminal_def key_is_def algebra_simps)
  qed
  from this [of "nat (x_generation r - k)"] show ?thesis using assms(3,4) by simp
qed

lemma generation_bound:
  assumes "store_inv c st" "r \<in> set (st_executions st)"
  shows "x_generation r \<le> int MAX_EXECUTION_IDENTITIES"
proof -
  have "(\<lambda>k. (x_execution_id r, k)) ` {1..x_generation r} \<subseteq> row_key ` set (st_executions st)"
    using generations_contiguous [OF assms] by (auto simp: key_is_row_key image_iff) (metis)
  then have "card ((\<lambda>k. (x_execution_id r, k)) ` {1..x_generation r}) \<le> card (row_key ` set (st_executions st))"
    by (intro card_mono) auto
  also have "\<dots> \<le> length (st_executions st)" by (metis card_length length_map set_map)
  also have "\<dots> \<le> MAX_EXECUTION_IDENTITIES" using store_invD(2) [OF assms(1)] .
  finally show ?thesis by (simp add: card_image inj_on_def nat_le_iff)
qed

lemma successor_implies_terminal:
  assumes "store_inv c st" "r \<in> set (st_executions st)" "q \<in> set (st_executions st)"
    and "x_execution_id q = x_execution_id r" "x_generation r < x_generation q"
  shows "is_terminal_name (x_state r)"
proof -
  have "1 \<le> x_generation r" using store_invD(3) [OF assms(1,2)] by (simp add: row_ok_def)
  then obtain p where p: "p \<in> set (st_executions st)" "key_is (x_execution_id q) (x_generation r + 1) p"
    using generations_contiguous [OF assms(1,3), of "x_generation r + 1"] assms(5) by auto
  with \<open>1 \<le> x_generation r\<close> store_invD(5) [OF assms(1) p(1)] obtain t where
    "t \<in> set (st_executions st)" "key_is (x_execution_id r) (x_generation r) t" "is_terminal_name (x_state t)"
    by (auto simp: predecessor_terminal_def key_is_def assms(4))
  moreover have "key_is (x_execution_id r) (x_generation r) r" by (simp add: key_is_def)
  ultimately show ?thesis
    using distinct_key_unique [OF store_invD(1) [OF assms(1)]] assms(2) by metis
qed

lemma reserve_Created:
  assumes "reserve c io now s cv d pr lh le st = (Inr Created, st')"
  obtains b where "snapshot_to_vec c s = Some b"
    "find_exec st (sn_execution_id s) (as_i64 (sn_generation s)) = None"
    "case newest (filter (\<lambda>r. x_execution_id r = sn_execution_id s) (st_executions st)) of
       None \<Rightarrow> as_i64 (sn_generation s) = 1
     | Some r \<Rightarrow> as_i64 (sn_generation s) = wrap_i64 (x_generation r + 1) \<and> is_terminal_name (x_state r)"
    "length (st_executions st) < MAX_EXECUTION_IDENTITIES"
    "st' = st\<lparr>st_executions := st_executions st @
       [\<lparr>x_execution_id = sn_execution_id s, x_generation = as_i64 (sn_generation s),
         x_canonical_version = uint cv, x_digest = d, x_principal_id = pr, x_lease_token_hash = lh,
         x_lease_expires = le, x_last_renewal_id = None, x_state = state_name (sn_state s),
         x_next_sequence = 1, x_snapshot = b, x_created = now, x_updated = now\<rparr>]\<rparr>"
  using assms
  by (auto simp: reserve_def Let_def not_le split: if_splits option.splits)

lemma reserve_other:
  "reserve c io now s cv d pr lh le st = (res, st') \<Longrightarrow> res \<noteq> Inr Created \<Longrightarrow> st' = st"
  by (auto simp: reserve_def Let_def split: if_splits option.splits)

lemma events_of_fresh:
  assumes "store_inv c st" "find_exec st i g = None"
  shows "events_of i g (st_events st) = []"
proof -
  have "\<not> ev_key_is i g v" if "v \<in> set (st_events st)" for v
    using store_invD(6) [OF assms(1) that] assms(2) by (auto simp: find_exec_None ev_key_is_def)
  then show ?thesis by (auto simp: events_of_def filter_empty_conv)
qed

lemma reserve_generation:
  assumes inv: "store_inv c st" and "reserve c io now s cv d pr lh le st = (Inr Created, st')"
  shows "1 \<le> as_i64 (sn_generation s)"
    and "as_i64 (sn_generation s) = 1 \<or> (\<exists>p \<in> set (st_executions st).
           key_is (sn_execution_id s) (as_i64 (sn_generation s) - 1) p \<and> is_terminal_name (x_state p))"
proof -
  let ?rs = "filter (\<lambda>r. x_execution_id r = sn_execution_id s) (st_executions st)"
  have nw: "case newest ?rs of None \<Rightarrow> as_i64 (sn_generation s) = 1
     | Some r \<Rightarrow> as_i64 (sn_generation s) = wrap_i64 (x_generation r + 1) \<and> is_terminal_name (x_state r)"
    by (rule reserve_Created [OF assms(2)])
  have "1 \<le> as_i64 (sn_generation s) \<and> (as_i64 (sn_generation s) = 1 \<or> (\<exists>p \<in> set (st_executions st).
           key_is (sn_execution_id s) (as_i64 (sn_generation s) - 1) p \<and> is_terminal_name (x_state p)))"
  proof (cases "newest ?rs")
    case None
    with nw show ?thesis by simp
  next
    case (Some r)
    then have r: "r \<in> set (st_executions st)" "x_execution_id r = sn_execution_id s"
      using newest_Some by force+
    have "1 \<le> x_generation r" using store_invD(3) [OF inv r(1)] by (simp add: row_ok_def)
    moreover have "x_generation r \<le> 2048"
      using generation_bound [OF inv r(1)] by (simp add: MAX_EXECUTION_IDENTITIES_def)
    ultimately have "wrap_i64 (x_generation r + 1) = x_generation r + 1"
      by (intro wrap_i64_id) (simp_all add: i64_max_def)
    moreover have "as_i64 (sn_generation s) = wrap_i64 (x_generation r + 1) \<and> is_terminal_name (x_state r)"
      using nw Some by simp
    ultimately show ?thesis using r \<open>1 \<le> x_generation r\<close> by (auto simp: key_is_def)
  qed
  then show "1 \<le> as_i64 (sn_generation s)"
    and "as_i64 (sn_generation s) = 1 \<or> (\<exists>p \<in> set (st_executions st).
           key_is (sn_execution_id s) (as_i64 (sn_generation s) - 1) p \<and> is_terminal_name (x_state p))"
    by auto
qed

lemma reserve_inv:
  assumes "serde_ok c" and inv: "store_inv c st" and res: "reserve c io now s cv d pr lh le st = (res, st')"
  shows "store_inv c st'"
proof (cases "res = Inr Created")
  case True
  with res have cr: "reserve c io now s cv d pr lh le st = (Inr Created, st')" by simp
  from reserve_Created [OF cr] obtain b where
    b: "snapshot_to_vec c s = Some b" "find_exec st (sn_execution_id s) (as_i64 (sn_generation s)) = None"
      "length (st_executions st) < MAX_EXECUTION_IDENTITIES" and
    st': "st' = st\<lparr>st_executions := st_executions st @
       [\<lparr>x_execution_id = sn_execution_id s, x_generation = as_i64 (sn_generation s),
         x_canonical_version = uint cv, x_digest = d, x_principal_id = pr, x_lease_token_hash = lh,
         x_lease_expires = le, x_last_renewal_id = None, x_state = state_name (sn_state s),
         x_next_sequence = 1, x_snapshot = b, x_created = now, x_updated = now\<rparr>]\<rparr>" (is "_ = _\<lparr>st_executions := _ @ [?r]\<rparr>")
    by metis
  have dec: "snapshot_from_slice c b = Some s" using serde_okE [OF assms(1), of s] b(1) by auto
  have fresh: "events_of (sn_execution_id s) (as_i64 (sn_generation s)) (st_events st) = []"
    by (rule events_of_fresh [OF inv b(2)])
  have "row_ok c ?r" using reserve_generation(1) [OF inv cr] dec by (simp add: row_ok_def i64_max_def)
  moreover have "journal_ok c ?r (events_of_row ?r st')"
    by (simp add: events_of_row_def st' fresh journal_ok_def) (rule exI [of _ 1], simp)
  moreover have "predecessor_terminal (st_executions st') ?r"
    using reserve_generation(2) [OF inv cr] by (auto simp: predecessor_terminal_def st')
  moreover have "row_key ?r \<notin> row_key ` set (st_executions st)"
    using b(2) by (auto simp: find_exec_None key_is_row_key row_key_def)
  moreover have "predecessor_terminal (st_executions st') q" if "q \<in> set (st_executions st)" for q
    using store_invD(5) [OF inv that] by (auto simp: predecessor_terminal_def st')
  moreover have "events_of_row q st' = events_of_row q st" for q by (simp add: events_of_row_def st')
  ultimately show ?thesis
    using inv b(3) unfolding store_inv_def by (auto simp: st')
next
  case False
  then show ?thesis using inv reserve_other [OF res] by simp
qed

section \<open>Leases and metrics\<close>

text \<open>A change of lease columns only: identity, state, sequence and snapshot stay.\<close>

definition lease_only :: "('b exec_row \<Rightarrow> 'b exec_row) \<Rightarrow> bool" where
  "lease_only f \<longleftrightarrow> (\<forall>r. x_execution_id (f r) = x_execution_id r \<and> x_generation (f r) = x_generation r
     \<and> x_state (f r) = x_state r \<and> x_next_sequence (f r) = x_next_sequence r \<and> x_snapshot (f r) = x_snapshot r)"

lemma lease_only_find:
  "lease_only f \<Longrightarrow> find_exec (st\<lparr>st_executions := map f (st_executions st)\<rparr>) i g = map_option f (find_exec st i g)"
proof -
  assume f: "lease_only f"
  have "List.find (key_is i g) (map f rs) = map_option f (List.find (key_is i g) rs)" for rs
    using f by (induction rs) (auto simp: lease_only_def key_is_def)
  then show ?thesis by (simp add: find_exec_def)
qed

lemma lease_only_inv:
  assumes "lease_only f" "store_inv c st"
  shows "store_inv c (st\<lparr>st_executions := map f (st_executions st)\<rparr>)"
proof -
  have "row_key \<circ> f = row_key" using assms(1) by (auto simp: lease_only_def row_key_def)
  then have "distinct (map (row_key \<circ> f) (st_executions st))" using store_invD(1) [OF assms(2)] by simp
  then show ?thesis using assms
    unfolding store_inv_def lease_only_def row_ok_def journal_ok_def predecessor_terminal_def
      events_of_row_def key_is_def by auto
qed

definition renew_row :: "ExecutionId \<Rightarrow> int \<Rightarrow> string \<Rightarrow> string \<Rightarrow> int \<Rightarrow> int \<Rightarrow> 'b exec_row \<Rightarrow> 'b exec_row" where
  "renew_row i g lh rid e now r =
     (if key_is i g r \<and> x_lease_token_hash r = lh
      then r\<lparr>x_lease_expires := e, x_last_renewal_id := Some rid, x_updated := now\<rparr> else r)"

lemma renew_row_simps [simp]:
  "x_execution_id (renew_row i g lh rid e now r) = x_execution_id r"
  "x_generation (renew_row i g lh rid e now r) = x_generation r"
  "x_state (renew_row i g lh rid e now r) = x_state r"
  "x_next_sequence (renew_row i g lh rid e now r) = x_next_sequence r"
  "x_snapshot (renew_row i g lh rid e now r) = x_snapshot r"
  by (simp_all add: renew_row_def)

lemma renew_row_lease_only: "lease_only (renew_row i g lh rid e now)"
  by (simp add: lease_only_def)

lemma update_lease_shape:
  assumes "update_lease io now now2 i gen lh rid le st = (res, st')"
  shows "st' = st \<or> (\<exists>e. st' = st\<lparr>st_executions := map (renew_row i (as_i64 gen) lh rid e now2) (st_executions st)\<rparr>)"
  using assms
  by (auto simp: update_lease_def Let_def renew_row_def [abs_def] split: if_splits option.splits)

lemma update_lease_inv:
  "store_inv c st \<Longrightarrow> update_lease io now now2 i gen lh rid le st = (res, st') \<Longrightarrow> store_inv c st'"
  using update_lease_shape lease_only_inv [OF renew_row_lease_only] by metis

lemma update_lease_view:
  assumes "update_lease io now now2 i gen lh rid le st = (res, st')"
  shows "journal_view c st' = journal_view c st"
  using update_lease_shape [OF assms]
  by (auto simp: journal_view_def lease_only_find [OF renew_row_lease_only] option.map_comp comp_def
      fun_eq_iff)

lemma increment_metrics_shape:
  "increment_metrics io ds st = (res, st') \<Longrightarrow> \<exists>ms. st' = st\<lparr>st_metrics := ms\<rparr>"
  by (auto simp: increment_metrics_def split: if_splits
      intro: exI [of _ "st_metrics st"] exI [of _ "st_metrics st'"])

lemma metrics_frame [simp]:
  "store_inv c (st\<lparr>st_metrics := ms\<rparr>) \<longleftrightarrow> store_inv c st"
  "find_exec (st\<lparr>st_metrics := ms\<rparr>) i g = find_exec st i g"
  "journal_view c (st\<lparr>st_metrics := ms\<rparr>) = journal_view c st"
  by (simp_all add: store_inv_def events_of_row_def find_exec_def journal_view_def [abs_def])

lemma increment_metrics_inv:
  "store_inv c st \<Longrightarrow> increment_metrics io ds st = (res, st') \<Longrightarrow> store_inv c st'"
  using increment_metrics_shape by (metis metrics_frame(1))

section \<open>Recovery\<close>

lemma recover_one_ok:
  assumes "serde_ok c" and inv: "store_inv c st" and "sequence_room st"
    and "sn_state s = Interrupted"
    and find: "find_exec st (sn_execution_id s) (as_i64 (sn_generation s)) = Some r"
    and active: "\<not> is_terminal_name (x_state r)"
  obtains st' where "recover_one c now s st = Ok st'" "store_inv c st'"
    "journal_view c st' = (journal_view c st)(snapshot_key s \<mapsto> (s, x_next_sequence r + 1))"
    "\<And>j h. (j, h) \<noteq> snapshot_key s \<Longrightarrow> find_exec st' j h = find_exec st j h
        \<and> events_of j h (st_events st') = events_of j h (st_events st)"
proof -
  let ?e = "next_event r (EvState Interrupted)"
  obtain snap where snap: "snapshot_to_vec c s = Some snap" "snapshot_from_slice c snap = Some s"
    using serde_okE [OF assms(1)] .
  obtain ev where ev: "event_to_vec c ?e = Some ev" "event_from_slice c ev = Some ?e"
    using serde_okEe [OF assms(1)] .
  have room: "x_next_sequence r < i64_max"
    using assms(3) find_exec_in [OF find] by (auto simp: sequence_room_def)
  obtain st' where app: "append_event c now (sn_execution_id s) (as_i64 (sn_generation s))
      (state_name (sn_state s)) (x_next_sequence r) snap ev st = Ok st'"
    using append_event_eq [OF inv find] by blast
  have "recover_one c now s st = Ok st'"
    using find snap(1) ev(1) app assms(4) by (simp add: recover_one_def Let_def next_event_def)
  moreover have "store_inv c st'"
    by (rule append_event_inv [OF inv find active room snap(2) refl refl ev(2) _ app])
      (simp add: next_event_def)
  ultimately show ?thesis
    using that append_event_view [OF inv find room snap(2) app] by (simp add: snapshot_key_def)
qed

lemma view_find_active:
  assumes "store_inv c st" "find_exec st i g = Some r"
  shows "is_terminal_name (x_state r) \<longleftrightarrow> is_terminal (sn_state (fst (the (journal_view c st (i, g)))))"
  using view_row [OF assms] by (metis fst_conv option.sel terminal_state_name)

lemma sequence_room_view:
  assumes "store_inv c st"
  shows "sequence_room st \<longleftrightarrow> (\<forall>k s n. journal_view c st k = Some (s, n) \<longrightarrow> n < i64_max)"
proof -
  have "find_exec st i g = Some r \<longleftrightarrow> r \<in> set (st_executions st) \<and> key_is i g r" for i g r
    by (rule find_exec_Some [OF store_invD(1) [OF assms]])
  then show ?thesis
    unfolding sequence_room_def journal_view_def by (force simp: key_is_def)
qed

lemma recover_each_ok:
  assumes "serde_ok c" "store_inv c st"
    and "distinct (map snapshot_key ss)"
    and "\<forall>s \<in> set ss. sn_state s = Interrupted \<and> (\<exists>old n. journal_view c st (snapshot_key s) = Some (old, n)
           \<and> \<not> is_terminal (sn_state old) \<and> n < i64_max - 1)"
    and "sequence_room st"
  shows "\<exists>st'. recover_each c now ss st = Ok st' \<and> store_inv c st'
    \<and> (\<forall>s \<in> set ss. journal_view c st' (snapshot_key s)
          = Some (s, snd (the (journal_view c st (snapshot_key s))) + 1))
    \<and> (\<forall>j h. (j, h) \<notin> snapshot_key ` set ss \<longrightarrow> journal_view c st' (j, h) = journal_view c st (j, h)
          \<and> find_exec st' j h = find_exec st j h \<and> events_of j h (st_events st') = events_of j h (st_events st))"
  using assms
proof (induction ss arbitrary: st)
  case Nil
  then show ?case by simp
next
  case (Cons s ss)
  from Cons.prems(4) obtain old n where
    o: "sn_state s = Interrupted" "journal_view c st (snapshot_key s) = Some (old, n)"
      "\<not> is_terminal (sn_state old)" "n < i64_max - 1" by auto
  then obtain r where r: "find_exec st (sn_execution_id s) (as_i64 (sn_generation s)) = Some r"
    by (auto simp: journal_view_def snapshot_key_def)
  have act: "\<not> is_terminal_name (x_state r)"
    using view_find_active [OF Cons.prems(2) r] o by (simp add: snapshot_key_def)
  have n: "x_next_sequence r = n" using o(2) r by (simp add: journal_view_def snapshot_key_def)
  obtain st1 where st1: "recover_one c now s st = Ok st1" "store_inv c st1"
    "journal_view c st1 = (journal_view c st)(snapshot_key s \<mapsto> (s, n + 1))"
    "\<And>j h. (j, h) \<noteq> snapshot_key s \<Longrightarrow> find_exec st1 j h = find_exec st j h
        \<and> events_of j h (st_events st1) = events_of j h (st_events st)"
    using recover_one_ok [OF Cons.prems(1,2,5) o(1) r act, of now] n by metis
  have room: "sequence_room st1"
    using Cons.prems(5) o(4)
    unfolding sequence_room_view [OF st1(2)] sequence_room_view [OF Cons.prems(2)] st1(3)
    by (auto split: if_splits)
  have "\<exists>st'. recover_each c now ss st1 = Ok st' \<and> store_inv c st'
    \<and> (\<forall>s \<in> set ss. journal_view c st' (snapshot_key s)
          = Some (s, snd (the (journal_view c st1 (snapshot_key s))) + 1))
    \<and> (\<forall>j h. (j, h) \<notin> snapshot_key ` set ss \<longrightarrow> journal_view c st' (j, h) = journal_view c st1 (j, h)
          \<and> find_exec st' j h = find_exec st1 j h \<and> events_of j h (st_events st') = events_of j h (st_events st1))"
  proof (intro Cons.IH Cons.prems(1) st1(2) room)
    have "snapshot_key t \<noteq> snapshot_key s" if "t \<in> set ss" for t using Cons.prems(3) that by (metis distinct.simps(2) image_eqI list.map(2) set_map)
    then show "\<forall>s \<in> set ss. sn_state s = Interrupted \<and> (\<exists>old n. journal_view c st1 (snapshot_key s) = Some (old, n)
           \<and> \<not> is_terminal (sn_state old) \<and> n < i64_max - 1)"
      using Cons.prems(4) st1(3) by simp
  qed (use Cons.prems(3) in simp)
  then obtain st' where st': "recover_each c now ss st1 = Ok st'" "store_inv c st'"
    "\<And>t. t \<in> set ss \<Longrightarrow> journal_view c st' (snapshot_key t)
          = Some (t, snd (the (journal_view c st1 (snapshot_key t))) + 1)"
    "\<And>j h. (j, h) \<notin> snapshot_key ` set ss \<Longrightarrow> journal_view c st' (j, h) = journal_view c st1 (j, h)
          \<and> find_exec st' j h = find_exec st1 j h \<and> events_of j h (st_events st') = events_of j h (st_events st1)"
    by blast
  have s_out: "snapshot_key s \<notin> snapshot_key ` set ss" using Cons.prems(3) by simp
  have "journal_view c st' (snapshot_key s) = Some (s, n + 1)"
    using st'(4) s_out st1(3) by (metis fun_upd_same prod.collapse)
  moreover have "journal_view c st' (snapshot_key t)
      = Some (t, snd (the (journal_view c st (snapshot_key t))) + 1)" if "t \<in> set ss" for t
    using st'(3) [OF that] st1(3) s_out that by (metis fun_upd_apply image_eqI)
  moreover have "journal_view c st' (j, h) = journal_view c st (j, h)
          \<and> find_exec st' j h = find_exec st j h \<and> events_of j h (st_events st') = events_of j h (st_events st)"
    if "(j, h) \<notin> snapshot_key ` set (s # ss)" for j h
    using st'(4) [of j h] st1(3,4) that by auto
  ultimately show ?case
    using st1(1) st'(1,2) o(2) by (intro exI [of _ st']) auto
qed

end
