(* ===== verification/Store_Props.thy ===== *)
theory Store_Props
  imports Store_Inv
begin

text \<open>
  Properties of the execution journal: recovery, runs of operations from a fresh database and the
  invariant along them, immutability of terminal executions, gap-free paging, reservation verdicts,
  lease renewal and saturating metrics.
\<close>

section \<open>Recovery, seen abstractly\<close>

lemma decode_all_Some:
  "\<forall>b \<in> set bs. \<exists>x. f b = Some x \<Longrightarrow> decode_all f bs = Ok (map (the \<circ> f) bs)"
  by (induction bs) auto

definition active_rows :: "'b ExecutionStore \<Rightarrow> 'b exec_row list" where
  "active_rows st = filter (\<lambda>r. is_active_name (x_state r)) (st_executions st)"

definition recovered_snapshots :: "'b serde \<Rightarrow> 'b ExecutionStore \<Rightarrow> ExecutionSnapshot list" where
  "recovered_snapshots c st =
     map (\<lambda>r. interrupt_snapshot (the (snapshot_from_slice c (x_snapshot r)))) (active_rows st)"

definition interrupt_view :: "ExecutionSnapshot \<times> int \<Rightarrow> ExecutionSnapshot \<times> int" where
  "interrupt_view = (\<lambda>(s, n). if is_terminal (sn_state s) then (s, n) else (interrupt_snapshot s, n + 1))"

lemma interrupt_snapshot_simps [simp]:
  "sn_execution_id (interrupt_snapshot s) = sn_execution_id s"
  "sn_generation (interrupt_snapshot s) = sn_generation s"
  "sn_state (interrupt_snapshot s) = Interrupted"
  "snapshot_key (interrupt_snapshot s) = snapshot_key s"
  by (simp_all add: interrupt_snapshot_def snapshot_key_def)

lemma row_snapshot:
  assumes "store_inv c st" "r \<in> set (st_executions st)"
  obtains s where "snapshot_from_slice c (x_snapshot r) = Some s" "snapshot_key s = row_key r"
    "x_state r = state_name (sn_state s)" "journal_view c st (row_key r) = Some (s, x_next_sequence r)"
proof -
  have "find_exec st (x_execution_id r) (x_generation r) = Some r"
    using find_exec_Some [OF store_invD(1) [OF assms(1)]] assms(2) by (simp add: key_is_def)
  from view_row [OF assms(1) this] obtain s where
    "snapshot_from_slice c (x_snapshot r) = Some s" "snapshot_key s = (x_execution_id r, x_generation r)"
    "x_state r = state_name (sn_state s)"
    "journal_view c st (x_execution_id r, x_generation r) = Some (s, x_next_sequence r)" .
  then show ?thesis by (intro that) (simp_all add: row_key_def)
qed

lemma recovered_keys:
  assumes "store_inv c st"
  shows "map snapshot_key (recovered_snapshots c st) = map row_key (active_rows st)"
proof -
  have "snapshot_key (interrupt_snapshot (the (snapshot_from_slice c (x_snapshot r)))) = row_key r"
    if "r \<in> set (active_rows st)" for r
  proof -
    have "r \<in> set (st_executions st)" using that by (simp add: active_rows_def)
    from row_snapshot [OF assms this] show ?thesis by (metis interrupt_snapshot_simps(4) option.sel)
  qed
  then show ?thesis by (simp add: recovered_snapshots_def)
qed

lemma recover_spec:
  assumes sok: "serde_ok c" and inv: "store_inv c st"
    and room: "\<forall>k s n. journal_view c st k = Some (s, n) \<longrightarrow> n < i64_max - 1"
  shows "\<exists>st'. recover c True now st = (Ok (recovered_snapshots c st), st') \<and> store_inv c st'
    \<and> journal_view c st' = map_option interrupt_view \<circ> journal_view c st
    \<and> (\<forall>i g r. find_exec st i g = Some r \<longrightarrow> is_terminal_name (x_state r) \<longrightarrow>
         find_exec st' i g = Some r \<and> events_of i g (st_events st') = events_of i g (st_events st))"
proof -
  let ?ss = "recovered_snapshots c st"
  have sroom: "sequence_room st"
    unfolding sequence_room_view [OF inv] using room by (metis diff_gt_0_iff_gt less_trans zero_less_one diff_less_eq less_add_one)
  have ex: "\<exists>x. snapshot_from_slice c b = Some x" if "b \<in> set (map x_snapshot (active_rows st))" for b
  proof -
    from that obtain r where r: "r \<in> set (st_executions st)" "b = x_snapshot r"
      by (auto simp: active_rows_def)
    then show ?thesis using row_snapshot [OF inv r(1)] by metis
  qed
  have dec: "decode_all (snapshot_from_slice c) (map x_snapshot (active_rows st))
      = Ok (map (the \<circ> snapshot_from_slice c \<circ> x_snapshot) (active_rows st))"
    using decode_all_Some [of "map x_snapshot (active_rows st)" "snapshot_from_slice c"] ex
    by (simp add: comp_assoc)
  have ss: "map interrupt_snapshot (map (the \<circ> snapshot_from_slice c \<circ> x_snapshot) (active_rows st)) = ?ss"
    by (simp add: recovered_snapshots_def)
  have dist: "distinct (map snapshot_key ?ss)"
    unfolding recovered_keys [OF inv] active_rows_def
    using store_invD(1) [OF inv] by (auto simp: distinct_map inj_on_def)
  have act: "sn_state s = Interrupted \<and> (\<exists>old n. journal_view c st (snapshot_key s) = Some (old, n)
      \<and> \<not> is_terminal (sn_state old) \<and> n < i64_max - 1 \<and> s = interrupt_snapshot old)" if "s \<in> set ?ss" for s
  proof -
    from that obtain r where r: "r \<in> set (st_executions st)" "is_active_name (x_state r)"
      "s = interrupt_snapshot (the (snapshot_from_slice c (x_snapshot r)))"
      by (auto simp: recovered_snapshots_def active_rows_def)
    from row_snapshot [OF inv r(1)] obtain old where
      "snapshot_from_slice c (x_snapshot r) = Some old" "snapshot_key old = row_key r"
      "x_state r = state_name (sn_state old)" "journal_view c st (row_key r) = Some (old, x_next_sequence r)" .
    moreover from this room have "x_next_sequence r < i64_max - 1" by blast
    ultimately show ?thesis using r by simp
  qed
  then have act': "\<forall>s \<in> set ?ss. sn_state s = Interrupted \<and> (\<exists>old n. journal_view c st (snapshot_key s) = Some (old, n)
      \<and> \<not> is_terminal (sn_state old) \<and> n < i64_max - 1)"
    by metis
  obtain st' where st': "recover_each c now ?ss st = Ok st'" "store_inv c st'"
    "\<And>s. s \<in> set ?ss \<Longrightarrow> journal_view c st' (snapshot_key s)
        = Some (s, snd (the (journal_view c st (snapshot_key s))) + 1)"
    "\<And>j h. (j, h) \<notin> snapshot_key ` set ?ss \<Longrightarrow> journal_view c st' (j, h) = journal_view c st (j, h)
        \<and> find_exec st' j h = find_exec st j h \<and> events_of j h (st_events st') = events_of j h (st_events st)"
    using recover_each_ok [OF sok inv dist act' sroom, of now] by blast
  have fin: "(i, g) \<notin> snapshot_key ` set ?ss"
    if "journal_view c st (i, g) = Some (s, n)" "is_terminal (sn_state s)" for i g s n
  proof
    assume "(i, g) \<in> snapshot_key ` set ?ss"
    then obtain x where x: "x \<in> set ?ss" "(i, g) = snapshot_key x" by auto
    from act [OF x(1)] x(2) that show False by auto
  qed
  have "journal_view c st' k = map_option interrupt_view (journal_view c st k)" for k
  proof (cases "k \<in> snapshot_key ` set ?ss")
    case True
    then obtain s where "s \<in> set ?ss" "k = snapshot_key s" by auto
    moreover from act [OF this(1)] obtain old n where
      "journal_view c st (snapshot_key s) = Some (old, n)" "\<not> is_terminal (sn_state old)" "s = interrupt_snapshot old"
      by blast
    ultimately show ?thesis using st'(3) [of s] by (simp add: interrupt_view_def)
  next
    case False
    obtain i g where k: "k = (i, g)" by force
    show ?thesis
    proof (cases "find_exec st i g")
      case None
      then show ?thesis using st'(4) False k by (simp add: journal_view_def)
    next
      case (Some r)
      from view_row [OF inv Some] obtain s where
        s: "snapshot_from_slice c (x_snapshot r) = Some s" "x_state r = state_name (sn_state s)"
          "journal_view c st (i, g) = Some (s, x_next_sequence r)" "snapshot_key s = (i, g)" .
      have "r \<notin> set (active_rows st)"
      proof
        assume "r \<in> set (active_rows st)"
        then have "interrupt_snapshot s \<in> set ?ss" using s(1) by (force simp: recovered_snapshots_def)
        then show False using False k s(4) by (metis image_eqI interrupt_snapshot_simps(4))
      qed
      then have "is_terminal (sn_state s)"
        using s(2) find_exec_in [OF Some] by (simp add: active_rows_def)
      then show ?thesis using st'(4) False k s(3) by (simp add: interrupt_view_def)
    qed
  qed
  moreover have "recover c True now st = (Ok ?ss, st')"
    using dec ss st'(1) by (simp add: recover_def active_rows_def Let_def)
  moreover have "find_exec st' i g = Some r \<and> events_of i g (st_events st') = events_of i g (st_events st)"
    if "find_exec st i g = Some r" "is_terminal_name (x_state r)" for i g r
  proof -
    from view_row [OF inv that(1)] obtain s where
      "x_state r = state_name (sn_state s)" "journal_view c st (i, g) = Some (s, x_next_sequence r)" .
    with that(2) fin have "(i, g) \<notin> snapshot_key ` set ?ss" by simp
    then show ?thesis using st'(4) that(1) by simp
  qed
  ultimately show ?thesis using st'(2) by (intro exI [of _ st']) (simp add: fun_eq_iff)
qed


section \<open>Steps, concrete and abstract\<close>

inductive store_step :: "'b serde \<Rightarrow> 'b ExecutionStore \<Rightarrow> 'b ExecutionStore \<Rightarrow> bool" for c where
  step_open: "store_step c st (ExecutionStore_open (Some st))"
| step_reserve: "reserve c io now s cv d pr lh le st = (res, st') \<Longrightarrow> store_step c st st'"
| step_commit: "commit_event c io now s k st = (res, st') \<Longrightarrow> store_step c st st'"
| step_lease: "update_lease io now now2 i gen lh rid le st = (res, st') \<Longrightarrow> store_step c st st'"
| step_metrics: "increment_metrics io ds st = (res, st') \<Longrightarrow> store_step c st st'"
| step_recover: "recover c io now st = (res, st') \<Longrightarrow> store_step c st st'"

text \<open>
  What the journal promises, as a machine on \<^const>\<open>journal_view\<close>: an execution generation appears once,
  after its predecessor is terminal; each append replaces the snapshot of a live generation and consumes
  exactly one sequence number; a restart interrupts every live generation.
\<close>

type_synonym journal_map = "ExecutionId \<times> int \<rightharpoonup> ExecutionSnapshot \<times> int"

inductive journal_step :: "journal_map \<Rightarrow> journal_map \<Rightarrow> bool" where
  journal_stutter: "journal_step V V"
| journal_create: "V (i, g) = None \<Longrightarrow> snapshot_key s = (i, g) \<Longrightarrow>
    g = 1 \<or> (\<exists>p n. V (i, g - 1) = Some (p, n) \<and> is_terminal (sn_state p)) \<Longrightarrow>
    journal_step V (V((i, g) \<mapsto> (s, 1)))"
| journal_append: "V (snapshot_key s) = Some (old, n) \<Longrightarrow> \<not> is_terminal (sn_state old) \<Longrightarrow>
    journal_step V (V(snapshot_key s \<mapsto> (s, n + 1)))"
| journal_interrupt: "journal_step V (map_option interrupt_view \<circ> V)"

lemma journal_step_terminal:
  assumes "journal_step V V'" "V k = Some (s, n)" "is_terminal (sn_state s)"
  shows "V' k = Some (s, n)"
  using assms by cases (auto simp: interrupt_view_def)

lemma journal_step_bound:
  assumes "journal_step V V'" "\<forall>k s n. V k = Some (s, n) \<longrightarrow> 1 \<le> n \<and> n \<le> b" "1 \<le> b"
  shows "\<forall>k s n. V' k = Some (s, n) \<longrightarrow> 1 \<le> n \<and> n \<le> b + 1"
  using assms(1)
proof cases
  case journal_stutter
  then show ?thesis using assms(2) by fastforce
next
  case (journal_create i g s)
  then show ?thesis using assms(2,3) by (fastforce split: if_splits)
next
  case (journal_append s old n)
  then have "1 \<le> n \<and> n \<le> b" using assms(2) by blast
  then show ?thesis using journal_append assms(2) by (fastforce split: if_splits)
next
  case journal_interrupt
  have "1 \<le> m \<and> m \<le> b + 1" if V: "map_option interrupt_view (V k) = Some (t, m)" for k t m
  proof -
    from V obtain s n where s: "V k = Some (s, n)" "interrupt_view (s, n) = (t, m)" by force
    then have "1 \<le> n \<and> n \<le> b" using assms(2) by blast
    then show ?thesis using s(2) by (auto simp: interrupt_view_def split: if_splits)
  qed
  then show ?thesis using journal_interrupt by simp
qed

lemma find_append: "List.find P (xs @ ys) = (case List.find P xs of Some x \<Rightarrow> Some x | None \<Rightarrow> List.find P ys)"
  by (induction xs) auto

lemma reserve_view:
  assumes sok: "serde_ok c" and inv: "store_inv c st"
    and res: "reserve c io now s cv d pr lh le st = (Inr Created, st')"
  shows "journal_view c st (snapshot_key s) = None"
    and "journal_view c st' = (journal_view c st)(snapshot_key s \<mapsto> (s, 1))"
    and "find_exec st i g = Some r \<Longrightarrow> find_exec st' i g = Some r"
    and "st_events st' = st_events st"
proof -
  let ?k = "snapshot_key s"
  from reserve_Created [OF res] obtain b where b: "snapshot_to_vec c s = Some b"
    "find_exec st (sn_execution_id s) (as_i64 (sn_generation s)) = None"
    "st' = st\<lparr>st_executions := st_executions st @
       [\<lparr>x_execution_id = sn_execution_id s, x_generation = as_i64 (sn_generation s),
         x_canonical_version = uint cv, x_digest = d, x_principal_id = pr, x_lease_token_hash = lh,
         x_lease_expires = le, x_last_renewal_id = None, x_state = state_name (sn_state s),
         x_next_sequence = 1, x_snapshot = b, x_created = now, x_updated = now\<rparr>]\<rparr>" .
  from serde_okE [OF sok, of s] b(1) have dec: "snapshot_from_slice c b = Some s" by fastforce
  show none: "journal_view c st ?k = None" using b(2) by (simp add: journal_view_def snapshot_key_def)
  have find: "find_exec st' i g = (case find_exec st i g of Some r \<Rightarrow> Some r
      | None \<Rightarrow> if (i, g) = ?k then Some (last (st_executions st')) else None)" for i g
    by (simp add: b(3) find_exec_def find_append key_is_def snapshot_key_def split: option.split)
  then show "find_exec st i g = Some r \<Longrightarrow> find_exec st' i g = Some r" by simp
  show "st_events st' = st_events st" by (simp add: b(3))
  show "journal_view c st' = (journal_view c st)(?k \<mapsto> (s, 1))"
  proof
    fix k :: "ExecutionId \<times> int"
    obtain i g where k: "k = (i, g)" by force
    show "journal_view c st' k = ((journal_view c st)(?k \<mapsto> (s, 1))) k"
    proof (cases "k = ?k")
      case True
      then have "find_exec st' (fst k) (snd k) = Some (last (st_executions st'))"
        using b(2) find [of "fst k" "snd k"] by (simp add: snapshot_key_def)
      then show ?thesis using True b(3) dec by (simp add: journal_view_def)
    next
      case False
      then show ?thesis using find [of i g] k by (simp add: journal_view_def split: option.split)
    qed
  qed
qed

lemma reserve_journal_step:
  assumes sok: "serde_ok c" and inv: "store_inv c st"
    and res: "reserve c io now s cv d pr lh le st = (res, st')"
  shows "journal_step (journal_view c st) (journal_view c st')"
proof (cases "res = Inr Created")
  case True
  note res' = res [unfolded True]
  let ?i = "sn_execution_id s" and ?g = "as_i64 (sn_generation s)"
  have "?g = 1 \<or> (\<exists>p n. journal_view c st (?i, ?g - 1) = Some (p, n) \<and> is_terminal (sn_state p))"
  proof (cases "?g = 1")
    case False
    with reserve_generation(2) [OF inv res'] obtain q where q: "q \<in> set (st_executions st)"
      "key_is ?i (?g - 1) q" "is_terminal_name (x_state q)" by blast
    then have "find_exec st ?i (?g - 1) = Some q" using find_exec_Some [OF store_invD(1) [OF inv]] by blast
    from view_row [OF inv this] obtain p where "x_state q = state_name (sn_state p)"
      "journal_view c st (?i, ?g - 1) = Some (p, x_next_sequence q)" .
    with q(3) show ?thesis by auto
  qed simp
  then show ?thesis
    using reserve_view(1,2) [OF sok inv res'] journal_create [of "journal_view c st" ?i ?g s]
    by (simp add: snapshot_key_def)
next
  case False
  then show ?thesis using reserve_other [OF res] by (simp add: journal_stutter)
qed

lemma recover_io: "recover c False now st = (Err Sql, st)"
  by (simp add: recover_def)

text \<open>One operation keeps the invariant and is one step of the journal's contract.\<close>

lemma store_step_refines:
  assumes sok: "serde_ok c" and inv: "store_inv c st"
    and room: "\<forall>k s n. journal_view c st k = Some (s, n) \<longrightarrow> n < i64_max - 1"
    and step: "store_step c st st'"
  shows "store_inv c st' \<and> journal_step (journal_view c st) (journal_view c st')"
  using step
proof cases
  case step_open
  then show ?thesis using inv by (simp add: ExecutionStore_open_def journal_stutter)
next
  case (step_reserve io now s cv d pr lh le res)
  then show ?thesis using reserve_inv [OF sok inv] reserve_journal_step [OF sok inv] by blast
next
  case (step_commit io now s k res)
  have sroom: "sequence_room st"
    unfolding sequence_room_view [OF inv] using room by fastforce
  note i = commit_event_inv [OF sok inv sroom step_commit]
  have "journal_step (journal_view c st) (journal_view c st')"
  proof (cases res)
    case (Inl e)
    then show ?thesis using commit_event_Err step_commit journal_stutter by metis
  next
    case (Inr oe)
    show ?thesis
    proof (cases oe)
      case None
      then show ?thesis using Inr commit_event_None [OF inv] step_commit journal_stutter by metis
    next
      case (Some e)
      from commit_event_view [OF sok inv sroom step_commit [unfolded Inr Some]] obtain old n where
        "journal_view c st (snapshot_key s) = Some (old, n)" "\<not> is_terminal (sn_state old)"
        "journal_view c st' = (journal_view c st)(snapshot_key s \<mapsto> (s, n + 1))" .
      then show ?thesis by (simp add: journal_append)
    qed
  qed
  with i show ?thesis by simp
next
  case (step_lease io now now2 i gen lh rid le res)
  then show ?thesis using update_lease_inv [OF inv] update_lease_view journal_stutter by metis
next
  case (step_metrics io ds res)
  from increment_metrics_shape [OF step_metrics] show ?thesis using inv by (auto simp: journal_stutter)
next
  case (step_recover io now res)
  show ?thesis
  proof (cases io)
    case True
    obtain st2 where "recover c True now st = (Ok (recovered_snapshots c st), st2)" "store_inv c st2"
      "journal_view c st2 = map_option interrupt_view \<circ> journal_view c st"
      using recover_spec [OF sok inv room, of now] by blast
    with step_recover True show ?thesis by (simp add: journal_interrupt)
  next
    case False
    then show ?thesis using step_recover inv by (simp add: recover_io journal_stutter)
  qed
qed

section \<open>Frames\<close>

text \<open>The columns a replayed request is compared with; no operation changes them.\<close>

definition row_identity :: "'b exec_row \<Rightarrow> int \<times> string \<times> string \<times> string" where
  "row_identity r = (x_canonical_version r, x_digest r, x_principal_id r, x_lease_token_hash r)"

definition keeps_identity :: "'b ExecutionStore \<Rightarrow> 'b ExecutionStore \<Rightarrow> bool" where
  "keeps_identity st st' \<longleftrightarrow> (\<forall>i g r. find_exec st i g = Some r \<longrightarrow>
     (\<exists>r'. find_exec st' i g = Some r' \<and> row_identity r' = row_identity r))"

lemma keeps_identity_refl [simp]: "keeps_identity st st"
  by (simp add: keeps_identity_def)

lemma keeps_identity_trans: "keeps_identity a b \<Longrightarrow> keeps_identity b d \<Longrightarrow> keeps_identity a d"
  unfolding keeps_identity_def by metis

lemma append_event_identity: "append_event c now i g sc q b e st = Inr st' \<Longrightarrow> keeps_identity st st'"
  by (auto simp: append_event_def keeps_identity_def find_exec_update row_key_def row_identity_def
      split: if_splits)

lemma recover_each_identity: "recover_each c now ss st = Inr st' \<Longrightarrow> keeps_identity st st'"
proof (induction ss arbitrary: st)
  case (Cons s ss)
  then obtain st1 where st1: "recover_one c now s st = Inr st1" "recover_each c now ss st1 = Inr st'"
    by (auto simp: result_simps)
  then have "keeps_identity st st1"
    by (auto simp: recover_one_def Let_def append_event_identity split: option.splits)
  then show ?case using Cons.IH [OF st1(2)] keeps_identity_trans by blast
qed simp

lemma store_step_identity:
  assumes "store_step c st st'"
  shows "keeps_identity st st'"
  using assms
proof cases
  case step_open
  then show ?thesis by (simp add: ExecutionStore_open_def)
next
  case (step_reserve io now s cv d pr lh le res)
  show ?thesis
  proof (cases "res = Inr Created")
    case True
    from reserve_Created [OF step_reserve [unfolded True]] obtain r where
      "st' = st\<lparr>st_executions := st_executions st @ [r]\<rparr>" by blast
    then show ?thesis by (auto simp: keeps_identity_def find_exec_def find_append)
  next
    case False
    then show ?thesis using reserve_other [OF step_reserve] by simp
  qed
next
  case (step_commit io now s k res)
  then show ?thesis
    by (auto simp: commit_event_def Let_def append_event_identity split: if_splits option.splits sum.splits)
next
  case (step_lease io now now2 i gen lh rid le res)
  have "row_identity (renew_row i (as_i64 gen) lh rid e now2 r) = row_identity r" for e and r :: "'a exec_row"
    by (simp add: renew_row_def row_identity_def)
  then show ?thesis
    using update_lease_shape [OF step_lease]
    by (auto simp: keeps_identity_def lease_only_find [OF renew_row_lease_only])
next
  case (step_metrics io ds res)
  from increment_metrics_shape [OF step_metrics] show ?thesis by (auto simp: keeps_identity_def)
next
  case (step_recover io now res)
  then show ?thesis
    by (auto simp: recover_def Let_def recover_each_identity split: if_splits sum.splits)
qed

text \<open>The retained events of a terminal execution are never touched again.\<close>

lemma commit_event_terminal:
  assumes sok: "serde_ok c" and inv: "store_inv c st" and room: "sequence_room st"
    and step: "commit_event c io now s k st = (res, st')"
    and r: "find_exec st i g = Some r" "is_terminal_name (x_state r)"
  shows "events_of i g (st_events st') = events_of i g (st_events st)"
proof (cases "\<exists>e. res = Inr (Some e)")
  case True
  then obtain e where e: "commit_event c io now s k st = (Inr (Some e), st')" using step by blast
  from commit_event_Some [OF sok inv e] obtain q snap ev where
    q: "find_exec st (sn_execution_id s) (as_i64 (sn_generation s)) = Some q" "\<not> is_terminal_name (x_state q)"
      "snapshot_from_slice c snap = Some s"
      "append_event c now (sn_execution_id s) (as_i64 (sn_generation s)) (state_name (sn_state s))
         (x_next_sequence q) snap ev st = Ok st'" .
  then have ne: "(i, g) \<noteq> (sn_execution_id s, as_i64 (sn_generation s))" using r by auto
  have "x_next_sequence q < i64_max" using room find_exec_in [OF q(1)] by (simp add: sequence_room_def)
  from append_event_view(2) [OF inv q(1) this q(3,4) ne] show ?thesis .
next
  case False
  have "st' = st"
    using False step commit_event_Err [of c io now s k st _ st'] commit_event_None [OF inv, of io now s k st']
    by (cases res) (metis old.sum.exhaust option.exhaust)+
  then show ?thesis by simp
qed

lemma store_step_terminal_events:
  assumes sok: "serde_ok c" and inv: "store_inv c st"
    and room: "\<forall>k s n. journal_view c st k = Some (s, n) \<longrightarrow> n < i64_max - 1"
    and step: "store_step c st st'"
    and r: "find_exec st i g = Some r" "is_terminal_name (x_state r)"
  shows "events_of i g (st_events st') = events_of i g (st_events st)"
  using step
proof cases
  case step_open
  then show ?thesis by (simp add: ExecutionStore_open_def)
next
  case (step_reserve io now s cv d pr lh le res)
  then show ?thesis
    using reserve_view(4) [OF sok inv] reserve_other [OF step_reserve] by (cases "res = Inr Created") auto
next
  case (step_commit io now s k res)
  moreover have "sequence_room st" unfolding sequence_room_view [OF inv] using room by fastforce
  ultimately show ?thesis using commit_event_terminal [OF sok inv] r by blast
next
  case (step_lease io now now2 i gen lh rid le res)
  then show ?thesis using update_lease_shape [OF step_lease] by auto
next
  case (step_metrics io ds res)
  from increment_metrics_shape [OF step_metrics] show ?thesis by auto
next
  case (step_recover io now res)
  show ?thesis
  proof (cases io)
    case True
    obtain st2 where "recover c True now st = (Ok (recovered_snapshots c st), st2)"
      "\<forall>i g r. find_exec st i g = Some r \<longrightarrow> is_terminal_name (x_state r) \<longrightarrow>
         find_exec st2 i g = Some r \<and> events_of i g (st_events st2) = events_of i g (st_events st)"
      using recover_spec [OF sok inv room, of now] by blast
    with step_recover True r show ?thesis by simp
  qed (use step_recover in \<open>simp add: recover_io\<close>)
qed

section \<open>Runs\<close>

abbreviation fresh_store :: "'b ExecutionStore" where
  "fresh_store \<equiv> ExecutionStore_open None"

lemma store_run_step:
  assumes sok: "serde_ok c" and inv: "store_inv c st" and small: "int n < i64_max - 1" "1 \<le> n"
    and b: "\<forall>k s m. journal_view c st k = Some (s, m) \<longrightarrow> 1 \<le> m \<and> m \<le> int n"
    and step: "store_step c st st'"
  shows "store_inv c st' \<and> journal_step (journal_view c st) (journal_view c st')
    \<and> (\<forall>k s m. journal_view c st' k = Some (s, m) \<longrightarrow> 1 \<le> m \<and> m \<le> int (Suc n))"
proof -
  have "\<forall>k s m. journal_view c st k = Some (s, m) \<longrightarrow> m < i64_max - 1" using b small(1) by fastforce
  from store_step_refines [OF sok inv this step]
  have *: "store_inv c st'" "journal_step (journal_view c st) (journal_view c st')" by auto
  from journal_step_bound [OF this(2) b] small(2) * show ?thesis by (fastforce simp: add.commute)
qed

lemma store_run:
  assumes sok: "serde_ok c"
  shows "(store_step c ^^ n) fresh_store st \<Longrightarrow> int n < i64_max - 1 \<Longrightarrow>
    store_inv c st \<and> (journal_step ^^ n) (\<lambda>_. None) (journal_view c st)
    \<and> (\<forall>k s m. journal_view c st k = Some (s, m) \<longrightarrow> 1 \<le> m \<and> m \<le> int (Suc n))"
proof (induction n arbitrary: st)
  case 0
  have "journal_view c (fresh_store :: 'a ExecutionStore) = (\<lambda>_. None)"
    by (simp add: fun_eq_iff journal_view_def find_exec_def ExecutionStore_open_def)
  with 0 show ?case by (auto simp: empty_store_inv)
next
  case (Suc n)
  from Suc.prems(1) obtain st1 where st1: "(store_step c ^^ n) fresh_store st1" "store_step c st1 st" by auto
  from Suc.IH [OF st1(1)] Suc.prems(2) have
    "store_inv c st1" "(journal_step ^^ n) (\<lambda>_. None) (journal_view c st1)"
    "\<forall>k s m. journal_view c st1 k = Some (s, m) \<longrightarrow> 1 \<le> m \<and> m \<le> int (Suc n)" by auto
  with store_run_step [OF sok _ _ _ _ st1(2), of "Suc n"] Suc.prems(2) show ?case by (auto intro: relcomppI)
qed

text \<open>C1: every database reached from a fresh one by fewer than \<^term>\<open>2 ^ 63 - 2\<close> operations (opening,
  reserving, committing, renewing, counting, recovering; failed or not) satisfies the journal invariant,
  and the operations, seen through \<^const>\<open>journal_view\<close>, are steps of the abstract journal.\<close>

theorem store_refines_journal:
  assumes "serde_ok c" "(store_step c ^^ n) fresh_store st" "int n < i64_max - 1"
  shows "store_inv c st \<and> (journal_step ^^ n) (\<lambda>_. None) (journal_view c st)"
  using store_run [OF assms] by simp

lemma store_run_from:
  assumes sok: "serde_ok c" and inv: "store_inv c st"
    and b: "\<forall>k s m. journal_view c st k = Some (s, m) \<longrightarrow> 1 \<le> m \<and> m \<le> int n" and "1 \<le> n"
  shows "(store_step c ^^ k) st st' \<Longrightarrow> int n + int k < i64_max \<Longrightarrow>
    store_inv c st' \<and> keeps_identity st st'
    \<and> (\<forall>k' s m. journal_view c st' k' = Some (s, m) \<longrightarrow> 1 \<le> m \<and> m \<le> int (n + k))
    \<and> (\<forall>i g s m. journal_view c st (i, g) = Some (s, m) \<longrightarrow> is_terminal (sn_state s) \<longrightarrow>
         journal_view c st' (i, g) = Some (s, m)
         \<and> events_of i g (st_events st') = events_of i g (st_events st))"
proof (induction k arbitrary: st')
  case 0
  then show ?case using inv b by auto
next
  case (Suc k)
  from Suc.prems(1) obtain st1 where st1: "(store_step c ^^ k) st st1" "store_step c st1 st'" by auto
  from Suc.IH [OF st1(1)] Suc.prems(2) have IH: "store_inv c st1" "keeps_identity st st1"
    "\<forall>k' s m. journal_view c st1 k' = Some (s, m) \<longrightarrow> 1 \<le> m \<and> m \<le> int (n + k)"
    "\<And>i g s m. journal_view c st (i, g) = Some (s, m) \<Longrightarrow> is_terminal (sn_state s) \<Longrightarrow>
         journal_view c st1 (i, g) = Some (s, m) \<and> events_of i g (st_events st1) = events_of i g (st_events st)"
    by auto
  have room: "\<forall>k' s m. journal_view c st1 k' = Some (s, m) \<longrightarrow> m < i64_max - 1"
    using IH(3) Suc.prems(2) by fastforce
  from store_run_step [OF sok IH(1) _ _ IH(3) st1(2)] Suc.prems(2) \<open>1 \<le> n\<close>
  have step: "store_inv c st'" "journal_step (journal_view c st1) (journal_view c st')"
    "\<forall>k' s m. journal_view c st' k' = Some (s, m) \<longrightarrow> 1 \<le> m \<and> m \<le> int (n + Suc k)" by auto
  have "journal_view c st' (i, g) = Some (s, m) \<and> events_of i g (st_events st') = events_of i g (st_events st)"
    if t: "journal_view c st (i, g) = Some (s, m)" "is_terminal (sn_state s)" for i g s m
  proof -
    note t1 = IH(4) [OF t]
    then obtain r where r: "find_exec st1 i g = Some r" by (auto simp: journal_view_def)
    with view_find_active [OF IH(1) r] t1 t(2) have "is_terminal_name (x_state r)" by simp
    from store_step_terminal_events [OF sok IH(1) room st1(2) r this]
      journal_step_terminal [OF step(2)] t1 t(2) show ?thesis by simp
  qed
  moreover have "keeps_identity st st'"
    using keeps_identity_trans [OF IH(2) store_step_identity [OF st1(2)]] .
  ultimately show ?case using step by blast
qed

text \<open>C4: once an execution generation is terminal, its snapshot, its next sequence number and its retained
  events are the same in every later database, restarts included.\<close>

theorem terminal_frozen:
  assumes "serde_ok c" "(store_step c ^^ n) fresh_store st" "(store_step c ^^ m) st st'"
    and "int n + int m < i64_max - 1"
    and "journal_view c st (i, g) = Some (s, q)" "is_terminal (sn_state s)"
  shows "journal_view c st' (i, g) = Some (s, q)
    \<and> events_of i g (st_events st') = events_of i g (st_events st)"
  using store_run [OF assms(1,2)] store_run_from [OF assms(1) _ _ _ assms(3), of "Suc n"] assms(4-6)
  by simp

section \<open>Reservations\<close>

lemma reserve_known:
  assumes "store_inv c st" "find_exec st (sn_execution_id s) (as_i64 (sn_generation s)) = Some r"
  shows "reserve c True now s cv d pr lh le st =
    (Ok (if row_identity r = (uint cv, d, pr, lh)
         then Existing (fst (the (journal_view c st (snapshot_key s)))) else Conflict), st)"
proof -
  from view_row [OF assms] obtain old where
    "snapshot_from_slice c (x_snapshot r) = Some old"
    "journal_view c st (sn_execution_id s, as_i64 (sn_generation s)) = Some (old, x_next_sequence r)" .
  then show ?thesis using assms(2)
    by (simp add: reserve_def Let_def row_identity_def snapshot_key_def)
qed

lemma reserve_Created_identity:
  assumes "reserve c io now s cv d pr lh le st = (Inr Created, st')"
  shows "\<exists>r. find_exec st' (sn_execution_id s) (as_i64 (sn_generation s)) = Some r
    \<and> row_identity r = (uint cv, d, pr, lh)"
proof -
  from reserve_Created [OF assms] obtain b where
    b: "find_exec st (sn_execution_id s) (as_i64 (sn_generation s)) = None"
    "st' = st\<lparr>st_executions := st_executions st @
       [\<lparr>x_execution_id = sn_execution_id s, x_generation = as_i64 (sn_generation s),
         x_canonical_version = uint cv, x_digest = d, x_principal_id = pr, x_lease_token_hash = lh,
         x_lease_expires = le, x_last_renewal_id = None, x_state = state_name (sn_state s),
         x_next_sequence = 1, x_snapshot = b, x_created = now, x_updated = now\<rparr>]\<rparr>" .
  from b(1) have "List.find (key_is (sn_execution_id s) (as_i64 (sn_generation s))) (st_executions st) = None"
    by (simp add: find_exec_def)
  then show ?thesis by (simp add: b(2) find_exec_def find_append key_is_def row_identity_def)
qed

text \<open>C8: a generation is admitted at most once. After a reservation created it, in every later database, a
  reservation of the same execution generation creates nothing: it returns the current durable snapshot
  when the request is the same (canonical version, digest, principal, lease hash), a conflict otherwise,
  and leaves the database unchanged.\<close>

theorem admitted_once:
  assumes "serde_ok c" "(store_step c ^^ n) fresh_store st"
    and "reserve c io now s cv d pr lh le st = (Ok Created, st1)"
    and "(store_step c ^^ m) st1 st2" "int n + int m < i64_max - 3"
    and "snapshot_key s' = snapshot_key s"
  shows "reserve c True now2 s' cv2 d2 pr2 lh2 le2 st2 =
    (Ok (if (cv2, d2, pr2, lh2) = (cv, d, pr, lh)
         then Existing (fst (the (journal_view c st2 (snapshot_key s)))) else Conflict), st2)"
proof -
  have "(store_step c ^^ Suc n) fresh_store st1" using assms(2) step_reserve [OF assms(3)] by auto
  note run = store_run [OF assms(1) this] store_run_from [OF assms(1) _ _ _ assms(4), of "Suc (Suc n)"]
  then have inv: "store_inv c st2" and keep: "keeps_identity st1 st2" using assms(5) by auto
  from reserve_Created_identity [OF assms(3)] keep obtain r where
    r: "find_exec st2 (sn_execution_id s) (as_i64 (sn_generation s)) = Some r"
      "row_identity r = (uint cv, d, pr, lh)" unfolding keeps_identity_def by metis
  have k: "sn_execution_id s' = sn_execution_id s" "as_i64 (sn_generation s') = as_i64 (sn_generation s)"
    using assms(6) by (auto simp: snapshot_key_def)
  from reserve_known [OF inv, of s' r now2 cv2 d2 pr2 lh2 le2] r k assms(6)
  show ?thesis by (auto dest: unsigned_word_eqI)
qed

text \<open>C11: in every reachable database the generations of an execution are numbered from 1 without gaps, and
  every generation but the newest is terminal, so at most one generation of an execution is live.\<close>

theorem one_live_generation:
  assumes "serde_ok c" "(store_step c ^^ n) fresh_store st" "int n < i64_max - 1"
    and "find_exec st i g = Some r"
  shows "1 \<le> g \<and> (\<forall>k. 1 \<le> k \<and> k < g \<longrightarrow>
    (\<exists>p. find_exec st i k = Some p \<and> is_terminal_name (x_state p)))"
proof -
  have inv: "store_inv c st" using store_run [OF assms(1-3)] by simp
  have r: "r \<in> set (st_executions st)" "x_execution_id r = i" "x_generation r = g"
    using find_exec_in [OF assms(4)] by (auto simp: key_is_def)
  have "\<exists>p. find_exec st i k = Some p \<and> is_terminal_name (x_state p)" if k: "1 \<le> k" "k < g" for k
  proof -
    from generations_contiguous [OF inv r(1) k(1)] k r obtain p where
      p: "p \<in> set (st_executions st)" "key_is i k p" by auto
    then have "find_exec st i k = Some p" using find_exec_Some [OF store_invD(1) [OF inv]] by blast
    moreover have "is_terminal_name (x_state p)"
      using successor_implies_terminal [OF inv p(1) r(1)] p(2) r k by (simp add: key_is_def)
    ultimately show ?thesis by blast
  qed
  moreover have "1 \<le> g" using store_invD(3) [OF inv r(1)] r(3) by (simp add: row_ok_def)
  ultimately show ?thesis by blast
qed

section \<open>Pages of events\<close>

lemma filter_upto: "filter (\<lambda>x. a < x) [b..n] = [max b (a + 1)..(n::int)]"
proof (induction "nat (n - b + 1)" arbitrary: b)
  case 0
  then show ?case by simp
next
  case (Suc k)
  then have "[b..n] = b # [b + 1..n]" by (simp add: upto_rec1)
  moreover have "filter (\<lambda>x. a < x) [b + 1..n] = [max (b + 1) (a + 1)..n]" using Suc by (intro Suc.hyps) simp
  moreover have "max b (a + 1) = b \<and> max (b + 1) (a + 1) = b + 1" if "a < b" using that by simp
  moreover have "max b (a + 1) = max (b + 1) (a + 1)" if "\<not> a < b" using that by simp
  ultimately show ?case by (cases "a < b") simp_all
qed

lemma map_filter_key: "map f (filter (\<lambda>x. P (f x)) xs) = filter P (map f xs)"
  by (induction xs) auto

lemma Min_upto: "b \<le> n \<Longrightarrow> Min {b..(n::int)} = b"
  by (intro Min_eqI) auto

lemma load_page_spec:
  assumes inv: "store_inv c st" and r: "find_exec st i (as_i64 gen) = Some r"
    and cursor: "uint cur \<le> i64_max"
  defines "mine \<equiv> events_of i (as_i64 gen) (st_events st)" and "n \<equiv> x_next_sequence r"
  obtains b where "1 \<le> b" "b \<le> n" "n \<le> i64_max" "map v_sequence mine = [b..n - 1]"
    "\<forall>v \<in> set mine. \<exists>e. event_from_slice c (v_encoded v) = Some e \<and> ev_sequence e = as_u64 (v_sequence v)"
    "load_page c True i gen cur st = Ok (Some \<lparr>pg_base_sequence = as_u64 b, pg_next_sequence = as_u64 n,
       pg_events = (if uint cur + 1 < b then []
         else map (the \<circ> event_from_slice c) (map v_encoded (filter (\<lambda>v. v_sequence v > uint cur) mine)))\<rparr>)"
proof -
  have rin: "r \<in> set (st_executions st)" "key_is i (as_i64 gen) r" using find_exec_in [OF r] by auto
  then have row: "events_of_row r st = mine" by (simp add: events_of_row_def key_is_def mine_def)
  from store_invD(4) [OF inv rin(1)] obtain b where b: "1 \<le> b" "b \<le> n" "map v_sequence mine = [b..n - 1]"
    and dec: "\<forall>v \<in> set mine. \<exists>e. event_from_slice c (v_encoded v) = Some e \<and> ev_sequence e = as_u64 (v_sequence v)"
    unfolding row journal_ok_def n_def by blast
  have n: "n \<le> i64_max" using store_invD(3) [OF inv rin(1)] by (simp add: row_ok_def n_def)
  have "length (map v_sequence mine) = nat (n - b)" unfolding b(3) by simp
  then have len: "int (length mine) = n - b" using b(2) by simp
  have base: "max 1 (if mine = [] then n else Min (set (map v_sequence mine))) = b"
  proof (cases "mine = []")
    case True
    then show ?thesis using b len by simp
  next
    case False
    then have "b \<le> n - 1" using len by (cases mine) auto
    then show ?thesis using False b(1) unfolding b(3) by (simp add: Min_upto)
  qed
  let ?later = "filter (\<lambda>v. v_sequence v > uint cur) mine"
  have srt: "sort_key v_sequence ?later = ?later"
    by (rule sort_key_id_if_sorted)
      (simp add: map_filter_key [of v_sequence "\<lambda>x. x > uint cur"] b(3) filter_upto)
  have "decode_all (event_from_slice c) (map v_encoded ?later)
      = Ok (map (the \<circ> event_from_slice c) (map v_encoded ?later))"
    using dec by (intro decode_all_Some) auto
  then have "load_page c True i gen cur st = Ok (Some \<lparr>pg_base_sequence = as_u64 b, pg_next_sequence = as_u64 n,
      pg_events = (if uint cur + 1 < b then [] else map (the \<circ> event_from_slice c) (map v_encoded ?later))\<rparr>)"
    using r base b n srt unfolding mine_def n_def
    by (simp add: load_page_def Let_def as_i64_small [OF cursor] saturating_succ_less [OF cursor] as_u64_uint)
  then show ?thesis using that b n dec by blast
qed

text \<open>C14: the page after a cursor. The base sequence is the oldest retained one (the next sequence when
  nothing is retained); a cursor that lies before it gets no events, so that the gap is visible;
  every other cursor gets exactly the events numbered from the one after the cursor up to the last one,
  in order and without gaps.\<close>

theorem page_gapless:
  assumes inv: "store_inv c st" and r: "find_exec st i (as_i64 gen) = Some r"
    and cursor: "uint cur \<le> i64_max"
  shows "\<exists>p. load_page c True i gen cur st = Ok (Some p)
    \<and> uint (pg_next_sequence p) = x_next_sequence r
    \<and> 1 \<le> uint (pg_base_sequence p)
    \<and> uint (pg_next_sequence p) - uint (pg_base_sequence p) = int (length (events_of i (as_i64 gen) (st_events st)))
    \<and> map ev_sequence (pg_events p) =
        (if uint cur + 1 < uint (pg_base_sequence p) then []
         else map as_u64 [uint cur + 1..uint (pg_next_sequence p) - 1])"
proof -
  let ?mine = "events_of i (as_i64 gen) (st_events st)" and ?n = "x_next_sequence r"
  obtain b where b: "1 \<le> b" "b \<le> ?n" "?n \<le> i64_max" "map v_sequence ?mine = [b..?n - 1]"
    and dec: "\<forall>v \<in> set ?mine. \<exists>e. event_from_slice c (v_encoded v) = Some e \<and> ev_sequence e = as_u64 (v_sequence v)"
    and page: "load_page c True i gen cur st = Ok (Some \<lparr>pg_base_sequence = as_u64 b, pg_next_sequence = as_u64 ?n,
      pg_events = (if uint cur + 1 < b then []
        else map (the \<circ> event_from_slice c) (map v_encoded (filter (\<lambda>v. v_sequence v > uint cur) ?mine)))\<rparr>)"
    by (rule load_page_spec [OF assms])
  let ?later = "filter (\<lambda>v. v_sequence v > uint cur) ?mine"
  have seqs: "map v_sequence ?later = [max b (uint cur + 1)..?n - 1]"
    by (simp add: map_filter_key [of v_sequence "\<lambda>x. x > uint cur"] b(4) filter_upto)
  have "length (map v_sequence ?mine) = nat (?n - b)" unfolding b(4) by simp
  then have len: "int (length ?mine) = ?n - b" using b(2) by simp
  have "map ev_sequence (map (the \<circ> event_from_slice c) (map v_encoded ?later)) = map as_u64 (map v_sequence ?later)"
    using dec by (auto simp: comp_def)
  then show ?thesis
    using page b len by (auto simp: as_u64_uint seqs max_def)
qed

section \<open>Recovery\<close>

lemma recover_nothing: "active_rows st = [] \<Longrightarrow> recover c True now st = (Ok [], st)"
  by (simp add: recover_def active_rows_def)

lemma no_active_rows:
  assumes "store_inv c st" "\<forall>k s n. journal_view c st k = Some (s, n) \<longrightarrow> is_terminal (sn_state s)"
  shows "active_rows st = []"
proof -
  have "\<not> is_active_name (x_state r)" if "r \<in> set (st_executions st)" for r
  proof -
    from row_snapshot [OF assms(1) that] obtain s where "x_state r = state_name (sn_state s)"
      "journal_view c st (row_key r) = Some (s, x_next_sequence r)" .
    then show ?thesis using assms(2) by fastforce
  qed
  then show ?thesis by (auto simp: active_rows_def filter_empty_conv)
qed

text \<open>C17: recovery after a restart. It cannot fail in a reachable database whose storage works; it returns the
  interrupted snapshots of exactly the live generations, makes each of them durable with one more event,
  leaves every terminal generation as it was, and a second recovery finds nothing to do.\<close>

theorem recover_complete:
  assumes sok: "serde_ok c" and run: "(store_step c ^^ n) fresh_store st" and "int n < i64_max - 3"
  shows "\<exists>st'. recover c True now st = (Ok (recovered_snapshots c st), st')
    \<and> set (map snapshot_key (recovered_snapshots c st))
        = {k. \<exists>s q. journal_view c st k = Some (s, q) \<and> \<not> is_terminal (sn_state s)}
    \<and> journal_view c st' = map_option interrupt_view \<circ> journal_view c st
    \<and> recover c True now2 st' = (Ok [], st')"
proof -
  from store_run [OF sok run] assms(3) have inv: "store_inv c st"
    and room: "\<forall>k s m. journal_view c st k = Some (s, m) \<longrightarrow> m < i64_max - 1" by fastforce+
  from recover_spec [OF sok inv room, of now] obtain st' where
    st': "recover c True now st = (Ok (recovered_snapshots c st), st')" "store_inv c st'"
      "journal_view c st' = map_option interrupt_view \<circ> journal_view c st" by blast
  have "\<forall>k s n. journal_view c st' k = Some (s, n) \<longrightarrow> is_terminal (sn_state s)"
    unfolding st'(3) by (auto simp: interrupt_view_def)
  then have "recover c True now2 st' = (Ok [], st')"
    using recover_nothing no_active_rows [OF st'(2)] by blast
  moreover have "set (map row_key (active_rows st))
      = {k. \<exists>s q. journal_view c st k = Some (s, q) \<and> \<not> is_terminal (sn_state s)}" (is "?L = ?R")
  proof
    show "?L \<subseteq> ?R"
    proof
      fix k assume "k \<in> ?L"
      then obtain r where r: "r \<in> set (st_executions st)" "is_active_name (x_state r)" "k = row_key r"
        by (auto simp: active_rows_def)
      from row_snapshot [OF inv r(1)] obtain s where "x_state r = state_name (sn_state s)"
        "journal_view c st (row_key r) = Some (s, x_next_sequence r)" .
      then show "k \<in> ?R" using r by auto
    qed
    show "?R \<subseteq> ?L"
    proof
      fix k assume "k \<in> ?R"
      then obtain s q where k: "journal_view c st k = Some (s, q)" "\<not> is_terminal (sn_state s)" by blast
      then obtain r where r: "find_exec st (fst k) (snd k) = Some r" by (auto simp: journal_view_def)
      from view_row [OF inv r] obtain t where "x_state r = state_name (sn_state t)"
        "journal_view c st (fst k, snd k) = Some (t, x_next_sequence r)" .
      then have "is_active_name (x_state r)" using k by simp
      then show "k \<in> ?L" using find_exec_in [OF r] by (force simp: active_rows_def key_is_row_key)
    qed
  qed
  ultimately show ?thesis using st' recovered_keys [OF inv] by auto
qed

section \<open>Retention, leases, metrics\<close>

lemma commit_event_log:
  assumes sok: "serde_ok c" and inv: "store_inv c st" and room: "sequence_room st"
    and com: "commit_event c io now s k st = (Ok (Some e), st')"
  defines "mine \<equiv> \<lambda>st. events_of (sn_execution_id s) (as_i64 (sn_generation s)) (st_events st)"
  obtains v where "event_from_slice c (v_encoded v) = Some e" "ev_sequence e = as_u64 (v_sequence v)"
    "Some (v_sequence v) = map_option snd (journal_view c st (snapshot_key s))" "blob_length c (v_encoded v) \<le> MAX_RETAINED_EVENT_BYTES"
    "mine st' = longest_fit c (mine st @ [v])"
    "\<And>j h. (j, h) \<noteq> snapshot_key s \<Longrightarrow> events_of j h (st_events st') = events_of j h (st_events st)"
proof -
  let ?i = "sn_execution_id s" and ?g = "as_i64 (sn_generation s)"
  from commit_event_Some [OF sok inv com] obtain r snap ev where r: "find_exec st ?i ?g = Some r"
    "e = next_event r k" "snapshot_from_slice c snap = Some s" "event_from_slice c ev = Some e"
    "blob_length c ev \<le> MAX_RETAINED_EVENT_BYTES"
    "append_event c now ?i ?g (state_name (sn_state s)) (x_next_sequence r) snap ev st = Ok st'" .
  let ?v = "\<lparr>v_execution_id = ?i, v_generation = ?g, v_sequence = x_next_sequence r, v_encoded = ev\<rparr>"
  have rin: "r \<in> set (st_executions st)" "key_is ?i ?g r" using find_exec_in [OF r(1)] by auto
  have "journal_ok c r (mine st)"
    using store_invD(4) [OF inv rin(1)] rin(2) by (simp add: mine_def events_of_row_def key_is_def)
  moreover have bound: "x_next_sequence r < i64_max" using room rin(1) by (simp add: sequence_room_def)
  ultimately have sorted: "sorted_wrt (<) (map v_sequence (mine st @ [?v]))"
    using journal_ok_append(1) [of c r "mine st" ?v e "advance_row ss (x_next_sequence r) snap now r" for ss] r(2,4)
    by (simp add: next_event_def)
  have "mine st' = events_of ?i ?g (trim_events c ?i ?g (st_events st @ [?v]))"
    using r(6) [unfolded append_event_eq [OF inv r(1)]] by (auto simp: mine_def)
  also have "\<dots> = longest_fit c (mine st @ [?v])"
    using events_of_trim [of ?i ?g "st_events st @ [?v]" c] sorted
    by (simp add: mine_def events_of_def ev_key_is_def)
  finally have mine': "mine st' = longest_fit c (mine st @ [?v])" .
  have other: "events_of j h (st_events st') = events_of j h (st_events st)" if "(j, h) \<noteq> snapshot_key s" for j h
    using append_event_view(2) [OF inv r(1) bound r(3,6)] that by (simp add: snapshot_key_def)
  show ?thesis
    by (rule that [OF _ _ _ _ mine' other]) (use r in \<open>simp_all add: next_event_def journal_view_def snapshot_key_def\<close>)
qed

text \<open>C19: a committed event takes the execution's next sequence number, and the events retained afterwards are
  the longest suffix of the old ones followed by the new one that respects both retention limits; the new
  event is always among them.\<close>

theorem commit_retention:
  assumes sok: "serde_ok c" and inv: "store_inv c st" and room: "sequence_room st"
    and com: "commit_event c io now s k st = (Ok (Some e), st')"
  defines "mine \<equiv> \<lambda>st. events_of (sn_execution_id s) (as_i64 (sn_generation s)) (st_events st)"
  shows "\<exists>v. event_from_slice c (v_encoded v) = Some e \<and> ev_sequence e = as_u64 (v_sequence v)
    \<and> Some (v_sequence v) = map_option snd (journal_view c st (snapshot_key s))
    \<and> suffix (mine st') (mine st @ [v]) \<and> suffix [v] (mine st') \<and> events_fit c (mine st')
    \<and> (\<forall>ws. suffix ws (mine st @ [v]) \<longrightarrow> events_fit c ws \<longrightarrow> suffix ws (mine st'))"
proof -
  from commit_event_log [OF sok inv room com] obtain v where
    v: "event_from_slice c (v_encoded v) = Some e" "ev_sequence e = as_u64 (v_sequence v)"
      "Some (v_sequence v) = map_option snd (journal_view c st (snapshot_key s))"
      "blob_length c (v_encoded v) \<le> MAX_RETAINED_EVENT_BYTES" and mine': "mine st' = longest_fit c (mine st @ [v])" unfolding mine_def by blast
  from longest_fit_snoc [of c v "mine st"] v(4) have "suffix [v] (mine st')"
    unfolding mine' by (auto simp: suffix_def)
  then show ?thesis
    using longest_fit_fits longest_fit_suffix longest_fit_maximal v
    unfolding mine' by (intro exI [of _ v] conjI allI impI) (simp_all del: suffix_snoc)
qed

text \<open>C22: a granted renewal is for a live lease of a live execution with the right token and never shortens the
  lease; repeating it with the same renewal id, whatever expiry is asked for, returns the same expiry and
  changes nothing.\<close>

theorem lease_renewal:
  assumes "distinct (map row_key (st_executions st))"
    and ren: "update_lease io now now2 i gen lh rid le st = (Ok (Some e), st')"
  shows "\<exists>r r'. find_exec st i (as_i64 gen) = Some r \<and> x_lease_token_hash r = lh
    \<and> \<not> is_terminal_name (x_state r) \<and> now < x_lease_expires r \<and> x_lease_expires r \<le> e
    \<and> find_exec st' i (as_i64 gen) = Some r' \<and> x_lease_expires r' = e
    \<and> (\<forall>later later2 le2. later < e \<longrightarrow>
         update_lease True later later2 i gen lh rid le2 st' = (Ok (Some e), st'))"
proof -
  let ?g = "as_i64 gen"
  from ren obtain r where r: "find_exec st i ?g = Some r" "x_lease_token_hash r = lh"
    "\<not> is_terminal_name (x_state r)" "now < x_lease_expires r"
    by (auto simp: update_lease_def Let_def split: if_splits option.splits)
  show ?thesis
  proof (cases "x_last_renewal_id r = Some rid")
    case True
    then have "e = x_lease_expires r" "st' = st"
      using ren r by (auto simp: update_lease_def Let_def split: if_splits)
    then show ?thesis using r True by (auto simp: update_lease_def Let_def)
  next
    case False
    let ?f = "renew_row i ?g lh rid e now2"
    from False ren r have e: "e = max (x_lease_expires r) le"
      "st' = st\<lparr>st_executions := map ?f (st_executions st)\<rparr>"
      by (auto simp: update_lease_def Let_def renew_row_def split: if_splits)
    have f: "find_exec st' i ?g = Some (?f r)"
      unfolding e(2) by (simp add: lease_only_find [OF renew_row_lease_only] r(1))
    have "?f r = r\<lparr>x_lease_expires := e, x_last_renewal_id := Some rid, x_updated := now2\<rparr>"
      using find_exec_in [OF r(1)] r(2) by (simp add: renew_row_def)
    then show ?thesis using f r e(1) by (auto simp: update_lease_def Let_def)
  qed
qed

definition metric_value :: "string \<Rightarrow> (string \<times> int) list \<Rightarrow> int" where
  "metric_value n ms = (case map_of ms n of None \<Rightarrow> 0 | Some v \<Rightarrow> v)"

definition metrics_ok :: "(string \<times> int) list \<Rightarrow> bool" where
  "metrics_ok ms \<longleftrightarrow> (\<forall>(n, v) \<in> set ms. 0 \<le> v \<and> v \<le> i64_max)"

lemma upsert_metric_spec:
  assumes "metrics_ok ms" "0 \<le> a" "a \<le> i64_max"
  shows "metrics_ok (upsert_metric n a ms)"
    and "metric_value m (upsert_metric n a ms) =
      (if m = n then min i64_max (metric_value m ms + a) else metric_value m ms)"
  using assms by (induction ms) (auto simp: metrics_ok_def metric_value_def split: if_splits)

lemma metric_value_range: "metrics_ok ms \<Longrightarrow> 0 \<le> metric_value n ms \<and> metric_value n ms \<le> i64_max"
  by (auto simp: metrics_ok_def metric_value_def i64_max_def split: option.split dest: map_of_SomeD)

lemma fold_upsert_spec:
  "metrics_ok ms \<Longrightarrow>
     metrics_ok (fold (\<lambda>(n, a). upsert_metric n (min (uint a) i64_max)) ds ms)
     \<and> metric_value m (fold (\<lambda>(n, a). upsert_metric n (min (uint a) i64_max)) ds ms)
       = min i64_max (metric_value m ms + (\<Sum>(n, a) \<leftarrow> ds. if n = m then uint (a :: u64) else 0))"
proof (induction ds arbitrary: ms)
  case Nil
  then show ?case using metric_value_range [of ms m] by simp
next
  case (Cons d ds)
  obtain n a where d: "d = (n, a)" by force
  let ?a = "min (uint a) i64_max" and ?S = "\<Sum>(n, a) \<leftarrow> ds. if n = m then uint (a :: u64) else 0"
  have a: "0 \<le> ?a" "?a \<le> i64_max" by (simp_all add: i64_max_def)
  have "0 \<le> ?S" by (induction ds) auto
  with metric_value_range [OF Cons.prems, of m] have
    "min i64_max (min i64_max (metric_value m ms + ?a) + ?S) = min i64_max (metric_value m ms + (uint a + ?S))"
    using uint_ge_0 [of a] by linarith
  then show ?case
    using Cons.IH [OF upsert_metric_spec(1) [OF Cons.prems a, of n]] upsert_metric_spec(2) [OF Cons.prems a, of m n]
    by (cases "m = n") (simp_all add: d add.assoc)
qed

text \<open>a batch of metric increments adds, per counter, all its deltas, saturating at the largest \<^verbatim>\<open>i64\<close>; a
  batch with an invalid name changes nothing.\<close>

theorem metrics_saturate:
  assumes "metrics_ok (st_metrics st)"
  shows "case increment_metrics True ds st of
      (Inl e, st') \<Rightarrow> e = InvalidEvent \<and> st' = st \<and> (\<exists>(n, a) \<in> set ds. n = [] \<or> 64 < length n)
    | (Inr _, st') \<Rightarrow> (\<forall>(n, a) \<in> set ds. n \<noteq> [] \<and> length n \<le> 64)
        \<and> (\<exists>ms. st' = st\<lparr>st_metrics := ms\<rparr> \<and> metrics_ok ms
            \<and> (\<forall>m. metric_value m ms
                 = min i64_max (metric_value m (st_metrics st) + (\<Sum>(n, a) \<leftarrow> ds. if n = m then uint a else 0))))"
proof (cases "list_ex (\<lambda>(n, _). n = [] \<or> length n > 64) ds")
  case True
  then show ?thesis by (auto simp: increment_metrics_def list_ex_iff)
next
  case False
  let ?ms = "fold (\<lambda>(n, a). upsert_metric n (min (uint a) i64_max)) ds (st_metrics st)"
  have "increment_metrics True ds st = (Ok (), st\<lparr>st_metrics := ?ms\<rparr>)"
    using False by (simp add: increment_metrics_def)
  moreover have "\<forall>(n, a) \<in> set ds. n \<noteq> [] \<and> length n \<le> 64" using False by (auto simp: list_ex_iff)
  ultimately show ?thesis using fold_upsert_spec [OF assms, where ds = ds] by auto
qed

section \<open>A sample database\<close>

text \<open>A coding that round-trips (the blob is the value itself), and two steps of one execution.\<close>

definition sample_serde :: "(ExecutionSnapshot + ExecutionEvent) serde" where
  "sample_serde = \<lparr>snapshot_to_vec = \<lambda>s. Some (Inl s), snapshot_from_slice = \<lambda>b. (case b of Inl s \<Rightarrow> Some s | Inr _ \<Rightarrow> None),
     event_to_vec = \<lambda>e. Some (Inr e), event_from_slice = \<lambda>b. (case b of Inl _ \<Rightarrow> None | Inr e \<Rightarrow> Some e),
     blob_length = \<lambda>_. 1\<rparr>"

definition sample_snapshot :: "ExecutionState \<Rightarrow> ExecutionSnapshot" where
  "sample_snapshot s = \<lparr>sn_schema_version = 1, sn_execution_id = ''e'', sn_generation = 1, sn_state = s,
     sn_result = None\<rparr>"

definition sample_row :: "ExecutionState \<Rightarrow> int \<Rightarrow> (ExecutionSnapshot + ExecutionEvent) exec_row" where
  "sample_row s n = \<lparr>x_execution_id = ''e'', x_generation = 1, x_canonical_version = 3, x_digest = ''d'',
     x_principal_id = ''p'', x_lease_token_hash = ''h'', x_lease_expires = 9, x_last_renewal_id = None,
     x_state = state_name s, x_next_sequence = n, x_snapshot = Inl (sample_snapshot s), x_created = 0, x_updated = 0\<rparr>"

definition sample_event :: ExecutionEvent where
  "sample_event = \<lparr>ev_sequence = 1, ev_kind = EvState Succeeded, ev_metadata = []\<rparr>"

definition sample_store1 :: "(ExecutionSnapshot + ExecutionEvent) ExecutionStore" where
  "sample_store1 = \<lparr>st_executions = [sample_row Accepted 1], st_events = [], st_metrics = []\<rparr>"

definition sample_store2 :: "(ExecutionSnapshot + ExecutionEvent) ExecutionStore" where
  "sample_store2 = \<lparr>st_executions = [sample_row Succeeded 2],
     st_events = [\<lparr>v_execution_id = ''e'', v_generation = 1, v_sequence = 1, v_encoded = Inr sample_event\<rparr>],
     st_metrics = []\<rparr>"

lemmas sample_defs = sample_serde_def sample_snapshot_def sample_row_def sample_event_def sample_store1_def
  sample_store2_def

lemma sample_serde_ok: "serde_ok sample_serde"
  by (simp add: serde_ok_def sample_serde_def)

lemma as_i64_one [simp]: "as_i64 1 = 1"
  by (simp add: as_i64_small i64_max_def)

lemma sample_reserve:
  "reserve sample_serde True 0 (sample_snapshot Accepted) 3 ''d'' ''p'' ''h'' 9 fresh_store = (Ok Created, sample_store1)"
  by (simp add: reserve_def sample_defs ExecutionStore_open_def find_exec_def newest_def MAX_EXECUTION_IDENTITIES_def)

lemma sample_commit:
  "commit_event sample_serde True 0 (sample_snapshot Succeeded) (EvState Succeeded) sample_store1
     = (Ok (Some sample_event), sample_store2)"
  by (simp add: commit_event_def sample_defs find_exec_def key_is_def is_terminal_name_def as_u64_def
      ExecutionEvent_validate_def EventMetadata_validate_def MAX_METADATA_COUNT_def MAX_EVENT_CHUNK_BYTES_def
      MAX_RETAINED_EVENT_BYTES_def MAX_EVENT_BYTES_def append_event_def update_exec_def wrap_i64_def
      trim_events.simps events_fit_def events_of_def ev_key_is_def MAX_RETAINED_EVENTS_def event_payload_len_def Let_def)

lemma sample_run1: "(store_step sample_serde ^^ 1) fresh_store sample_store1"
  using step_reserve [OF sample_reserve] by (simp add: eq_OO)

lemma sample_run2: "(store_step sample_serde ^^ 2) fresh_store sample_store2"
  using step_reserve [OF sample_reserve] step_commit [OF sample_commit] by (auto simp: numeral_2_eq_2)

lemma sample_find1: "find_exec sample_store1 ''e'' 1 = Some (sample_row Accepted 1)"
  by (simp add: find_exec_def sample_store1_def sample_row_def key_is_def)

lemma sample_find2: "find_exec sample_store2 ''e'' 1 = Some (sample_row Succeeded 2)"
  by (simp add: find_exec_def sample_store2_def sample_row_def key_is_def)

lemma sample_view1: "journal_view sample_serde sample_store1 (''e'', 1) = Some (sample_snapshot Accepted, 1)"
  by (simp add: journal_view_def sample_find1) (simp add: sample_row_def sample_serde_def)

lemma sample_view2: "journal_view sample_serde sample_store2 (''e'', 1) = Some (sample_snapshot Succeeded, 2)"
  by (simp add: journal_view_def sample_find2) (simp add: sample_row_def sample_serde_def)

lemma sample_inv: "store_inv sample_serde sample_store1" "store_inv sample_serde sample_store2"
  using store_run [OF sample_serde_ok sample_run1] store_run [OF sample_serde_ok sample_run2]
  by (simp_all add: i64_max_def)

section \<open>The properties at the sample\<close>

theorem store_refines_journal_witness:
  "(store_step sample_serde ^^ 2) fresh_store sample_store2 \<and> store_inv sample_serde sample_store2
   \<and> (journal_step ^^ 2) (\<lambda>_. None) (journal_view sample_serde sample_store2)"
  using store_refines_journal [OF sample_serde_ok sample_run2] sample_run2 by (simp add: i64_max_def)

theorem terminal_frozen_witness:
  "\<exists>st'. store_step sample_serde sample_store2 st'
    \<and> journal_view sample_serde st' (''e'', 1) = Some (sample_snapshot Succeeded, 2)"
proof -
  have step: "store_step sample_serde sample_store2 (ExecutionStore_open (Some sample_store2))" by (rule step_open)
  have "(store_step sample_serde ^^ 1) sample_store2 (ExecutionStore_open (Some sample_store2))"
    using step by (simp add: eq_OO)
  from terminal_frozen [OF sample_serde_ok sample_run2 this _ sample_view2] step show ?thesis
    by (auto simp: i64_max_def sample_snapshot_def is_terminal_def)
qed

theorem admitted_once_witness:
  "reserve sample_serde True 5 (sample_snapshot Accepted) 3 ''other'' ''p'' ''h'' 9 sample_store2
     = (Ok Conflict, sample_store2)
   \<and> reserve sample_serde True 5 (sample_snapshot Accepted) 3 ''d'' ''p'' ''h'' 9 sample_store2
     = (Ok (Existing (sample_snapshot Succeeded)), sample_store2)"
proof -
  have "(store_step sample_serde ^^ 1) sample_store1 sample_store2"
    using step_commit [OF sample_commit] by (simp add: eq_OO)
  note once = admitted_once [OF sample_serde_ok _ sample_reserve this, where n = 0 and s' = "sample_snapshot Accepted"]
  have "snapshot_key (sample_snapshot Accepted) = (''e'', 1)" by (simp add: snapshot_key_def sample_snapshot_def)
  then show ?thesis using once by (simp add: i64_max_def sample_view2)
qed

lemma sample_second_generation:
  "\<exists>st r. reserve sample_serde True 0 (sample_snapshot Accepted\<lparr>sn_generation := 2\<rparr>) 3 ''d'' ''p'' ''h'' 9 sample_store2
     = (Ok Created, st) \<and> find_exec st ''e'' 2 = Some r"
  by (simp add: reserve_def Let_def sample_defs as_i64_def find_exec_def key_is_def newest_def wrap_i64_def
      is_terminal_name_def MAX_EXECUTION_IDENTITIES_def)

theorem one_live_generation_witness:
  "\<exists>st r p. find_exec st ''e'' 2 = Some (r :: (ExecutionSnapshot + ExecutionEvent) exec_row)
    \<and> find_exec st ''e'' 1 = Some p \<and> is_terminal_name (x_state p)"
proof -
  from sample_second_generation obtain st r where
    st: "reserve sample_serde True 0 (sample_snapshot Accepted\<lparr>sn_generation := 2\<rparr>) 3 ''d'' ''p'' ''h'' 9 sample_store2
      = (Ok Created, st)" "find_exec st ''e'' 2 = Some r" by blast
  have "(store_step sample_serde ^^ 3) fresh_store st"
    using sample_run2 step_reserve [OF st(1)] by (auto simp: numeral_3_eq_3 numeral_2_eq_2)
  from one_live_generation [OF sample_serde_ok this _ st(2)] st(2) show ?thesis
    by (auto simp: i64_max_def)
qed

theorem page_gapless_witness:
  "\<exists>p. load_page sample_serde True ''e'' 1 0 sample_store2 = Ok (Some p) \<and> map ev_sequence (pg_events p) = [1]"
proof -
  from page_gapless [OF sample_inv(2), of "''e''" 1 "sample_row Succeeded 2" 0] obtain p where
    p: "load_page sample_serde True ''e'' 1 0 sample_store2 = Ok (Some p)" "uint (pg_next_sequence p) = 2"
      "uint (pg_next_sequence p) - uint (pg_base_sequence p) = int (length (events_of ''e'' 1 (st_events sample_store2)))"
      "map ev_sequence (pg_events p) = (if uint (0 :: u64) + 1 < uint (pg_base_sequence p) then []
         else map as_u64 [uint (0 :: u64) + 1..uint (pg_next_sequence p) - 1])"
    by (auto simp: sample_find2 i64_max_def) (auto simp: sample_row_def)
  moreover have "length (events_of ''e'' 1 (st_events sample_store2)) = 1"
    by (simp add: sample_store2_def events_of_def ev_key_is_def)
  ultimately show ?thesis by (auto simp: as_u64_def)
qed

theorem recover_complete_witness:
  "\<exists>st'. recover sample_serde True 0 sample_store1 = (Ok (recovered_snapshots sample_serde sample_store1), st')
    \<and> map_option (sn_state \<circ> fst) (journal_view sample_serde st' (''e'', 1)) = Some Interrupted
    \<and> recover sample_serde True 1 st' = (Ok [], st')"
proof -
  from recover_complete [OF sample_serde_ok sample_run1, of 0 1] obtain st' where
    "recover sample_serde True 0 sample_store1 = (Ok (recovered_snapshots sample_serde sample_store1), st')"
    "journal_view sample_serde st' = map_option interrupt_view \<circ> journal_view sample_serde sample_store1"
    "recover sample_serde True 1 st' = (Ok [], st')" by (auto simp: i64_max_def)
  then show ?thesis
    by (simp add: sample_view1 interrupt_view_def) (simp add: sample_snapshot_def is_terminal_def)
qed

theorem commit_retention_witness:
  "commit_event sample_serde True 0 (sample_snapshot Succeeded) (EvState Succeeded) sample_store1
     = (Ok (Some sample_event), sample_store2)
   \<and> events_fit sample_serde (events_of ''e'' 1 (st_events sample_store2))"
proof -
  have "sequence_room sample_store1" by (simp add: sequence_room_def sample_store1_def sample_row_def i64_max_def)
  from commit_retention [OF sample_serde_ok sample_inv(1) this sample_commit]
  have "events_fit sample_serde (events_of (sn_execution_id (sample_snapshot Succeeded))
      (as_i64 (sn_generation (sample_snapshot Succeeded))) (st_events sample_store2))" by blast
  then show ?thesis using sample_commit by (simp add: sample_snapshot_def)
qed

theorem lease_renewal_witness:
  "\<exists>st'. update_lease True 1 2 ''e'' 1 ''h'' ''r'' 20 sample_store1 = (Ok (Some 20), st')
    \<and> update_lease True 3 4 ''e'' 1 ''h'' ''r'' 99 st' = (Ok (Some 20), st')"
proof -
  have "\<exists>st'. update_lease True 1 2 ''e'' 1 ''h'' ''r'' 20 sample_store1 = (Ok (Some 20), st')"
    by (simp add: update_lease_def sample_find1) (simp add: sample_row_def is_terminal_name_def)
  then obtain st' where st': "update_lease True 1 2 ''e'' 1 ''h'' ''r'' 20 sample_store1 = (Ok (Some 20), st')" by blast
  have "distinct (map row_key (st_executions sample_store1))" by (simp add: sample_store1_def)
  from lease_renewal [OF this st'] st' show ?thesis by auto
qed

theorem metrics_saturate_witness:
  "metrics_ok (st_metrics sample_store1)
   \<and> (case increment_metrics True [(''m'', 2), (''m'', 3)] sample_store1 of
        (Inl _, _) \<Rightarrow> False | (Inr _, st') \<Rightarrow> metric_value ''m'' (st_metrics st') = 5)"
proof -
  have ok: "metrics_ok (st_metrics sample_store1)" by (simp add: metrics_ok_def sample_store1_def)
  from metrics_saturate [OF ok, of "[(''m'', 2), (''m'', 3)]"] ok show ?thesis
    by (auto split: prod.splits sum.splits simp: metric_value_def sample_store1_def i64_max_def)
qed

end
