(* ===== verification/Blob.thy ===== *)
theory Blob
  imports Core_Types
begin

text \<open>
  The content-addressed blob store of \<^verbatim>\<open>crates/eggwork-server/src/blob.rs\<close>: the two SQLite tables
  (\<^verbatim>\<open>blobs\<close> with its reference count kept by triggers, \<^verbatim>\<open>blob_references\<close> with a cascading foreign key)
  and the files under the store's root. A file is keyed by its directory and name below the root. SHA-256
  is a parameter \<open>sha\<close> (hex of the digest); which system calls and statements succeed is an argument of
  each operation, as are the clock and the random names.
\<close>

section \<open>State\<close>

definition MAX_BLOB_BYTES :: nat where "MAX_BLOB_BYTES = 256 * 1024 * 1024"
definition MAX_FIND_DIGESTS :: nat where "MAX_FIND_DIGESTS = 512"
definition FIND_CHUNK :: nat where "FIND_CHUNK = 256"

datatype BlobError =
    BlobTooLarge | BlobQuotaExceeded | BlobLengthMismatch | BlobDigestMismatch | BlobCorruptExisting
  | BlobNotFound | BlobTooManyDigests | BlobIo | BlobMetadata | BlobBody | BlobWorker

record GcReport =
  gc_expired_references :: nat
  gc_expired_references_removed :: nat
  gc_candidate_blobs :: nat
  gc_candidate_bytes :: u64
  gc_removed_blobs :: nat
  gc_removed_bytes :: u64

record blob_row =
  b_digest :: string
  b_size :: int
  b_reference_count :: int
  b_last_used :: int

record ref_row =
  f_kind :: string
  f_owner :: string
  f_digest :: string
  f_expires :: "int option"

type_synonym file_key = "string \<times> string"

record BlobStore =
  bs_quota :: u64
  bs_rows :: "blob_row list"
  bs_refs :: "ref_row list"
  bs_files :: "file_key \<rightharpoonup> u8 list"
  bs_parts :: "string \<rightharpoonup> u8 list"

definition path_for :: "BlobDigest \<Rightarrow> file_key" where
  "path_for d = (take 2 d, d)"

section \<open>Statements on the tables\<close>

definition find_blob :: "string \<Rightarrow> BlobStore \<Rightarrow> blob_row option" where
  "find_blob d st = List.find (\<lambda>r. b_digest r = d) (bs_rows st)"

definition refers :: "string \<Rightarrow> BlobStore \<Rightarrow> bool" where
  "refers d st \<longleftrightarrow> (\<exists>v \<in> set (bs_refs st). f_digest v = d)"

text \<open>\<^verbatim>\<open>DELETE FROM blobs WHERE digest = ..\<close> with \<^verbatim>\<open>ON DELETE CASCADE\<close>.\<close>

definition delete_blob :: "string \<Rightarrow> BlobStore \<Rightarrow> BlobStore" where
  "delete_blob d st = st\<lparr>bs_rows := filter (\<lambda>r. b_digest r \<noteq> d) (bs_rows st),
     bs_refs := filter (\<lambda>v. f_digest v \<noteq> d) (bs_refs st)\<rparr>"

text \<open>The two triggers, for one inserted or deleted reference.\<close>

definition count_reference :: "string \<Rightarrow> blob_row list \<Rightarrow> blob_row list" where
  "count_reference d rows =
     map (\<lambda>r. if b_digest r = d then r\<lparr>b_reference_count := b_reference_count r + 1\<rparr> else r) rows"

definition uncount_reference :: "string \<Rightarrow> blob_row list \<Rightarrow> blob_row list" where
  "uncount_reference d rows =
     map (\<lambda>r. if b_digest r = d then r\<lparr>b_reference_count := max 0 (b_reference_count r - 1)\<rparr> else r) rows"

definition ref_is :: "string \<Rightarrow> string \<Rightarrow> string \<Rightarrow> ref_row \<Rightarrow> bool" where
  "ref_is k w d v \<longleftrightarrow> f_kind v = k \<and> f_owner v = w \<and> f_digest v = d"

definition upsert_reference :: "string \<Rightarrow> string \<Rightarrow> string \<Rightarrow> int option \<Rightarrow> BlobStore \<Rightarrow> BlobStore" where
  "upsert_reference k w d e st =
     (if \<exists>v \<in> set (bs_refs st). ref_is k w d v
      then st\<lparr>bs_refs := map (\<lambda>v. if ref_is k w d v then v\<lparr>f_expires := e\<rparr> else v) (bs_refs st)\<rparr>
      else st\<lparr>bs_refs := bs_refs st @ [\<lparr>f_kind = k, f_owner = w, f_digest = d, f_expires = e\<rparr>],
              bs_rows := count_reference d (bs_rows st)\<rparr>)"

definition delete_references :: "(ref_row \<Rightarrow> bool) \<Rightarrow> BlobStore \<Rightarrow> BlobStore" where
  "delete_references P st =
     st\<lparr>bs_refs := filter (\<lambda>v. \<not> P v) (bs_refs st),
        bs_rows := fold (\<lambda>v. uncount_reference (f_digest v)) (filter P (bs_refs st)) (bs_rows st)\<rparr>"

section \<open>Queries and references\<close>

definition find_missing :: "bool \<Rightarrow> BlobDigest list \<Rightarrow> BlobStore \<Rightarrow> BlobError + BlobDigest list" where
  "find_missing io digests st =
     (if length digests > MAX_FIND_DIGESTS then Err BlobTooManyDigests
      else if \<not> io then Err BlobMetadata
      else
        let present = fold (\<lambda>chunk present. present \<union> {d \<in> set (map b_digest (bs_rows st)). d \<in> set chunk})
                        (chunks FIND_CHUNK digests) {}
        in Ok (filter (\<lambda>d. d \<notin> present) digests))"

text \<open>\<^verbatim>\<open>SUM(size_bytes)\<close>; past \<^verbatim>\<open>i64::MAX\<close> the statement fails.\<close>

definition used_bytes :: "BlobStore \<Rightarrow> BlobError + int" where
  "used_bytes st =
     (let s = sum_list (map b_size (bs_rows st)) in if s > i64_max then Err BlobMetadata else Ok s)"

definition over_quota :: "int \<Rightarrow> u64 \<Rightarrow> BlobStore \<Rightarrow> bool" where
  "over_quota used declared st \<longleftrightarrow> u64_saturating_add (of_int (max 0 used)) declared > bs_quota st"

definition stored_size :: "bool \<Rightarrow> BlobDigest \<Rightarrow> BlobStore \<Rightarrow> BlobError + u64" where
  "stored_size io d st =
     (if \<not> io then Err BlobMetadata
      else case find_blob d st of None \<Rightarrow> Err BlobNotFound | Some r \<Rightarrow> Ok (of_int (max 0 (b_size r))))"

definition retain_one ::
  "string \<Rightarrow> string \<Rightarrow> BlobDigest \<Rightarrow> u64 option \<Rightarrow> BlobStore \<Rightarrow> BlobError + BlobStore" where
  "retain_one k w d e st =
     (if find_blob d st = None then Err BlobNotFound
      else Ok (upsert_reference k w d (map_option as_i64 e) st))"

fun retain_all ::
  "string \<Rightarrow> u64 option \<Rightarrow> (string \<times> BlobDigest) list \<Rightarrow> BlobStore \<Rightarrow> BlobError + BlobStore" where
  "retain_all k e [] st = Ok st"
| "retain_all k e ((w, d) # es) st = and_then (retain_one k w d e st) (retain_all k e es)"

definition retain_per_owner ::
  "bool \<Rightarrow> string \<Rightarrow> (string \<times> BlobDigest) list \<Rightarrow> u64 option \<Rightarrow> BlobStore
     \<Rightarrow> (BlobError + unit) \<times> BlobStore" where
  "retain_per_owner io k entries e st =
     (if entries = [] then (Ok (), st)
      else if \<not> io then (Err BlobMetadata, st)
      else case retain_all k e entries st of Inl err \<Rightarrow> (Err err, st) | Inr st' \<Rightarrow> (Ok (), st'))"

definition retain ::
  "bool \<Rightarrow> string \<Rightarrow> string \<Rightarrow> BlobDigest list \<Rightarrow> u64 option \<Rightarrow> BlobStore
     \<Rightarrow> (BlobError + unit) \<times> BlobStore" where
  "retain io k w digests e st =
     (if \<not> io then (Err BlobMetadata, st)
      else case retain_all k e (map (Pair w) digests) st of
        Inl err \<Rightarrow> (Err err, st) | Inr st' \<Rightarrow> (Ok (), st'))"

definition update_expiry :: "string \<Rightarrow> string \<Rightarrow> int option \<Rightarrow> BlobStore \<Rightarrow> BlobStore" where
  "update_expiry k w e st =
     st\<lparr>bs_refs := map (\<lambda>v. if f_kind v = k \<and> f_owner v = w then v\<lparr>f_expires := e\<rparr> else v) (bs_refs st)\<rparr>"

definition set_reference_expiry ::
  "bool \<Rightarrow> string \<Rightarrow> string \<Rightarrow> u64 \<Rightarrow> BlobStore \<Rightarrow> (BlobError + unit) \<times> BlobStore" where
  "set_reference_expiry io k w e st =
     (if \<not> io then (Err BlobMetadata, st) else (Ok (), update_expiry k w (Some (as_i64 e)) st))"

definition clear_reference_expiry ::
  "bool \<Rightarrow> string \<Rightarrow> string \<Rightarrow> BlobStore \<Rightarrow> (BlobError + unit) \<times> BlobStore" where
  "clear_reference_expiry io k w st =
     (if \<not> io then (Err BlobMetadata, st) else (Ok (), update_expiry k w None st))"

definition release_references ::
  "bool \<Rightarrow> string \<Rightarrow> string \<Rightarrow> BlobStore \<Rightarrow> (BlobError + unit) \<times> BlobStore" where
  "release_references io k w st =
     (if \<not> io then (Err BlobMetadata, st)
      else (Ok (), delete_references (\<lambda>v. f_kind v = k \<and> f_owner v = w) st))"

definition reference_owners ::
  "bool \<Rightarrow> string \<Rightarrow> string option \<Rightarrow> nat \<Rightarrow> BlobStore \<Rightarrow> BlobError + string list" where
  "reference_owners io k resume limit st =
     (if \<not> io then Err BlobMetadata
      else Ok (take limit (sort (remdups (map f_owner (filter
             (\<lambda>v. f_kind v = k \<and> (case resume of None \<Rightarrow> True | Some a \<Rightarrow> a < f_owner v)) (bs_refs st)))))))"

section \<open>Garbage collection\<close>

text \<open>
  \<^verbatim>\<open>SELECT\<close> without \<^verbatim>\<open>ORDER BY\<close>, and ties of an \<^verbatim>\<open>ORDER BY\<close>, come in an order SQLite does not specify: the
  arguments \<open>row_order\<close> and \<open>ref_order\<close> arrange the rows before the limit is applied.
\<close>

definition unreferenced_candidates ::
  "(blob_row list \<Rightarrow> blob_row list) \<Rightarrow> nat \<Rightarrow> BlobStore \<Rightarrow> (string \<times> u64) list" where
  "unreferenced_candidates row_order limit st =
     map (\<lambda>r. (b_digest r, of_int (max 0 (b_size r))))
       (take limit (sort_key b_last_used (filter (\<lambda>r. \<not> refers (b_digest r) st) (row_order (bs_rows st)))))"

definition expired :: "int \<Rightarrow> ref_row \<Rightarrow> bool" where
  "expired now v \<longleftrightarrow> (case f_expires v of None \<Rightarrow> False | Some e \<Rightarrow> e \<le> now)"

text \<open>One file at a time: gone already, unlinked, or an error that ends the loop with what is true so far.\<close>

fun unlink_candidates ::
  "(string \<Rightarrow> bool) \<Rightarrow> (string \<times> u64) list \<Rightarrow> nat \<times> u64 \<times> BlobStore \<Rightarrow> bool \<times> nat \<times> u64 \<times> BlobStore" where
  "unlink_candidates ok [] (n, bytes, st) = (True, n, bytes, st)"
| "unlink_candidates ok ((d, sz) # cs) (n, bytes, st) =
     (case BlobDigest_parse d of
        Inl _ \<Rightarrow> unlink_candidates ok cs (n, bytes, st)
      | Inr _ \<Rightarrow>
          let gone = (if refers d st then st else delete_blob d st) in
          (case bs_files st (path_for d) of
             None \<Rightarrow> unlink_candidates ok cs (n, bytes, gone)
           | Some _ \<Rightarrow>
               if ok d
               then unlink_candidates ok cs
                 (n + 1, u64_saturating_add bytes sz, gone\<lparr>bs_files := (bs_files st)(path_for d := None)\<rparr>)
               else (False, n, bytes, st)))"

definition blob_garbage_collect ::
  "bool \<Rightarrow> (string \<Rightarrow> bool) \<Rightarrow> (blob_row list \<Rightarrow> blob_row list) \<Rightarrow> (ref_row list \<Rightarrow> ref_row list)
     \<Rightarrow> u64 \<Rightarrow> nat \<Rightarrow> bool \<Rightarrow> BlobStore \<Rightarrow> (BlobError + GcReport) \<times> BlobStore" where
  "blob_garbage_collect io unlink_ok row_order ref_order now limit dry_run st =
     (if \<not> io then (Err BlobMetadata, st)
      else
        let dead = filter (expired (as_i64 now)) (ref_order (bs_refs st));
            report = \<lambda>removed_refs candidates n bytes.
              \<lparr>gc_expired_references = length dead, gc_expired_references_removed = removed_refs,
               gc_candidate_blobs = length candidates,
               gc_candidate_bytes = foldl (\<lambda>s c. u64_saturating_add s (snd c)) 0 candidates,
               gc_removed_blobs = n, gc_removed_bytes = bytes\<rparr>
        in
        if dry_run then (Ok (report 0 (unreferenced_candidates row_order limit st) 0 0), st)
        else
          let removed = take limit dead;
              st1 = delete_references (\<lambda>v. v \<in> set removed) st;
              candidates = unreferenced_candidates row_order limit st1
          in
          (case unlink_candidates unlink_ok candidates (0, 0, st1) of
             (unlinked, n, bytes, st2) \<Rightarrow>
               if unlinked then (Ok (report (length removed) candidates n bytes), st2)
               else (Err BlobIo, st2)))"

section \<open>Verification and upload\<close>

record verify_io =
  vi_query :: bool
  vi_read :: bool
  vi_rename :: bool
  vi_update :: bool
  vi_now :: int
  vi_uuid :: string

definition is_corrupt :: "(u8 list \<Rightarrow> string) \<Rightarrow> BlobDigest \<Rightarrow> int \<Rightarrow> u8 list \<Rightarrow> bool" where
  "is_corrupt sha d expected content \<longleftrightarrow>
     (of_nat (length content) :: u64) \<noteq> of_int expected \<or> sha content \<noteq> d"

definition verify_existing ::
  "(u8 list \<Rightarrow> string) \<Rightarrow> verify_io \<Rightarrow> BlobDigest \<Rightarrow> BlobStore \<Rightarrow> (BlobError + unit) \<times> BlobStore" where
  "verify_existing sha io d st =
     (if \<not> vi_query io then (Err BlobMetadata, st)
      else case find_blob d st of
        None \<Rightarrow> (Err BlobNotFound, st)
      | Some r \<Rightarrow>
          (case bs_files st (path_for d) of
             None \<Rightarrow> (Err BlobIo, st)
           | Some content \<Rightarrow>
               if \<not> vi_read io then (Err BlobIo, st)
               else if is_corrupt sha d (b_size r) content then
                 if \<not> vi_rename io then (Err BlobIo, st)
                 else
                   let st1 = st\<lparr>bs_files := (bs_files st)(path_for d := None,
                                 (''quarantine'', d @ ''-'' @ vi_uuid io) \<mapsto> content)\<rparr> in
                   if \<not> vi_update io then (Err BlobMetadata, st1)
                   else (Err BlobCorruptExisting, delete_blob d st1)
               else if \<not> vi_update io then (Err BlobMetadata, st)
               else (Ok (), st\<lparr>bs_rows :=
                 map (\<lambda>r. if b_digest r = d then r\<lparr>b_last_used := vi_now io\<rparr> else r) (bs_rows st)\<rparr>)))"

definition open_verified ::
  "(u8 list \<Rightarrow> string) \<Rightarrow> verify_io \<Rightarrow> bool \<Rightarrow> BlobDigest \<Rightarrow> BlobStore \<Rightarrow> (BlobError + u8 list) \<times> BlobStore" where
  "open_verified sha io opened d st =
     (case verify_existing sha io d st of
        (Inl e, st') \<Rightarrow> (Err e, st')
      | (Inr _, st') \<Rightarrow>
          (case bs_files st' (path_for d) of
             Some content \<Rightarrow> if opened then (Ok content, st') else (Err BlobIo, st')
           | None \<Rightarrow> (Err BlobIo, st')))"

definition prepare_upload ::
  "(u8 list \<Rightarrow> string) \<Rightarrow> verify_io \<Rightarrow> bool \<Rightarrow> BlobDigest \<Rightarrow> u64 \<Rightarrow> BlobStore \<Rightarrow> (BlobError + bool) \<times> BlobStore" where
  "prepare_upload sha io query d declared st =
     (if unat declared > MAX_BLOB_BYTES then (Err BlobTooLarge, st)
      else if bs_files st (path_for d) \<noteq> None then
        (case verify_existing sha io d st of
           (Inl e, st') \<Rightarrow> (Err e, st') | (Inr _, st') \<Rightarrow> (Ok False, st'))
      else if \<not> query then (Err BlobMetadata, st)
      else case used_bytes st of
        Inl e \<Rightarrow> (Err e, st)
      | Inr used \<Rightarrow> if over_quota used declared st then (Err BlobQuotaExceeded, st) else (Ok True, st))"

record put_io =
  pi_query :: bool
  pi_create :: bool
  pi_write :: "nat \<Rightarrow> bool"
  pi_sync :: bool
  pi_rename :: bool
  pi_sync_dir :: bool
  pi_insert :: bool
  pi_unlink_part :: bool
  pi_recheck :: bool
  pi_unlink_target :: bool
  pi_now :: int
  pi_uuid :: string

text \<open>The \<^verbatim>\<open>while let\<close> over the body: the error that stopped it, if any, and what reached the part file.\<close>

fun receive_chunks ::
  "(nat \<Rightarrow> bool) \<Rightarrow> u64 \<Rightarrow> nat \<Rightarrow> (unit + u8 list) list \<Rightarrow> u8 list \<Rightarrow> BlobError option \<times> u8 list" where
  "receive_chunks wr declared k [] acc = (None, acc)"
| "receive_chunks wr declared k (Inl _ # cs) acc = (Some BlobBody, acc)"
| "receive_chunks wr declared k (Inr c # cs) acc =
     (let total = length acc + length c in
      if total \<ge> 2 ^ 64 then (Some BlobTooLarge, acc)
      else if total > MAX_BLOB_BYTES \<or> total > unat declared then (Some BlobTooLarge, acc)
      else if \<not> wr k then (Some BlobIo, acc)
      else receive_chunks wr declared (k + 1) cs (acc @ c))"

definition put_body ::
  "(u8 list \<Rightarrow> string) \<Rightarrow> put_io \<Rightarrow> BlobDigest \<Rightarrow> u64 \<Rightarrow> (unit + u8 list) list \<Rightarrow> BlobStore
     \<Rightarrow> (BlobError + unit) \<times> BlobStore" where
  "put_body sha io d declared input st =
     (let part = ''.part-'' @ pi_uuid io; (err, written) = receive_chunks (pi_write io) declared 0 input [];
          st1 = st\<lparr>bs_parts := (bs_parts st)(part \<mapsto> written)\<rparr>
      in
      case err of Some e \<Rightarrow> (Err e, st1)
      | None \<Rightarrow>
          if length written \<noteq> unat declared then (Err BlobLengthMismatch, st1)
          else if sha written \<noteq> d then (Err BlobDigestMismatch, st1)
          else if \<not> pi_sync io \<or> \<not> pi_rename io then (Err BlobIo, st1)
          else
            let st2 = st1\<lparr>bs_parts := (bs_parts st1)(part := None),
                          bs_files := (bs_files st1)(path_for d \<mapsto> written)\<rparr> in
            if \<not> pi_sync_dir io then (Err BlobIo, st2)
            else if \<not> pi_insert io \<or> find_blob d st2 \<noteq> None then (Err BlobMetadata, st2)
            else (Ok (), st2\<lparr>bs_rows := bs_rows st2 @
              [\<lparr>b_digest = d, b_size = as_i64 (of_nat (length written)), b_reference_count = 0,
                b_last_used = pi_now io\<rparr>]\<rparr>))"

definition put_cleanup :: "put_io \<Rightarrow> BlobDigest \<Rightarrow> BlobStore \<Rightarrow> BlobStore" where
  "put_cleanup io d st =
     (let st1 = (if pi_unlink_part io then st\<lparr>bs_parts := (bs_parts st)(''.part-'' @ pi_uuid io := None)\<rparr> else st) in
      if bs_files st1 (path_for d) \<noteq> None \<and> (\<not> pi_recheck io \<or> find_blob d st1 = None) \<and> pi_unlink_target io
      then st1\<lparr>bs_files := (bs_files st1)(path_for d := None)\<rparr> else st1)"

definition put_stream ::
  "(u8 list \<Rightarrow> string) \<Rightarrow> put_io \<Rightarrow> verify_io \<Rightarrow> BlobDigest \<Rightarrow> u64 \<Rightarrow> (unit + u8 list) list \<Rightarrow> BlobStore
     \<Rightarrow> (BlobError + unit) \<times> BlobStore" where
  "put_stream sha io vio d declared input st =
     (if unat declared > MAX_BLOB_BYTES then (Err BlobTooLarge, st)
      else if bs_files st (path_for d) \<noteq> None then verify_existing sha vio d st
      else if \<not> pi_query io then (Err BlobMetadata, st)
      else case used_bytes st of
        Inl e \<Rightarrow> (Err e, st)
      | Inr used \<Rightarrow>
          if over_quota used declared st then (Err BlobQuotaExceeded, st)
          else if \<not> pi_create io \<or> bs_parts st (''.part-'' @ pi_uuid io) \<noteq> None then (Err BlobIo, st)
          else (case put_body sha io d declared input st of
                  (Inl e, st') \<Rightarrow> (Err e, put_cleanup io d st')
                | (Inr _, st') \<Rightarrow> (Ok (), st')))"

section \<open>Opening\<close>

text \<open>
  \<^verbatim>\<open>remove_stale_parts\<close>: part files go; then rows without a parsable digest or without a file; then files
  named by a digest that had no row when the pass began. The quarantine directory is skipped.
\<close>

definition reconcile_rows :: "BlobStore \<Rightarrow> BlobStore" where
  "reconcile_rows st =
     fold (\<lambda>d st. case BlobDigest_parse d of
             Inl _ \<Rightarrow> delete_blob d st
           | Inr _ \<Rightarrow> if bs_files st (path_for d) = None then delete_blob d st else st)
       (remdups (map b_digest (bs_rows st))) st"

definition remove_stale_parts :: "BlobStore \<Rightarrow> BlobStore" where
  "remove_stale_parts st =
     (let known = set (map b_digest (bs_rows st));
          st1 = reconcile_rows (st\<lparr>bs_parts := \<lambda>_. None\<rparr>)
      in st1\<lparr>bs_files := (\<lambda>(dir, name).
           if dir \<noteq> ''quarantine'' \<and> (case BlobDigest_parse name of Inl _ \<Rightarrow> False | Inr _ \<Rightarrow> True) \<and> name \<notin> known
           then None else bs_files st1 (dir, name))\<rparr>)"

definition BlobStore_open :: "u64 \<Rightarrow> BlobStore option \<Rightarrow> BlobStore" where
  "BlobStore_open quota existing =
     remove_stale_parts
       (case existing of
          Some st \<Rightarrow> st\<lparr>bs_quota := quota\<rparr>
        | None \<Rightarrow> \<lparr>bs_quota = quota, bs_rows = [], bs_refs = [], bs_files = (\<lambda>_. None), bs_parts = (\<lambda>_. None)\<rparr>)"

end
