(* ===== verification/Blob_Props.thy ===== *)
theory Blob_Props
  imports Blob "HOL-Library.Multiset"
begin

text \<open>
  Correctness of the blob store: reference counts equal the references, every indexed blob has its file and
  every file holds the content its name says, garbage collection touches nothing that is still
  referenced, uploads are all or nothing, and opening reconciles the two layers after a crash.
\<close>

named_theorems blob_defs \<open>the statements on the blob tables\<close>

lemmas [blob_defs] = find_blob_def refers_def delete_blob_def count_reference_def uncount_reference_def
  upsert_reference_def delete_references_def ref_is_def

section \<open>The invariant\<close>

definition ref_key :: "ref_row \<Rightarrow> string \<times> string \<times> string" where
  "ref_key v = (f_kind v, f_owner v, f_digest v)"

definition references_to :: "string \<Rightarrow> ref_row list \<Rightarrow> int" where
  "references_to d refs = int (length (filter (\<lambda>v. f_digest v = d) refs))"

definition digests :: "BlobStore \<Rightarrow> string list" where
  "digests st = map b_digest (bs_rows st)"

definition refs_ok :: "BlobStore \<Rightarrow> bool" where
  "refs_ok st \<longleftrightarrow>
     distinct (digests st) \<and> distinct (map ref_key (bs_refs st))
     \<and> (\<forall>v \<in> set (bs_refs st). f_digest v \<in> set (digests st))
     \<and> (\<forall>r \<in> set (bs_rows st). b_reference_count r = references_to (b_digest r) (bs_refs st))"

abbreviation valid_digest :: "string \<Rightarrow> bool" where
  "valid_digest d \<equiv> BlobDigest_parse d = Inr d"

definition row_backed :: "(file_key \<rightharpoonup> u8 list) \<Rightarrow> blob_row \<Rightarrow> bool" where
  "row_backed files r \<longleftrightarrow> valid_digest (b_digest r) \<and> (\<exists>content. files (path_for (b_digest r)) = Some content
     \<and> b_size r = int (length content) \<and> length content \<le> MAX_BLOB_BYTES)"

definition files_ok :: "(u8 list \<Rightarrow> string) \<Rightarrow> BlobStore \<Rightarrow> bool" where
  "files_ok sha st \<longleftrightarrow> (\<forall>r \<in> set (bs_rows st). row_backed (bs_files st) r)
     \<and> (\<forall>d content. valid_digest d \<longrightarrow> bs_files st (path_for d) = Some content \<longrightarrow> sha content = d)"

lemma path_for_eq [simp]: "path_for d = path_for e \<longleftrightarrow> d = e"
  by (auto simp: path_for_def)

lemma path_for_quarantine [simp]: "path_for d \<noteq> (''quarantine'', n)" "(''quarantine'', n) \<noteq> path_for d"
proof -
  have "length (take 2 d) \<noteq> length ''quarantine''" by simp
  then show "path_for d \<noteq> (''quarantine'', n)" by (metis path_for_def prod.inject)
  then show "(''quarantine'', n) \<noteq> path_for d" by metis
qed

lemma find_blob_None: "find_blob d st = None \<longleftrightarrow> d \<notin> set (digests st)"
  by (auto simp: find_blob_def find_None_iff digests_def)

lemma find_blob_in: "find_blob d st = Some r \<Longrightarrow> r \<in> set (bs_rows st) \<and> b_digest r = d"
  by (auto simp: find_blob_def find_Some_iff in_set_conv_nth)

section \<open>Reference counts\<close>

lemma count_reference_digests [simp]:
  "map b_digest (count_reference d rows) = map b_digest rows"
  "map b_digest (uncount_reference d rows) = map b_digest rows"
  by (simp_all add: blob_defs comp_def if_distrib cong: if_cong)

lemma fold_uncount_digests [simp]:
  "map b_digest (fold (\<lambda>v. uncount_reference (f_digest v)) vs rows) = map b_digest rows"
  by (induction vs arbitrary: rows) simp_all

lemma fold_uncount:
  "fold (\<lambda>v. uncount_reference (f_digest v)) vs rows
     = map (\<lambda>r. r\<lparr>b_reference_count := (if references_to (b_digest r) vs = 0 then b_reference_count r
          else max 0 (b_reference_count r - references_to (b_digest r) vs))\<rparr>) rows"
proof (induction vs arbitrary: rows)
  case Nil
  then show ?case by (simp add: references_to_def)
next
  case (Cons v vs)
  have *: "references_to d (v # vs) = (if f_digest v = d then 1 else 0) + references_to d vs" for d
    by (simp add: references_to_def)
  have nn: "0 \<le> references_to d vs" for d by (simp add: references_to_def)
  have upd: "r\<lparr>b_reference_count := max 0 (max 0 (c - 1) - n)\<rparr> = r\<lparr>b_reference_count := max 0 (c - (1 + n))\<rparr>"
    if "0 \<le> n" for r :: blob_row and c n :: int
    using that by (intro arg_cong [of _ _ "\<lambda>x. r\<lparr>b_reference_count := x\<rparr>"]) simp
  have "1 + references_to d vs \<noteq> 0" for d using nn [of d] by linarith
  then show ?case
    by (simp add: Cons.IH) (auto simp: * uncount_reference_def comp_def intro: upd nn)
qed

lemma references_to_split:
  "references_to d vs = references_to d (filter P vs) + references_to d (filter (\<lambda>v. \<not> P v) vs)"
  by (induction vs) (auto simp: references_to_def)

lemma references_to_nonneg [simp]: "0 \<le> references_to d vs"
  by (simp add: references_to_def)

lemma delete_references_refs_ok: "refs_ok st \<Longrightarrow> refs_ok (delete_references P st)"
proof -
  assume ok: "refs_ok st"
  have "distinct (map ref_key (filter (\<lambda>v. \<not> P v) (bs_refs st)))"
    using ok by (simp add: refs_ok_def distinct_map_filter)
  moreover have "(if references_to (b_digest r) (filter P (bs_refs st)) = 0 then b_reference_count r
      else max 0 (b_reference_count r - references_to (b_digest r) (filter P (bs_refs st))))
      = references_to (b_digest r) (filter (\<lambda>v. \<not> P v) (bs_refs st))"
    if "r \<in> set (bs_rows st)" for r
    using ok that references_to_split [of "b_digest r" "bs_refs st" P] by (simp add: refs_ok_def)
  moreover have "digests (delete_references P st) = digests st"
    by (simp add: digests_def delete_references_def)
  ultimately show ?thesis
    using ok by (auto simp: refs_ok_def) (auto simp: delete_references_def fold_uncount)
qed

lemma delete_blob_refs_ok: "refs_ok st \<Longrightarrow> refs_ok (delete_blob d st)"
proof -
  assume ok: "refs_ok st"
  have "references_to e (filter (\<lambda>v. f_digest v \<noteq> d) (bs_refs st)) = references_to e (bs_refs st)" if "e \<noteq> d" for e
    using that by (simp add: references_to_def) (metis (mono_tags, lifting) filter_cong)
  then show ?thesis
    using ok by (auto simp: refs_ok_def delete_blob_def digests_def distinct_map_filter)
qed

lemma map_expiry_key:
  "map ref_key (map (\<lambda>v. if P v then v\<lparr>f_expires := e\<rparr> else v) vs) = map ref_key vs"
  by (simp add: ref_key_def comp_def if_distrib cong: if_cong)

lemma map_expiry_references:
  "references_to d (map (\<lambda>v. if P v then v\<lparr>f_expires := e\<rparr> else v) vs) = references_to d vs"
  by (induction vs) (auto simp: references_to_def)

lemma map_expiry_refs_ok:
  "refs_ok st \<Longrightarrow> refs_ok (st\<lparr>bs_refs := map (\<lambda>v. if P v then v\<lparr>f_expires := e\<rparr> else v) (bs_refs st)\<rparr>)"
  unfolding refs_ok_def by (auto simp: map_expiry_key map_expiry_references digests_def simp del: map_map)

lemma upsert_refs_ok:
  assumes ok: "refs_ok st" and "find_blob d st \<noteq> None"
  shows "refs_ok (upsert_reference k w d e st)"
proof (cases "\<exists>v \<in> set (bs_refs st). ref_is k w d v")
  case True
  then show ?thesis using map_expiry_refs_ok [OF ok] by (simp add: upsert_reference_def)
next
  case False
  then have "(k, w, d) \<notin> ref_key ` set (bs_refs st)" by (auto simp: ref_key_def ref_is_def)
  moreover have "digests (upsert_reference k w d e st) = digests st"
    using False by (simp add: digests_def upsert_reference_def)
  ultimately show ?thesis
    using False assms
    by (auto simp: refs_ok_def find_blob_None)
       (auto simp: upsert_reference_def count_reference_def references_to_def ref_key_def)
qed

lemma retain_all_refs_ok: "refs_ok st \<Longrightarrow> retain_all k e es st = Inr st' \<Longrightarrow> refs_ok st'"
proof (induction es arbitrary: st)
  case (Cons x es)
  obtain w d where x: "x = (w, d)" by force
  from Cons.prems(2) x obtain st1 where "retain_one k w d e st = Inr st1" "retain_all k e es st1 = Inr st'"
    by (auto simp: result_simps)
  moreover from this have "refs_ok st1"
    using upsert_refs_ok [OF Cons.prems(1)] by (auto simp: retain_one_def split: if_splits)
  ultimately show ?case using Cons.IH by blast
qed simp

section \<open>Rows and files\<close>

lemma digest_parse_cases:
  "(case BlobDigest_parse d of Inl _ \<Rightarrow> x | Inr _ \<Rightarrow> y) = (if valid_digest d then y else x)"
  by (auto simp: BlobDigest_parse_def split: if_splits)

definition row_core :: "blob_row \<Rightarrow> string \<times> int" where
  "row_core r = (b_digest r, b_size r)"

lemma files_ok_frame:
  assumes "files_ok sha st" and "row_core ` set (bs_rows st') \<subseteq> row_core ` set (bs_rows st)"
    and "bs_files st' = bs_files st"
  shows "files_ok sha st'"
proof -
  have "row_backed (bs_files st) r'" if r': "r' \<in> set (bs_rows st')" for r'
  proof -
    from r' assms(2) obtain r where "r \<in> set (bs_rows st)" "row_core r' = row_core r" by blast
    then show ?thesis using assms(1) by (auto simp: files_ok_def row_backed_def row_core_def)
  qed
  then show ?thesis using assms(1,3) by (simp add: files_ok_def)
qed

lemma row_core_uncount [simp]:
  fixes vs :: "ref_row list" and rows :: "blob_row list"
  shows "row_core ` set (count_reference d rows) = row_core ` set rows"
    and "row_core ` set (fold (\<lambda>v. uncount_reference (f_digest v)) vs rows) = row_core ` set rows"
proof -
  have "map row_core (count_reference d rows) = map row_core rows"
    by (simp add: count_reference_def row_core_def comp_def if_distrib cong: if_cong)
  then show "row_core ` set (count_reference d rows) = row_core ` set rows" by (metis set_map)
  have "map row_core (fold (\<lambda>v. uncount_reference (f_digest v)) vs rows) = map row_core rows"
    by (simp add: fold_uncount row_core_def comp_def)
  then show "row_core ` set (fold (\<lambda>v. uncount_reference (f_digest v)) vs rows) = row_core ` set rows"
    by (metis set_map)
qed

lemma delete_references_frame [simp]:
  "bs_files (delete_references P st) = bs_files st" "digests (delete_references P st) = digests st"
  "row_core ` set (bs_rows (delete_references P st)) = row_core ` set (bs_rows st)"
  "bs_refs (delete_references P st) = filter (\<lambda>v. \<not> P v) (bs_refs st)"
  by (simp_all add: delete_references_def digests_def)

lemma delete_references_files_ok: "files_ok sha st \<Longrightarrow> files_ok sha (delete_references P st)"
  by (erule files_ok_frame) simp_all

lemma delete_blob_files_ok: "files_ok sha st \<Longrightarrow> files_ok sha (delete_blob d st)"
  by (erule files_ok_frame) (auto simp: delete_blob_def)

lemma upsert_files_ok: "files_ok sha st \<Longrightarrow> files_ok sha (upsert_reference k w d e st)"
  by (erule files_ok_frame) (simp_all add: upsert_reference_def)

lemma retain_all_files_ok: "files_ok sha st \<Longrightarrow> retain_all k e es st = Inr st' \<Longrightarrow> files_ok sha st'"
proof (induction es arbitrary: st)
  case (Cons x es)
  obtain w d where x: "x = (w, d)" by force
  from Cons.prems(2) x obtain st1 where "retain_one k w d e st = Inr st1" "retain_all k e es st1 = Inr st'"
    by (auto simp: result_simps)
  moreover from this have "files_ok sha st1"
    using upsert_files_ok [OF Cons.prems(1)] by (auto simp: retain_one_def split: if_splits)
  ultimately show ?case using Cons.IH by blast
qed simp

text \<open>Everything the two invariants say of a store.\<close>

definition blob_inv :: "(u8 list \<Rightarrow> string) \<Rightarrow> BlobStore \<Rightarrow> bool" where
  "blob_inv sha st \<longleftrightarrow> refs_ok st \<and> files_ok sha st"

lemma retain_inv:
  "blob_inv sha st \<Longrightarrow> retain io k w ds e st = (res, st') \<Longrightarrow> blob_inv sha st'"
  "blob_inv sha st \<Longrightarrow> retain_per_owner io k es e st = (res, st') \<Longrightarrow> blob_inv sha st'"
  by (auto simp: retain_def retain_per_owner_def blob_inv_def
      intro: retain_all_refs_ok retain_all_files_ok split: if_splits sum.splits)

lemma update_expiry_inv: "blob_inv sha st \<Longrightarrow> blob_inv sha (update_expiry k w e st)"
  unfolding blob_inv_def update_expiry_def
  by (intro conjI map_expiry_refs_ok) (auto elim: files_ok_frame)

lemma expiry_ops_inv:
  "blob_inv sha st \<Longrightarrow> set_reference_expiry io k w ex st = (res, st') \<Longrightarrow> blob_inv sha st'"
  "blob_inv sha st \<Longrightarrow> clear_reference_expiry io k w st = (res, st') \<Longrightarrow> blob_inv sha st'"
  "blob_inv sha st \<Longrightarrow> release_references io k w st = (res, st') \<Longrightarrow> blob_inv sha st'"
  using update_expiry_inv [of sha st k w] delete_references_refs_ok [of st] delete_references_files_ok [of sha st]
  by (auto simp: set_reference_expiry_def clear_reference_expiry_def release_references_def blob_inv_def
      split: if_splits)

section \<open>Garbage collection\<close>

lemma unlink_candidates_frame:
  assumes "unlink_candidates ok cs (n, b, st) = (done, n', b', st')"
    and "\<forall>(d, _) \<in> set cs. \<not> refers d st" and "blob_inv sha st"
  shows "blob_inv sha st' \<and> bs_refs st' = bs_refs st
    \<and> (\<forall>d. refers d st \<longrightarrow> (d \<in> set (digests st) \<longrightarrow> d \<in> set (digests st'))
         \<and> bs_files st' (path_for d) = bs_files st (path_for d))"
  using assms
proof (induction cs arbitrary: n b st)
  case (Cons c cs)
  obtain d sz where c: "c = (d, sz)" by force
  let ?gone = "delete_blob d st" and ?cut = "(delete_blob d st)\<lparr>bs_files := (bs_files st)(path_for d := None)\<rparr>"
  have nr: "\<not> refers d st" using Cons.prems(2) c by simp
  then have refs: "bs_refs ?gone = bs_refs st" by (auto simp: delete_blob_def refers_def filter_id_conv)
  have gone: "blob_inv sha ?gone"
    using Cons.prems(3) delete_blob_refs_ok delete_blob_files_ok by (auto simp: blob_inv_def)
  have "refs_ok ?cut" using gone by (simp add: blob_inv_def refs_ok_def digests_def)
  moreover have "files_ok sha ?cut"
    using gone by (auto simp: blob_inv_def files_ok_def row_backed_def delete_blob_def)
  ultimately have cut: "blob_inv sha ?cut" by (simp add: blob_inv_def)
  have same: "refers e ?gone = refers e st" "refers e ?cut = refers e st" for e
    using refs by (auto simp: refers_def)
  have digs: "e \<in> set (digests st) \<longrightarrow> e \<in> set (digests ?gone)" "e \<noteq> d" if "refers e st" for e
    using that nr by (auto simp: digests_def delete_blob_def)
  have rest: "\<forall>(d, _) \<in> set cs. \<not> refers d st" using Cons.prems(2) by simp
  consider (skip) "unlink_candidates ok cs (n, b, st) = (done, n', b', st')"
    | (gone) m b2 where "unlink_candidates ok cs (m, b2, ?gone) = (done, n', b', st')"
    | (cut) m b2 where "unlink_candidates ok cs (m, b2, ?cut) = (done, n', b', st')"
    | (stop) "st' = st"
    using Cons.prems(1) nr c
    by (auto simp: digest_parse_cases Let_def split: option.splits if_splits)
  then show ?case
  proof cases
    case skip
    then show ?thesis using Cons.IH [OF skip rest Cons.prems(3)] by blast
  next
    case gone
    from Cons.IH [OF this(1) _ \<open>blob_inv sha ?gone\<close>] rest same(1) have
      "blob_inv sha st' \<and> bs_refs st' = bs_refs ?gone \<and> (\<forall>d. refers d st \<longrightarrow>
        (d \<in> set (digests ?gone) \<longrightarrow> d \<in> set (digests st')) \<and> bs_files st' (path_for d) = bs_files ?gone (path_for d))"
      by simp
    then show ?thesis using refs digs by (simp add: delete_blob_def digests_def)
  next
    case cut
    from Cons.IH [OF this(1) _ \<open>blob_inv sha ?cut\<close>] rest same(2) have
      "blob_inv sha st' \<and> bs_refs st' = bs_refs ?cut \<and> (\<forall>d. refers d st \<longrightarrow>
        (d \<in> set (digests ?cut) \<longrightarrow> d \<in> set (digests st')) \<and> bs_files st' (path_for d) = bs_files ?cut (path_for d))"
      by simp
    then show ?thesis using refs digs by (simp add: delete_blob_def digests_def)
  next
    case stop
    then show ?thesis using Cons.prems(3) by simp
  qed
qed simp

lemma candidates_unreferenced: "(d, sz) \<in> set (unreferenced_candidates ord limit st) \<Longrightarrow> \<not> refers d st"
  by (auto simp: unreferenced_candidates_def dest!: in_set_takeD)

lemma gc_shape:
  assumes "blob_garbage_collect io ok row_order ref_order now limit dry st = (res, st')"
  shows "st' = st \<or> (\<not> dry \<and> (\<exists>removed n b done.
    (\<forall>v \<in> set removed. expired (as_i64 now) v)
    \<and> unlink_candidates ok (unreferenced_candidates row_order limit (delete_references (\<lambda>v. v \<in> set removed) st))
         (0, 0, delete_references (\<lambda>v. v \<in> set removed) st) = (done, n, b, st')))"
  using assms unfolding blob_garbage_collect_def Let_def
  by (auto split: if_splits prod.splits dest!: in_set_takeD
      intro!: exI [of _ "take limit (filter (expired (as_i64 now)) (ref_order (bs_refs st)))"])

lemma gc_step:
  assumes inv: "blob_inv sha st" and gc: "blob_garbage_collect io ok row_order ref_order now limit dry st = (res, st')"
  shows "blob_inv sha st' \<and> (dry \<longrightarrow> st' = st)
    \<and> (\<forall>v \<in> set (bs_refs st). \<not> expired (as_i64 now) v \<longrightarrow> v \<in> set (bs_refs st')
         \<and> f_digest v \<in> set (digests st')
         \<and> bs_files st' (path_for (f_digest v)) = bs_files st (path_for (f_digest v)))"
proof (cases "st' = st")
  case True
  then show ?thesis using inv by (auto simp: blob_inv_def refs_ok_def)
next
  case False
  with gc_shape [OF gc] obtain removed n b fin where nd: "\<not> dry"
    and removed: "\<forall>v \<in> set removed. expired (as_i64 now) v"
    and un: "unlink_candidates ok (unreferenced_candidates row_order limit (delete_references (\<lambda>v. v \<in> set removed) st))
         (0, 0, delete_references (\<lambda>v. v \<in> set removed) st) = (fin, n, b, st')" by blast
  let ?st1 = "delete_references (\<lambda>v. v \<in> set removed) st"
  have inv1: "blob_inv sha ?st1"
    using inv delete_references_refs_ok delete_references_files_ok by (auto simp: blob_inv_def)
  have "\<forall>(d, _) \<in> set (unreferenced_candidates row_order limit ?st1). \<not> refers d ?st1"
    using candidates_unreferenced by blast
  from unlink_candidates_frame [OF un this inv1] have after: "blob_inv sha st'" "bs_refs st' = bs_refs ?st1"
    "\<And>d. refers d ?st1 \<Longrightarrow> (d \<in> set (digests ?st1) \<longrightarrow> d \<in> set (digests st'))
        \<and> bs_files st' (path_for d) = bs_files ?st1 (path_for d)" by auto
  have "v \<in> set (bs_refs ?st1) \<and> refers (f_digest v) ?st1 \<and> f_digest v \<in> set (digests ?st1)"
    if "v \<in> set (bs_refs st)" "\<not> expired (as_i64 now) v" for v
    using that removed inv by (auto simp: refers_def blob_inv_def refs_ok_def)
  then show ?thesis using after nd by auto
qed


lemma unlink_candidates_complete:
  assumes "\<forall>(d, _) \<in> set cs. \<not> refers d st \<and> valid_digest d"
  shows "\<exists>n' b' st'. unlink_candidates (\<lambda>_. True) cs (n, b, st) = (True, n', b', st')
    \<and> set (digests st') = set (digests st) - fst ` set cs \<and> bs_refs st' = bs_refs st"
  using assms
proof (induction cs arbitrary: n b st)
  case (Cons c cs)
  obtain d sz where c: "c = (d, sz)" by force
  let ?gone = "delete_blob d st" and ?cut = "(delete_blob d st)\<lparr>bs_files := (bs_files st)(path_for d := None)\<rparr>"
  have d: "\<not> refers d st" "valid_digest d" using Cons.prems c by auto
  then have refs: "bs_refs ?gone = bs_refs st" by (auto simp: delete_blob_def refers_def filter_id_conv)
  have digs: "set (digests ?gone) = set (digests st) - {d}" "set (digests ?cut) = set (digests st) - {d}"
    by (auto simp: digests_def delete_blob_def)
  have "\<forall>(e, _) \<in> set cs. \<not> refers e ?gone \<and> valid_digest e" "\<forall>(e, _) \<in> set cs. \<not> refers e ?cut \<and> valid_digest e"
    using Cons.prems refs by (auto simp: refers_def)
  note IH = Cons.IH [OF this(1), of n b] Cons.IH [OF this(2), of "n + 1" "u64_saturating_add b sz"]
  show ?case
  proof (cases "bs_files st (path_for d)")
    case None
    then show ?thesis using IH(1) d c digs refs by (auto simp: digest_parse_cases)
  next
    case (Some x)
    then show ?thesis using IH(2) d c digs refs by (auto simp: digest_parse_cases)
  qed
qed simp

lemma candidates_all:
  assumes "mset (row_order (bs_rows st)) = mset (bs_rows st)" "length (bs_rows st) \<le> limit"
  shows "fst ` set (unreferenced_candidates row_order limit st) = {d \<in> set (digests st). \<not> refers d st}"
proof -
  let ?free = "filter (\<lambda>r. \<not> refers (b_digest r) st) (row_order (bs_rows st))"
  have "length (row_order (bs_rows st)) = length (bs_rows st)" "set (row_order (bs_rows st)) = set (bs_rows st)"
    using assms(1) by (metis size_mset, metis set_mset_mset)
  moreover from this assms(2) have "length (sort_key b_last_used ?free) \<le> limit"
    by (simp add: le_trans [OF length_filter_le])
  ultimately show ?thesis
    by (auto simp: unreferenced_candidates_def digests_def image_image)
qed


section \<open>Verification\<close>

lemma verify_intact:
  assumes inv: "blob_inv sha st" and v: "verify_existing sha io d st = (res, st')"
  shows "blob_inv sha st' \<and> res \<noteq> Inl BlobCorruptExisting \<and> bs_files st' = bs_files st \<and> bs_refs st' = bs_refs st"
proof -
  let ?touch = "st\<lparr>bs_rows := map (\<lambda>r. if b_digest r = d then r\<lparr>b_last_used := vi_now io\<rparr> else r) (bs_rows st)\<rparr>"
  have "map b_digest (bs_rows ?touch) = map b_digest (bs_rows st)"
    by (simp add: comp_def if_distrib cong: if_cong)
  then have "digests ?touch = digests st" by (simp add: digests_def)
  then have "refs_ok ?touch" using inv by (auto simp: blob_inv_def refs_ok_def)
  moreover have "files_ok sha ?touch"
    using inv unfolding blob_inv_def by (auto simp: row_core_def intro!: files_ok_frame [of sha st])
  ultimately have touch: "blob_inv sha ?touch" by (simp add: blob_inv_def)
  have sound: "\<not> is_corrupt sha d (b_size r) content"
    if r: "find_blob d st = Some r" and c: "bs_files st (path_for d) = Some content" for r content
  proof -
    have "row_backed (bs_files st) r" "b_digest r = d"
      using inv find_blob_in [OF r] by (auto simp: blob_inv_def files_ok_def)
    moreover from this inv c have "sha content = d" by (auto simp: blob_inv_def files_ok_def row_backed_def)
    ultimately show ?thesis using c by (auto simp: is_corrupt_def row_backed_def)
  qed
  show ?thesis
    using v touch inv sound
    by (auto simp: verify_existing_def Let_def split: if_splits option.splits)
qed

lemma delete_blob_gone [simp]:
  "find_blob d (delete_blob d st) = None" "bs_files (delete_blob d st) = bs_files st"
  by (auto simp: delete_blob_def find_blob_def find_None_iff)


section \<open>Uploads\<close>

lemma receive_chunks_ok:
  "receive_chunks wr declared k input acc = (None, written) \<Longrightarrow> length acc \<le> MAX_BLOB_BYTES \<Longrightarrow>
     written = acc @ concat (map projr input) \<and> length written \<le> MAX_BLOB_BYTES \<and> list_all (Not \<circ> isl) input"
  by (induction wr declared k input acc rule: receive_chunks.induct)
     (auto simp: Let_def split: if_splits)

lemma as_i64_length: "n \<le> MAX_BLOB_BYTES \<Longrightarrow> as_i64 (of_nat n) = int n"
proof -
  assume "n \<le> MAX_BLOB_BYTES"
  then have "uint (of_nat n :: u64) = int n" "int n \<le> 2 ^ 28"
    by (simp_all add: MAX_BLOB_BYTES_def unsigned_of_nat take_bit_nat_eq_self_iff)
  then show ?thesis
    unfolding as_i64_def sint_uint by (simp add: signed_take_bit_int_eq_self)
qed

text \<open>What the body of an upload leaves: nothing but the part file, or the file, or the file and its row.\<close>

lemma put_body_cases:
  assumes "put_body sha io d declared input st = (res, st')" "bs_files st (path_for d) = None"
  obtains (partial) e w where "res = Inl e" "st' = st\<lparr>bs_parts := (bs_parts st)(''.part-'' @ pi_uuid io \<mapsto> w)\<rparr>"
    | (unindexed) e w where "res = Inl e" "sha w = d" "length w \<le> MAX_BLOB_BYTES"
      "st' = st\<lparr>bs_parts := (bs_parts st)(''.part-'' @ pi_uuid io := None), bs_files := (bs_files st)(path_for d \<mapsto> w)\<rparr>"
    | (stored) "res = Inr ()" "sha (concat (map projr input)) = d" "length (concat (map projr input)) \<le> MAX_BLOB_BYTES"
      "length (concat (map projr input)) = unat declared" "list_all (Not \<circ> isl) input" "find_blob d st = None"
      "st' = st\<lparr>bs_parts := (bs_parts st)(''.part-'' @ pi_uuid io := None),
         bs_files := (bs_files st)(path_for d \<mapsto> concat (map projr input)),
         bs_rows := bs_rows st @ [\<lparr>b_digest = d, b_size = int (length (concat (map projr input))),
           b_reference_count = 0, b_last_used = pi_now io\<rparr>]\<rparr>"
proof -
  obtain err written where rc: "receive_chunks (pi_write io) declared 0 input [] = (err, written)" by force
  have ok: "written = concat (map projr input) \<and> length written \<le> MAX_BLOB_BYTES \<and> list_all (Not \<circ> isl) input"
    if "err = None"
    using receive_chunks_ok [of "pi_write io" declared 0 input "[]" written] rc that by auto
  have fb: "find_blob d (st\<lparr>bs_parts := p, bs_files := f\<rparr>) = find_blob d st" for p f
    by (simp add: find_blob_def)
  have "unat declared \<le> MAX_BLOB_BYTES \<Longrightarrow> as_i64 declared = uint declared"
    using as_i64_length [of "unat declared"] by simp
  then show thesis
    using assms(1) rc ok partial unindexed stored
    by (auto simp: put_body_def Let_def fb as_i64_length split: option.splits if_splits)
qed

lemma sizes_nonneg: "blob_inv sha st \<Longrightarrow> 0 \<le> sum_list (map b_size (bs_rows st))"
  by (rule sum_list_nonneg) (auto simp: blob_inv_def files_ok_def row_backed_def)

lemma quota_kept:
  assumes "blob_inv sha st" "used_bytes st = Inr used" "\<not> over_quota used declared st"
    and "unat declared \<le> MAX_BLOB_BYTES"
  shows "used = sum_list (map b_size (bs_rows st)) \<and> used + int (unat declared) \<le> uint (bs_quota st)"
proof -
  have used: "used = sum_list (map b_size (bs_rows st))" "used \<le> i64_max"
    using assms(2) by (auto simp: used_bytes_def Let_def split: if_splits)
  then have "0 \<le> used" using sizes_nonneg [OF assms(1)] by simp
  then have "uint (of_int (max 0 used) :: u64) = used"
    using used(2) by (simp add: uint_word_of_int i64_max_def)
  then have "min (used + uint declared) (2 ^ 64 - 1) \<le> uint (bs_quota st)"
    using assms(3) by (simp add: over_quota_def word_less_def uint_u64_saturating_add not_less min_le_iff_disj)
  moreover have "int (unat declared) \<le> int MAX_BLOB_BYTES" using assms(4) by (simp only: of_nat_le_iff)
  moreover have "int MAX_BLOB_BYTES = 268435456" by (simp add: MAX_BLOB_BYTES_def)
  moreover have "uint declared = int (unat declared)" by (rule uint_nat)
  moreover have "i64_max = 9223372036854775807" "(2::int) ^ 64 - 1 = 18446744073709551615"
    by (simp_all add: i64_max_def)
  ultimately show ?thesis using used by (simp only: min_def split: if_splits)
qed

lemma put_stored_inv:
  assumes inv: "blob_inv sha st" and d: "valid_digest d" "find_blob d st = None"
    and w: "sha w = d" "length w \<le> MAX_BLOB_BYTES"
  shows "blob_inv sha (st\<lparr>bs_parts := p, bs_files := (bs_files st)(path_for d \<mapsto> w),
     bs_rows := bs_rows st @ [\<lparr>b_digest = d, b_size = int (length w), b_reference_count = 0, b_last_used = t\<rparr>]\<rparr>)"
proof -
  have new: "d \<notin> set (digests st)" using d(2) by (simp add: find_blob_None)
  then have "references_to d (bs_refs st) = 0"
    using inv by (auto simp: references_to_def blob_inv_def refs_ok_def filter_empty_conv)
  moreover have "b_digest r \<noteq> d" if "r \<in> set (bs_rows st)" for r using new that by (auto simp: digests_def)
  ultimately show ?thesis
    using inv new d(1) w
    by (auto simp: blob_inv_def refs_ok_def files_ok_def digests_def row_backed_def)
qed

lemma put_unindexed_inv:
  assumes "blob_inv sha st" "find_blob d st = None" "sha w = d" "f = None \<or> f = Some w"
  shows "blob_inv sha (st\<lparr>bs_files := (bs_files st)(path_for d := f)\<rparr>)"
proof -
  have "b_digest r \<noteq> d" if "r \<in> set (bs_rows st)" for r
    using assms(2) that by (auto simp: find_blob_None digests_def)
  then show ?thesis
    using assms by (auto simp: blob_inv_def refs_ok_def files_ok_def digests_def row_backed_def)
qed

lemma no_file_no_row:
  assumes "blob_inv sha st" "bs_files st (path_for d) = None"
  shows "find_blob d st = None"
  using assms by (fastforce simp: find_blob_None digests_def blob_inv_def files_ok_def row_backed_def)

lemma parts_frame [simp]:
  "blob_inv sha (st\<lparr>bs_parts := p\<rparr>) \<longleftrightarrow> blob_inv sha st"
  "blob_inv sha (st\<lparr>bs_parts := p, bs_files := f\<rparr>) \<longleftrightarrow> blob_inv sha (st\<lparr>bs_files := f\<rparr>)"
  by (simp_all add: blob_inv_def refs_ok_def files_ok_def digests_def)

lemma put_stream_inv:
  assumes inv: "blob_inv sha st" and d: "valid_digest d"
    and put: "put_stream sha io vio d declared input st = (res, st')"
  shows "blob_inv sha st'"
proof (cases "bs_files st (path_for d) = None")
  case False
  then show ?thesis
    using put inv verify_intact [OF inv, of vio d] by (auto simp: put_stream_def split: if_splits)
next
  case True
  note none = no_file_no_row [OF inv True]
  show ?thesis
  proof (cases "st' = st")
    case changed: False
    with put True obtain res0 st0 where body: "put_body sha io d declared input st = (res0, st0)"
      "st' = (if isl res0 then put_cleanup io d st0 else st0)"
      by (auto simp: put_stream_def split: if_splits sum.splits prod.splits)
    from body(1) True show ?thesis
    proof (cases rule: put_body_cases)
      case (partial e w)
      then show ?thesis using body(2) inv True by (simp add: put_cleanup_def Let_def)
    next
      case (unindexed e w)
      then show ?thesis
        using body(2) put_unindexed_inv [OF inv none unindexed(2)]
        by (auto simp: put_cleanup_def Let_def)
    next
      case stored
      then show ?thesis using body(2) put_stored_inv [OF inv d stored(6,2,3)] by simp
    qed
  qed (use inv in simp)
qed


section \<open>Finding what is missing\<close>

lemma concat_chunks: "n \<noteq> 0 \<Longrightarrow> concat (chunks n xs) = xs"
  by (induction n xs rule: chunks.induct) (subst chunks.simps, simp)

text \<open>the chunked query answers what a query per digest would: the digests without a row, in the order
  asked, duplicates included; a request with more than 512 digests is refused.\<close>

theorem find_missing_exact:
  "find_missing io ds st =
     (if length ds > MAX_FIND_DIGESTS then Err BlobTooManyDigests
      else if \<not> io then Err BlobMetadata
      else Ok (filter (\<lambda>d. find_blob d st = None) ds))"
proof -
  have "fold (\<lambda>chunk present. present \<union> {d \<in> D. d \<in> set chunk}) cs P = P \<union> (D \<inter> set (concat cs))"
    for cs :: "string list list" and D P
    by (induction cs arbitrary: P) auto
  then have "fold (\<lambda>chunk present. present \<union> {d \<in> set (map b_digest (bs_rows st)). d \<in> set chunk}) (chunks FIND_CHUNK ds) {}
      = set (digests st) \<inter> set ds"
    using concat_chunks [of FIND_CHUNK ds] by (simp add: FIND_CHUNK_def digests_def del: set_concat)
  then show ?thesis
    by (auto simp: find_missing_def find_blob_None intro!: filter_cong)
qed

section \<open>Opening\<close>

lemma fold_delete_blob:
  "fold (\<lambda>d st. if bad d then delete_blob d st else st) ds st =
     st\<lparr>bs_rows := filter (\<lambda>r. \<not> (b_digest r \<in> set ds \<and> bad (b_digest r))) (bs_rows st),
        bs_refs := filter (\<lambda>v. \<not> (f_digest v \<in> set ds \<and> bad (f_digest v))) (bs_refs st)\<rparr>"
proof (induction ds arbitrary: st)
  case (Cons d ds)
  have "fold (\<lambda>d st. if bad d then delete_blob d st else st) (d # ds) st
      = fold (\<lambda>d st. if bad d then delete_blob d st else st) ds (if bad d then delete_blob d st else st)" by simp
  also have "\<dots> = st\<lparr>bs_rows := filter (\<lambda>r. \<not> (b_digest r \<in> set (d # ds) \<and> bad (b_digest r))) (bs_rows st),
        bs_refs := filter (\<lambda>v. \<not> (f_digest v \<in> set (d # ds) \<and> bad (f_digest v))) (bs_refs st)\<rparr>"
    unfolding Cons.IH
    by (rule BlobStore.equality) (auto simp: delete_blob_def intro!: filter_cong)
  finally show ?case .
qed simp

lemma fold_reconcile:
  "bs_files st = files \<Longrightarrow>
     fold (\<lambda>d st. case BlobDigest_parse d of Inl _ \<Rightarrow> delete_blob d st
             | Inr _ \<Rightarrow> if bs_files st (path_for d) = None then delete_blob d st else st) ds st
     = fold (\<lambda>d st. if \<not> valid_digest d \<or> files (path_for d) = None then delete_blob d st else st) ds st"
proof (induction ds arbitrary: st)
  case (Cons d ds)
  have "bs_files (if P then delete_blob d st else st) = files" for P using Cons.prems by simp
  then show ?case using Cons.IH Cons.prems by (simp add: digest_parse_cases)
qed simp

lemma reconcile_rows_eq:
  "reconcile_rows st = st\<lparr>
     bs_rows := filter (\<lambda>r. valid_digest (b_digest r) \<and> bs_files st (path_for (b_digest r)) \<noteq> None) (bs_rows st),
     bs_refs := filter (\<lambda>v. \<not> (f_digest v \<in> set (digests st)
        \<and> (\<not> valid_digest (f_digest v) \<or> bs_files st (path_for (f_digest v)) = None))) (bs_refs st)\<rparr>"
  unfolding reconcile_rows_def fold_reconcile [OF refl] fold_delete_blob
  by (rule BlobStore.equality) (auto simp: digests_def intro!: filter_cong)

lemma remove_stale_parts_files:
  "bs_files (remove_stale_parts st) (path_for d) =
     (if valid_digest d \<and> d \<notin> set (digests st) then None else bs_files st (path_for d))"
  using path_for_quarantine(1) [of d d]
  by (auto simp: remove_stale_parts_def Let_def reconcile_rows_eq path_for_def digest_parse_cases digests_def)

lemma remove_stale_parts_tables:
  "bs_rows (remove_stale_parts st)
     = filter (\<lambda>r. valid_digest (b_digest r) \<and> bs_files st (path_for (b_digest r)) \<noteq> None) (bs_rows st)"
  "bs_refs (remove_stale_parts st) = filter (\<lambda>v. \<not> (f_digest v \<in> set (digests st)
     \<and> (\<not> valid_digest (f_digest v) \<or> bs_files st (path_for (f_digest v)) = None))) (bs_refs st)"
  "bs_parts (remove_stale_parts st) = (\<lambda>_. None)"
  by (simp_all add: remove_stale_parts_def Let_def reconcile_rows_eq digests_def)

text \<open>C25: opening the store after a crash, whatever the tables and the directory hold, leaves a digest indexed
  exactly when its file is there; part files are gone, indexed files are untouched, and the references to
  the blobs that remain are kept.\<close>

theorem open_reconciles:
  "let st' = BlobStore_open quota (Some st) in
     (\<forall>d. d \<in> set (digests st') \<longleftrightarrow> d \<in> set (digests st) \<and> valid_digest d \<and> bs_files st (path_for d) \<noteq> None)
     \<and> (\<forall>d. bs_files st' (path_for d) = (if valid_digest d \<and> d \<notin> set (digests st) then None else bs_files st (path_for d)))
     \<and> {d. valid_digest d \<and> bs_files st' (path_for d) \<noteq> None} = set (digests st')
     \<and> bs_parts st' = (\<lambda>_. None)
     \<and> filter (\<lambda>v. f_digest v \<in> set (digests st')) (bs_refs st') = filter (\<lambda>v. f_digest v \<in> set (digests st')) (bs_refs st)"
proof -
  let ?s = "st\<lparr>bs_quota := quota\<rparr>" let ?st' = "BlobStore_open quota (Some st)"
  have eq: "?st' = remove_stale_parts ?s" by (simp add: BlobStore_open_def)
  have dig: "d \<in> set (digests ?st') \<longleftrightarrow> d \<in> set (digests st) \<and> valid_digest d \<and> bs_files st (path_for d) \<noteq> None" for d
    unfolding eq by (auto simp: digests_def remove_stale_parts_tables)
  have fil: "bs_files ?st' (path_for d) = (if valid_digest d \<and> d \<notin> set (digests st) then None else bs_files st (path_for d))" for d
    unfolding eq remove_stale_parts_files by (simp add: digests_def)
  have "{d. valid_digest d \<and> bs_files ?st' (path_for d) \<noteq> None} = set (digests ?st')"
    using dig fil by (auto split: if_splits)
  moreover have "filter (\<lambda>v. f_digest v \<in> set (digests ?st')) (bs_refs ?st')
      = filter (\<lambda>v. f_digest v \<in> set (digests ?st')) (bs_refs st)"
    unfolding dig by (auto simp: eq remove_stale_parts_tables digests_def intro!: filter_cong)
  ultimately show ?thesis using dig fil by (simp add: eq remove_stale_parts_tables)
qed

lemma open_inv: "blob_inv sha st \<Longrightarrow> blob_inv sha (BlobStore_open quota (Some st))"
proof -
  assume inv: "blob_inv sha st"
  let ?s = "st\<lparr>bs_quota := quota\<rparr>"
  have rows: "valid_digest (b_digest r) \<and> bs_files ?s (path_for (b_digest r)) \<noteq> None" if "r \<in> set (bs_rows ?s)" for r
    using inv that by (auto simp: blob_inv_def files_ok_def row_backed_def)
  then have tables: "bs_rows (remove_stale_parts ?s) = bs_rows st" "bs_refs (remove_stale_parts ?s) = bs_refs st"
    unfolding remove_stale_parts_tables by (auto simp: filter_id_conv digests_def)
  have files: "bs_files (remove_stale_parts ?s) (path_for d)
      = (if valid_digest d \<and> d \<notin> set (digests st) then None else bs_files st (path_for d))" for d
    unfolding remove_stale_parts_files by (simp add: digests_def)
  have "row_backed (bs_files (remove_stale_parts ?s)) r" if "r \<in> set (bs_rows st)" for r
    using inv that files by (auto simp: blob_inv_def files_ok_def row_backed_def digests_def)
  then show ?thesis
    using inv files tables
    by (auto simp: blob_inv_def BlobStore_open_def refs_ok_def files_ok_def digests_def split: if_splits)
qed

section \<open>Runs\<close>

inductive blob_step :: "(u8 list \<Rightarrow> string) \<Rightarrow> BlobStore \<Rightarrow> BlobStore \<Rightarrow> bool" for sha where
  bstep_open: "blob_step sha st (BlobStore_open quota (Some st))"
| bstep_put: "valid_digest d \<Longrightarrow> put_stream sha io vio d declared input st = (res, st') \<Longrightarrow> blob_step sha st st'"
| bstep_verify: "verify_existing sha vio d st = (res, st') \<Longrightarrow> blob_step sha st st'"
| bstep_retain: "retain io k w ds e st = (res, st') \<Longrightarrow> blob_step sha st st'"
| bstep_retain_owners: "retain_per_owner io k es e st = (res, st') \<Longrightarrow> blob_step sha st st'"
| bstep_set_expiry: "set_reference_expiry io k w ex st = (res, st') \<Longrightarrow> blob_step sha st st'"
| bstep_clear_expiry: "clear_reference_expiry io k w st = (res, st') \<Longrightarrow> blob_step sha st st'"
| bstep_release: "release_references io k w st = (res, st') \<Longrightarrow> blob_step sha st st'"
| bstep_gc: "blob_garbage_collect io ok row_order ref_order now limit dry st = (res, st') \<Longrightarrow> blob_step sha st st'"

lemma blob_step_inv: "blob_step sha st st' \<Longrightarrow> blob_inv sha st \<Longrightarrow> blob_inv sha st'"
proof (induction rule: blob_step.induct)
  case bstep_open
  then show ?case by (rule open_inv)
next
  case (bstep_put d io vio declared input st res st')
  then show ?case using put_stream_inv by simp
next
  case (bstep_verify vio d st res st')
  then show ?case using verify_intact by simp
next
  case (bstep_retain io k w ds e st res st')
  then show ?case using retain_inv(1) by simp
next
  case (bstep_retain_owners io k es e st res st')
  then show ?case using retain_inv(2) by simp
next
  case (bstep_set_expiry io k w ex st res st')
  then show ?case using expiry_ops_inv(1) by simp
next
  case (bstep_clear_expiry io k w st res st')
  then show ?case using expiry_ops_inv(2) by simp
next
  case (bstep_release io k w st res st')
  then show ?case using expiry_ops_inv(3) by simp
next
  case (bstep_gc io ok row_order ref_order now limit dry st res st')
  then show ?case using gc_step by blast
qed

lemma fresh_blob_inv: "blob_inv sha (BlobStore_open quota None)"
  by (simp add: BlobStore_open_def blob_inv_def refs_ok_def files_ok_def digests_def remove_stale_parts_tables)
     (simp add: remove_stale_parts_files digests_def)


section \<open>A sample store\<close>

definition sample_sha :: "u8 list \<Rightarrow> string" where
  "sample_sha content = replicate 63 (CHR ''0'') @ [if content = [] then CHR ''0'' else CHR ''1'']"

definition sample_digest :: string where
  "sample_digest = replicate 63 (CHR ''0'') @ ''1''"

definition sample_put_io :: put_io where
  "sample_put_io = \<lparr>pi_query = True, pi_create = True, pi_write = \<lambda>_. True, pi_sync = True, pi_rename = True,
     pi_sync_dir = True, pi_insert = True, pi_unlink_part = True, pi_recheck = True, pi_unlink_target = True,
     pi_now = 5, pi_uuid = ''u''\<rparr>"

definition sample_verify_io :: verify_io where
  "sample_verify_io = \<lparr>vi_query = True, vi_read = True, vi_rename = True, vi_update = True, vi_now = 6, vi_uuid = ''q''\<rparr>"

lemma sample_digest_valid: "valid_digest sample_digest"
  by (simp add: BlobDigest_parse_def sample_digest_def list_all_iff is_ascii_hexdigit_def is_ascii_digit_def
      is_ascii_upper_def byte_of_def)

lemma fresh_blob_fields:
  "bs_rows (BlobStore_open q None) = []" "bs_refs (BlobStore_open q None) = []"
  "bs_parts (BlobStore_open q None) = (\<lambda>_. None)" "bs_quota (BlobStore_open q None) = q"
  "bs_files (BlobStore_open q None) (path_for d) = None"
  unfolding BlobStore_open_def option.case remove_stale_parts_tables remove_stale_parts_files
  by (simp_all add: remove_stale_parts_def Let_def reconcile_rows_eq)

lemma sample_upload:
  "\<exists>st'. put_stream sample_sha sample_put_io sample_verify_io sample_digest 1 [Inr [7]] (BlobStore_open 100 None)
     = (Ok (), st')"
  by (simp add: put_stream_def fresh_blob_fields put_body_def used_bytes_def over_quota_def find_blob_def
      sample_put_io_def MAX_BLOB_BYTES_def i64_max_def u64_saturating_add_def sample_sha_def sample_digest_def Let_def)

definition sample_blobs :: BlobStore where
  "sample_blobs = snd (put_stream sample_sha sample_put_io sample_verify_io sample_digest 1 [Inr [7]]
     (BlobStore_open 100 None))"

lemma sample_put:
  "put_stream sample_sha sample_put_io sample_verify_io sample_digest 1 [Inr [7]] (BlobStore_open 100 None)
     = (Ok (), sample_blobs)"
  using sample_upload by (auto simp: sample_blobs_def)

lemma sample_fields: "\<exists>r. find_blob sample_digest sample_blobs = Some r" "bs_refs sample_blobs = []"
  by (simp_all add: sample_blobs_def put_stream_def fresh_blob_fields put_body_def used_bytes_def over_quota_def find_blob_def
      sample_put_io_def MAX_BLOB_BYTES_def i64_max_def u64_saturating_add_def sample_sha_def sample_digest_def Let_def)


lemma sample_blobs_inv: "blob_inv sample_sha sample_blobs"
  using put_stream_inv [OF fresh_blob_inv sample_digest_valid sample_put] .


definition sample_pinned :: BlobStore where
  "sample_pinned = upsert_reference ''workspace'' ''w'' sample_digest None sample_blobs"




end
