(* ===== verification/Workspace.thy ===== *)
theory Workspace
  imports Core_Spec Core_Manifest Blob
begin

text \<open>
  Materialised workspaces and retained manifests, \<^verbatim>\<open>crates/eggwork-server/src/workspace.rs\<close>: the tables
  \<^verbatim>\<open>workspaces\<close> and \<^verbatim>\<open>retained_manifests\<close>, the directories below the manager's root, and every operation of
  \<^verbatim>\<open>WorkspaceManager\<close>. Operations that pin or release blobs take and return the blob store. UUID parsing,
  JSON and SHA-256 are parameters (\<open>ws_env\<close>); outcomes of system calls, the clock and fresh names are
  arguments.
\<close>

section \<open>State\<close>

definition DEFAULT_RETENTION_MILLIS :: u64 where
  "DEFAULT_RETENTION_MILLIS = 30 * 24 * 60 * 60 * 1000"

datatype WorkspaceError =
    WsInvalidManifest | WsInvalidPatch | WsBaseMissing | WsInvalidBlob | WsBlobSizeMismatch
  | WsQuotaExceeded | WsConflict | WsNotFound | WsMetadata | WsBlob BlobError | WsIo | WsJson | WsWorker

record 'b ws_env =
  parse_uuid :: "string \<Rightarrow> bool"
  manifest_to_vec :: "WorkspaceManifest \<Rightarrow> 'b option"
  manifest_from_slice :: "'b \<Rightarrow> WorkspaceManifest option"
  manifest_digest :: "WorkspaceManifest \<Rightarrow> BlobDigest option"
  blob_sha :: "u8 list \<Rightarrow> string"

record workspace_row =
  w_workspace_id :: WorkspaceId
  w_execution_id :: ExecutionId
  w_generation :: int
  w_principal_id :: PrincipalId
  w_manifest_digest :: string
  w_storage_key :: string
  w_logical_bytes :: int
  w_state :: string
  w_created :: int
  w_expires :: "int option"

record 'b manifest_row =
  m_principal_id :: string
  m_manifest_digest :: string
  m_json :: 'b
  m_logical_bytes :: int
  m_created :: int
  m_expires :: "int option"

datatype tree_node = TreeDir | TreeFile "u8 list" bool

type_synonym tree = "string \<rightharpoonup> tree_node"

text \<open>A link carries whether it leads to a directory, which \<^verbatim>\<open>Path::is_dir\<close> asks.\<close>

datatype root_entry = RootDir tree | RootSymlink bool | RootFile

record 'b WorkspaceManager =
  wk_quota :: u64
  wk_rows :: "workspace_row list"
  wk_manifests :: "'b manifest_row list"
  wk_root :: "string \<rightharpoonup> root_entry"
  wk_cursor :: "string option"

record ReadyWorkspace =
  rw_root :: string
  rw_logical_bytes :: u64
  rw_manifest_digest :: string

record WorkspaceRecord =
  wr_execution_id :: string
  wr_generation :: u64
  wr_principal_id :: string
  wr_manifest_digest :: string
  wr_storage_key :: string
  wr_logical_bytes :: u64
  wr_state :: string
  wr_expires :: "u64 option"

definition valid_storage_key :: "'b ws_env \<Rightarrow> string \<Rightarrow> bool" where
  "valid_storage_key env key =
     (case strip_prefix ''workspace-'' key of None \<Rightarrow> False | Some v \<Rightarrow> parse_uuid env v)"

definition manifest_owner_id :: "PrincipalId \<Rightarrow> string \<Rightarrow> string" where
  "manifest_owner_id pid digest = pid @ '':'' @ digest"

definition is_dir :: "'b WorkspaceManager \<Rightarrow> string \<Rightarrow> bool" where
  "is_dir wk key \<longleftrightarrow> (case wk_root wk key of
     Some (RootDir _) \<Rightarrow> True | Some (RootSymlink to_dir) \<Rightarrow> to_dir | _ \<Rightarrow> False)"

section \<open>Lookup and resolution\<close>

definition find_workspace :: "WorkspaceId \<Rightarrow> 'b WorkspaceManager \<Rightarrow> workspace_row option" where
  "find_workspace i wk = List.find (\<lambda>r. w_workspace_id r = i) (wk_rows wk)"

definition lookup_workspace ::
  "bool \<Rightarrow> WorkspaceId \<Rightarrow> 'b WorkspaceManager \<Rightarrow> WorkspaceError + WorkspaceRecord option" where
  "lookup_workspace io i wk =
     (if \<not> io then Err WsMetadata
      else Ok (map_option (\<lambda>r. \<lparr>wr_execution_id = w_execution_id r, wr_generation = as_u64 (w_generation r),
             wr_principal_id = w_principal_id r, wr_manifest_digest = w_manifest_digest r,
             wr_storage_key = w_storage_key r, wr_logical_bytes = as_u64 (max 0 (w_logical_bytes r)),
             wr_state = w_state r, wr_expires = map_option as_u64 (w_expires r)\<rparr>) (find_workspace i wk)))"

definition has_expired :: "u64 \<Rightarrow> u64 option \<Rightarrow> bool" where
  "has_expired now e \<longleftrightarrow> (case e of None \<Rightarrow> False | Some t \<Rightarrow> t \<le> now)"

definition resolve ::
  "'b ws_env \<Rightarrow> bool \<Rightarrow> u64 \<Rightarrow> WorkspaceId \<Rightarrow> ExecutionId \<Rightarrow> ExecutionGeneration \<Rightarrow> PrincipalId
     \<Rightarrow> 'b WorkspaceManager \<Rightarrow> WorkspaceError + ReadyWorkspace" where
  "resolve env io now i execution_id generation principal_id wk =
     and_then (lookup_workspace io i wk) (\<lambda>found. case found of
       None \<Rightarrow> Err WsNotFound
     | Some r \<Rightarrow>
         if wr_state r \<noteq> ''Ready'' \<or> wr_execution_id r \<noteq> execution_id \<or> wr_generation r \<noteq> generation
            \<or> wr_principal_id r \<noteq> principal_id \<or> has_expired now (wr_expires r)
         then Err WsNotFound
         else if \<not> valid_storage_key env (wr_storage_key r) then Err WsNotFound
         else (case wk_root wk (wr_storage_key r) of
                 None \<Rightarrow> Err WsIo
               | Some (RootDir _) \<Rightarrow> Ok \<lparr>rw_root = wr_storage_key r, rw_logical_bytes = wr_logical_bytes r,
                   rw_manifest_digest = wr_manifest_digest r\<rparr>
               | Some _ \<Rightarrow> Err WsNotFound))"

section \<open>Retained manifests\<close>

definition manifest_digests :: "WorkspaceManifest \<Rightarrow> BlobDigest list" where
  "manifest_digests man = remdups (concat (map (\<lambda>e. case e of File _ d _ _ \<Rightarrow> [d] | _ \<Rightarrow> []) (wm_entries man)))"

definition manifest_is :: "string \<Rightarrow> string \<Rightarrow> 'b manifest_row \<Rightarrow> bool" where
  "manifest_is p d r \<longleftrightarrow> m_principal_id r = p \<and> m_manifest_digest r = d"

definition find_manifest :: "string \<Rightarrow> string \<Rightarrow> 'b WorkspaceManager \<Rightarrow> 'b manifest_row option" where
  "find_manifest p d wk = List.find (manifest_is p d) (wk_manifests wk)"

record manifest_io =
  st_query :: bool
  st_upsert :: bool
  st_retain :: bool

definition upsert_manifest ::
  "string \<Rightarrow> string \<Rightarrow> 'b \<Rightarrow> int \<Rightarrow> int \<Rightarrow> int \<Rightarrow> 'b WorkspaceManager \<Rightarrow> 'b WorkspaceManager" where
  "upsert_manifest p d json bytes created expires wk =
     (if find_manifest p d wk = None
      then wk\<lparr>wk_manifests := wk_manifests wk @ [\<lparr>m_principal_id = p, m_manifest_digest = d, m_json = json,
             m_logical_bytes = bytes, m_created = created, m_expires = Some expires\<rparr>]\<rparr>
      else wk\<lparr>wk_manifests := map (\<lambda>r. if manifest_is p d r
             then r\<lparr>m_json := json, m_logical_bytes := bytes, m_expires := Some expires\<rparr> else r) (wk_manifests wk)\<rparr>)"

definition store_manifest ::
  "'b ws_env \<Rightarrow> manifest_io \<Rightarrow> u64 \<Rightarrow> PrincipalId \<Rightarrow> WorkspaceManifest \<Rightarrow> string \<Rightarrow> 'b WorkspaceManager \<Rightarrow> BlobStore
     \<Rightarrow> (WorkspaceError + unit) \<times> 'b WorkspaceManager \<times> BlobStore" where
  "store_manifest env io now pid manifest digest wk bl =
     (case (WorkspaceManifest_validate manifest, BlobDigest_parse digest) of
        (Inr _, Inr _) \<Rightarrow>
          (case manifest_to_vec env manifest of
             None \<Rightarrow> (Err WsJson, wk, bl)
           | Some encoded \<Rightarrow>
               let fresh_expiry = u64_saturating_add now DEFAULT_RETENTION_MILLIS in
               if \<not> st_query io then (Err WsMetadata, wk, bl)
               else
                 let expires =
                   (case Option.bind (find_manifest pid digest wk) m_expires of
                      None \<Rightarrow> fresh_expiry
                    | Some v \<Rightarrow> max (as_u64 (max 0 v)) fresh_expiry)
                 in
                 if \<not> st_upsert io then (Err WsMetadata, wk, bl)
                 else
                   let wk' = upsert_manifest pid digest encoded (as_i64 (logical_bytes manifest))
                               (as_i64 now) (as_i64 expires) wk in
                   (case retain (st_retain io) ''manifest'' (manifest_owner_id pid digest)
                           (manifest_digests manifest) (Some expires) bl of
                      (Inl e, bl') \<Rightarrow> (Err (WsBlob e), wk', bl')
                    | (Inr _, bl') \<Rightarrow> (Ok (), wk', bl')))
      | _ \<Rightarrow> (Err WsInvalidManifest, wk, bl))"

definition drop_manifest ::
  "bool \<Rightarrow> bool \<Rightarrow> string \<Rightarrow> string \<Rightarrow> 'b WorkspaceManager \<Rightarrow> BlobStore \<Rightarrow> 'b WorkspaceManager \<times> BlobStore" where
  "drop_manifest delete_ok release_ok pid digest wk bl =
     ((if delete_ok then wk\<lparr>wk_manifests := filter (\<lambda>r. \<not> manifest_is pid digest r) (wk_manifests wk)\<rparr> else wk),
      snd (release_references release_ok ''manifest'' (manifest_owner_id pid digest) bl))"

definition sizes_match :: "bool \<Rightarrow> WorkspaceManifest \<Rightarrow> BlobStore \<Rightarrow> bool" where
  "sizes_match io manifest bl \<longleftrightarrow>
     list_all (\<lambda>e. case e of File _ d size_bytes _ \<Rightarrow> stored_size io d bl = Ok size_bytes | _ \<Rightarrow> True) (wm_entries manifest)"

record lookup_io =
  li_query :: bool
  li_size :: bool
  li_delete :: bool
  li_release :: bool

definition lookup_manifest ::
  "'b ws_env \<Rightarrow> lookup_io \<Rightarrow> u64 \<Rightarrow> PrincipalId \<Rightarrow> BlobDigest \<Rightarrow> 'b WorkspaceManager \<Rightarrow> BlobStore
     \<Rightarrow> (WorkspaceError + WorkspaceManifest option) \<times> 'b WorkspaceManager \<times> BlobStore" where
  "lookup_manifest env io now pid digest wk bl =
     (if \<not> li_query io then (Err WsMetadata, wk, bl)
      else case find_manifest pid digest wk of
        None \<Rightarrow> (Ok None, wk, bl)
      | Some r \<Rightarrow>
          if has_expired now (map_option (\<lambda>v. as_u64 (max 0 v)) (m_expires r)) then (Ok None, wk, bl)
          else (case manifest_from_slice env (m_json r) of
                  None \<Rightarrow> (Err WsInvalidManifest, wk, bl)
                | Some manifest \<Rightarrow>
                    if WorkspaceManifest_validate manifest \<noteq> Ok () \<or> \<not> sizes_match (li_size io) manifest bl
                    then (case drop_manifest (li_delete io) (li_release io) pid digest wk bl of
                            (wk', bl') \<Rightarrow> (Ok None, wk', bl'))
                    else (Ok (Some manifest), wk, bl)))"

definition is_retained_manifest :: "bool \<Rightarrow> string \<Rightarrow> string \<Rightarrow> 'b WorkspaceManager \<Rightarrow> bool" where
  "is_retained_manifest io pid digest wk \<longleftrightarrow> io \<and> find_manifest pid digest wk \<noteq> None"

section \<open>Manifest retention\<close>

definition manifest_expired :: "int \<Rightarrow> 'b manifest_row \<Rightarrow> bool" where
  "manifest_expired now r \<longleftrightarrow> (case m_expires r of None \<Rightarrow> False | Some e \<Rightarrow> e \<le> now)"

text \<open>
  The loop of \<^verbatim>\<open>manifest_garbage_collect\<close>. Between the selection and a deletion a concurrent store may have
  extended a row; the deletion repeats the expiry test, and references are released only when it deleted
  something.
\<close>

fun collect_manifests ::
  "(string \<Rightarrow> bool) \<Rightarrow> int \<Rightarrow> (string \<times> string) list \<Rightarrow> nat \<times> 'b WorkspaceManager \<times> BlobStore
     \<Rightarrow> nat \<times> 'b WorkspaceManager \<times> BlobStore" where
  "collect_manifests release_ok now [] s = s"
| "collect_manifests release_ok now ((p, d) # rest) (n, wk, bl) =
     (if \<exists>r \<in> set (wk_manifests wk). manifest_is p d r \<and> manifest_expired now r
      then collect_manifests release_ok now rest
        (n + 1,
         wk\<lparr>wk_manifests := filter (\<lambda>r. \<not> (manifest_is p d r \<and> manifest_expired now r)) (wk_manifests wk)\<rparr>,
         snd (release_references (release_ok (manifest_owner_id p d)) ''manifest'' (manifest_owner_id p d) bl))
      else collect_manifests release_ok now rest (n, wk, bl))"

definition expired_manifests :: "('b manifest_row list \<Rightarrow> 'b manifest_row list) \<Rightarrow> int \<Rightarrow> nat \<Rightarrow> 'b WorkspaceManager
     \<Rightarrow> (string \<times> string) list" where
  "expired_manifests order now limit wk =
     map (\<lambda>r. (m_principal_id r, m_manifest_digest r))
       (take limit (sort_key (\<lambda>r. the (m_expires r)) (filter (manifest_expired now) (order (wk_manifests wk)))))"

definition manifest_garbage_collect ::
  "bool \<Rightarrow> (string \<Rightarrow> bool) \<Rightarrow> ('b manifest_row list \<Rightarrow> 'b manifest_row list) \<Rightarrow> u64 \<Rightarrow> nat \<Rightarrow> bool
     \<Rightarrow> 'b WorkspaceManager \<Rightarrow> BlobStore \<Rightarrow> (WorkspaceError + nat \<times> nat) \<times> 'b WorkspaceManager \<times> BlobStore" where
  "manifest_garbage_collect io release_ok order now limit dry_run wk bl =
     (if \<not> io then (Err WsMetadata, wk, bl)
      else
        let dead = expired_manifests order (as_i64 now) limit wk in
        if dry_run then (Ok (length dead, 0), wk, bl)
        else (case collect_manifests release_ok (as_i64 now) dead (0, wk, bl) of
                (deleted, wk', bl') \<Rightarrow> (Ok (length dead, deleted), wk', bl')))"

definition recover_manifest_retention ::
  "bool \<Rightarrow> u64 \<Rightarrow> 'b WorkspaceManager \<Rightarrow> (WorkspaceError + unit) \<times> 'b WorkspaceManager" where
  "recover_manifest_retention io expires wk =
     (if \<not> io then (Err WsMetadata, wk)
      else (Ok (), wk\<lparr>wk_manifests := map (\<lambda>r. if m_expires r = None then r\<lparr>m_expires := Some (as_i64 expires)\<rparr> else r)
             (wk_manifests wk)\<rparr>))"

record reconcile_io =
  ri_query :: bool
  ri_collect :: bool
  ri_owners :: bool
  ri_delete :: "string \<Rightarrow> bool"
  ri_release :: "string \<Rightarrow> bool"
  ri_retained :: "string \<Rightarrow> bool"

text \<open>First step: rows whose key or body is not valid are dropped with their references.\<close>

definition manifest_row_valid :: "'b ws_env \<Rightarrow> 'b manifest_row \<Rightarrow> bool" where
  "manifest_row_valid env r \<longleftrightarrow>
     BlobDigest_parse (m_manifest_digest r) = Ok (m_manifest_digest r)
     \<and> id_new ''principal id'' (m_principal_id r) = Ok (m_principal_id r)
     \<and> (case manifest_from_slice env (m_json r) of None \<Rightarrow> False
        | Some manifest \<Rightarrow> WorkspaceManifest_validate manifest = Ok ())"

definition drop_invalid_manifests ::
  "'b ws_env \<Rightarrow> reconcile_io \<Rightarrow> nat \<Rightarrow> 'b WorkspaceManager \<Rightarrow> BlobStore \<Rightarrow> 'b WorkspaceManager \<times> BlobStore" where
  "drop_invalid_manifests env io limit wk bl =
     fold (\<lambda>r (wk, bl).
        if manifest_row_valid env r then (wk, bl)
        else let w = manifest_owner_id (m_principal_id r) (m_manifest_digest r) in
             drop_manifest (ri_delete io w) (ri_release io w) (m_principal_id r) (m_manifest_digest r) wk bl)
       (take limit (sort_key (\<lambda>r. (m_principal_id r, m_manifest_digest r)) (wk_manifests wk))) (wk, bl)"

text \<open>Last step: one page of reference owners, released unless a row still names them.\<close>

definition owner_retained :: "reconcile_io \<Rightarrow> 'b WorkspaceManager \<Rightarrow> string \<Rightarrow> bool" where
  "owner_retained io wk owner =
     (case rsplit_once (CHR '':'') owner of
        Some (p, d) \<Rightarrow> is_retained_manifest (ri_retained io owner) p d wk
      | None \<Rightarrow> False)"

definition release_orphans ::
  "reconcile_io \<Rightarrow> 'b WorkspaceManager \<Rightarrow> string list \<Rightarrow> BlobStore \<Rightarrow> BlobStore" where
  "release_orphans io wk owners bl =
     fold (\<lambda>w bl. if owner_retained io wk w then bl else snd (release_references (ri_release io w) ''manifest'' w bl))
       owners bl"

definition reconcile_manifests ::
  "'b ws_env \<Rightarrow> reconcile_io \<Rightarrow> ('b manifest_row list \<Rightarrow> 'b manifest_row list) \<Rightarrow> u64 \<Rightarrow> nat
     \<Rightarrow> 'b WorkspaceManager \<Rightarrow> BlobStore \<Rightarrow> (WorkspaceError + unit) \<times> 'b WorkspaceManager \<times> BlobStore" where
  "reconcile_manifests env io order now requested wk bl =
     (let limit = max 1 (min 1024 requested) in
      if \<not> ri_query io then (Err WsMetadata, wk, bl)
      else case drop_invalid_manifests env io limit wk bl of (wk1, bl1) \<Rightarrow>
        (case manifest_garbage_collect (ri_collect io) (ri_release io) order now limit False wk1 bl1 of
           (Inl e, wk2, bl2) \<Rightarrow> (Err e, wk2, bl2)
         | (Inr _, wk2, bl2) \<Rightarrow>
             (case reference_owners (ri_owners io) ''manifest'' (wk_cursor wk2) limit bl2 of
                Inl e \<Rightarrow> (Err (WsBlob e), wk2, bl2)
              | Inr owners \<Rightarrow>
                  (Ok (),
                   wk2\<lparr>wk_cursor := (if length owners \<ge> limit then Some (last owners) else None)\<rparr>,
                   release_orphans io wk2 owners bl2))))"

section \<open>Activity and expiry of workspaces\<close>

definition mark_terminal ::
  "bool \<Rightarrow> bool \<Rightarrow> WorkspaceId \<Rightarrow> u64 \<Rightarrow> 'b WorkspaceManager \<Rightarrow> BlobStore
     \<Rightarrow> (WorkspaceError + unit) \<times> 'b WorkspaceManager \<times> BlobStore" where
  "mark_terminal io blob_io i expires wk bl =
     (if \<not> io then (Err WsMetadata, wk, bl)
      else
        let wk' = wk\<lparr>wk_rows := map (\<lambda>r. if w_workspace_id r = i then r\<lparr>w_expires := Some (as_i64 expires)\<rparr> else r)
                    (wk_rows wk)\<rparr> in
        (case set_reference_expiry blob_io ''workspace'' i expires bl of
           (Inl e, bl') \<Rightarrow> (Err (WsBlob e), wk', bl') | (Inr _, bl') \<Rightarrow> (Ok (), wk', bl')))"

text \<open>\<^verbatim>\<open>mark_active\<close> reads and then writes; between the two the manager may have changed, so the two halves are
  separate definitions.\<close>

definition active_key ::
  "'b ws_env \<Rightarrow> bool \<Rightarrow> u64 \<Rightarrow> WorkspaceId \<Rightarrow> 'b WorkspaceManager \<Rightarrow> WorkspaceError + string" where
  "active_key env io now i wk =
     (if \<not> io then Err WsMetadata
      else case List.find (\<lambda>r. w_workspace_id r = i \<and> w_state r = ''Ready''
                   \<and> (case w_expires r of None \<Rightarrow> True | Some e \<Rightarrow> e > as_i64 now)) (wk_rows wk) of
        None \<Rightarrow> Err WsNotFound
      | Some r \<Rightarrow>
          if \<not> valid_storage_key env (w_storage_key r) then Err WsNotFound
          else (case wk_root wk (w_storage_key r) of
                  None \<Rightarrow> Err WsIo | Some (RootDir _) \<Rightarrow> Ok (w_storage_key r) | Some _ \<Rightarrow> Err WsNotFound))"

definition activate ::
  "bool \<Rightarrow> bool \<Rightarrow> WorkspaceId \<Rightarrow> string \<Rightarrow> 'b WorkspaceManager \<Rightarrow> BlobStore
     \<Rightarrow> (WorkspaceError + unit) \<times> 'b WorkspaceManager \<times> BlobStore" where
  "activate io blob_io i key wk bl =
     (if \<not> io then (Err WsMetadata, wk, bl)
      else
        let hit = (\<lambda>r. w_workspace_id r = i \<and> w_storage_key r = key \<and> w_state r = ''Ready'');
            wk' = wk\<lparr>wk_rows := map (\<lambda>r. if hit r then r\<lparr>w_expires := None\<rparr> else r) (wk_rows wk)\<rparr>
        in if \<not> list_ex hit (wk_rows wk) then (Err WsNotFound, wk', bl)
           else (case clear_reference_expiry blob_io ''workspace'' i bl of
                   (Inl e, bl') \<Rightarrow> (Err (WsBlob e), wk', bl') | (Inr _, bl') \<Rightarrow> (Ok (), wk', bl')))"

definition mark_active ::
  "'b ws_env \<Rightarrow> bool \<Rightarrow> bool \<Rightarrow> bool \<Rightarrow> u64 \<Rightarrow> WorkspaceId \<Rightarrow> 'b WorkspaceManager \<Rightarrow> BlobStore
     \<Rightarrow> (WorkspaceError + unit) \<times> 'b WorkspaceManager \<times> BlobStore" where
  "mark_active env io io2 blob_io now i wk bl =
     (case active_key env io now i wk of
        Inl e \<Rightarrow> (Err e, wk, bl) | Inr key \<Rightarrow> activate io2 blob_io i key wk bl)"

fun set_expiries :: "(string \<Rightarrow> bool) \<Rightarrow> u64 \<Rightarrow> string list \<Rightarrow> BlobStore \<Rightarrow> (WorkspaceError + unit) \<times> BlobStore" where
  "set_expiries io e [] bl = (Ok (), bl)"
| "set_expiries io e (i # is) bl =
     (case set_reference_expiry (io i) ''workspace'' i e bl of
        (Inl err, bl') \<Rightarrow> (Err (WsBlob err), bl') | (Inr _, bl') \<Rightarrow> set_expiries io e is bl')"

definition recover_retention ::
  "bool \<Rightarrow> (string \<Rightarrow> bool) \<Rightarrow> u64 \<Rightarrow> 'b WorkspaceManager \<Rightarrow> BlobStore
     \<Rightarrow> (WorkspaceError + unit) \<times> 'b WorkspaceManager \<times> BlobStore" where
  "recover_retention io blob_io expires wk bl =
     (if \<not> io then (Err WsMetadata, wk, bl)
      else
        let ids = map w_workspace_id (filter (\<lambda>r. w_expires r = None) (wk_rows wk));
            wk' = wk\<lparr>wk_rows := map (\<lambda>r. if w_expires r = None then r\<lparr>w_expires := Some (as_i64 expires)\<rparr> else r)
                    (wk_rows wk)\<rparr>
        in (case set_expiries blob_io expires ids bl of (res, bl') \<Rightarrow> (res, wk', bl')))"

section \<open>Collecting workspaces\<close>

definition workspace_expired :: "int \<Rightarrow> workspace_row \<Rightarrow> bool" where
  "workspace_expired now r \<longleftrightarrow> (case w_expires r of None \<Rightarrow> False | Some e \<Rightarrow> e \<le> now)"

text \<open>The loop: directories go at once, the deletion of their rows only with the commit. The directories
  removed so far and the ids whose rows are deleted are returned with the verdict.\<close>

fun remove_directories ::
  "'b ws_env \<Rightarrow> (string \<Rightarrow> bool) \<Rightarrow> (string \<times> string) list \<Rightarrow> (string \<rightharpoonup> root_entry) \<Rightarrow> string list
     \<Rightarrow> bool \<times> (string \<rightharpoonup> root_entry) \<times> string list" where
  "remove_directories env rmdir [] root gone = (True, root, gone)"
| "remove_directories env rmdir ((i, key) # rest) root gone =
     (if \<not> valid_storage_key env key then remove_directories env rmdir rest root gone
      else if root key \<noteq> None \<and> \<not> rmdir key then (False, root, gone)
      else remove_directories env rmdir rest (root(key := None)) (gone @ [i]))"

definition workspace_garbage_collect ::
  "'b ws_env \<Rightarrow> bool \<Rightarrow> (string \<Rightarrow> bool) \<Rightarrow> (workspace_row list \<Rightarrow> workspace_row list) \<Rightarrow> u64 \<Rightarrow> nat \<Rightarrow> bool
     \<Rightarrow> 'b WorkspaceManager \<Rightarrow> (WorkspaceError + nat \<times> u64 \<times> nat) \<times> 'b WorkspaceManager" where
  "workspace_garbage_collect env io rmdir order now limit dry_run wk =
     (if \<not> io then (Err WsMetadata, wk)
      else
        let candidates = take limit (sort_key (\<lambda>r. the (w_expires r))
                           (filter (workspace_expired (as_i64 now)) (order (wk_rows wk))));
            bytes = foldl (\<lambda>s r. u64_saturating_add s (as_u64 (max 0 (w_logical_bytes r)))) 0 candidates
        in
        if dry_run then (Ok (length candidates, bytes, 0), wk)
        else (case remove_directories env rmdir (map (\<lambda>r. (w_workspace_id r, w_storage_key r)) candidates) (wk_root wk) [] of
                (False, root, _) \<Rightarrow> (Err WsIo, wk\<lparr>wk_root := root\<rparr>)
              | (True, root, gone) \<Rightarrow>
                  (Ok (length candidates, bytes, length gone),
                   wk\<lparr>wk_root := root, wk_rows := filter (\<lambda>r. \<not> (w_workspace_id r \<in> set gone
                        \<and> workspace_expired (as_i64 now) r)) (wk_rows wk)\<rparr>)))"

section \<open>Materialising a tree\<close>

definition parent_exists :: "tree \<Rightarrow> string \<Rightarrow> bool" where
  "parent_exists t p \<longleftrightarrow> (case rsplit_once slash p of None \<Rightarrow> True | Some (q, _) \<Rightarrow> t q = Some TreeDir)"

text \<open>One entry: an exclusive creation below an existing directory. The error, if any, and the staged tree.\<close>

definition place_entry ::
  "(string \<Rightarrow> bool) \<Rightarrow> BlobStore \<Rightarrow> WorkspaceEntry \<Rightarrow> tree \<Rightarrow> WorkspaceError option \<times> tree" where
  "place_entry io bl e t =
     (case e of
        Directory p \<Rightarrow>
          if \<not> io p \<or> t p \<noteq> None \<or> \<not> parent_exists t p then (Some WsIo, t) else (None, t(p \<mapsto> TreeDir))
      | File p d size_bytes executable \<Rightarrow>
          (case bs_files bl (path_for d) of
             None \<Rightarrow> (Some WsIo, t)
           | Some content \<Rightarrow>
               if \<not> io p \<or> t p \<noteq> None \<or> \<not> parent_exists t p then (Some WsIo, t)
               else if of_nat (length content) \<noteq> size_bytes
               then (Some WsBlobSizeMismatch, t(p \<mapsto> TreeFile content executable))
               else (None, t(p \<mapsto> TreeFile content executable)))
      | Symlink _ _ \<Rightarrow> (Some WsInvalidManifest, t))"

fun place_entries ::
  "(string \<Rightarrow> bool) \<Rightarrow> BlobStore \<Rightarrow> WorkspaceEntry list \<Rightarrow> tree \<Rightarrow> WorkspaceError option \<times> tree" where
  "place_entries io bl [] t = (None, t)"
| "place_entries io bl (e # es) t =
     (case place_entry io bl e t of
        (Some err, t') \<Rightarrow> (Some err, t') | (None, t') \<Rightarrow> place_entries io bl es t')"

record tree_io =
  ti_create :: bool
  ti_entry :: "string \<Rightarrow> bool"
  ti_sync :: bool

text \<open>The staged directory, if it could be created, and the error that stopped the copy, if any.\<close>

definition materialize_tree ::
  "tree_io \<Rightarrow> WorkspaceManifest \<Rightarrow> BlobStore \<Rightarrow> WorkspaceError option \<times> tree option" where
  "materialize_tree io manifest bl =
     (if \<not> ti_create io then (Some WsIo, None)
      else case place_entries (ti_entry io) bl (sort_key we_path (wm_entries manifest)) (\<lambda>_. None) of
        (Some e, t) \<Rightarrow> (Some e, Some t)
      | (None, t) \<Rightarrow> if ti_sync io then (None, Some t) else (Some WsIo, Some t))"

text \<open>Every referenced blob is checked before anything is created; checking updates the blob store.\<close>

fun verify_blobs ::
  "(u8 list \<Rightarrow> string) \<Rightarrow> bool \<Rightarrow> (BlobDigest \<Rightarrow> verify_io) \<Rightarrow> WorkspaceEntry list \<Rightarrow> BlobStore
     \<Rightarrow> WorkspaceError option \<times> BlobStore" where
  "verify_blobs sha io vio [] bl = (None, bl)"
| "verify_blobs sha io vio (e # es) bl =
     (case e of
        File _ d size_bytes _ \<Rightarrow>
          if unat size_bytes > MAX_BLOB_BYTES then (Some WsBlobSizeMismatch, bl)
          else (case stored_size io d bl of
                  Inl _ \<Rightarrow> (Some WsInvalidBlob, bl)
                | Inr n \<Rightarrow>
                    if n \<noteq> size_bytes then (Some WsBlobSizeMismatch, bl)
                    else (case verify_existing sha (vio d) d bl of
                            (Inl _, bl') \<Rightarrow> (Some WsInvalidBlob, bl')
                          | (Inr _, bl') \<Rightarrow> verify_blobs sha io vio es bl'))
      | _ \<Rightarrow> verify_blobs sha io vio es bl)"

record materialize_io =
  mi_lookup :: bool
  mi_query :: bool
  mi_size :: bool
  mi_verify :: "BlobDigest \<Rightarrow> verify_io"
  mi_retain :: bool
  mi_manifest :: manifest_io
  mi_worker :: bool
  mi_tree :: tree_io
  mi_rename :: bool
  mi_sync :: bool
  mi_lock :: bool
  mi_insert :: bool
  mi_rmdir :: bool
  mi_release :: bool
  mi_now :: u64
  mi_created :: int
  mi_nonce :: string

text \<open>What follows the checks and the pinning: stage, rename, sync, insert; each failure removes what the
  step before made visible and releases the references.\<close>

definition undo ::
  "materialize_io \<Rightarrow> WorkspaceId \<Rightarrow> string \<Rightarrow> WorkspaceError \<Rightarrow> 'b WorkspaceManager \<Rightarrow> BlobStore
     \<Rightarrow> (WorkspaceError + ReadyWorkspace) \<times> 'b WorkspaceManager \<times> BlobStore" where
  "undo io i name err wk bl =
     (Err err, (if mi_rmdir io then wk\<lparr>wk_root := (wk_root wk)(name := None)\<rparr> else wk),
      snd (release_references (mi_release io) ''workspace'' i bl))"

definition publish_tree ::
  "materialize_io \<Rightarrow> WorkspaceId \<Rightarrow> ExecutionHandle \<Rightarrow> PrincipalId \<Rightarrow> WorkspaceManifest \<Rightarrow> string \<Rightarrow> u64
     \<Rightarrow> 'b WorkspaceManager \<Rightarrow> BlobStore \<Rightarrow> (WorkspaceError + ReadyWorkspace) \<times> 'b WorkspaceManager \<times> BlobStore" where
  "publish_tree io i handle pid manifest digest initial_expiry wk bl =
     (let stage = ''.staging-'' @ mi_nonce io; target = ''workspace-'' @ mi_nonce io;
          (err, staged) = materialize_tree (mi_tree io) manifest bl;
          wk1 = (case staged of None \<Rightarrow> wk | Some t \<Rightarrow> wk\<lparr>wk_root := (wk_root wk)(stage \<mapsto> RootDir t)\<rparr>)
      in
      if \<not> mi_worker io then undo io i stage WsWorker wk1 bl
      else case err of
        Some e \<Rightarrow> undo io i stage e wk1 bl
      | None \<Rightarrow>
          if \<not> mi_rename io then undo io i stage WsIo wk1 bl
          else
            let wk2 = wk1\<lparr>wk_root := (wk_root wk1)(stage := None, target := wk_root wk1 stage)\<rparr> in
            if \<not> mi_sync io then undo io i target WsIo wk2 bl
            else if \<not> mi_lock io then undo io i target WsWorker wk2 bl
            else if \<not> mi_insert io \<or> list_ex (\<lambda>r. w_workspace_id r = i \<or> w_storage_key r = target) (wk_rows wk)
            then undo io i target WsMetadata wk2 bl
            else
              (Ok \<lparr>rw_root = target, rw_logical_bytes = logical_bytes manifest, rw_manifest_digest = digest\<rparr>,
               wk2\<lparr>wk_rows := wk_rows wk2 @
                 [\<lparr>w_workspace_id = i, w_execution_id = eh_execution_id handle,
                   w_generation = as_i64 (eh_generation handle), w_principal_id = pid, w_manifest_digest = digest,
                   w_storage_key = target, w_logical_bytes = as_i64 (logical_bytes manifest), w_state = ''Ready'',
                   w_created = mi_created io, w_expires = Some (as_i64 initial_expiry)\<rparr>]\<rparr>,
               bl))"

definition ready_bytes :: "'b WorkspaceManager \<Rightarrow> WorkspaceError + int" where
  "ready_bytes wk =
     (let s = sum_list (map w_logical_bytes (filter (\<lambda>r. w_state r = ''Ready'') (wk_rows wk))) in
      if s > i64_max then Err WsMetadata else Ok s)"

definition materialize_new ::
  "'b ws_env \<Rightarrow> materialize_io \<Rightarrow> WorkspaceId \<Rightarrow> ExecutionHandle \<Rightarrow> PrincipalId \<Rightarrow> WorkspaceManifest \<Rightarrow> string
     \<Rightarrow> 'b WorkspaceManager \<Rightarrow> BlobStore \<Rightarrow> (WorkspaceError + ReadyWorkspace) \<times> 'b WorkspaceManager \<times> BlobStore" where
  "materialize_new env io i handle pid manifest digest wk bl =
     (if \<not> mi_query io then (Err WsMetadata, wk, bl)
      else case ready_bytes wk of
        Inl e \<Rightarrow> (Err e, wk, bl)
      | Inr used \<Rightarrow>
          if u64_saturating_add (of_int (max 0 used)) (logical_bytes manifest) > wk_quota wk
          then (Err WsQuotaExceeded, wk, bl)
          else (case verify_blobs (blob_sha env) (mi_size io) (mi_verify io) (wm_entries manifest) bl of
                  (Some e, bl1) \<Rightarrow> (Err e, wk, bl1)
                | (None, bl1) \<Rightarrow>
                    let initial_expiry = u64_saturating_add (mi_now io) DEFAULT_RETENTION_MILLIS in
                    (case retain (mi_retain io) ''workspace'' i (manifest_digests manifest) (Some initial_expiry) bl1 of
                       (Inl e, bl2) \<Rightarrow> (Err (WsBlob e), wk, bl2)
                     | (Inr _, bl2) \<Rightarrow>
                         (case store_manifest env (mi_manifest io) (mi_now io) pid manifest digest wk bl2 of
                            (Inl e, wk3, bl3) \<Rightarrow> (Err e, wk3, bl3)
                          | (Inr _, wk3, bl3) \<Rightarrow>
                              publish_tree io i handle pid manifest digest initial_expiry wk3 bl3))))"

definition materialize ::
  "'b ws_env \<Rightarrow> materialize_io \<Rightarrow> WorkspaceId \<Rightarrow> ExecutionHandle \<Rightarrow> PrincipalId \<Rightarrow> WorkspaceManifest
     \<Rightarrow> 'b WorkspaceManager \<Rightarrow> BlobStore \<Rightarrow> (WorkspaceError + ReadyWorkspace) \<times> 'b WorkspaceManager \<times> BlobStore" where
  "materialize env io i handle pid manifest wk bl =
     (if WorkspaceManifest_validate manifest \<noteq> Ok () then (Err WsInvalidManifest, wk, bl)
      else if logical_bytes manifest > wk_quota wk then (Err WsQuotaExceeded, wk, bl)
      else case manifest_digest env manifest of
        None \<Rightarrow> (Err WsJson, wk, bl)
      | Some digest \<Rightarrow>
          (case lookup_workspace (mi_lookup io) i wk of
             Inl e \<Rightarrow> (Err e, wk, bl)
           | Inr (Some existing) \<Rightarrow>
               if wr_execution_id existing \<noteq> eh_execution_id handle \<or> wr_generation existing \<noteq> eh_generation handle
                  \<or> wr_principal_id existing \<noteq> pid \<or> wr_manifest_digest existing \<noteq> digest
                  \<or> has_expired (mi_now io) (wr_expires existing)
               then (Err WsConflict, wk, bl)
               else if \<not> valid_storage_key env (wr_storage_key existing) \<or> \<not> is_dir wk (wr_storage_key existing)
               then (Err WsNotFound, wk, bl)
               else (Ok \<lparr>rw_root = wr_storage_key existing, rw_logical_bytes = wr_logical_bytes existing,
                         rw_manifest_digest = digest\<rparr>, wk, bl)
           | Inr None \<Rightarrow> materialize_new env io i handle pid manifest digest wk bl))"

definition materialize_derived ::
  "'b ws_env \<Rightarrow> lookup_io \<Rightarrow> materialize_io \<Rightarrow> WorkspaceId \<Rightarrow> ExecutionHandle \<Rightarrow> PrincipalId \<Rightarrow> WorkspaceManifestPatch
     \<Rightarrow> 'b WorkspaceManager \<Rightarrow> BlobStore \<Rightarrow> (WorkspaceError + ReadyWorkspace) \<times> 'b WorkspaceManager \<times> BlobStore" where
  "materialize_derived env lio io i handle pid patch wk bl =
     (if WorkspaceManifestPatch_validate patch \<noteq> Ok () then (Err WsInvalidPatch, wk, bl)
      else case lookup_manifest env lio (mi_now io) pid (wp_base_manifest_digest patch) wk bl of
        (Inl e, wk1, bl1) \<Rightarrow> (Err e, wk1, bl1)
      | (Inr None, wk1, bl1) \<Rightarrow> (Err WsBaseMissing, wk1, bl1)
      | (Inr (Some base), wk1, bl1) \<Rightarrow>
          (case apply_to patch base of
             Inl _ \<Rightarrow> (Err WsInvalidManifest, wk1, bl1)
           | Inr manifest \<Rightarrow> materialize env io i handle pid manifest wk1 bl1))"

section \<open>Opening\<close>

text \<open>Rows with an invalid key go; then every directory that is staging or unknown; then rows without a directory.\<close>

definition reconcile :: "'b ws_env \<Rightarrow> 'b WorkspaceManager \<Rightarrow> 'b WorkspaceManager" where
  "reconcile env wk =
     (let rows = filter (\<lambda>r. valid_storage_key env (w_storage_key r)) (wk_rows wk);
          known = set (map w_storage_key rows);
          root = (\<lambda>name. case wk_root wk name of
                    Some (RootDir t) \<Rightarrow> if strip_prefix ''.staging-'' name \<noteq> None \<or> name \<notin> known then None else Some (RootDir t)
                  | x \<Rightarrow> x)
      in wk\<lparr>wk_root := root,
            wk_rows := filter (\<lambda>r. is_dir (wk\<lparr>wk_root := root\<rparr>) (w_storage_key r)) rows\<rparr>)"

definition WorkspaceManager_open :: "'b ws_env \<Rightarrow> u64 \<Rightarrow> 'b WorkspaceManager option \<Rightarrow> 'b WorkspaceManager" where
  "WorkspaceManager_open env quota existing =
     reconcile env (case existing of
         Some wk \<Rightarrow> wk\<lparr>wk_quota := quota, wk_cursor := None\<rparr>
       | None \<Rightarrow> \<lparr>wk_quota = quota, wk_rows = [], wk_manifests = [], wk_root = (\<lambda>_. None), wk_cursor = None\<rparr>)"

end
