(* ===== verification/Blob_Refs.thy ===== *)
theory Blob_Refs
  imports Blob_Props
begin

text \<open>
  What the workspace manager and the artifact store rely on when they pin blobs: an interface of references
  by owner, its laws, and the lemmas its clients use; the blob store provides it.
\<close>

section \<open>The interface\<close>

type_synonym ref_map = "string \<times> string \<times> string \<rightharpoonup> int option"

locale reference_store =
  fixes inv :: "'s \<Rightarrow> bool"
    and known :: "'s \<Rightarrow> string set"
    and content :: "'s \<Rightarrow> 'c"
    and refs :: "'s \<Rightarrow> ref_map"
    and pin :: "bool \<Rightarrow> string \<Rightarrow> string \<Rightarrow> string list \<Rightarrow> u64 option \<Rightarrow> 's \<Rightarrow> (BlobError + unit) \<times> 's"
    and expire :: "bool \<Rightarrow> string \<Rightarrow> string \<Rightarrow> u64 \<Rightarrow> 's \<Rightarrow> (BlobError + unit) \<times> 's"
    and unexpire :: "bool \<Rightarrow> string \<Rightarrow> string \<Rightarrow> 's \<Rightarrow> (BlobError + unit) \<times> 's"
    and unpin :: "bool \<Rightarrow> string \<Rightarrow> string \<Rightarrow> 's \<Rightarrow> (BlobError + unit) \<times> 's"
  assumes db_fails: "\<exists>err. pin False k w ds e s = (Inl err, s)" "\<exists>err. expire False k w t s = (Inl err, s)"
      "\<exists>err. unexpire False k w s = (Inl err, s)" "\<exists>err. unpin False k w s = (Inl err, s)"
    and pin_missing: "inv s \<Longrightarrow> \<not> set ds \<subseteq> known s \<Longrightarrow> pin True k w ds e s = (Inl BlobNotFound, s)"
    and pin_ok: "inv s \<Longrightarrow> set ds \<subseteq> known s \<Longrightarrow> \<exists>s'. pin True k w ds e s = (Inr (), s')
      \<and> inv s' \<and> known s' = known s \<and> content s' = content s
      \<and> refs s' = (\<lambda>(k', w', d). if k' = k \<and> w' = w \<and> d \<in> set ds then Some (map_option as_i64 e) else refs s (k', w', d))"
    and expire_ok: "inv s \<Longrightarrow> \<exists>s'. expire True k w t s = (Inr (), s')
      \<and> inv s' \<and> known s' = known s \<and> content s' = content s
      \<and> refs s' = (\<lambda>(k', w', d). if k' = k \<and> w' = w then map_option (\<lambda>_. Some (as_i64 t)) (refs s (k', w', d))
           else refs s (k', w', d))"
    and unexpire_ok: "inv s \<Longrightarrow> \<exists>s'. unexpire True k w s = (Inr (), s')
      \<and> inv s' \<and> known s' = known s \<and> content s' = content s
      \<and> refs s' = (\<lambda>(k', w', d). if k' = k \<and> w' = w then map_option (\<lambda>_. None) (refs s (k', w', d))
           else refs s (k', w', d))"
    and unpin_ok: "inv s \<Longrightarrow> \<exists>s'. unpin True k w s = (Inr (), s')
      \<and> inv s' \<and> known s' = known s \<and> content s' = content s
      \<and> refs s' = (\<lambda>(k', w', d). if k' = k \<and> w' = w then None else refs s (k', w', d))"
begin

text \<open>What a change on behalf of one owner leaves alone, and the digests of a list pinned by one owner.\<close>

definition only_owner :: "string \<Rightarrow> string \<Rightarrow> 's \<Rightarrow> 's \<Rightarrow> bool" where
  "only_owner k w s s' \<longleftrightarrow> inv s' \<and> known s' = known s \<and> content s' = content s
     \<and> (\<forall>k' w' d. (k', w') \<noteq> (k, w) \<longrightarrow> refs s' (k', w', d) = refs s (k', w', d))"

definition pinned :: "string \<Rightarrow> string \<Rightarrow> string list \<Rightarrow> int option \<Rightarrow> 's \<Rightarrow> bool" where
  "pinned k w ds e s \<longleftrightarrow> (\<forall>d \<in> set ds. refs s (k, w, d) = Some e)"

lemma only_owner_refl: "inv s \<Longrightarrow> only_owner k w s s"
  by (simp add: only_owner_def)

lemma pinned_other: "only_owner k w s s' \<Longrightarrow> (k', w') \<noteq> (k, w) \<Longrightarrow> pinned k' w' ds e s' = pinned k' w' ds e s"
  by (simp add: only_owner_def pinned_def)

lemma pin_effect:
  assumes "inv s" "pin io k w ds e s = (r, s')"
  shows "only_owner k w s s'"
    and "r = Inr () \<Longrightarrow> io \<and> set ds \<subseteq> known s \<and> pinned k w ds (map_option as_i64 e) s'"
    and "r \<noteq> Inr () \<Longrightarrow> s' = s"
proof -
  consider "\<not> io" | "io" "\<not> set ds \<subseteq> known s" | "io" "set ds \<subseteq> known s" by blast
  then have "only_owner k w s s' \<and> (r = Inr () \<longrightarrow> io \<and> set ds \<subseteq> known s \<and> pinned k w ds (map_option as_i64 e) s')
      \<and> (r \<noteq> Inr () \<longrightarrow> s' = s)"
  proof cases
    case 1
    with db_fails(1) [of k w ds e s] assms show ?thesis by (auto simp: only_owner_refl)
  next
    case 2
    with pin_missing [OF assms(1) 2(2), of k w e] assms show ?thesis by (auto simp: only_owner_refl)
  next
    case 3
    with pin_ok [OF assms(1) 3(2), of k w e] assms(2) show ?thesis by (auto simp: only_owner_def pinned_def)
  qed
  then show "only_owner k w s s'"
    "r = Inr () \<Longrightarrow> io \<and> set ds \<subseteq> known s \<and> pinned k w ds (map_option as_i64 e) s'"
    "r \<noteq> Inr () \<Longrightarrow> s' = s" by simp_all
qed

lemma expire_effect:
  assumes "inv s" "expire io k w t s = (r, s')"
  shows "only_owner k w s s'" "io \<Longrightarrow> pinned k w ds e s \<Longrightarrow> r = Inr () \<and> pinned k w ds (Some (as_i64 t)) s'"
  using expire_ok [OF assms(1), of k w t] db_fails(2) [of k w t s] assms
  by (cases io; auto simp: pinned_def only_owner_def)+

lemma unexpire_effect:
  assumes "inv s" "unexpire io k w s = (r, s')"
  shows "only_owner k w s s'" "io \<Longrightarrow> pinned k w ds e s \<Longrightarrow> r = Inr () \<and> pinned k w ds None s'"
  using unexpire_ok [OF assms(1), of k w] db_fails(3) [of k w s] assms
  by (cases io; auto simp: pinned_def only_owner_def)+

lemma unpin_effect:
  assumes "inv s" "unpin io k w s = (r, s')"
  shows "only_owner k w s s'" "io \<Longrightarrow> refs s' (k, w, d) = None" "\<not> io \<Longrightarrow> s' = s"
  using unpin_ok [OF assms(1), of k w] db_fails(4) [of k w s] assms
  by (cases io; auto simp: only_owner_def)+

end

section \<open>The blob store provides it\<close>

definition ref_view :: "BlobStore \<Rightarrow> ref_map" where
  "ref_view st = (\<lambda>(k, w, d). map_option f_expires (List.find (ref_is k w d) (bs_refs st)))"

abbreviation known_digests :: "BlobStore \<Rightarrow> string set" where
  "known_digests st \<equiv> set (digests st)"

lemma find_map_expiry:
  assumes "\<And>v. ref_is k' w' d v \<Longrightarrow> P v = Q"
  shows "List.find (ref_is k' w' d) (map (\<lambda>v. if P v then v\<lparr>f_expires := e\<rparr> else v) vs)
    = map_option (\<lambda>v. if Q then v\<lparr>f_expires := e\<rparr> else v) (List.find (ref_is k' w' d) vs)"
  using assms by (induction vs) (auto simp: ref_is_def)

lemma update_expiry_view:
  "ref_view (update_expiry k w e st) = (\<lambda>(k', w', d). if k' = k \<and> w' = w
     then map_option (\<lambda>_. e) (ref_view st (k', w', d)) else ref_view st (k', w', d))"
proof -
  have "List.find (ref_is k' w' d) (map (\<lambda>v. if f_kind v = k \<and> f_owner v = w then v\<lparr>f_expires := e\<rparr> else v) vs)
      = map_option (\<lambda>v. if k' = k \<and> w' = w then v\<lparr>f_expires := e\<rparr> else v) (List.find (ref_is k' w' d) vs)"
    for k' w' d vs
    by (rule find_map_expiry) (auto simp: ref_is_def)
  then show ?thesis
    by (auto simp: ref_view_def update_expiry_def fun_eq_iff option.map_comp comp_def)
qed

lemma find_other_owner:
  "List.find (ref_is k' w' d) (filter (\<lambda>v. f_kind v = k \<longrightarrow> f_owner v \<noteq> w) vs)
     = (if k' = k \<and> w' = w then None else List.find (ref_is k' w' d) vs)"
  unfolding ref_is_def [abs_def] by (induction vs) auto

lemma delete_references_view:
  "ref_view (delete_references (\<lambda>v. f_kind v = k \<and> f_owner v = w) st)
     = (\<lambda>(k', w', d). if k' = k \<and> w' = w then None else ref_view st (k', w', d))"
  by (simp add: ref_view_def fun_eq_iff delete_references_def find_other_owner)

lemma upsert_view:
  "ref_view (upsert_reference k w d e st) = (ref_view st)((k, w, d) \<mapsto> e)"
proof (cases "\<exists>v \<in> set (bs_refs st). ref_is k w d v")
  case True
  have "List.find (ref_is k' w' d') (map (\<lambda>v. if ref_is k w d v then v\<lparr>f_expires := e\<rparr> else v) vs)
      = map_option (\<lambda>v. if (k', w', d') = (k, w, d) then v\<lparr>f_expires := e\<rparr> else v) (List.find (ref_is k' w' d') vs)"
    for k' w' d' vs
    by (rule find_map_expiry) (auto simp: ref_is_def)
  moreover obtain v where "List.find (ref_is k w d) (bs_refs st) = Some v"
    using True by (metis find_None_iff not_None_eq)
  ultimately show ?thesis
    using True by (auto simp: ref_view_def upsert_reference_def fun_eq_iff option.map_comp comp_def)
next
  case False
  have app: "List.find (ref_is k' w' d') (vs @ [v]) = (case List.find (ref_is k' w' d') vs of
      Some x \<Rightarrow> Some x | None \<Rightarrow> if ref_is k' w' d' v then Some v else None)" for k' w' d' vs v
    by (induction vs) auto
  have "List.find (ref_is k w d) (bs_refs st) = None" using False by (auto simp: find_None_iff)
  then show ?thesis
    using False by (auto simp: ref_view_def upsert_reference_def fun_eq_iff app ref_is_def split: option.split)
qed

lemma upsert_digests: "digests (upsert_reference k w d e st) = digests st"
  by (simp add: digests_def upsert_reference_def)

lemma upsert_files [simp]: "bs_files (upsert_reference k w d e st) = bs_files st"
  by (simp add: upsert_reference_def)

lemma retain_all_spec:
  "(if set (map snd es) \<subseteq> known_digests st
    then \<exists>st'. retain_all k e es st = Inr st' \<and> digests st' = digests st \<and> bs_files st' = bs_files st
      \<and> ref_view st' = fold (\<lambda>(w, d) m. m((k, w, d) \<mapsto> map_option as_i64 e)) es (ref_view st)
    else retain_all k e es st = Inl BlobNotFound)"
proof (induction es arbitrary: st)
  case (Cons x es)
  obtain w d where x: "x = (w, d)" by force
  show ?case
  proof (cases "d \<in> known_digests st")
    case True
    then have "retain_one k w d e st = Ok (upsert_reference k w d (map_option as_i64 e) st)"
      by (simp add: retain_one_def find_blob_None)
    then show ?thesis
      using Cons.IH [of "upsert_reference k w d (map_option as_i64 e) st"] True x
      by (auto simp: upsert_digests upsert_view split: if_splits)
  next
    case False
    then have "retain_one k w d e st = Inl BlobNotFound" by (simp add: retain_one_def find_blob_None)
    then show ?thesis using False x by simp
  qed
qed simp

lemma fold_pin_view:
  "fold (\<lambda>(w, d) m. m((k, w, d) \<mapsto> e)) (map (Pair w) ds) m
     = (\<lambda>(k', w', d). if k' = k \<and> w' = w \<and> d \<in> set ds then Some e else m (k', w', d))"
  by (induction ds arbitrary: m) (auto simp: fun_eq_iff)

lemma retain_spec:
  assumes "blob_inv sha st"
  shows "set ds \<subseteq> known_digests st \<Longrightarrow> \<exists>st'. retain True k w ds e st = (Inr (), st') \<and> blob_inv sha st'
      \<and> known_digests st' = known_digests st \<and> bs_files st' = bs_files st \<and> ref_view st' = (\<lambda>(k', w', d).
           if k' = k \<and> w' = w \<and> d \<in> set ds then Some (map_option as_i64 e) else ref_view st (k', w', d))"
    and "\<not> set ds \<subseteq> known_digests st \<Longrightarrow> retain True k w ds e st = (Inl BlobNotFound, st)"
proof -
  have snd: "set (map snd (map (Pair w) ds)) = set ds" by (auto simp: image_image)
  note all = retain_all_spec [of "map (Pair w) ds" st k e, unfolded snd fold_pin_view]
  show "\<exists>st'. retain True k w ds e st = (Inr (), st') \<and> blob_inv sha st'
      \<and> known_digests st' = known_digests st \<and> bs_files st' = bs_files st \<and> ref_view st' = (\<lambda>(k', w', d).
           if k' = k \<and> w' = w \<and> d \<in> set ds then Some (map_option as_i64 e) else ref_view st (k', w', d))"
    if "set ds \<subseteq> known_digests st"
  proof -
    from all that obtain st' where st': "retain_all k e (map (Pair w) ds) st = Inr st'" "digests st' = digests st"
      "bs_files st' = bs_files st" "ref_view st' = (\<lambda>(k', w', d). if k' = k \<and> w' = w \<and> d \<in> set ds then Some (map_option as_i64 e)
         else ref_view st (k', w', d))" by auto
    then have "retain True k w ds e st = (Inr (), st')" by (simp add: retain_def)
    with retain_inv(1) [OF assms this] st' show ?thesis by simp
  qed
  show "retain True k w ds e st = (Inl BlobNotFound, st)" if "\<not> set ds \<subseteq> known_digests st"
    using all that by (simp add: retain_def)
qed

lemma update_expiry_frame [simp]:
  "digests (update_expiry k w e st) = digests st" "bs_files (update_expiry k w e st) = bs_files st"
  by (simp_all add: digests_def update_expiry_def)

lemma delete_references_files [simp]: "bs_files (delete_references P st) = bs_files st"
  by (simp add: delete_references_def)

interpretation rs: reference_store "blob_inv sha" known_digests bs_files ref_view retain
  set_reference_expiry clear_reference_expiry release_references for sha
proof (unfold_locales, goal_cases)
  case (5 s ds k w e)
  then show ?case by (rule retain_spec(2))
next
  case (6 s ds k w e)
  then show ?case by (rule retain_spec(1))
next
  case (7 s k w t)
  then show ?case
    by (simp add: set_reference_expiry_def update_expiry_inv update_expiry_view)
next
  case (8 s k w)
  then show ?case
    by (simp add: clear_reference_expiry_def update_expiry_inv update_expiry_view)
next
  case (9 s k w)
  then have "blob_inv sha (delete_references (\<lambda>v. f_kind v = k \<and> f_owner v = w) s)"
    using delete_references_refs_ok delete_references_files_ok by (auto simp: blob_inv_def)
  then show ?case
    by (simp add: release_references_def delete_references_view)
qed (simp_all add: retain_def set_reference_expiry_def clear_reference_expiry_def release_references_def)

section \<open>What verification and uploads leave alone\<close>

lemma verify_digests:
  assumes "blob_inv sha st" "verify_existing sha io d st = (res, st')"
  shows "digests st' = digests st"
proof -
  have touched: "digests (st\<lparr>bs_rows := map (\<lambda>r. if b_digest r = d then r\<lparr>b_last_used := vi_now io\<rparr> else r) (bs_rows st)\<rparr>)
      = digests st"
    by (simp add: digests_def comp_def if_distrib cong: if_cong)
  have moved: "digests (st\<lparr>bs_files := f\<rparr>) = digests st" for f by (simp add: digests_def)
  have "res \<noteq> Inl BlobCorruptExisting" using verify_intact [OF assms] by simp
  with assms(2) show ?thesis
    by (auto simp: verify_existing_def Let_def touched moved split: if_splits option.splits)
qed

lemma put_stream_grows:
  assumes inv: "blob_inv sha st" and d: "valid_digest d"
    and put: "put_stream sha io vio d declared input st = (res, st')"
  shows "bs_refs st' = bs_refs st" "known_digests st \<subseteq> known_digests st'" "res = Inr () \<Longrightarrow> d \<in> known_digests st'"
proof -
  have "bs_refs st' = bs_refs st \<and> known_digests st \<subseteq> known_digests st' \<and> (res = Inr () \<longrightarrow> d \<in> known_digests st')"
  proof (cases "bs_files st (path_for d) = None")
    case False
    show ?thesis
    proof (cases "unat declared > MAX_BLOB_BYTES")
      case True
      with put show ?thesis by (auto simp: put_stream_def)
    next
      case small: False
      with False put have v: "verify_existing sha vio d st = (res, st')" by (simp add: put_stream_def)
      then have "res = Inr () \<Longrightarrow> find_blob d st \<noteq> None"
        by (cases "find_blob d st") (auto simp: verify_existing_def split: if_splits)
      then show ?thesis
        using verify_intact [OF inv v] verify_digests [OF inv v] by (simp add: find_blob_None)
    qed
  next
    case True
    show ?thesis
    proof (cases "st' = st \<and> isl res")
      case changed: False
      with put True obtain res0 st0 where body: "put_body sha io d declared input st = (res0, st0)"
        "res = res0" "st' = (if isl res0 then put_cleanup io d st0 else st0)"
        by (auto simp: put_stream_def split: if_splits sum.splits prod.splits)
      from body(1) True show ?thesis
        by (cases rule: put_body_cases) (use body in \<open>auto simp: put_cleanup_def Let_def digests_def\<close>)
    qed auto
  qed
  then show "bs_refs st' = bs_refs st" "known_digests st \<subseteq> known_digests st'" "res = Inr () \<Longrightarrow> d \<in> known_digests st'"
    by simp_all
qed

end
