(* ===== verification/Workspace_Props.thy ===== *)
theory Workspace_Props
  imports Workspace Blob_Refs
begin

text \<open>
  Properties of the workspace manager: a ready workspace is exactly the tree of its manifest, its blobs are
  pinned, the quota holds; failures leave no workspace; resolution is fenced; derived workspaces equal full
  ones; retained manifests are scoped to their principal and swept completely.
\<close>

section \<open>Splitting at the last separator\<close>

lemma split_once_Some: "split_once c s = Some (a, b) \<longleftrightarrow> s = a @ c # b \<and> c \<notin> set a"
proof (induction s arbitrary: a)
  case (Cons x s)
  then show ?case by (cases a) (auto simp: Cons.IH)
qed simp

lemma split_once_None: "split_once c s = None \<longleftrightarrow> c \<notin> set s"
  by (induction s) auto

lemma rsplit_once_Some: "rsplit_once c s = Some (a, b) \<longleftrightarrow> s = a @ c # b \<and> c \<notin> set b"
proof -
  have "rsplit_once c s = Some (a, b) \<longleftrightarrow> split_once c (rev s) = Some (rev b, rev a)"
    by (auto simp: rsplit_once_def rev_swap)
  also have "\<dots> \<longleftrightarrow> s = a @ c # b \<and> c \<notin> set b"
    by (auto simp: split_once_Some rev_swap)
  finally show ?thesis .
qed

lemma rsplit_parent: "rsplit_once slash p = Some (q, b) \<Longrightarrow> q \<in> set (ancestors p)"
  by (auto simp: rsplit_once_Some ancestors_def intro!: bexI [of _ "length q"])

lemma ancestor_less: "q \<in> set (ancestors p) \<Longrightarrow> q < p"
proof -
  assume "q \<in> set (ancestors p)"
  then obtain i where "i < length p" "q = take i p" by (auto simp: ancestors_def)
  then have "p = q @ drop i p" "drop i p \<noteq> []" by auto
  then show "q < p" by (metis append_Nil2 list_less_def lexord_append_rightI neq_Nil_conv)
qed

section \<open>The materialised tree\<close>

text \<open>What a tree on disk must be for a manifest: its paths are the manifest's, its files have the declared size
  and hash to the declared digest.\<close>

definition entry_node :: "(u8 list \<Rightarrow> string) \<Rightarrow> WorkspaceEntry \<Rightarrow> tree_node \<Rightarrow> bool" where
  "entry_node sha e n \<longleftrightarrow> (case e of
     Directory _ \<Rightarrow> n = TreeDir
   | File _ d size_bytes x \<Rightarrow> (\<exists>c. n = TreeFile c x \<and> sha c = d \<and> of_nat (length c) = size_bytes)
   | Symlink _ _ \<Rightarrow> False)"

definition tree_matches :: "(u8 list \<Rightarrow> string) \<Rightarrow> WorkspaceEntry list \<Rightarrow> tree \<Rightarrow> bool" where
  "tree_matches sha es t \<longleftrightarrow>
     dom t = we_path ` set es \<and> (\<forall>e \<in> set es. \<exists>n. t (we_path e) = Some n \<and> entry_node sha e n)"

text \<open>A blob with the declared size is there for a file entry.\<close>

definition blob_ready :: "(u8 list \<Rightarrow> string) \<Rightarrow> BlobStore \<Rightarrow> WorkspaceEntry \<Rightarrow> bool" where
  "blob_ready sha bl e \<longleftrightarrow> (case e of
     File _ d size_bytes _ \<Rightarrow> (\<exists>c. bs_files bl (path_for d) = Some c \<and> sha c = d \<and> of_nat (length c) = size_bytes)
   | _ \<Rightarrow> True)"

lemma place_entry_ok:
  assumes "\<not> is_Symlink e" "blob_ready sha bl e" "io (we_path e)" "t (we_path e) = None"
    and "parent_exists t (we_path e)"
  obtains n where "place_entry io bl e t = (None, t(we_path e \<mapsto> n))" "entry_node sha e n"
  using assms by (cases e) (auto simp: place_entry_def blob_ready_def entry_node_def)

lemma tree_matches_parent:
  assumes "tree_matches sha xs t" "\<And>a. a \<in> set (ancestors p) \<Longrightarrow> Directory a \<in> set xs"
  shows "parent_exists t p"
proof -
  have "t q = Some TreeDir" if "rsplit_once slash p = Some (q, b)" for q b
    using assms(1) assms(2) [OF rsplit_parent [OF that]]
    by (fastforce simp: tree_matches_def entry_node_def)
  then show ?thesis by (auto simp: parent_exists_def split: option.splits)
qed

lemma tree_matches_snoc:
  assumes "tree_matches sha xs t" "entry_node sha e n" "we_path e \<notin> we_path ` set xs"
  shows "tree_matches sha (xs @ [e]) (t(we_path e \<mapsto> n))"
  using assms by (auto simp: tree_matches_def) (metis image_eqI)+

lemma place_entries_ok:
  assumes "sorted (map we_path (xs @ ys))" "distinct (map we_path (xs @ ys))"
    and "\<And>e. e \<in> set ys \<Longrightarrow> \<not> is_Symlink e \<and> blob_ready sha bl e \<and> io (we_path e)"
    and "\<And>e a. e \<in> set ys \<Longrightarrow> a \<in> set (ancestors (we_path e)) \<Longrightarrow> Directory a \<in> set (xs @ ys)"
    and "tree_matches sha xs t"
  shows "\<exists>t'. place_entries io bl ys t = (None, t') \<and> tree_matches sha (xs @ ys) t'"
  using assms
proof (induction ys arbitrary: xs t)
  case (Cons e ys)
  have fresh: "t (we_path e) = None"
    using Cons.prems(2,5) by (auto simp: tree_matches_def domIff [symmetric])
  have dirs: "Directory a \<in> set xs" if "a \<in> set (ancestors (we_path e))" for a
  proof -
    have "Directory a \<in> set (xs @ e # ys)" using Cons.prems(4) [OF _ that] by simp
    moreover have "Directory a \<noteq> e" "Directory a \<notin> set ys"
      using ancestor_less [OF that] Cons.prems(1) by (auto simp: sorted_append)
    ultimately show ?thesis by auto
  qed
  have "parent_exists t (we_path e)" by (rule tree_matches_parent [OF Cons.prems(5) dirs])
  with Cons.prems(3) [of e] fresh obtain n where n: "place_entry io bl e t = (None, t(we_path e \<mapsto> n))" "entry_node sha e n"
    by (auto elim: place_entry_ok [of e sha bl io t])
  have "\<exists>t'. place_entries io bl ys (t(we_path e \<mapsto> n)) = (None, t') \<and> tree_matches sha ((xs @ [e]) @ ys) t'"
  proof (rule Cons.IH)
    show "tree_matches sha (xs @ [e]) (t(we_path e \<mapsto> n))"
      using Cons.prems(2,5) n(2) by (intro tree_matches_snoc) auto
    show "Directory a \<in> set ((xs @ [e]) @ ys)" if "e' \<in> set ys" "a \<in> set (ancestors (we_path e'))" for e' a
      using Cons.prems(4) [OF _ that(2)] that(1) by simp
  qed (use Cons.prems(1-3) in simp_all)
  then show ?case using n(1) by simp
qed simp

text \<open>Conversely, whatever system calls fail, a copy that reports success has made the tree.\<close>

lemma place_entry_success:
  assumes "place_entry io bl e t = (None, t')" "blob_ready sha bl e"
  obtains n where "t' = t(we_path e \<mapsto> n)" "entry_node sha e n"
  using assms by (cases e) (auto simp: place_entry_def blob_ready_def entry_node_def split: option.splits if_splits)

lemma place_entries_success:
  assumes "place_entries io bl ys t = (None, t')" "distinct (map we_path (xs @ ys))"
    and "\<And>e. e \<in> set ys \<Longrightarrow> blob_ready sha bl e" and "tree_matches sha xs t"
  shows "tree_matches sha (xs @ ys) t'"
  using assms
proof (induction ys arbitrary: xs t)
  case (Cons e ys)
  from Cons.prems(1) obtain t1 where t1: "place_entry io bl e t = (None, t1)" "place_entries io bl ys t1 = (None, t')"
    by (auto split: prod.splits option.splits)
  obtain n where n: "t1 = t(we_path e \<mapsto> n)" "entry_node sha e n"
    using place_entry_success [OF t1(1)] Cons.prems(3) by auto
  have "tree_matches sha (xs @ [e]) t1"
    unfolding n(1) using Cons.prems(2,4) n(2) by (intro tree_matches_snoc) auto
  from Cons.IH [OF t1(2) _ _ this] Cons.prems show ?case by simp
qed simp

lemma materialize_tree_success:
  assumes "materialize_tree io man bl = (None, staged)" "tree_wf (wm_entries man)"
    and "\<And>e. e \<in> set (wm_entries man) \<Longrightarrow> blob_ready sha bl e"
  obtains t where "staged = Some t" "tree_matches sha (wm_entries man) t"
proof -
  let ?es = "sort_key we_path (wm_entries man)"
  obtain t where t: "place_entries (ti_entry io) bl ?es (\<lambda>_. None) = (None, t)" "staged = Some t"
    using assms(1) by (auto simp: materialize_tree_def split: if_splits prod.splits option.splits)
  have "tree_wf ?es" using assms(2) tree_wf_mset [of ?es "wm_entries man"] by simp
  then have "tree_matches sha ([] @ ?es) t"
    using assms(3) distinct_lower_paths [of ?es]
    by (intro place_entries_success [OF t(1)]) (auto simp: tree_wf_def tree_matches_def)
  with t(2) that show thesis by (simp add: tree_matches_def)
qed

lemma materialize_tree_ok:
  assumes "tree_wf (wm_entries man)" "\<And>e. e \<in> set (wm_entries man) \<Longrightarrow> blob_ready sha bl e"
    and "ti_create io" "ti_sync io" "\<And>p. ti_entry io p"
  obtains t where "materialize_tree io man bl = (None, Some t)" "tree_matches sha (wm_entries man) t"
proof -
  let ?es = "sort_key we_path (wm_entries man)"
  have wf: "tree_wf ?es" using assms(1) tree_wf_mset [of ?es "wm_entries man"] by simp
  have "\<exists>t'. place_entries (ti_entry io) bl ?es (\<lambda>_. None) = (None, t') \<and> tree_matches sha ([] @ ?es) t'"
    using wf assms(2,5) distinct_lower_paths [of ?es]
    by (intro place_entries_ok) (auto simp: tree_wf_def tree_matches_def)
  then obtain t where "place_entries (ti_entry io) bl ?es (\<lambda>_. None) = (None, t)" "tree_matches sha ?es t" by auto
  with assms(3,4) that [of t] show thesis by (simp add: materialize_tree_def tree_matches_def)
qed

section \<open>Checking and pinning the blobs\<close>

lemma verify_success_ready:
  assumes inv: "blob_inv sha bl" and v: "verify_existing sha io d bl = (Inr u, bl')"
    and size: "stored_size q d bl = Inr n"
  shows "\<exists>c. bs_files bl (path_for d) = Some c \<and> sha c = d \<and> of_nat (length c) = n"
proof -
  from v obtain r c where r: "find_blob d bl = Some r" "bs_files bl (path_for d) = Some c" "\<not> is_corrupt sha d (b_size r) c"
    by (auto simp: verify_existing_def Let_def split: if_splits option.splits)
  have "row_backed (bs_files bl) r" "b_digest r = d"
    using inv find_blob_in [OF r(1)] by (auto simp: blob_inv_def files_ok_def)
  then have "b_size r = int (length c)" using r(2) by (auto simp: row_backed_def)
  moreover have "n = of_int (max 0 (b_size r))" using size r(1) by (auto simp: stored_size_def split: if_splits)
  ultimately show ?thesis using r by (auto simp: is_corrupt_def)
qed

lemma blob_ready_frame: "bs_files bl' = bs_files bl \<Longrightarrow> blob_ready sha bl' e = blob_ready sha bl e"
  by (cases e) (simp_all add: blob_ready_def)

lemma verify_blobs_inv:
  assumes "blob_inv sha bl" "verify_blobs sha q vio es bl = (res, bl')"
  shows "blob_inv sha bl' \<and> bs_files bl' = bs_files bl \<and> bs_refs bl' = bs_refs bl \<and> digests bl' = digests bl
    \<and> (res = None \<longrightarrow> (\<forall>e \<in> set es. blob_ready sha bl e))"
  using assms
proof (induction es arbitrary: bl)
  case (Cons e es)
  show ?case
  proof (cases e)
    case (File p d n x)
    show ?thesis
    proof (cases "stored_size q d bl = Inr n \<and> \<not> unat n > MAX_BLOB_BYTES")
      case True
      obtain r bl1 where v: "verify_existing sha (vio d) d bl = (r, bl1)" by force
      note fr = verify_intact [OF Cons.prems(1) v] verify_digests [OF Cons.prems(1) v]
      show ?thesis
      proof (cases r)
        case (Inl err)
        then have "(res, bl') = (Some WsInvalidBlob, bl1)" using True v Cons.prems(2) File by simp
        with fr show ?thesis by simp
      next
        case (Inr u)
        then have "blob_ready sha bl e"
          using verify_success_ready [OF Cons.prems(1) v [unfolded Inr], of q n] True File by (simp add: blob_ready_def)
        moreover have "verify_blobs sha q vio es bl1 = (res, bl')" using Cons.prems(2) True v Inr File by simp
        moreover have "\<forall>e. blob_ready sha bl1 e = blob_ready sha bl e" using blob_ready_frame fr by blast
        ultimately show ?thesis using Cons.IH [of bl1] fr by simp
      qed
    next
      case False
      then have "bl' = bl \<and> res \<noteq> None" using Cons.prems(2) File by (auto split: sum.splits if_splits)
      with Cons.prems(1) show ?thesis by auto
    qed
  next
    case (Directory p)
    then show ?thesis using Cons.IH [OF Cons.prems(1)] Cons.prems(2) by (simp add: blob_ready_def)
  next
    case (Symlink p q)
    then show ?thesis using Cons.IH [OF Cons.prems(1)] Cons.prems(2) by (simp add: blob_ready_def)
  qed
qed auto

section \<open>Registering the manifest\<close>

lemma upsert_manifest_frame [simp]:
  "wk_rows (upsert_manifest p d j b c x wk) = wk_rows wk" "wk_root (upsert_manifest p d j b c x wk) = wk_root wk"
  "wk_quota (upsert_manifest p d j b c x wk) = wk_quota wk"
  by (simp_all add: upsert_manifest_def)

lemma find_map_manifest:
  "List.find (manifest_is p d) (map (\<lambda>r. if manifest_is p d r then r\<lparr>m_json := j, m_logical_bytes := b, m_expires := x\<rparr> else r) rs)
     = map_option (\<lambda>r. r\<lparr>m_json := j, m_logical_bytes := b, m_expires := x\<rparr>) (List.find (manifest_is p d) rs)"
  by (induction rs) (auto simp: manifest_is_def)

lemma upsert_manifest_found:
  obtains r where "find_manifest p d (upsert_manifest p d j b c x wk) = Some r" "m_json r = j" "m_expires r = Some x"
proof (cases "find_manifest p d wk")
  case None
  have "List.find P (xs @ [y]) = (if P y then Some y else None)" if "List.find P xs = None" for P xs and y :: "'b manifest_row"
    using that by (induction xs) (auto split: if_splits)
  from this [OF None [unfolded find_manifest_def]] None that show thesis
    by (simp add: upsert_manifest_def find_manifest_def manifest_is_def)
next
  case (Some r)
  with that show thesis
    by (simp add: upsert_manifest_def find_manifest_def find_map_manifest)
qed

definition retention_end :: "u64 \<Rightarrow> u64" where
  "retention_end now = u64_saturating_add now DEFAULT_RETENTION_MILLIS"

lemma store_manifest_effect:
  assumes inv: "blob_inv sha bl" and st: "store_manifest env io now pid man digest wk bl = (res, wk', bl')"
  shows "wk_rows wk' = wk_rows wk" "wk_root wk' = wk_root wk" "wk_quota wk' = wk_quota wk"
    and "rs.only_owner sha ''manifest'' (manifest_owner_id pid digest) bl bl'"
    and "res = Ok () \<Longrightarrow> \<exists>r. find_manifest pid digest wk' = Some r \<and> manifest_to_vec env man = Some (m_json r)
      \<and> rs.pinned ''manifest'' (manifest_owner_id pid digest) (manifest_digests man) (m_expires r) bl'
      \<and> (find_manifest pid digest wk = None \<longrightarrow> m_expires r = Some (as_i64 (retention_end now)))"
proof -
  have "(wk' = wk \<and> bl' = bl \<and> res \<noteq> Ok ()) \<or> (\<exists>enc x rr. manifest_to_vec env man = Some enc
     \<and> wk' = upsert_manifest pid digest enc (as_i64 (logical_bytes man)) (as_i64 now) (as_i64 x) wk
     \<and> retain (st_retain io) ''manifest'' (manifest_owner_id pid digest) (manifest_digests man) (Some x) bl = (rr, bl')
     \<and> (res = Ok () \<longrightarrow> rr = Inr ()) \<and> (find_manifest pid digest wk = None \<longrightarrow> x = retention_end now))" (is "_ \<or> (\<exists>enc x rr. ?stored enc x rr)")
    using st by (cases "find_manifest pid digest wk")
      (auto simp: store_manifest_def Let_def retention_end_def split: sum.splits option.splits if_splits prod.splits)
  then have "wk_rows wk' = wk_rows wk \<and> wk_root wk' = wk_root wk \<and> wk_quota wk' = wk_quota wk
    \<and> rs.only_owner sha ''manifest'' (manifest_owner_id pid digest) bl bl'
    \<and> (res = Ok () \<longrightarrow> (\<exists>r. find_manifest pid digest wk' = Some r \<and> manifest_to_vec env man = Some (m_json r)
      \<and> rs.pinned ''manifest'' (manifest_owner_id pid digest) (manifest_digests man) (m_expires r) bl'
      \<and> (find_manifest pid digest wk = None \<longrightarrow> m_expires r = Some (as_i64 (retention_end now)))))"
  proof (elim disjE exE)
    assume "wk' = wk \<and> bl' = bl \<and> res \<noteq> Ok ()"
    with inv show ?thesis by (simp add: rs.only_owner_refl)
  next
    fix enc x rr
    assume 2: "?stored enc x rr"
    then have r: "retain (st_retain io) ''manifest'' (manifest_owner_id pid digest) (manifest_digests man) (Some x) bl = (rr, bl')"
      by simp
    from upsert_manifest_found [of pid digest enc "as_i64 (logical_bytes man)" "as_i64 now" "as_i64 x" wk] obtain row where
      row: "find_manifest pid digest wk' = Some row" "m_json row = enc" "m_expires row = Some (as_i64 x)"
      using 2 by metis
    show ?thesis using 2 row rs.pin_effect [OF inv r] by auto
  qed
  then show "wk_rows wk' = wk_rows wk" "wk_root wk' = wk_root wk" "wk_quota wk' = wk_quota wk"
    "rs.only_owner sha ''manifest'' (manifest_owner_id pid digest) bl bl'"
    "res = Ok () \<Longrightarrow> \<exists>r. find_manifest pid digest wk' = Some r \<and> manifest_to_vec env man = Some (m_json r)
      \<and> rs.pinned ''manifest'' (manifest_owner_id pid digest) (manifest_digests man) (m_expires r) bl'
      \<and> (find_manifest pid digest wk = None \<longrightarrow> m_expires r = Some (as_i64 (retention_end now)))" by simp_all
qed

section \<open>Publishing the tree\<close>

definition ready_row ::
  "materialize_io \<Rightarrow> WorkspaceId \<Rightarrow> ExecutionHandle \<Rightarrow> PrincipalId \<Rightarrow> WorkspaceManifest \<Rightarrow> string \<Rightarrow> u64 \<Rightarrow> workspace_row" where
  "ready_row io i handle pid man digest expiry =
     \<lparr>w_workspace_id = i, w_execution_id = eh_execution_id handle, w_generation = as_i64 (eh_generation handle),
      w_principal_id = pid, w_manifest_digest = digest, w_storage_key = ''workspace-'' @ mi_nonce io,
      w_logical_bytes = as_i64 (logical_bytes man), w_state = ''Ready'', w_created = mi_created io,
      w_expires = Some (as_i64 expiry)\<rparr>"

abbreviation stage_of :: "materialize_io \<Rightarrow> string" where
  "stage_of io \<equiv> ''.staging-'' @ mi_nonce io"

abbreviation target_of :: "materialize_io \<Rightarrow> string" where
  "target_of io \<equiv> ''workspace-'' @ mi_nonce io"

definition published ::
  "materialize_io \<Rightarrow> tree \<Rightarrow> workspace_row \<Rightarrow> 'b WorkspaceManager \<Rightarrow> 'b WorkspaceManager" where
  "published io t row wk = wk\<lparr>wk_root := (wk_root wk)(stage_of io := None, target_of io \<mapsto> RootDir t),
     wk_rows := wk_rows wk @ [row]\<rparr>"

lemma publish_tree_success:
  assumes "publish_tree io i handle pid man digest x wk bl = (Ok ready, wk', bl')"
  obtains t where "materialize_tree (mi_tree io) man bl = (None, Some t)" "bl' = bl"
    and "ready = \<lparr>rw_root = target_of io, rw_logical_bytes = logical_bytes man, rw_manifest_digest = digest\<rparr>"
    and "wk' = published io t (ready_row io i handle pid man digest x) wk"
proof -
  obtain err staged where m: "materialize_tree (mi_tree io) man bl = (err, staged)" by force
  from assms have err: "err = None"
    by (auto simp: publish_tree_def m undo_def Let_def split: if_splits option.splits)
  then obtain t where t: "staged = Some t"
    using m by (auto simp: materialize_tree_def split: if_splits prod.splits option.splits)
  show thesis
    using assms that [of t] m unfolding publish_tree_def ready_row_def published_def
    by (auto simp: err t undo_def Let_def fun_upd_twist split: if_splits)
qed

lemma publish_tree_failure:
  assumes "publish_tree io i handle pid man digest x wk bl = (Err e, wk', bl')"
  shows "wk_rows wk' = wk_rows wk" "bl' = snd (release_references (mi_release io) ''workspace'' i bl)"
    and "mi_rmdir io \<Longrightarrow> wk_root wk (stage_of io) = None \<Longrightarrow> wk_root wk (target_of io) = None
      \<Longrightarrow> wk_root wk' = wk_root wk"
proof -
  obtain err staged where m: "materialize_tree (mi_tree io) man bl = (err, staged)" by force
  show "wk_rows wk' = wk_rows wk" "bl' = snd (release_references (mi_release io) ''workspace'' i bl)"
    using assms by (auto simp: publish_tree_def m undo_def Let_def split: if_splits option.splits)
  show "wk_root wk' = wk_root wk"
    if "mi_rmdir io" "wk_root wk (stage_of io) = None" "wk_root wk (target_of io) = None"
    using assms that
    by (auto simp: publish_tree_def m undo_def Let_def fun_eq_iff split: if_splits option.splits)
qed

lemma publish_tree_ok:
  assumes "materialize_tree (mi_tree io) man bl = (None, Some t)"
    and "mi_worker io" "mi_rename io" "mi_sync io" "mi_lock io" "mi_insert io"
    and "\<And>r. r \<in> set (wk_rows wk) \<Longrightarrow> w_workspace_id r \<noteq> i \<and> w_storage_key r \<noteq> target_of io"
  shows "\<exists>ready wk' bl'. publish_tree io i handle pid man digest x wk bl = (Ok ready, wk', bl')"
  using assms by (auto simp: publish_tree_def Let_def list_ex_iff)

section \<open>Materialising\<close>

abbreviation bytes_ready :: "'b WorkspaceManager \<Rightarrow> int" where
  "bytes_ready wk \<equiv> sum_list (map w_logical_bytes (filter (\<lambda>r. w_state r = ''Ready'') (wk_rows wk)))"

lemma logical_bytes_small:
  assumes "tree_wf (wm_entries man)"
  shows "uint (logical_bytes man) \<le> i64_max" "as_i64 (logical_bytes man) = uint (logical_bytes man)"
proof -
  have le: "sum_list (map unat (map entry_size (wm_entries man))) \<le> MAX_WORKSPACE_LOGICAL_BYTES"
    using assms by (simp add: tree_wf_def)
  then have "unat (logical_bytes man) = sum_list (map unat (map entry_size (wm_entries man)))"
    using fold_saturating_exact [of 0 "map entry_size (wm_entries man)"] by (simp add: logical_bytes_def)
  with le have "int (unat (logical_bytes man)) \<le> int MAX_WORKSPACE_LOGICAL_BYTES" by linarith
  then show *: "uint (logical_bytes man) \<le> i64_max"
    by (simp add: i64_max_def bound_defs)
  show "as_i64 (logical_bytes man) = uint (logical_bytes man)" by (rule as_i64_small [OF *])
qed

lemma quota_respected:
  assumes "ready_bytes wk = Ok used" "\<not> u64_saturating_add (of_int (max 0 used)) lb > quota"
    and "uint lb \<le> i64_max"
  shows "bytes_ready wk + uint lb \<le> uint quota"
proof -
  have used: "used = bytes_ready wk" "used \<le> i64_max"
    using assms(1) by (auto simp: ready_bytes_def Let_def split: if_splits)
  then have "uint (word_of_int (max 0 used) :: u64) = max 0 used"
    using as_u64_uint [of "max 0 used"] by (simp add: as_u64_def i64_max_def)
  moreover have "uint (u64_saturating_add (of_int (max 0 used)) lb) \<le> uint quota"
    using assms(2) by (simp add: word_le_def not_less)
  ultimately have "min (max 0 used + uint lb) (2 ^ 64 - 1) \<le> uint quota"
    by (simp add: uint_u64_saturating_add)
  moreover have "max 0 used + uint lb \<le> 2 ^ 64 - 1" using used(2) assms(3) by (simp add: i64_max_def)
  ultimately show ?thesis using used(1) by linarith
qed

lemma materialize_new_success:
  assumes "materialize_new env io i handle pid man digest wk bl = (Ok ready, wk', bl')"
  obtains used bl1 bl2 wk3 bl3 where "ready_bytes wk = Ok used"
    "\<not> u64_saturating_add (of_int (max 0 used)) (logical_bytes man) > wk_quota wk"
    "verify_blobs (blob_sha env) (mi_size io) (mi_verify io) (wm_entries man) bl = (None, bl1)"
    "retain (mi_retain io) ''workspace'' i (manifest_digests man) (Some (retention_end (mi_now io))) bl1 = (Inr (), bl2)"
    "store_manifest env (mi_manifest io) (mi_now io) pid man digest wk bl2 = (Ok (), wk3, bl3)"
    "publish_tree io i handle pid man digest (retention_end (mi_now io)) wk3 bl3 = (Ok ready, wk', bl')"
  using assms that
  by (auto simp: materialize_new_def Let_def retention_end_def split: if_splits sum.splits option.splits prod.splits)

lemma materialize_fresh:
  assumes "find_workspace i wk = None" "materialize env io i handle pid man wk bl = (Ok ready, wk', bl')"
  obtains digest where "tree_wf (wm_entries man)" "manifest_digest env man = Some digest"
    "materialize_new env io i handle pid man digest wk bl = (Ok ready, wk', bl')"
  using assms
  by (auto simp: materialize_def lookup_workspace_def WorkspaceManifest_validate_Ok split: if_splits option.splits)

lemma owners_differ: "(''workspace'', i) \<noteq> (''manifest'', w)" by simp

lemma materialize_effects:
  assumes inv: "blob_inv (blob_sha env) bl" and fresh: "find_workspace i wk = None"
    and ok: "materialize env io i handle pid man wk bl = (Ok ready, wk', bl')"
  shows "\<exists>digest t. manifest_digest env man = Some digest \<and> rw_manifest_digest ready = digest
    \<and> wk_root wk' (rw_root ready) = Some (RootDir t) \<and> tree_matches (blob_sha env) (wm_entries man) t
    \<and> wk_rows wk' = wk_rows wk @ [ready_row io i handle pid man digest (retention_end (mi_now io))]
    \<and> bytes_ready wk' \<le> uint (wk_quota wk)
    \<and> blob_inv (blob_sha env) bl'
    \<and> (\<forall>d \<in> set (manifest_digests man).
         ref_view bl' (''workspace'', i, d) = Some (Some (as_i64 (retention_end (mi_now io)))))
    \<and> (\<exists>r. find_manifest pid digest wk' = Some r \<and> manifest_to_vec env man = Some (m_json r)
         \<and> (\<forall>d \<in> set (manifest_digests man). ref_view bl' (''manifest'', manifest_owner_id pid digest, d) = Some (m_expires r))
         \<and> (find_manifest pid digest wk = None \<longrightarrow> m_expires r = Some (as_i64 (retention_end (mi_now io)))))
    \<and> tree_wf (wm_entries man)
    \<and> ready = \<lparr>rw_root = target_of io, rw_logical_bytes = logical_bytes man, rw_manifest_digest = digest\<rparr>
    \<and> (\<forall>e \<in> set (wm_entries man). blob_ready (blob_sha env) bl' e)
    \<and> set (manifest_digests man) \<subseteq> known_digests bl'"
proof -
  let ?sha = "blob_sha env" and ?x = "retention_end (mi_now io)"
  obtain digest where d: "tree_wf (wm_entries man)" "manifest_digest env man = Some digest"
    "materialize_new env io i handle pid man digest wk bl = (Ok ready, wk', bl')"
    using materialize_fresh [OF fresh ok] by blast
  from materialize_new_success [OF d(3)] obtain used bl1 bl2 wk3 bl3 where
    q: "ready_bytes wk = Ok used" "\<not> u64_saturating_add (of_int (max 0 used)) (logical_bytes man) > wk_quota wk" and
    v: "verify_blobs ?sha (mi_size io) (mi_verify io) (wm_entries man) bl = (None, bl1)" and
    r: "retain (mi_retain io) ''workspace'' i (manifest_digests man) (Some ?x) bl1 = (Inr (), bl2)" and
    m: "store_manifest env (mi_manifest io) (mi_now io) pid man digest wk bl2 = (Ok (), wk3, bl3)" and
    p: "publish_tree io i handle pid man digest ?x wk3 bl3 = (Ok ready, wk', bl')" .
  note v' = verify_blobs_inv [OF inv v]
  have inv1: "blob_inv ?sha bl1" using v' by simp
  note r' = rs.pin_effect [OF inv1 r]
  have inv2: "blob_inv ?sha bl2" using r'(1) by (simp add: rs.only_owner_def)
  note m' = store_manifest_effect [OF inv2 m]
  have "bs_files bl3 = bs_files bl" using v' r'(1) m'(4) by (simp add: rs.only_owner_def)
  then have ready: "blob_ready ?sha bl3 e" if "e \<in> set (wm_entries man)" for e
    using v' that blob_ready_frame by blast
  from publish_tree_success [OF p] obtain t where t: "materialize_tree (mi_tree io) man bl3 = (None, Some t)"
    "bl' = bl3" "ready = \<lparr>rw_root = target_of io, rw_logical_bytes = logical_bytes man, rw_manifest_digest = digest\<rparr>"
    "wk' = published io t (ready_row io i handle pid man digest ?x) wk3" .
  have tree: "tree_matches ?sha (wm_entries man) t"
    using materialize_tree_success [OF t(1) d(1) ready] by auto
  have "bytes_ready wk' = bytes_ready wk + uint (logical_bytes man)"
    by (simp add: t(4) published_def m'(1) ready_row_def logical_bytes_small [OF d(1)])
  then have quota: "bytes_ready wk' \<le> uint (wk_quota wk)"
    using quota_respected [OF q logical_bytes_small(1) [OF d(1)]] by simp
  have pins: "rs.pinned ''workspace'' i (manifest_digests man) (Some (as_i64 ?x)) bl'"
    using r'(2) rs.pinned_other [OF m'(4) owners_differ] t(2) by simp
  have "find_manifest pid digest wk' = find_manifest pid digest wk3" by (simp add: t(4) published_def find_manifest_def)
  moreover have "set (manifest_digests man) \<subseteq> known_digests bl'"
    using r'(1) r'(2) [OF refl] m'(4) t(2) by (simp add: rs.only_owner_def)
  ultimately show ?thesis
    using d tree quota pins m'(1,4) m'(5) [OF refl] t ready
    by (auto simp: published_def rs.pinned_def rs.only_owner_def)
qed


section \<open>Failing\<close>

text \<open>The references that an attempt under one id may touch.\<close>

definition keeps_others :: "'b ws_env \<Rightarrow> WorkspaceId \<Rightarrow> PrincipalId \<Rightarrow> WorkspaceManifest \<Rightarrow> BlobStore \<Rightarrow> BlobStore \<Rightarrow> bool" where
  "keeps_others env i pid man bl bl' \<longleftrightarrow> blob_inv (blob_sha env) bl' \<and> digests bl' = digests bl \<and> bs_files bl' = bs_files bl
     \<and> (\<forall>k w d. (k, w) \<noteq> (''workspace'', i)
          \<longrightarrow> (\<forall>digest. manifest_digest env man = Some digest \<longrightarrow> (k, w) \<noteq> (''manifest'', manifest_owner_id pid digest))
          \<longrightarrow> ref_view bl' (k, w, d) = ref_view bl (k, w, d))"

lemma retain_digests: "retain io k w ds e st = (r, st') \<Longrightarrow> digests st' = digests st"
proof -
  have "retain_all k e es st = Inr st' \<Longrightarrow> digests st' = digests st" for es
    using retain_all_spec [of es st k e] by (auto split: if_splits)
  then show "retain io k w ds e st = (r, st') \<Longrightarrow> digests st' = digests st"
    by (auto simp: retain_def split: if_splits sum.splits)
qed

lemma release_digests [simp]: "digests (snd (release_references io k w st)) = digests st"
  by (simp add: release_references_def)

lemma store_manifest_digests:
  "store_manifest env io now pid man digest wk bl = (res, wk', bl') \<Longrightarrow> digests bl' = digests bl"
  by (auto simp: store_manifest_def Let_def dest: retain_digests split: sum.splits option.splits if_splits prod.splits)

lemma materialize_new_failure:
  assumes inv: "blob_inv (blob_sha env) bl" and dg: "manifest_digest env man = Some digest"
    and f: "materialize_new env io i handle pid man digest wk bl = (Err e, wk', bl')"
  shows "wk_rows wk' = wk_rows wk \<and> keeps_others env i pid man bl bl'
    \<and> (mi_rmdir io \<longrightarrow> wk_root wk (stage_of io) = None \<longrightarrow> wk_root wk (target_of io) = None \<longrightarrow> wk_root wk' = wk_root wk)"
proof -
  let ?sha = "blob_sha env"
  obtain verr bl1 where v: "verify_blobs ?sha (mi_size io) (mi_verify io) (wm_entries man) bl = (verr, bl1)" by force
  note v' = verify_blobs_inv [OF inv v]
  obtain rr bl2 where r: "retain (mi_retain io) ''workspace'' i (manifest_digests man) (Some (retention_end (mi_now io))) bl1 = (rr, bl2)"
    by force
  have inv1: "blob_inv ?sha bl1" using v' by simp
  note r' = rs.pin_effect(1) [OF inv1 r] retain_digests [OF r]
  have inv2: "blob_inv ?sha bl2" using r'(1) by (simp add: rs.only_owner_def)
  obtain mr wk3 bl3 where m: "store_manifest env (mi_manifest io) (mi_now io) pid man digest wk bl2 = (mr, wk3, bl3)"
    using prod_cases3 by blast
  note m' = store_manifest_effect(1,2,4) [OF inv2 m] store_manifest_digests [OF m]
  have inv3: "blob_inv ?sha bl3" using m'(3) by (simp add: rs.only_owner_def)
  obtain ur bl4 where u: "release_references (mi_release io) ''workspace'' i bl3 = (ur, bl4)" by force
  note u' = rs.unpin_effect(1) [OF inv3 u]
  have "digests bl4 = digests bl3" using release_digests [of "mi_release io" "''workspace''" i bl3] u by simp
  with v' r' m' u' have keeps: "keeps_others env i pid man bl bl1" "keeps_others env i pid man bl bl2"
    "keeps_others env i pid man bl bl3" "keeps_others env i pid man bl bl4" "keeps_others env i pid man bl bl"
    using inv dg by (auto simp: keeps_others_def rs.only_owner_def ref_view_def)
  have "(wk' = wk \<and> bl' \<in> {bl, bl1, bl2}) \<or> (wk' = wk3 \<and> bl' = bl3)
      \<or> publish_tree io i handle pid man digest (retention_end (mi_now io)) wk3 bl3 = (Err e, wk', bl')"
    using f v r m by (auto simp: materialize_new_def Let_def retention_end_def split: if_splits sum.splits option.splits)
  then consider "wk' = wk" "bl' \<in> {bl, bl1, bl2}" | "wk' = wk3" "bl' = bl3"
    | "publish_tree io i handle pid man digest (retention_end (mi_now io)) wk3 bl3 = (Err e, wk', bl')" by blast
  then show ?thesis
  proof cases
    case 3
    from publish_tree_failure [OF this] u m'(1,2) keeps(4) show ?thesis by simp
  qed (use keeps m'(1,2) in auto)
qed


section \<open>Succeeding\<close>

definition verify_works :: "verify_io \<Rightarrow> bool" where
  "verify_works io \<longleftrightarrow> vi_query io \<and> vi_read io \<and> vi_update io"

definition disk_works :: "materialize_io \<Rightarrow> bool" where
  "disk_works io \<longleftrightarrow> mi_lookup io \<and> mi_query io \<and> mi_size io \<and> mi_retain io \<and> mi_worker io \<and> mi_rename io
     \<and> mi_sync io \<and> mi_lock io \<and> mi_insert io
     \<and> st_query (mi_manifest io) \<and> st_upsert (mi_manifest io) \<and> st_retain (mi_manifest io)
     \<and> ti_create (mi_tree io) \<and> ti_sync (mi_tree io)"

text \<open>Every file of the manifest has been uploaded with its size.\<close>

definition uploaded :: "BlobStore \<Rightarrow> WorkspaceEntry \<Rightarrow> bool" where
  "uploaded bl e \<longleftrightarrow> (case e of File _ d size_bytes _ \<Rightarrow> stored_size True d bl = Ok size_bytes | _ \<Rightarrow> True)"

lemma stored_size_row:
  assumes "blob_inv sha bl" "stored_size True d bl = Ok n"
  obtains r c where "find_blob d bl = Some r" "bs_files bl (path_for d) = Some c" "\<not> is_corrupt sha d (b_size r) c"
    "unat n \<le> MAX_BLOB_BYTES"
proof -
  from assms(2) obtain r where r: "find_blob d bl = Some r" "n = of_int (max 0 (b_size r))"
    by (auto simp: stored_size_def split: option.splits)
  have "row_backed (bs_files bl) r" "b_digest r = d"
    using assms(1) find_blob_in [OF r(1)] by (auto simp: blob_inv_def files_ok_def)
  then obtain c where c: "valid_digest d" "bs_files bl (path_for d) = Some c" "b_size r = int (length c)" "length c \<le> MAX_BLOB_BYTES"
    by (auto simp: row_backed_def)
  moreover have "sha c = d" using assms(1) c by (auto simp: blob_inv_def files_ok_def)
  moreover have "unat n \<le> length c" using c(3) r(2) by (simp add: unat_of_nat)
  then have "unat n \<le> MAX_BLOB_BYTES" using c(4) by (rule le_trans)
  ultimately show thesis using that r by (simp add: is_corrupt_def)
qed

lemma verify_uploaded:
  assumes "blob_inv sha bl" "stored_size True d bl = Ok n" "verify_works io"
  obtains bl' where "verify_existing sha io d bl = (Inr (), bl')" "\<And>d'. stored_size True d' bl' = stored_size True d' bl"
proof -
  from stored_size_row [OF assms(1,2)] obtain r c where
    rc: "find_blob d bl = Some r" "bs_files bl (path_for d) = Some c" "\<not> is_corrupt sha d (b_size r) c" by blast
  have touch: "List.find (\<lambda>r. b_digest r = d') (map (\<lambda>r. if b_digest r = d then r\<lparr>b_last_used := t\<rparr> else r) rs)
      = map_option (\<lambda>r. if b_digest r = d then r\<lparr>b_last_used := t\<rparr> else r) (List.find (\<lambda>r. b_digest r = d') rs)" for d' t rs
    by (induction rs) auto
  show thesis
    using rc assms(3) that by (auto simp: verify_existing_def verify_works_def stored_size_def find_blob_def touch
        option.case_distrib [where h = Some] split: option.splits)
qed

lemma verify_blobs_uploaded:
  assumes "blob_inv sha bl" "\<And>e. e \<in> set es \<Longrightarrow> uploaded bl e" "\<And>d. verify_works (vio d)"
  shows "\<exists>bl'. verify_blobs sha True vio es bl = (None, bl')"
  using assms(1,2)
proof (induction es arbitrary: bl)
  case (Cons e es)
  show ?case
  proof (cases e)
    case (File p d n x)
    then have size: "stored_size True d bl = Ok n" using Cons.prems(2) [of e] by (simp add: uploaded_def)
    obtain bl1 where v: "verify_existing sha (vio d) d bl = (Inr (), bl1)" "\<And>d'. stored_size True d' bl1 = stored_size True d' bl"
      using verify_uploaded [OF Cons.prems(1) size assms(3)] by metis
    have "blob_inv sha bl1" using verify_intact [OF Cons.prems(1) v(1)] by simp
    moreover have "uploaded bl1 e'" if "e' \<in> set es" for e'
      using Cons.prems(2) [of e'] that v(2) by (cases e') (auto simp: uploaded_def)
    ultimately have "\<exists>bl'. verify_blobs sha True vio es bl1 = (None, bl')" by (rule Cons.IH)
    moreover have "unat n \<le> MAX_BLOB_BYTES" using stored_size_row [OF Cons.prems(1) size] by blast
    ultimately show ?thesis using File size v(1) by simp
  qed (use Cons in auto)
qed simp

lemma quota_allows:
  assumes "0 \<le> bytes_ready wk" "bytes_ready wk \<le> i64_max" "bytes_ready wk + uint lb \<le> uint quota"
  shows "ready_bytes wk = Ok (bytes_ready wk)" "\<not> u64_saturating_add (of_int (max 0 (bytes_ready wk))) lb > quota"
    and "\<not> lb > quota"
proof -
  show "ready_bytes wk = Ok (bytes_ready wk)" using assms(2) by (simp add: ready_bytes_def Let_def)
  have "uint (word_of_int (bytes_ready wk) :: u64) = bytes_ready wk"
    using as_u64_uint [OF assms(1,2)] by (simp add: as_u64_def)
  then have "uint (u64_saturating_add (of_int (bytes_ready wk)) lb) \<le> uint quota"
    using assms(3) by (simp add: uint_u64_saturating_add)
  then show "\<not> u64_saturating_add (of_int (max 0 (bytes_ready wk))) lb > quota"
    using assms(1) by (simp add: word_le_def not_less max_def)
  show "\<not> lb > quota" using assms(1,3) by (simp add: word_le_def not_less)
qed

lemma manifest_digests_known:
  assumes "\<And>e. e \<in> set (wm_entries man) \<Longrightarrow> uploaded bl e"
  shows "set (manifest_digests man) \<subseteq> known_digests bl"
proof
  fix d assume "d \<in> set (manifest_digests man)"
  then obtain p n x where "File p d n x \<in> set (wm_entries man)"
    by (auto simp: manifest_digests_def split: WorkspaceEntry.splits)
  from assms [OF this] show "d \<in> known_digests bl"
    by (cases "find_blob d bl = None") (auto simp: uploaded_def stored_size_def find_blob_None)
qed

lemma store_manifest_ok:
  assumes "blob_inv sha bl" "WorkspaceManifest_validate man = Ok ()" "valid_digest digest" "manifest_to_vec env man \<noteq> None"
    and "st_query io" "st_upsert io" "st_retain io" "set (manifest_digests man) \<subseteq> known_digests bl"
  shows "\<exists>wk' bl'. store_manifest env io now pid man digest wk bl = (Ok (), wk', bl')"
proof -
  obtain enc where enc: "manifest_to_vec env man = Some enc" using assms(4) by blast
  define x where "x = (case Option.bind (find_manifest pid digest wk) m_expires of
      None \<Rightarrow> u64_saturating_add now DEFAULT_RETENTION_MILLIS
    | Some v \<Rightarrow> max (as_u64 (max 0 v)) (u64_saturating_add now DEFAULT_RETENTION_MILLIS))"
  obtain bl' where "retain True ''manifest'' (manifest_owner_id pid digest) (manifest_digests man) (Some x) bl = (Inr (), bl')"
    using rs.pin_ok [OF assms(1,8), of "''manifest''" "manifest_owner_id pid digest" "Some x"] by blast
  then show ?thesis
    unfolding store_manifest_def Let_def x_def [symmetric] using assms(2,3,5-7) enc by simp
qed

lemma materialize_total:
  assumes inv: "blob_inv (blob_sha env) bl" and valid: "WorkspaceManifest_validate man = Ok ()"
    and digest: "manifest_digest env man = Some digest" "valid_digest digest" "manifest_to_vec env man \<noteq> None"
    and fresh: "\<forall>r \<in> set (wk_rows wk). w_workspace_id r \<noteq> i \<and> w_storage_key r \<noteq> target_of io"
    and up: "\<forall>e \<in> set (wm_entries man). uploaded bl e"
    and quota: "0 \<le> bytes_ready wk" "bytes_ready wk \<le> i64_max" "bytes_ready wk + uint (logical_bytes man) \<le> uint (wk_quota wk)"
    and disk: "disk_works io" "\<forall>d. verify_works (mi_verify io d)" "\<forall>p. ti_entry (mi_tree io) p"
  shows "\<exists>ready wk' bl'. materialize env io i handle pid man wk bl = (Ok ready, wk', bl')"
proof -
  let ?sha = "blob_sha env"
  have wf: "tree_wf (wm_entries man)" using valid by (simp add: WorkspaceManifest_validate_Ok)
  have io: "mi_lookup io" "mi_query io" "mi_size io" "mi_retain io" "mi_worker io" "mi_rename io" "mi_sync io" "mi_lock io"
    "mi_insert io" "st_query (mi_manifest io)" "st_upsert (mi_manifest io)" "st_retain (mi_manifest io)"
    "ti_create (mi_tree io)" "ti_sync (mi_tree io)"
    using disk(1) by (simp_all add: disk_works_def)
  obtain bl1 where v: "verify_blobs ?sha True (mi_verify io) (wm_entries man) bl = (None, bl1)"
    using verify_blobs_uploaded [OF inv, of "wm_entries man" "mi_verify io"] up disk(2) by blast
  note v' = verify_blobs_inv [OF inv v]
  have inv1: "blob_inv ?sha bl1" and known1: "set (manifest_digests man) \<subseteq> known_digests bl1"
    using v' manifest_digests_known [of man bl] up by simp_all
  let ?e = "Some (u64_saturating_add (mi_now io) DEFAULT_RETENTION_MILLIS)"
  obtain bl2 where r: "retain True ''workspace'' i (manifest_digests man) ?e bl1 = (Inr (), bl2)"
    using rs.pin_ok [OF inv1 known1, of "''workspace''" i ?e] by blast
  note r' = rs.pin_effect(1) [OF inv1 r]
  have inv2: "blob_inv ?sha bl2" and known2: "set (manifest_digests man) \<subseteq> known_digests bl2"
    using r' known1 by (simp_all add: rs.only_owner_def)
  obtain wk3 bl3 where m: "store_manifest env (mi_manifest io) (mi_now io) pid man digest wk bl2 = (Ok (), wk3, bl3)"
    using store_manifest_ok [OF inv2 valid digest(2,3) io(10-12) known2] by blast
  note m' = store_manifest_effect [OF inv2 m]
  have "bs_files bl3 = bs_files bl" using v' r' m'(4) by (simp add: rs.only_owner_def)
  then have "blob_ready ?sha bl3 e" if "e \<in> set (wm_entries man)" for e
    using v' that blob_ready_frame by blast
  then obtain t where t: "materialize_tree (mi_tree io) man bl3 = (None, Some t)"
    using materialize_tree_ok [OF wf, of ?sha bl3 "mi_tree io"] io disk(3) by metis
  have "find_workspace i wk = None" using fresh by (auto simp: find_workspace_def find_None_iff)
  moreover have "\<exists>ready wk' bl'. publish_tree io i handle pid man digest x wk3 bl3 = (Ok ready, wk', bl')" for x
    by (rule publish_tree_ok [OF t io(5-9)]) (use fresh m'(1) in simp)
  ultimately show ?thesis
    using valid digest(1) quota_allows [OF quota] io(1-4) v r m
    by (simp add: materialize_def lookup_workspace_def materialize_new_def Let_def)
qed

text \<open>C29: a creation that can succeed does. A valid manifest whose files are all uploaded with their declared
  sizes, that fits in the quota next to the workspaces already there, becomes a ready workspace on a working
  disk.\<close>

theorem materialize_succeeds:
  assumes inv: "blob_inv (blob_sha env) bl" and valid: "WorkspaceManifest_validate man = Ok ()"
    and digest: "manifest_digest env man = Some digest" "valid_digest digest" "manifest_to_vec env man \<noteq> None"
    and fresh: "\<forall>r \<in> set (wk_rows wk). w_workspace_id r \<noteq> i \<and> w_storage_key r \<noteq> target_of io"
    and up: "\<forall>e \<in> set (wm_entries man). uploaded bl e"
    and quota: "0 \<le> bytes_ready wk" "bytes_ready wk \<le> i64_max" "bytes_ready wk + uint (logical_bytes man) \<le> uint (wk_quota wk)"
    and disk: "disk_works io" "\<forall>d. verify_works (mi_verify io d)" "\<forall>p. ti_entry (mi_tree io) p"
  shows "\<exists>ready wk' bl'. materialize env io i handle pid man wk bl = (Ok ready, wk', bl')"
  by (rule materialize_total [OF assms])

section \<open>Using a workspace\<close>

lemma find_snoc: "List.find P (xs @ [y]) = (case List.find P xs of Some x \<Rightarrow> Some x | None \<Rightarrow> if P y then Some y else None)"
  by (induction xs) auto

lemma ready_lookup:
  assumes "find_workspace i wk = None" "wk_rows wk' = wk_rows wk @ [ready_row io i handle pid man digest x]"
    and "tree_wf (wm_entries man)"
  shows "lookup_workspace True i wk' = Ok (Some \<lparr>wr_execution_id = eh_execution_id handle,
     wr_generation = eh_generation handle, wr_principal_id = pid, wr_manifest_digest = digest,
     wr_storage_key = target_of io, wr_logical_bytes = logical_bytes man, wr_state = ''Ready'', wr_expires = Some x\<rparr>)"
proof -
  have "as_u64 (max 0 (as_i64 (logical_bytes man))) = logical_bytes man"
    by (simp add: logical_bytes_small [OF assms(3)] as_u64_def)
  with assms(1,2) show ?thesis
    by (simp add: lookup_workspace_def find_workspace_def find_snoc ready_row_def)
qed

text \<open>C24: a ready workspace is fenced by its owner. Once created, its id resolves for the execution,
  generation and principal it was created for, until its retention ends, and to nothing for anyone else or
  later; repeating the creation returns the same workspace and changes nothing, and creating something else
  under its id is a conflict.\<close>

theorem ready_fenced:
  assumes inv: "blob_inv (blob_sha env) bl" and fresh: "find_workspace i wk = None"
    and ok: "materialize env io i handle pid man wk bl = (Ok ready, wk', bl')"
    and uuid: "parse_uuid env (mi_nonce io)"
  shows "resolve env True now i execution_id generation principal_id wk' =
      (if execution_id = eh_execution_id handle \<and> generation = eh_generation handle \<and> principal_id = pid
          \<and> now < retention_end (mi_now io) then Ok ready else Err WsNotFound)
    \<and> (mi_lookup io' \<longrightarrow> WorkspaceManifest_validate man' = Ok () \<longrightarrow> logical_bytes man' \<le> wk_quota wk' \<longrightarrow>
        manifest_digest env man' = Some digest' \<longrightarrow>
        materialize env io' i handle' pid' man' wk' bl' =
         (if eh_execution_id handle' = eh_execution_id handle \<and> eh_generation handle' = eh_generation handle \<and> pid' = pid
             \<and> digest' = rw_manifest_digest ready \<and> mi_now io' < retention_end (mi_now io)
          then Ok ready else Err WsConflict, wk', bl'))"
proof -
  from materialize_effects [OF inv fresh ok] obtain digest t where
    root: "wk_root wk' (rw_root ready) = Some (RootDir t)" and
    rows: "wk_rows wk' = wk_rows wk @ [ready_row io i handle pid man digest (retention_end (mi_now io))]" and
    wf: "tree_wf (wm_entries man)" and
    ready: "ready = \<lparr>rw_root = target_of io, rw_logical_bytes = logical_bytes man, rw_manifest_digest = digest\<rparr>"
    by blast
  note look = ready_lookup [OF fresh rows wf]
  have key: "valid_storage_key env (target_of io)" using uuid by (simp add: valid_storage_key_def)
  have "resolve env True now i execution_id generation principal_id wk' =
      (if execution_id = eh_execution_id handle \<and> generation = eh_generation handle \<and> principal_id = pid
          \<and> now < retention_end (mi_now io) then Ok ready else Err WsNotFound)"
    using root key by (auto simp: resolve_def look has_expired_def ready not_le)
  moreover have "is_dir wk' (target_of io)" using root by (simp add: is_dir_def ready)
  ultimately show ?thesis
    using key by (auto simp: materialize_def look has_expired_def ready not_le not_less)
qed

section \<open>Derived workspaces\<close>

lemma stored_size_ready:
  assumes "blob_inv sha bl" "blob_ready sha bl (File p d n x)" "d \<in> known_digests bl"
  shows "stored_size True d bl = Ok n"
proof -
  obtain r where r: "find_blob d bl = Some r" using assms(3) by (metis find_blob_None not_None_eq)
  have "row_backed (bs_files bl) r" "b_digest r = d"
    using assms(1) find_blob_in [OF r] by (auto simp: blob_inv_def files_ok_def)
  with assms(2) r show ?thesis by (auto simp: stored_size_def row_backed_def blob_ready_def)
qed

lemma sizes_match_ready:
  assumes "blob_inv sha bl" "\<And>e. e \<in> set (wm_entries man) \<Longrightarrow> blob_ready sha bl e"
    and "set (manifest_digests man) \<subseteq> known_digests bl"
  shows "sizes_match True man bl"
proof -
  have "stored_size True d bl = Ok n" if e: "File p d n x \<in> set (wm_entries man)" for p d n x
  proof (rule stored_size_ready [OF assms(1) assms(2) [OF e]])
    have "d \<in> set (manifest_digests man)" using e by (force simp: manifest_digests_def)
    then show "d \<in> known_digests bl" using assms(3) by blast
  qed
  then show ?thesis by (auto simp: sizes_match_def list_all_iff split: WorkspaceEntry.splits)
qed

text \<open>C27: a derived workspace is the workspace of the patched manifest. After a principal created a workspace,
  a patch over its manifest digest behaves, for that principal and until the retention ends, exactly like
  submitting the patched manifest in full; for a principal with no such manifest it is a missing base and
  changes nothing. JSON decoding is only required to invert encoding.\<close>

theorem derived_equivalent:
  assumes inv: "blob_inv (blob_sha env) bl" and fresh: "find_workspace i wk = None" "find_manifest pid digest wk = None"
    and ok: "materialize env io i handle pid base wk bl = (Ok ready, wk', bl')"
    and digest: "manifest_digest env base = Some digest"
    and json: "\<And>encoded. manifest_to_vec env base = Some encoded \<Longrightarrow> manifest_from_slice env encoded = Some base"
    and time: "uint (retention_end (mi_now io)) \<le> i64_max" "mi_now io' < retention_end (mi_now io)"
    and patch: "WorkspaceManifestPatch_validate patch = Ok ()" "wp_base_manifest_digest patch = digest" "apply_to patch base = Ok man"
    and lio: "li_query lio" "li_size lio"
  shows "materialize_derived env lio io' j handle' pid patch wk' bl' = materialize env io' j handle' pid man wk' bl'
    \<and> (find_manifest other digest wk' = None \<longrightarrow>
         materialize_derived env lio io' j handle' other patch wk' bl' = (Err WsBaseMissing, wk', bl'))"
proof -
  from materialize_effects [OF inv fresh(1) ok] digest fresh(2) obtain r where
    r: "find_manifest pid digest wk' = Some r" "manifest_to_vec env base = Some (m_json r)"
      "m_expires r = Some (as_i64 (retention_end (mi_now io)))" and
    b: "blob_inv (blob_sha env) bl'" "tree_wf (wm_entries base)" "\<And>e. e \<in> set (wm_entries base) \<Longrightarrow> blob_ready (blob_sha env) bl' e"
      "set (manifest_digests base) \<subseteq> known_digests bl'"
    by auto
  have "as_u64 (max 0 (as_i64 (retention_end (mi_now io)))) = retention_end (mi_now io)"
    by (simp add: as_i64_small [OF time(1)] as_u64_def)
  then have "\<not> has_expired (mi_now io') (map_option (\<lambda>v. as_u64 (max 0 v)) (m_expires r))"
    using time(2) by (simp add: r(3) has_expired_def not_le)
  moreover have "WorkspaceManifest_validate base = Ok ()"
    using ok by (auto simp: materialize_def split: if_splits)
  ultimately have "lookup_manifest env lio (mi_now io') pid digest wk' bl' = (Ok (Some base), wk', bl')"
    using r json lio sizes_match_ready [OF b(1,3,4)] by (simp add: lookup_manifest_def)
  with patch lio show ?thesis by (simp add: materialize_derived_def lookup_manifest_def)
qed

end
