(* ===== verification/Workspace_Sweep.thy ===== *)
theory Workspace_Sweep
  imports Workspace_Props
begin

text \<open>
  The maintenance of retained manifests: one round of \<^verbatim>\<open>reconcile_manifests\<close> looks at one page of reference
  owners and leaves a cursor; successive rounds reach every owner. Rounds release only what no row names.
\<close>

section \<open>Owners and rows\<close>

definition manifest_owners :: "BlobStore \<Rightarrow> string set" where
  "manifest_owners bl = f_owner ` {v \<in> set (bs_refs bl). f_kind v = ''manifest''}"

definition names_owner :: "'b WorkspaceManager \<Rightarrow> string \<Rightarrow> bool" where
  "names_owner wk w \<longleftrightarrow> (\<exists>r \<in> set (wk_manifests wk). rsplit_once (CHR '':'') w = Some (m_principal_id r, m_manifest_digest r))"

text \<open>The primary key of the table, and digests without a colon, as every stored digest is hexadecimal.\<close>

definition manifest_key :: "'b manifest_row \<Rightarrow> string \<times> string" where
  "manifest_key r = (m_principal_id r, m_manifest_digest r)"

definition manifest_table_ok :: "'b WorkspaceManager \<Rightarrow> bool" where
  "manifest_table_ok wk \<longleftrightarrow> inj_on manifest_key (set (wk_manifests wk))
     \<and> (\<forall>r \<in> set (wk_manifests wk). CHR '':'' \<notin> set (m_manifest_digest r))"

lemma owner_round_trip: "CHR '':'' \<notin> set d \<Longrightarrow> rsplit_once (CHR '':'') (manifest_owner_id p d) = Some (p, d)"
  by (simp add: rsplit_once_Some manifest_owner_id_def)

lemma split_owner: "rsplit_once (CHR '':'') w = Some (p, d) \<Longrightarrow> w = manifest_owner_id p d"
  by (simp add: rsplit_once_Some manifest_owner_id_def)

lemma find_manifest_iff: "find_manifest p d wk \<noteq> None \<longleftrightarrow> (p, d) \<in> manifest_key ` set (wk_manifests wk)"
  by (force simp: find_manifest_def find_None_iff manifest_is_def manifest_key_def)

lemma names_owner_iff:
  "names_owner wk w \<longleftrightarrow> (\<exists>p d. rsplit_once (CHR '':'') w = Some (p, d) \<and> (p, d) \<in> manifest_key ` set (wk_manifests wk))"
  by (force simp: names_owner_def manifest_key_def)

lemma owner_retained_names:
  assumes "ri_retained io w"
  shows "owner_retained io wk w = names_owner wk w"
  using assms find_manifest_iff [of _ _ wk]
  by (auto simp: owner_retained_def names_owner_iff is_retained_manifest_def split: option.splits)

section \<open>Steps of a round\<close>

text \<open>Rows and references only shrink; an owner that loses its row loses its references, and an owner that
  keeps a row keeps every reference.\<close>

definition sweeps :: "'b WorkspaceManager \<times> BlobStore \<Rightarrow> 'b WorkspaceManager \<times> BlobStore \<Rightarrow> bool" where
  "sweeps s s' \<longleftrightarrow>
     set (wk_manifests (fst s')) \<subseteq> set (wk_manifests (fst s)) \<and> wk_rows (fst s') = wk_rows (fst s)
     \<and> manifest_owners (snd s') \<subseteq> manifest_owners (snd s)
     \<and> (\<forall>w \<in> manifest_owners (snd s'). names_owner (fst s) w \<longrightarrow> names_owner (fst s') w)
     \<and> (\<forall>w d. names_owner (fst s') w \<longrightarrow> ref_view (snd s') (''manifest'', w, d) = ref_view (snd s) (''manifest'', w, d))"

lemma names_owner_mono: "set (wk_manifests wk') \<subseteq> set (wk_manifests wk) \<Longrightarrow> names_owner wk' w \<Longrightarrow> names_owner wk w"
  by (auto simp: names_owner_def)

lemma table_ok_mono: "set (wk_manifests wk') \<subseteq> set (wk_manifests wk) \<Longrightarrow> manifest_table_ok wk \<Longrightarrow> manifest_table_ok wk'"
  by (auto simp: manifest_table_ok_def intro: inj_on_subset)

lemma sweeps_refl: "sweeps s s"
  by (simp add: sweeps_def)

lemma sweeps_trans:
  assumes "sweeps s s1" "sweeps s1 s2"
  shows "sweeps s s2"
proof -
  have older: "names_owner (fst s2) w \<Longrightarrow> names_owner (fst s1) w" for w
    using assms(2) names_owner_mono by (auto simp: sweeps_def)
  have own: "manifest_owners (snd s2) \<subseteq> manifest_owners (snd s1)" using assms(2) by (simp add: sweeps_def)
  have "names_owner (fst s2) w" if "w \<in> manifest_owners (snd s2)" "names_owner (fst s) w" for w
  proof -
    have "names_owner (fst s1) w" using assms(1) own that by (auto simp: sweeps_def)
    with assms(2) that(1) show ?thesis by (simp add: sweeps_def)
  qed
  moreover have "ref_view (snd s2) (''manifest'', w, d) = ref_view (snd s) (''manifest'', w, d)" if "names_owner (fst s2) w" for w d
    using assms older [OF that] that by (simp add: sweeps_def)
  moreover have "set (wk_manifests (fst s2)) \<subseteq> set (wk_manifests (fst s))" "wk_rows (fst s2) = wk_rows (fst s)"
    "manifest_owners (snd s2) \<subseteq> manifest_owners (snd s)"
    using assms unfolding sweeps_def by (blast, simp, blast)
  ultimately show ?thesis unfolding sweeps_def by blast
qed

lemma release_owners:
  "manifest_owners (snd (release_references True ''manifest'' w bl)) = manifest_owners bl - {w}"
  by (auto simp: manifest_owners_def release_references_def delete_references_def)

lemma release_view:
  "w' \<noteq> w \<Longrightarrow> ref_view (snd (release_references True ''manifest'' w bl)) (''manifest'', w', d) = ref_view bl (''manifest'', w', d)"
  by (simp add: release_references_def delete_references_view)

lemma drop_row_sweeps:
  assumes "CHR '':'' \<notin> set d" "wk_rows wk' = wk_rows wk"
    and "set (wk_manifests wk') \<subseteq> set (wk_manifests wk)"
    and "\<And>r. r \<in> set (wk_manifests wk) \<Longrightarrow> manifest_key r \<noteq> (p, d) \<Longrightarrow> r \<in> set (wk_manifests wk')"
    and "(p, d) \<notin> manifest_key ` set (wk_manifests wk')"
  shows "sweeps (wk, bl) (wk', snd (release_references True ''manifest'' (manifest_owner_id p d) bl))"
proof -
  have keep: "names_owner wk' w" if "names_owner wk w" "w \<noteq> manifest_owner_id p d" for w
  proof -
    from that(1) obtain r where r: "r \<in> set (wk_manifests wk)"
      "rsplit_once (CHR '':'') w = Some (m_principal_id r, m_manifest_digest r)" by (auto simp: names_owner_def)
    then have "manifest_key r \<noteq> (p, d)" using split_owner that(2) by (auto simp: manifest_key_def)
    with assms(4) r show ?thesis by (auto simp: names_owner_def)
  qed
  have "w \<noteq> manifest_owner_id p d" if "names_owner wk' w" for w
  proof
    assume w: "w = manifest_owner_id p d"
    from that obtain r where r: "r \<in> set (wk_manifests wk')"
      "rsplit_once (CHR '':'') w = Some (m_principal_id r, m_manifest_digest r)" by (auto simp: names_owner_def)
    with w owner_round_trip [OF assms(1), of p] have "manifest_key r = (p, d)" by (simp add: manifest_key_def)
    then have "(p, d) \<in> manifest_key ` set (wk_manifests wk')" using r(1) by (metis image_eqI)
    with assms(5) show False by contradiction
  qed
  with keep assms(2,3) show ?thesis by (auto simp: sweeps_def release_owners release_view)
qed

lemma drop_manifest_sweeps:
  assumes "CHR '':'' \<notin> set d"
  shows "sweeps (wk, bl) (drop_manifest True True p d wk bl)"
  unfolding drop_manifest_def if_True
  by (rule drop_row_sweeps [OF assms]) (auto simp: manifest_is_def manifest_key_def)

lemma drop_invalid_sweeps:
  assumes "manifest_table_ok wk" "\<And>w. ri_delete io w" "\<And>w. ri_release io w"
  shows "sweeps (wk, bl) (drop_invalid_manifests env io n wk bl)"
proof -
  have step: "sweeps s (fold (\<lambda>r (wk, bl).
        if manifest_row_valid env r then (wk, bl)
        else let w = manifest_owner_id (m_principal_id r) (m_manifest_digest r) in
             drop_manifest (ri_delete io w) (ri_release io w) (m_principal_id r) (m_manifest_digest r) wk bl) rs s)"
    if "\<forall>r \<in> set rs. CHR '':'' \<notin> set (m_manifest_digest r)" for s :: "'a WorkspaceManager \<times> BlobStore" and rs
    using that
  proof (induction rs arbitrary: s)
    case (Cons r rs)
    obtain wk bl where s: "s = (wk, bl)" by force
    have "sweeps (wk, bl) (drop_manifest True True (m_principal_id r) (m_manifest_digest r) wk bl)"
      using Cons.prems by (intro drop_manifest_sweeps) simp
    then show ?case
      using Cons.prems assms(2,3) by (auto simp: s Let_def intro: Cons.IH sweeps_trans)
  qed (simp add: sweeps_refl)
  show ?thesis
    unfolding drop_invalid_manifests_def using assms(1) set_take_subset
    by (intro step) (fastforce simp: manifest_table_ok_def)
qed

lemma collect_sweeps:
  assumes "\<And>w. release_ok w"
  shows "manifest_table_ok wk \<Longrightarrow> sweeps (wk, bl) (snd (collect_manifests release_ok now ks (n, wk, bl)))"
proof (induction ks arbitrary: n wk bl)
  case (Cons k ks)
  obtain p d where k: "k = (p, d)" by force
  let ?wk' = "wk\<lparr>wk_manifests := filter (\<lambda>r. \<not> (manifest_is p d r \<and> manifest_expired now r)) (wk_manifests wk)\<rparr>"
  let ?bl' = "snd (release_references True ''manifest'' (manifest_owner_id p d) bl)"
  show ?case
  proof (cases "\<exists>r \<in> set (wk_manifests wk). manifest_is p d r \<and> manifest_expired now r")
    case True
    then obtain r where r: "r \<in> set (wk_manifests wk)" "manifest_key r = (p, d)" "manifest_expired now r"
      by (auto simp: manifest_is_def manifest_key_def)
    have "manifest_expired now r'" if "r' \<in> set (wk_manifests wk)" "manifest_key r' = (p, d)" for r'
      using Cons.prems r that by (auto simp: manifest_table_ok_def inj_on_def)
    then have gone: "(p, d) \<notin> manifest_key ` set (wk_manifests ?wk')"
      by (auto simp: manifest_is_def manifest_key_def)
    have colon: "CHR '':'' \<notin> set d" using Cons.prems r by (auto simp: manifest_table_ok_def manifest_key_def)
    have "sweeps (wk, bl) (?wk', ?bl')"
      by (rule drop_row_sweeps [OF colon _ _ _ gone]) (auto simp: manifest_is_def manifest_key_def)
    moreover have "manifest_table_ok ?wk'" using Cons.prems by (rule table_ok_mono [rotated]) auto
    ultimately have "sweeps (wk, bl) (snd (collect_manifests release_ok now ks (n + 1, ?wk', ?bl')))"
      using Cons.IH sweeps_trans by blast
    moreover have "release_ok (manifest_owner_id p d)" by (rule assms)
    ultimately show ?thesis using True by (simp add: k)
  next
    case False
    with Cons show ?thesis unfolding k collect_manifests.simps if_not_P [OF False] by blast
  qed
qed (simp add: sweeps_refl)

lemma release_orphans_sweeps:
  assumes "\<And>w. ri_release io w" "\<And>w. ri_retained io w"
  shows "sweeps (wk, bl) (wk, release_orphans io wk ws bl)
    \<and> manifest_owners (release_orphans io wk ws bl) = manifest_owners bl - {w \<in> set ws. \<not> names_owner wk w}"
proof (induction ws arbitrary: bl)
  case (Cons w ws)
  let ?bl' = "snd (release_references True ''manifest'' w bl)"
  have step: "release_orphans io wk (w # ws) bl = release_orphans io wk ws (if names_owner wk w then bl else ?bl')"
    using assms by (simp add: release_orphans_def owner_retained_names)
  show ?case
  proof (cases "names_owner wk w")
    case False
    then have "names_owner wk w' \<Longrightarrow> w' \<noteq> w" for w' by blast
    then have "sweeps (wk, bl) (wk, ?bl')" by (simp add: sweeps_def release_owners release_view)
    then have "sweeps (wk, bl) (wk, release_orphans io wk ws ?bl')" using Cons.IH sweeps_trans by blast
    then show ?thesis using Cons.IH [of ?bl'] False by (auto simp: step release_owners)
  qed (use Cons.IH in \<open>auto simp: step\<close>)
qed (simp add: release_orphans_def sweeps_refl)

section \<open>Rounds\<close>

definition past :: "string option \<Rightarrow> string \<Rightarrow> bool" where
  "past c w \<longleftrightarrow> (case c of None \<Rightarrow> True | Some a \<Rightarrow> a < w)"

definition remaining :: "string option \<Rightarrow> BlobStore \<Rightarrow> string set" where
  "remaining c bl = {w \<in> manifest_owners bl. past c w}"

lemma finite_remaining [simp]: "finite (remaining c bl)"
  by (simp add: remaining_def manifest_owners_def)

text \<open>A page of a sorted list without repetitions: what it leaves is what lies after its last element.\<close>

lemma page_rest:
  assumes "sorted xs" "distinct xs" "n \<le> length xs" "0 < n"
  shows "{w \<in> set xs. last (take n xs) < w} = set (drop n xs)" "set (take n xs) = {w \<in> set xs. w \<le> last (take n xs)}"
proof -
  have "take n xs \<noteq> []" using assms(3,4) by auto
  then obtain ys y where split: "take n xs = ys @ [y]" by (cases "take n xs" rule: rev_cases) auto
  have xs: "xs = (ys @ [y]) @ drop n xs" unfolding split [symmetric] by simp
  have "sorted ((ys @ [y]) @ drop n xs)" "distinct ((ys @ [y]) @ drop n xs)" using assms(1,2) xs by simp_all
  then have after: "\<forall>w \<in> set (drop n xs). y < w" and before: "\<forall>w \<in> set ys. w \<le> y"
    by (auto simp: sorted_append order.strict_iff_order)
  have set: "set xs = set ys \<union> {y} \<union> set (drop n xs)" by (subst xs) auto
  show "{w \<in> set xs. last (take n xs) < w} = set (drop n xs)"
    unfolding split set using after before by auto
  show "set (take n xs) = {w \<in> set xs. w \<le> last (take n xs)}"
    unfolding split set using after before by auto
qed

lemma owners_page:
  assumes "reference_owners True ''manifest'' c n bl = Ok page" "0 < n"
  shows "length page < n \<Longrightarrow> set page = remaining c bl"
    and "n \<le> length page \<Longrightarrow> set page = {w \<in> remaining c bl. w \<le> last page}
      \<and> card {w \<in> remaining c bl. last page < w} + n = card (remaining c bl)"
proof -
  let ?all = "sort (remdups (map f_owner (filter
      (\<lambda>v. f_kind v = ''manifest'' \<and> (case c of None \<Rightarrow> True | Some a \<Rightarrow> a < f_owner v)) (bs_refs bl))))"
  have page: "page = take n ?all" using assms(1) by (simp add: reference_owners_def)
  have all: "set ?all = remaining c bl" by (auto simp: remaining_def manifest_owners_def past_def)
  show "set page = remaining c bl" if "length page < n"
    using that page all by simp
  show "set page = {w \<in> remaining c bl. w \<le> last page}
      \<and> card {w \<in> remaining c bl. last page < w} + n = card (remaining c bl)" if "n \<le> length page"
  proof -
    have n: "n \<le> length ?all" using that page by simp
    have "card (set (drop n ?all)) + n = length ?all" using n by (simp add: distinct_card)
    moreover have "card (remaining c bl) = length ?all" unfolding all [symmetric] by (rule distinct_card) simp
    ultimately show ?thesis using page_rest [OF _ _ n assms(2)] unfolding page all by simp
  qed
qed

lemma drop_manifest_cursor [simp]: "wk_cursor (fst (drop_manifest a b p d wk bl)) = wk_cursor wk"
  by (simp add: drop_manifest_def)

lemma drop_invalid_cursor [simp]: "wk_cursor (fst (drop_invalid_manifests env io n wk bl)) = wk_cursor wk"
proof -
  have "wk_cursor (fst (fold (\<lambda>r (wk, bl).
        if manifest_row_valid env r then (wk, bl)
        else let w = manifest_owner_id (m_principal_id r) (m_manifest_digest r) in
             drop_manifest (ri_delete io w) (ri_release io w) (m_principal_id r) (m_manifest_digest r) wk bl) rs s))
      = wk_cursor (fst s)" for s :: "'a WorkspaceManager \<times> BlobStore" and rs
    by (induction rs arbitrary: s) (simp_all add: Let_def split: prod.splits)
  then show ?thesis by (simp add: drop_invalid_manifests_def)
qed

lemma collect_cursor [simp]: "wk_cursor (fst (snd (collect_manifests release_ok now ks (n, wk, bl)))) = wk_cursor wk"
  by (induction release_ok now ks "(n, wk, bl)" arbitrary: n wk bl rule: collect_manifests.induct) simp_all

definition maintenance_works :: "reconcile_io \<Rightarrow> bool" where
  "maintenance_works io \<longleftrightarrow> ri_query io \<and> ri_collect io \<and> ri_owners io
     \<and> (\<forall>w. ri_delete io w \<and> ri_release io w \<and> ri_retained io w)"

definition page_size :: "nat \<Rightarrow> nat" where
  "page_size requested = max 1 (min 1024 requested)"

text \<open>The first two steps, then the page.\<close>

lemma round_stages:
  assumes io: "maintenance_works io" and tab: "manifest_table_ok wk"
  obtains wk2 bl2 page where
    "reconcile_manifests env io order now requested wk bl = (Ok (),
       wk2\<lparr>wk_cursor := (if length page \<ge> page_size requested then Some (last page) else None)\<rparr>,
       release_orphans io wk2 page bl2)"
    "sweeps (wk, bl) (wk2, bl2)" "wk_cursor wk2 = wk_cursor wk"
    "reference_owners True ''manifest'' (wk_cursor wk) (page_size requested) bl2 = Ok page"
proof -
  obtain wk1 bl1 where s1: "drop_invalid_manifests env io (page_size requested) wk bl = (wk1, bl1)" by force
  have sw1: "sweeps (wk, bl) (wk1, bl1)" and c1: "wk_cursor wk1 = wk_cursor wk"
    using drop_invalid_sweeps [OF tab, of io bl env "page_size requested"] io s1
      drop_invalid_cursor [of env io "page_size requested" wk bl]
    by (simp_all add: maintenance_works_def)
  have tab1: "manifest_table_ok wk1" using sw1 tab by (auto simp: sweeps_def intro: table_ok_mono)
  let ?dead = "expired_manifests order (as_i64 now) (page_size requested) wk1"
  obtain n wk2 bl2 where s2: "collect_manifests (ri_release io) (as_i64 now) ?dead (0, wk1, bl1) = (n, wk2, bl2)"
    using prod_cases3 by blast
  have sw2: "sweeps (wk1, bl1) (wk2, bl2)" and c2: "wk_cursor wk2 = wk_cursor wk1"
    using collect_sweeps [OF _ tab1, of "ri_release io" bl1 "as_i64 now" ?dead 0] io s2
      collect_cursor [of "ri_release io" "as_i64 now" ?dead 0 wk1 bl1]
    by (simp_all add: maintenance_works_def)
  obtain page where p: "reference_owners True ''manifest'' (wk_cursor wk) (page_size requested) bl2 = Ok page"
    by (simp add: reference_owners_def)
  have "reconcile_manifests env io order now requested wk bl = (Ok (),
       wk2\<lparr>wk_cursor := (if length page \<ge> page_size requested then Some (last page) else None)\<rparr>,
       release_orphans io wk2 page bl2)"
    using io s1 s2 p unfolding reconcile_manifests_def Let_def page_size_def [symmetric]
    by (simp add: maintenance_works_def manifest_garbage_collect_def Let_def c1 c2)
  with that sweeps_trans [OF sw1 sw2] c1 c2 p show thesis by simp
qed

definition sweep_round ::
  "'b ws_env \<Rightarrow> reconcile_io \<Rightarrow> ('b manifest_row list \<Rightarrow> 'b manifest_row list) \<Rightarrow> u64 \<Rightarrow> nat
     \<Rightarrow> 'b WorkspaceManager \<times> BlobStore \<Rightarrow> 'b WorkspaceManager \<times> BlobStore" where
  "sweep_round env io order now requested s = snd (reconcile_manifests env io order now requested (fst s) (snd s))"

text \<open>Everything up to the cursor has been dealt with.\<close>

definition swept_to_cursor :: "'b WorkspaceManager \<times> BlobStore \<Rightarrow> bool" where
  "swept_to_cursor s \<longleftrightarrow> (\<forall>w \<in> manifest_owners (snd s). \<not> past (wk_cursor (fst s)) w \<longrightarrow> names_owner (fst s) w)"

lemma round_effect:
  assumes io: "maintenance_works io" and tab: "manifest_table_ok (fst s)" and swept: "swept_to_cursor s"
    and s': "s' = sweep_round env io order now requested s"
  shows "sweeps s s'"
    and "if wk_cursor (fst s') = None then \<forall>w \<in> manifest_owners (snd s'). names_owner (fst s') w
      else swept_to_cursor s' \<and> card (remaining (wk_cursor (fst s')) (snd s')) + page_size requested
             \<le> card (remaining (wk_cursor (fst s)) (snd s))"
proof -
  let ?n = "page_size requested"
  obtain wk bl where s: "s = (wk, bl)" by force
  from tab s have "manifest_table_ok wk" by simp
  from round_stages [OF io this, of env order now requested bl] obtain wk2 bl2 page where
    r: "reconcile_manifests env io order now requested wk bl = (Ok (),
       wk2\<lparr>wk_cursor := (if length page \<ge> ?n then Some (last page) else None)\<rparr>, release_orphans io wk2 page bl2)" and
    sw: "sweeps (wk, bl) (wk2, bl2)" and c: "wk_cursor wk2 = wk_cursor wk" and
    p: "reference_owners True ''manifest'' (wk_cursor wk) ?n bl2 = Ok page" .
  have names: "names_owner (wk2\<lparr>wk_cursor := x\<rparr>) = names_owner wk2" for x by (simp add: names_owner_def fun_eq_iff)
  have orphans: "sweeps (wk2, bl2) (wk2, release_orphans io wk2 page bl2)"
    "manifest_owners (release_orphans io wk2 page bl2) = manifest_owners bl2 - {w \<in> set page. \<not> names_owner wk2 w}"
    using release_orphans_sweeps [of io wk2 bl2 page] io by (simp_all add: maintenance_works_def)
  then have all: "sweeps (wk, bl) (wk2, release_orphans io wk2 page bl2)" using sw sweeps_trans by blast
  then show "sweeps s s'" by (simp add: s s' sweep_round_def r sweeps_def names)
  have finished: "names_owner wk2 w" if "w \<in> manifest_owners bl2" "\<not> past (wk_cursor wk) w" for w
  proof -
    have "w \<in> manifest_owners bl" using sw that(1) by (auto simp: sweeps_def)
    then have "names_owner wk w" using swept that(2) by (simp add: s swept_to_cursor_def)
    then show ?thesis using sw that(1) by (simp add: sweeps_def)
  qed
  have pos: "0 < ?n" by (simp add: page_size_def)
  have sub: "remaining (wk_cursor wk) bl2 \<subseteq> remaining (wk_cursor wk) bl" using sw by (auto simp: sweeps_def remaining_def)
  have new: "wk_cursor (fst s') = (if length page \<ge> ?n then Some (last page) else None)"
    "snd s' = release_orphans io wk2 page bl2" "names_owner (fst s') = names_owner wk2"
    by (simp_all add: s s' sweep_round_def r names)
  show "if wk_cursor (fst s') = None then \<forall>w \<in> manifest_owners (snd s'). names_owner (fst s') w
      else swept_to_cursor s' \<and> card (remaining (wk_cursor (fst s')) (snd s')) + ?n \<le> card (remaining (wk_cursor (fst s)) (snd s))"
  proof (cases "length page < ?n")
    case True
    then have "set page = remaining (wk_cursor wk) bl2" by (rule owners_page(1) [OF p pos])
    then have "names_owner wk2 w" if "w \<in> manifest_owners (snd s')" for w
      using that finished [of w] by (auto simp: new(2) orphans(2) remaining_def)
    with True show ?thesis by (simp add: new(1,3))
  next
    case False
    then have cur: "wk_cursor (fst s') = Some (last page)" by (simp add: new(1))
    have page: "set page = {w \<in> remaining (wk_cursor wk) bl2. w \<le> last page}"
      "card {w \<in> remaining (wk_cursor wk) bl2. last page < w} + ?n = card (remaining (wk_cursor wk) bl2)"
      using owners_page(2) [OF p pos, OF leI [OF False]] by simp_all
    have "names_owner wk2 w" if "w \<in> manifest_owners (snd s')" "w \<le> last page" for w
      using that finished [of w] by (auto simp: new(2) orphans(2) page(1) remaining_def)
    then have swept': "swept_to_cursor s'" by (simp add: swept_to_cursor_def cur new(3) past_def not_less)
    have "page \<noteq> []" using False pos by auto
    then have "last page \<in> set page" by (rule last_in_set)
    then have "past (wk_cursor wk) (last page)" unfolding page(1) by (simp add: remaining_def)
    then have "remaining (Some (last page)) (snd s') \<subseteq> {w \<in> remaining (wk_cursor wk) bl2. last page < w}"
      by (auto simp: remaining_def new(2) orphans(2) past_def split: option.splits)
    then have "card (remaining (Some (last page)) (snd s')) \<le> card {w \<in> remaining (wk_cursor wk) bl2. last page < w}"
      by (intro card_mono) auto
    with page(2) card_mono [OF finite_remaining sub] have
      "card (remaining (Some (last page)) (snd s')) + ?n \<le> card (remaining (wk_cursor wk) bl)" by linarith
    with swept' cur s show ?thesis by simp
  qed
qed

text \<open>C33: the orphan sweep reaches every owner. From a fresh cursor, after at most one round more than the number
  of pages, the cursor is back at the start and every owner that still holds manifest references has a row;
  along the way no owner with a row loses a reference, and no workspace is touched.\<close>

theorem sweep_complete:
  assumes io: "maintenance_works io" and tab: "manifest_table_ok wk" and start: "wk_cursor wk = None"
  shows "\<exists>n wk' bl'. n \<le> Suc (card (manifest_owners bl) div page_size requested)
    \<and> (sweep_round env io order now requested ^^ n) (wk, bl) = (wk', bl')
    \<and> 0 < n \<and> wk_cursor wk' = None \<and> wk_rows wk' = wk_rows wk
    \<and> (\<forall>w \<in> manifest_owners bl'. names_owner wk' w)
    \<and> (\<forall>w d. names_owner wk' w \<longrightarrow> ref_view bl' (''manifest'', w, d) = ref_view bl (''manifest'', w, d))"
proof -
  let ?step = "sweep_round env io order now requested" and ?p = "page_size requested"
  have "\<exists>n. n \<le> Suc (card (remaining (wk_cursor (fst s)) (snd s)) div ?p) \<and> 0 < n \<and> sweeps s ((?step ^^ n) s)
      \<and> wk_cursor (fst ((?step ^^ n) s)) = None
      \<and> (\<forall>w \<in> manifest_owners (snd ((?step ^^ n) s)). names_owner (fst ((?step ^^ n) s)) w)"
    if "manifest_table_ok (fst s)" "swept_to_cursor s" for s
    using that
  proof (induction "card (remaining (wk_cursor (fst s)) (snd s))" arbitrary: s rule: less_induct)
    case less
    note eff = round_effect [OF io less.prems refl, of env order now requested]
    show ?case
    proof (cases "wk_cursor (fst (?step s)) = None")
      case True
      with eff show ?thesis by (intro exI [of _ "Suc 0"]) simp
    next
      case False
      let ?m = "card (remaining (wk_cursor (fst (?step s))) (snd (?step s)))"
      have swept: "swept_to_cursor (?step s)" and dec: "?m + ?p \<le> card (remaining (wk_cursor (fst s)) (snd s))"
        using eff(2) False by simp_all
      have pos: "0 < ?p" by (simp add: page_size_def)
      have "manifest_table_ok (fst (?step s))" using eff(1) less.prems(1) by (auto simp: sweeps_def intro: table_ok_mono)
      from less.hyps [OF _ this swept] dec pos obtain n where n: "n \<le> Suc (?m div ?p)" "0 < n" "sweeps (?step s) ((?step ^^ n) (?step s))"
        "wk_cursor (fst ((?step ^^ n) (?step s))) = None"
        "\<forall>w \<in> manifest_owners (snd ((?step ^^ n) (?step s))). names_owner (fst ((?step ^^ n) (?step s))) w" by auto
      have "Suc (?m div ?p) \<le> card (remaining (wk_cursor (fst s)) (snd s)) div ?p"
        using div_le_mono [OF dec, of ?p] pos by (simp add: div_add_self2)
      with n sweeps_trans [OF eff(1) n(3)] show ?thesis by (intro exI [of _ "Suc n"]) (simp add: funpow_swap1)
    qed
  qed
  from this [of "(wk, bl)"] tab start obtain n where n: "n \<le> Suc (card (manifest_owners bl) div ?p)" "0 < n"
    "sweeps (wk, bl) ((?step ^^ n) (wk, bl))" "wk_cursor (fst ((?step ^^ n) (wk, bl))) = None"
    "\<forall>w \<in> manifest_owners (snd ((?step ^^ n) (wk, bl))). names_owner (fst ((?step ^^ n) (wk, bl))) w"
    by (auto simp: swept_to_cursor_def past_def remaining_def)
  obtain wk' bl' where "(?step ^^ n) (wk, bl) = (wk', bl')" by force
  with n show ?thesis by (auto simp: sweeps_def)
qed

section \<open>Collecting workspaces\<close>

lemma remove_directories_Cons:
  assumes "remove_directories env rmdir ((i, key) # rest) root gone = (ok, root', gone')"
  obtains "remove_directories env rmdir rest root gone = (ok, root', gone')"
  | "root' = root" "gone' = gone"
  | "remove_directories env rmdir rest (root(key := None)) (gone @ [i]) = (ok, root', gone')"
  using assms by (auto split: if_splits)

lemma remove_directories_frame:
  "remove_directories env rmdir cs root gone = (ok, root', gone') \<Longrightarrow> name \<notin> snd ` set cs \<or> root name = None
     \<Longrightarrow> root' name = root name"
proof (induction cs arbitrary: root gone)
  case (Cons c rest)
  obtain i key where c: "c = (i, key)" by force
  from Cons.prems(1) [unfolded c] show ?case
  proof (cases rule: remove_directories_Cons)
    case 3
    have "(root(key := None)) name = root name \<and> (name \<notin> snd ` set rest \<or> (root(key := None)) name = None)"
      using Cons.prems(2) by (auto simp: c)
    with Cons.IH [OF 3] show ?thesis by metis
  qed (use Cons.IH Cons.prems(2) in \<open>auto simp: c\<close>)
qed simp

lemma remove_directories_gone:
  "remove_directories env rmdir cs root gone = (ok, root', gone') \<Longrightarrow> i \<in> set gone'
     \<Longrightarrow> i \<in> set gone \<or> (\<exists>key. (i, key) \<in> set cs \<and> root' key = None)"
proof (induction cs arbitrary: root gone)
  case (Cons c rest)
  obtain j key where c: "c = (j, key)" by force
  from Cons.prems(1) [unfolded c] show ?case
  proof (cases rule: remove_directories_Cons)
    case 3
    have "root' key = None" using remove_directories_frame [OF 3, of key] by simp
    with Cons.IH [OF 3 Cons.prems(2)] show ?thesis by (auto simp: c)
  qed (use Cons.IH Cons.prems(2) in \<open>auto simp: c\<close>)
qed simp

text \<open>C31: collecting workspaces only takes what has expired. Whatever directory could not be removed, every
  workspace that has not expired keeps its row and its directory, rows only disappear, and a workspace whose
  row disappeared has no directory left.\<close>

theorem workspace_gc_safe:
  assumes keys: "distinct (map w_storage_key (wk_rows wk))" "distinct (map w_workspace_id (wk_rows wk))"
    and order: "set (order (wk_rows wk)) = set (wk_rows wk)"
    and gc: "workspace_garbage_collect env io rmdir order now limit dry_run wk = (res, wk')"
  shows "set (wk_rows wk') \<subseteq> set (wk_rows wk)
    \<and> (\<forall>r \<in> set (wk_rows wk). \<not> workspace_expired (as_i64 now) r \<longrightarrow>
         r \<in> set (wk_rows wk') \<and> wk_root wk' (w_storage_key r) = wk_root wk (w_storage_key r))
    \<and> (\<forall>r \<in> set (wk_rows wk) - set (wk_rows wk'). wk_root wk' (w_storage_key r) = None)
    \<and> (dry_run \<longrightarrow> wk' = wk)"
proof -
  let ?cands = "take limit (sort_key (\<lambda>r. the (w_expires r)) (filter (workspace_expired (as_i64 now)) (order (wk_rows wk))))"
  let ?cs = "map (\<lambda>r. (w_workspace_id r, w_storage_key r)) ?cands"
  have cands: "r \<in> set (wk_rows wk) \<and> workspace_expired (as_i64 now) r" if "r \<in> set ?cands" for r
    using in_set_takeD [OF that] order by auto
  have inj: "inj_on w_storage_key (set (wk_rows wk))" "inj_on w_workspace_id (set (wk_rows wk))"
    using keys by (simp_all add: distinct_map)
  obtain ok root gone where rd: "remove_directories env rmdir ?cs (wk_root wk) [] = (ok, root, gone)"
    using prod_cases3 by blast
  have alive: "root (w_storage_key r) = wk_root wk (w_storage_key r)"
    if "r \<in> set (wk_rows wk)" "\<not> workspace_expired (as_i64 now) r" for r
  proof -
    have "w_storage_key r \<notin> snd ` set ?cs"
    proof
      assume "w_storage_key r \<in> snd ` set ?cs"
      then obtain r' where r': "r' \<in> set ?cands" "w_storage_key r' = w_storage_key r" by force
      with inj_onD [OF inj(1) r'(2)] cands [OF r'(1)] that show False by blast
    qed
    with remove_directories_frame [OF rd] show ?thesis by blast
  qed
  have dead: "root (w_storage_key r) = None" if r: "r \<in> set (wk_rows wk)" "w_workspace_id r \<in> set gone" for r
  proof -
    from remove_directories_gone [OF rd r(2)] obtain k where k: "(w_workspace_id r, k) \<in> set ?cs" "root k = None" by auto
    then obtain r' where "r' \<in> set ?cands" "w_workspace_id r' = w_workspace_id r" "w_storage_key r' = k" by auto
    with inj_onD [OF inj(2)] cands r(1) k(2) show ?thesis by blast
  qed
  show ?thesis
  proof (cases "\<not> io \<or> dry_run")
    case True
    then have "wk' = wk" using gc by (auto simp: workspace_garbage_collect_def Let_def split: if_splits)
    then show ?thesis by simp
  next
    case False
    then have "wk_root wk' = root \<and> (wk_rows wk' = wk_rows wk \<or> wk_rows wk' = filter (\<lambda>r. \<not> (w_workspace_id r \<in> set gone
                        \<and> workspace_expired (as_i64 now) r)) (wk_rows wk))"
      using gc rd by (cases ok) (auto simp: workspace_garbage_collect_def Let_def)
    with False alive dead show ?thesis by auto
  qed
qed

end
