(* ===== verification/Workspace_Samples.thy ===== *)
theory Workspace_Samples
  imports Workspace_Sweep
begin

text \<open>
  A concrete manager, its blobs and two manifests, on which the properties of workspaces are instantiated; and
  two runs in which the code departs from what its comments promise.
\<close>

section \<open>A concrete run\<close>

definition sample_env :: "WorkspaceManifest ws_env" where
  "sample_env = \<lparr>parse_uuid = (\<lambda>s. s \<noteq> []), manifest_to_vec = Some, manifest_from_slice = Some,
     manifest_digest = (\<lambda>man. Some (replicate 64 (if length (wm_entries man) = 2 then CHR ''a'' else CHR ''b''))),
     blob_sha = sample_sha\<rparr>"

definition sample_base :: WorkspaceManifest where
  "sample_base = \<lparr>wm_schema_version = 1, wm_entries = [File ''src/a'' sample_digest 1 True, Directory ''src'']\<rparr>"

definition sample_manager :: "WorkspaceManifest WorkspaceManager" where
  "sample_manager = WorkspaceManager_open sample_env 100 None"

definition sample_io :: materialize_io where
  "sample_io = \<lparr>mi_lookup = True, mi_query = True, mi_size = True, mi_verify = (\<lambda>_. sample_verify_io), mi_retain = True,
     mi_manifest = \<lparr>st_query = True, st_upsert = True, st_retain = True\<rparr>, mi_worker = True,
     mi_tree = \<lparr>ti_create = True, ti_entry = (\<lambda>_. True), ti_sync = True\<rparr>, mi_rename = True, mi_sync = True,
     mi_lock = True, mi_insert = True, mi_rmdir = True, mi_release = True, mi_now = 1000, mi_created = 1000,
     mi_nonce = ''n''\<rparr>"

definition sample_handle :: ExecutionHandle where
  "sample_handle = \<lparr>eh_execution_id = ''e'', eh_generation = 1, eh_lease_id = ''l''\<rparr>"

lemma sample_base_valid: "WorkspaceManifest_validate sample_base = Ok ()"
  by (simp add: sample_base_def sample_digest_def manifest_eval)

lemma sample_manager_fields:
  "wk_rows sample_manager = []" "wk_manifests sample_manager = []" "wk_quota sample_manager = 100"
  "wk_root sample_manager = (\<lambda>_. None)" "wk_cursor sample_manager = None"
  by (simp_all add: sample_manager_def WorkspaceManager_open_def reconcile_def Let_def fun_eq_iff)

lemma sample_stored: "stored_size True sample_digest sample_blobs = Ok 1"
  by (simp add: stored_size_def sample_blobs_def put_stream_def fresh_blob_fields put_body_def used_bytes_def over_quota_def
      find_blob_def sample_put_io_def MAX_BLOB_BYTES_def i64_max_def u64_saturating_add_def sample_sha_def sample_digest_def
      Let_def as_i64_def)

lemma sample_bytes: "logical_bytes sample_base = 1"
  by (simp add: logical_bytes_def sample_base_def entry_size_def u64_saturating_add_def)

lemma sample_sha_env: "blob_sha sample_env = sample_sha" by (simp add: sample_env_def)

lemmas sample_ws_inv = sample_blobs_inv [folded sample_sha_env]

lemma sample_creates:
  "\<exists>ready wk' bl'. materialize sample_env sample_io ''w'' sample_handle ''p'' sample_base sample_manager sample_blobs = (Ok ready, wk', bl')"
proof (rule materialize_total [OF sample_ws_inv sample_base_valid])
  show "valid_digest (replicate 64 (CHR ''a''))"
    by (simp add: BlobDigest_parse_def list_all_iff bytes_simps)
  show "\<forall>e \<in> set (wm_entries sample_base). uploaded sample_blobs e"
    by (simp add: sample_base_def uploaded_def sample_stored)
qed (simp_all add: sample_env_def sample_manager_fields i64_max_def sample_bytes disk_works_def verify_works_def
    sample_io_def sample_verify_io_def, simp add: sample_base_def)

lemma sample_fresh: "find_workspace i sample_manager = None"
  by (simp add: find_workspace_def sample_manager_fields)

lemma sample_retention: "retention_end 1000 = 2592001000"
  by (simp add: retention_end_def DEFAULT_RETENTION_MILLIS_def u64_saturating_add_def)

definition sample_wk :: "WorkspaceManifest WorkspaceManager" where
  "sample_wk = fst (snd (materialize sample_env sample_io ''w'' sample_handle ''p'' sample_base sample_manager sample_blobs))"

definition sample_bl :: BlobStore where
  "sample_bl = snd (snd (materialize sample_env sample_io ''w'' sample_handle ''p'' sample_base sample_manager sample_blobs))"

lemma sample_run:
  obtains ready where
    "materialize sample_env sample_io ''w'' sample_handle ''p'' sample_base sample_manager sample_blobs = (Ok ready, sample_wk, sample_bl)"
  using sample_creates by (auto simp: sample_wk_def sample_bl_def)

theorem materialize_succeeds_witness:
  "\<exists>ready wk' bl'. materialize sample_env sample_io ''w'' sample_handle ''p'' sample_base sample_manager sample_blobs = (Ok ready, wk', bl')"
proof (rule materialize_succeeds [OF sample_ws_inv sample_base_valid])
  show "valid_digest (replicate 64 (CHR ''a''))"
    by (simp add: BlobDigest_parse_def list_all_iff bytes_simps)
  show "\<forall>e \<in> set (wm_entries sample_base). uploaded sample_blobs e"
    by (simp add: sample_base_def uploaded_def sample_stored)
qed (simp_all add: sample_env_def sample_manager_fields i64_max_def sample_bytes disk_works_def verify_works_def
    sample_io_def sample_verify_io_def, simp add: sample_base_def)



theorem ready_fenced_witness:
  "\<exists>ready. resolve sample_env True 2000 ''w'' ''e'' 1 ''p'' sample_wk = Ok ready
    \<and> resolve sample_env True 2000 ''w'' ''e'' 1 ''q'' sample_wk = Err WsNotFound"
proof -
  obtain ready where run: "materialize sample_env sample_io ''w'' sample_handle ''p'' sample_base sample_manager sample_blobs
      = (Ok ready, sample_wk, sample_bl)" by (rule sample_run)
  have "parse_uuid sample_env (mi_nonce sample_io)" by (simp add: sample_env_def sample_io_def)
  note fenced = ready_fenced [OF sample_ws_inv sample_fresh run this]
  show ?thesis
    using fenced [where now = 2000 and execution_id = "''e''" and generation = 1 and principal_id = "''p''"]
      fenced [where now = 2000 and execution_id = "''e''" and generation = 1 and principal_id = "''q''"]
    by (simp add: sample_handle_def sample_io_def sample_retention)
qed

definition sample_derivation :: WorkspaceManifestPatch where
  "sample_derivation = \<lparr>wp_schema_version = 1, wp_base_manifest_digest = replicate 64 (CHR ''a''),
     wp_entries = [PatchRemove ''src/a'', PatchFile ''src/b'' sample_digest 1 True]\<rparr>"

definition sample_derived :: WorkspaceManifest where
  "sample_derived = \<lparr>wm_schema_version = 1, wm_entries = [Directory ''src'', File ''src/b'' sample_digest 1 True]\<rparr>"

lemma sample_derivation_applies:
  "WorkspaceManifestPatch_validate sample_derivation = Ok ()" "apply_to sample_derivation sample_base = Ok sample_derived"
  by (simp_all add: apply_to_def sample_derivation_def sample_base_def sample_derived_def WorkspaceManifestPatch_validate_def
      patched_manifest_def base_tree_def patch_tree_def bt_remove_def sample_digest_def manifest_eval)

theorem derived_equivalent_witness:
  "materialize_derived sample_env \<lparr>li_query = True, li_size = True, li_delete = True, li_release = True\<rparr>
      (sample_io\<lparr>mi_nonce := ''m''\<rparr>) ''v'' sample_handle ''p'' sample_derivation sample_wk sample_bl
    = materialize sample_env (sample_io\<lparr>mi_nonce := ''m''\<rparr>) ''v'' sample_handle ''p'' sample_derived sample_wk sample_bl"
proof -
  obtain ready where run: "materialize sample_env sample_io ''w'' sample_handle ''p'' sample_base sample_manager sample_blobs
      = (Ok ready, sample_wk, sample_bl)" by (rule sample_run)
  have none: "find_manifest ''p'' (replicate 64 (CHR ''a'')) sample_manager = None"
    by (simp add: find_manifest_def sample_manager_fields)
  show ?thesis
    by (rule conjunct1 [OF derived_equivalent [OF sample_ws_inv sample_fresh none run _ _ _ _ sample_derivation_applies(1) _ sample_derivation_applies(2)]])
      (simp_all add: sample_env_def sample_base_def sample_io_def sample_retention i64_max_def sample_derivation_def)
qed

definition sample_maintenance :: reconcile_io where
  "sample_maintenance = \<lparr>ri_query = True, ri_collect = True, ri_owners = True, ri_delete = (\<lambda>_. True),
     ri_release = (\<lambda>_. True), ri_retained = (\<lambda>_. True)\<rparr>"

text \<open>A reference without a row.\<close>

definition sample_orphaned :: BlobStore where
  "sample_orphaned = upsert_reference ''manifest'' ''p:d'' sample_digest None sample_blobs"

theorem sweep_complete_witness:
  "\<exists>n wk' bl'. n \<le> 2
    \<and> (sweep_round sample_env sample_maintenance id 2000 1 ^^ n) (sample_manager, sample_orphaned) = (wk', bl')
    \<and> (\<forall>w \<in> manifest_owners bl'. names_owner wk' w) \<and> manifest_owners sample_orphaned = {''p:d''}"
proof -
  have owners: "manifest_owners sample_orphaned = {''p:d''}"
    by (auto simp: sample_orphaned_def upsert_reference_def manifest_owners_def sample_fields)
  have "manifest_table_ok sample_manager" "maintenance_works sample_maintenance"
    by (simp_all add: manifest_table_ok_def sample_manager_fields maintenance_works_def sample_maintenance_def)
  from sweep_complete [OF this(2,1) sample_manager_fields(5), of sample_orphaned 1 sample_env id 2000]
  obtain n wk' bl' where "n \<le> Suc (card (manifest_owners sample_orphaned) div page_size 1)"
    "(sweep_round sample_env sample_maintenance id 2000 1 ^^ n) (sample_manager, sample_orphaned) = (wk', bl')"
    "\<forall>w \<in> manifest_owners bl'. names_owner wk' w" by blast
  moreover have "Suc (card (manifest_owners sample_orphaned) div page_size 1) = 2" unfolding owners by (simp add: page_size_def)
  ultimately show ?thesis using owners by (metis (no_types))
qed

section \<open>Collection\<close>

definition sample_ws_row :: "string \<Rightarrow> int \<Rightarrow> workspace_row" where
  "sample_ws_row i t = \<lparr>w_workspace_id = i, w_execution_id = ''e'', w_generation = 1, w_principal_id = ''p'',
     w_manifest_digest = [], w_storage_key = ''workspace-'' @ i, w_logical_bytes = 1, w_state = ''Ready'', w_created = 0,
     w_expires = Some t\<rparr>"

definition sample_two :: "WorkspaceManifest WorkspaceManager" where
  "sample_two = sample_manager\<lparr>wk_rows := [sample_ws_row ''a'' 5, sample_ws_row ''b'' 6],
     wk_root := [''workspace-a'' \<mapsto> RootDir (\<lambda>_. None), ''workspace-b'' \<mapsto> RootDir (\<lambda>_. None)]\<rparr>"

theorem workspace_gc_safe_witness:
  "sample_ws_row ''b'' 6 \<in> set (wk_rows (snd (workspace_garbage_collect sample_env True (\<lambda>_. True) id 5 10 False sample_two)))"
proof -
  have keys: "distinct (map w_storage_key (wk_rows sample_two))" "distinct (map w_workspace_id (wk_rows sample_two))"
    by (simp_all add: sample_two_def sample_ws_row_def)
  have "sample_ws_row ''b'' 6 \<in> set (wk_rows sample_two)" "\<not> workspace_expired (as_i64 5) (sample_ws_row ''b'' 6)"
    by (simp_all add: sample_two_def sample_ws_row_def workspace_expired_def as_i64_def)
  moreover obtain res wk' where gc: "workspace_garbage_collect sample_env True (\<lambda>_. True) id 5 10 False sample_two = (res, wk')"
    by force
  have "set (id (wk_rows sample_two)) = set (wk_rows sample_two)" by simp
  from workspace_gc_safe [OF keys this gc] calculation show ?thesis unfolding gc snd_conv by blast
qed

text \<open>When one directory cannot be removed, the statement's rollback brings back the rows of the directories
  removed before it: they stay until they are collected again, although their directory is gone.\<close>

theorem gc_failure_strands_rows:
  "\<exists>wk'. workspace_garbage_collect sample_env True (\<lambda>key. key \<noteq> ''workspace-b'') id 6 10 False sample_two = (Err WsIo, wk')
    \<and> wk_rows wk' = wk_rows sample_two \<and> wk_root wk' ''workspace-a'' = None"
  by (simp add: workspace_garbage_collect_def sample_two_def sample_ws_row_def workspace_expired_def valid_storage_key_def
      sample_env_def as_i64_def Let_def)

text \<open>An expiry set between the two halves of \<^verbatim>\<open>mark_active\<close> is erased by the second half.\<close>

theorem mark_active_erases_expiry:
  assumes first: "active_key env True now i wk = Ok key"
    and terminal: "mark_terminal True True i expires wk bl = (Ok (), wk1, bl1)"
    and second: "activate True True i key wk1 bl1 = (res, wk2, bl2)"
  shows "res = Ok () \<and> (\<exists>r \<in> set (wk_rows wk2). w_workspace_id r = i \<and> w_storage_key r = key \<and> w_expires r = None)"
proof -
  from first obtain r where "List.find (\<lambda>r. w_workspace_id r = i \<and> w_state r = ''Ready''
      \<and> (case w_expires r of None \<Rightarrow> True | Some e \<Rightarrow> e > as_i64 now)) (wk_rows wk) = Some r" "w_storage_key r = key"
    by (auto simp: active_key_def split: option.splits if_splits root_entry.splits)
  then have r: "r \<in> set (wk_rows wk)" "w_workspace_id r = i" "w_state r = ''Ready''" "w_storage_key r = key"
    by (auto simp: find_Some_iff in_set_conv_nth)
  then have r1: "r\<lparr>w_expires := Some (as_i64 expires)\<rparr> \<in> set (wk_rows wk1)"
    using terminal by (force simp: mark_terminal_def set_reference_expiry_def Let_def)
  then have "list_ex (\<lambda>r. w_workspace_id r = i \<and> w_storage_key r = key \<and> w_state r = ''Ready'') (wk_rows wk1)"
    using r unfolding list_ex_iff by (intro bexI [of _ "r\<lparr>w_expires := Some (as_i64 expires)\<rparr>"]) simp_all
  moreover have "r\<lparr>w_expires := None\<rparr> \<in> set (map (\<lambda>r. if w_workspace_id r = i \<and> w_storage_key r = key \<and> w_state r = ''Ready''
      then r\<lparr>w_expires := None\<rparr> else r) (wk_rows wk1))"
    using r r1 unfolding set_map by (intro image_eqI [of _ _ "r\<lparr>w_expires := Some (as_i64 expires)\<rparr>"]) simp_all
  ultimately show ?thesis using r second
    by (intro conjI bexI [of _ "r\<lparr>w_expires := None\<rparr>"]) (auto simp: activate_def Let_def clear_reference_expiry_def)
qed

end
