(* ===== verification/Artifact.thy ===== *)
theory Artifact
  imports Core_Spec Core_Manifest Blob
begin

text \<open>
  Declared output capture and artifact metadata, \<^verbatim>\<open>crates/eggwork-server/src/artifact.rs\<close>: the table
  \<^verbatim>\<open>artifacts\<close>, the walk over the declared outputs of a workspace, and the two-pass copy of a file into the
  blob store. A workspace is a tree of nodes in \<^verbatim>\<open>read_dir\<close> order; because the process under capture may
  still change it, every file is read from the tree as it is when that file is opened. JSON, SHA-256, UTF-8,
  the clock and fresh names are parameters.
\<close>

section \<open>Records and the table\<close>

definition MAX_ARTIFACT_FILES :: nat where "MAX_ARTIFACT_FILES = 4096"
definition MAX_ARTIFACT_TOTAL_BYTES :: nat where "MAX_ARTIFACT_TOTAL_BYTES = 2 * 1024 * 1024 * 1024"

datatype ArtifactError =
    ArtMissingRequired | ArtUnsupportedType | ArtLimit | ArtInvalidTree | ArtIo | ArtBlob BlobError
  | ArtSql | ArtJson | ArtWorker

datatype ArtifactType = ArtifactFile

record ArtifactRecord =
  ar_artifact_id :: ArtifactId
  ar_execution_id :: ExecutionId
  ar_generation :: ExecutionGeneration
  ar_path :: RelativePath
  ar_kind :: ArtifactType
  ar_digest :: BlobDigest
  ar_size_bytes :: u64
  ar_executable :: bool
  ar_created :: u64
  ar_expires :: u64

record 'b artifact_serde =
  record_to_vec :: "ArtifactRecord \<Rightarrow> 'b option"
  record_from_slice :: "'b \<Rightarrow> ArtifactRecord option"

record 'b artifact_row =
  a_artifact_id :: string
  a_execution_id :: string
  a_generation :: int
  a_principal_id :: string
  a_json :: 'b
  a_created :: int
  a_expires :: int

type_synonym 'b ArtifactStore = "'b artifact_row list"

record ArtifactGcReport =
  ag_candidate_artifacts :: nat
  ag_deleted_artifacts :: nat

definition ArtifactStore_open :: "'b ArtifactStore option \<Rightarrow> 'b ArtifactStore" where
  "ArtifactStore_open existing = (case existing of Some st \<Rightarrow> st | None \<Rightarrow> [])"

text \<open>One \<^verbatim>\<open>INSERT\<close>: the primary key and the \<^verbatim>\<open>UNIQUE\<close> constraint.\<close>

definition clashes :: "'b artifact_row \<Rightarrow> 'b artifact_row \<Rightarrow> bool" where
  "clashes r s \<longleftrightarrow> a_artifact_id r = a_artifact_id s
     \<or> (a_execution_id r = a_execution_id s \<and> a_generation r = a_generation s
        \<and> a_principal_id r = a_principal_id s \<and> a_json r = a_json s)"

definition artifact_row_of :: "PrincipalId \<Rightarrow> 'b \<Rightarrow> ArtifactRecord \<Rightarrow> 'b artifact_row" where
  "artifact_row_of pid json r =
     \<lparr>a_artifact_id = ar_artifact_id r, a_execution_id = ar_execution_id r,
      a_generation = as_i64 (ar_generation r), a_principal_id = pid, a_json = json,
      a_created = as_i64 (ar_created r), a_expires = as_i64 (ar_expires r)\<rparr>"

fun insert_rows ::
  "'b artifact_serde \<Rightarrow> PrincipalId \<Rightarrow> ArtifactRecord list \<Rightarrow> 'b ArtifactStore \<Rightarrow> ArtifactError + 'b ArtifactStore" where
  "insert_rows sd pid [] st = Ok st"
| "insert_rows sd pid (r # rs) st =
     (case record_to_vec sd r of
        None \<Rightarrow> Err ArtJson
      | Some json \<Rightarrow>
          let row = artifact_row_of pid json r in
          if list_ex (clashes row) st then Err ArtSql else insert_rows sd pid rs (st @ [row]))"

definition insert_many ::
  "'b artifact_serde \<Rightarrow> bool \<Rightarrow> ArtifactRecord list \<Rightarrow> PrincipalId \<Rightarrow> 'b ArtifactStore
     \<Rightarrow> (ArtifactError + unit) \<times> 'b ArtifactStore" where
  "insert_many sd io records pid st =
     (if \<not> io then (Err ArtSql, st)
      else case insert_rows sd pid records st of Inl e \<Rightarrow> (Err e, st) | Inr st' \<Rightarrow> (Ok (), st'))"

fun decode_records :: "'b artifact_serde \<Rightarrow> 'b list \<Rightarrow> ArtifactError + ArtifactRecord list" where
  "decode_records sd [] = Ok []"
| "decode_records sd (b # bs) =
     (case record_from_slice sd b of
        None \<Rightarrow> Err ArtSql | Some r \<Rightarrow> and_then (decode_records sd bs) (\<lambda>rs. Ok (r # rs)))"

definition artifact_list_rows ::
  "'b artifact_serde \<Rightarrow> bool \<Rightarrow> u64 \<Rightarrow> ExecutionId \<Rightarrow> ExecutionGeneration \<Rightarrow> PrincipalId \<Rightarrow> 'b ArtifactStore
     \<Rightarrow> ArtifactError + ArtifactRecord list" where
  "artifact_list_rows sd io now i generation pid st =
     (if \<not> io then Err ArtSql
      else decode_records sd (map a_json (sort_key (\<lambda>r. (a_created r, a_artifact_id r))
        (filter (\<lambda>r. a_execution_id r = i \<and> a_generation r = as_i64 generation \<and> a_principal_id r = pid
            \<and> a_expires r > as_i64 now) st))))"

definition artifact_get ::
  "'b artifact_serde \<Rightarrow> bool \<Rightarrow> u64 \<Rightarrow> ArtifactId \<Rightarrow> PrincipalId \<Rightarrow> 'b ArtifactStore \<Rightarrow> ArtifactError + ArtifactRecord" where
  "artifact_get sd io now i pid st =
     (if \<not> io then Err ArtSql
      else case List.find (\<lambda>r. a_artifact_id r = i \<and> a_principal_id r = pid \<and> a_expires r > as_i64 now) st of
        None \<Rightarrow> Err ArtMissingRequired
      | Some r \<Rightarrow> (case record_from_slice sd (a_json r) of None \<Rightarrow> Err ArtJson | Some x \<Rightarrow> Ok x))"

definition artifact_garbage_collect ::
  "bool \<Rightarrow> ('b artifact_row list \<Rightarrow> 'b artifact_row list) \<Rightarrow> u64 \<Rightarrow> nat \<Rightarrow> bool \<Rightarrow> 'b ArtifactStore
     \<Rightarrow> (ArtifactError + ArtifactGcReport) \<times> 'b ArtifactStore" where
  "artifact_garbage_collect io order now limit dry_run st =
     (if \<not> io then (Err ArtSql, st)
      else
        let dead = filter (\<lambda>r. a_expires r \<le> as_i64 now) (order st);
            candidates = take limit (sort_key a_expires dead);
            n = min (length candidates) (length dead)
        in if dry_run then (Ok \<lparr>ag_candidate_artifacts = n, ag_deleted_artifacts = 0\<rparr>, st)
           else (Ok \<lparr>ag_candidate_artifacts = n, ag_deleted_artifacts = n\<rparr>,
                 filter (\<lambda>r. a_artifact_id r \<notin> a_artifact_id ` set candidates) st))"

section \<open>The workspace tree\<close>

text \<open>A name whose metadata cannot be read is \<open>FsUnreadable\<close>; a FIFO, socket or device is \<open>FsOther\<close>.\<close>

datatype fs_node = FsFile "u8 list" bool | FsDir "(string \<times> fs_node) list" | FsSymlink | FsOther | FsUnreadable

definition is_fs_dir :: "fs_node \<Rightarrow> bool" where
  "is_fs_dir n = (case n of FsDir _ \<Rightarrow> True | _ \<Rightarrow> False)"

datatype meta_error = MetaNotFound | MetaInvalidInput | MetaOther

fun safe_metadata_under_root :: "fs_node \<Rightarrow> string list \<Rightarrow> meta_error + fs_node" where
  "safe_metadata_under_root (FsDir es) (c # cs) =
     (case map_of es c of
        None \<Rightarrow> Err MetaNotFound
      | Some n \<Rightarrow>
          if n = FsUnreadable then Err MetaOther
          else if n = FsSymlink \<or> (cs \<noteq> [] \<and> \<not> is_fs_dir n) then Err MetaInvalidInput
          else if cs = [] then Ok n else safe_metadata_under_root n cs)"
| "safe_metadata_under_root _ _ = Err MetaInvalidInput"

text \<open>\<^verbatim>\<open>path[end..].find('/')\<close>, one directory per separator.\<close>

fun add_parent_directories ::
  "string \<Rightarrow> string \<Rightarrow> (string, unit) btree_map \<Rightarrow> ArtifactError + (string, unit) btree_map" where
  "add_parent_directories passed [] dirs = Ok dirs"
| "add_parent_directories passed (c # rest) dirs =
     (if c = slash then
        (case RelativePath_new passed of
           Inl _ \<Rightarrow> Err ArtInvalidTree
         | Inr _ \<Rightarrow> add_parent_directories (passed @ [c]) rest (bt_insert passed () dirs))
      else add_parent_directories (passed @ [c]) rest dirs)"

type_synonym discovered = "(string, bool) btree_map \<times> (string, unit) btree_map"

text \<open>\<^verbatim>\<open>entry(..).or_insert_with(..)\<close>\<close>

definition or_insert :: "string \<Rightarrow> bool \<Rightarrow> (string, bool) btree_map \<Rightarrow> (string, bool) btree_map" where
  "or_insert k v m = (case map_of m k of None \<Rightarrow> bt_insert k v m | Some _ \<Rightarrow> m)"

record walk_env =
  we_utf8 :: "string \<Rightarrow> bool"
  we_read_dir :: "string \<Rightarrow> bool"

fun visit_output :: "walk_env \<Rightarrow> string \<Rightarrow> fs_node \<Rightarrow> discovered \<Rightarrow> ArtifactError + discovered"
and visit_children :: "walk_env \<Rightarrow> string \<Rightarrow> (string \<times> fs_node) list \<Rightarrow> discovered \<Rightarrow> ArtifactError + discovered" where
  "visit_output env logical (FsFile content executable) (files, dirs) =
     (case RelativePath_new logical of
        Inl _ \<Rightarrow> Err ArtInvalidTree
      | Inr _ \<Rightarrow> and_then (add_parent_directories [] logical dirs) (\<lambda>dirs'. Ok (or_insert logical executable files, dirs')))"
| "visit_output env logical (FsDir es) (files, dirs) =
     (case RelativePath_new logical of
        Inl _ \<Rightarrow> Err ArtInvalidTree
      | Inr _ \<Rightarrow> and_then (add_parent_directories [] logical (bt_insert logical () dirs)) (\<lambda>dirs'.
          if \<not> we_read_dir env logical then Err ArtIo else visit_children env logical es (files, dirs')))"
| "visit_output env logical _ acc = Err ArtUnsupportedType"
| "visit_children env logical [] acc = Ok acc"
| "visit_children env logical ((name, n) # rest) acc =
     (if n = FsUnreadable \<or> \<not> we_utf8 env (logical @ slash # name) then visit_children env logical rest acc
      else and_then (visit_output env (logical @ slash # name) n acc) (\<lambda>acc'.
        if length (fst acc') + length (snd acc') > MAX_ARTIFACT_FILES then Err ArtLimit
        else visit_children env logical rest acc'))"

fun visit_declared :: "walk_env \<Rightarrow> fs_node \<Rightarrow> DeclaredOutput list \<Rightarrow> discovered \<Rightarrow> ArtifactError + discovered" where
  "visit_declared env root [] acc = Ok acc"
| "visit_declared env root (out # outs) acc =
     (case safe_metadata_under_root root (split_on slash (do_path out)) of
        Inl MetaNotFound \<Rightarrow> if do_required out then Err ArtMissingRequired else visit_declared env root outs acc
      | Inl MetaInvalidInput \<Rightarrow> Err ArtUnsupportedType
      | Inl MetaOther \<Rightarrow> Err ArtIo
      | Inr n \<Rightarrow> and_then (visit_output env (do_path out) n acc) (visit_declared env root outs))"

definition discover_outputs ::
  "walk_env \<Rightarrow> fs_node \<Rightarrow> DeclaredOutput list \<Rightarrow> ArtifactError + (string \<times> bool) list \<times> string list" where
  "discover_outputs env root outs =
     (if root = FsUnreadable then Err ArtIo
      else if \<not> is_fs_dir root then Err ArtUnsupportedType
      else and_then (visit_declared env root outs ([], [])) (\<lambda>(files, dirs).
        if length files > MAX_ARTIFACT_FILES then Err ArtLimit
        else if list_ex (\<lambda>(p, _). isl (RelativePath_new p)) files then Err ArtInvalidTree
        else if list_ex (\<lambda>(p, _). isl (RelativePath_new p)) dirs then Err ArtInvalidTree
        else Ok (files, map fst dirs)))"

section \<open>Copying files into the blob store\<close>

text \<open>\<^verbatim>\<open>openat\<close> component by component without following links. A link or a missing name is an error; a
  directory or a special file opens, and is refused by its metadata.\<close>

fun open_file_beneath :: "fs_node \<Rightarrow> string list \<Rightarrow> fs_node option" where
  "open_file_beneath (FsDir es) [c] =
     (case map_of es c of
        Some n \<Rightarrow> if n = FsSymlink \<or> n = FsUnreadable then None else Some n | None \<Rightarrow> None)"
| "open_file_beneath (FsDir es) (c # cs) =
     (case map_of es c of Some n \<Rightarrow> if is_fs_dir n then open_file_beneath n cs else None | None \<Rightarrow> None)"
| "open_file_beneath _ _ = None"

record capture_io =
  ci_tree :: "string \<Rightarrow> fs_node"
  ci_read :: "string \<Rightarrow> bool"
  ci_seek :: "string \<Rightarrow> bool"
  ci_stream :: "string \<Rightarrow> (unit + u8 list) list"
  ci_put :: "string \<Rightarrow> put_io"
  ci_verify :: "string \<Rightarrow> verify_io"
  ci_uuid :: "string \<Rightarrow> string"
  ci_now :: "string \<Rightarrow> u64"
  ci_worker :: bool
  ci_retain :: bool
  ci_insert :: bool

definition capture_blob ::
  "(u8 list \<Rightarrow> string) \<Rightarrow> capture_io \<Rightarrow> string \<Rightarrow> nat \<Rightarrow> BlobStore
     \<Rightarrow> (ArtifactError + BlobDigest \<times> u64 \<times> bool) \<times> BlobStore" where
  "capture_blob sha io p remaining bl =
     (case open_file_beneath (ci_tree io p) (split_on slash p) of
        None \<Rightarrow> (Err ArtIo, bl)
      | Some (FsFile content executable) \<Rightarrow>
          if \<not> ci_read io p then (Err ArtIo, bl)
          else if length content > MAX_BLOB_BYTES \<or> length content > remaining then (Err ArtLimit, bl)
          else (case BlobDigest_parse (sha content) of
                  Inl _ \<Rightarrow> (Err ArtInvalidTree, bl)
                | Inr digest \<Rightarrow>
                    if \<not> ci_seek io p then (Err ArtIo, bl)
                    else (case put_stream sha (ci_put io p) (ci_verify io p) digest (of_nat (length content)) (ci_stream io p) bl of
                            (Inl e, bl') \<Rightarrow> (Err (ArtBlob e), bl')
                          | (Inr _, bl') \<Rightarrow> (Ok (digest, of_nat (length content), executable), bl')))
      | Some _ \<Rightarrow> (Err ArtUnsupportedType, bl))"

fun capture_files ::
  "(u8 list \<Rightarrow> string) \<Rightarrow> capture_io \<Rightarrow> ExecutionId \<Rightarrow> ExecutionGeneration \<Rightarrow> u64 \<Rightarrow> (string \<times> bool) list \<Rightarrow> u64
     \<Rightarrow> BlobStore \<Rightarrow> (ArtifactError + ArtifactRecord list) \<times> BlobStore" where
  "capture_files sha io i generation expires [] sofar bl = (Ok [], bl)"
| "capture_files sha io i generation expires ((p, x) # files) sofar bl =
     (case capture_blob sha io p (MAX_ARTIFACT_TOTAL_BYTES - unat sofar) bl of
        (Inl e, bl') \<Rightarrow> (Err e, bl')
      | (Inr (digest, size_bytes, executable), bl') \<Rightarrow>
          (case id_new ''artifact id'' (ci_uuid io p) of
             Inl _ \<Rightarrow> (Err ArtInvalidTree, bl')
           | Inr artifact_id \<Rightarrow>
               (case capture_files sha io i generation expires files (u64_saturating_add sofar size_bytes) bl' of
                  (Inl e, bl'') \<Rightarrow> (Err e, bl'')
                | (Inr rs, bl'') \<Rightarrow>
                    (Ok (\<lparr>ar_artifact_id = artifact_id, ar_execution_id = i, ar_generation = generation, ar_path = p,
                          ar_kind = ArtifactFile, ar_digest = digest, ar_size_bytes = size_bytes,
                          ar_executable = executable, ar_created = ci_now io p, ar_expires = expires\<rparr> # rs), bl''))))"

definition capture_declared ::
  "'b artifact_serde \<Rightarrow> (u8 list \<Rightarrow> string) \<Rightarrow> walk_env \<Rightarrow> capture_io \<Rightarrow> fs_node \<Rightarrow> DeclaredOutput list \<Rightarrow> ExecutionId
     \<Rightarrow> ExecutionGeneration \<Rightarrow> PrincipalId \<Rightarrow> u64 \<Rightarrow> 'b ArtifactStore \<Rightarrow> BlobStore
     \<Rightarrow> (ArtifactError + u32) \<times> 'b ArtifactStore \<times> BlobStore" where
  "capture_declared sd sha env io root outs i generation pid expires st bl =
     (if \<not> ci_worker io then (Err ArtWorker, st, bl)
      else case discover_outputs env root outs of
        Inl e \<Rightarrow> (Err e, st, bl)
      | Inr (files, dirs) \<Rightarrow>
          let preflight = \<lparr>wm_schema_version = 1,
                wm_entries = map (\<lambda>(p, x). File p (sha []) 0 x) files @ map Directory dirs\<rparr>
          in
          if WorkspaceManifest_validate preflight \<noteq> Ok () then (Err ArtInvalidTree, st, bl)
          else (case capture_files sha io i generation expires files 0 bl of
                  (Inl e, bl') \<Rightarrow> (Err e, st, bl')
                | (Inr records, bl') \<Rightarrow>
                    let manifest = \<lparr>wm_schema_version = 1,
                          wm_entries = map (\<lambda>r. File (ar_path r) (ar_digest r) (ar_size_bytes r) (ar_executable r)) records
                            @ map Directory dirs\<rparr>
                    in
                    if WorkspaceManifest_validate manifest \<noteq> Ok () then (Err ArtInvalidTree, st, bl')
                    else (case retain_per_owner (ci_retain io) ''artifact''
                                  (map (\<lambda>r. (ar_artifact_id r, ar_digest r)) records) (Some expires) bl' of
                            (Inl e, bl'') \<Rightarrow> (Err (ArtBlob e), st, bl'')
                          | (Inr _, bl'') \<Rightarrow>
                              (case insert_many sd (ci_insert io) records pid st of
                                 (Inl e, st') \<Rightarrow> (Err e, st', bl'')
                               | (Inr _, st') \<Rightarrow> (Ok (of_nat (length files)), st', bl'')))))"

end
