(* ===== verification/Artifact_Props.thy ===== *)
theory Artifact_Props
  imports Artifact Blob_Refs
begin

text \<open>
  Properties of output capture: only files below a declared output are captured, each is stored beneath the
  hash of the bytes that were read, pinned until it expires, and listed for its principal alone.
\<close>

section \<open>Discovery stays below the declared outputs\<close>

definition beneath :: "string \<Rightarrow> string \<Rightarrow> bool" where
  "beneath out p \<longleftrightarrow> p = out \<or> (\<exists>rest. p = out @ slash # rest)"

lemma beneath_refl [simp]: "beneath p p" by (simp add: beneath_def)

lemma beneath_trans: "beneath a b \<Longrightarrow> beneath b c \<Longrightarrow> beneath a c"
  by (auto simp: beneath_def)

lemma beneath_child [simp]: "beneath p (p @ slash # q)" by (auto simp: beneath_def)

lemma or_insert_keys: "fst ` set (or_insert k v m) = insert k (fst ` set m)"
proof (cases "map_of m k")
  case (Some v')
  then have "k \<in> fst ` set m" by (metis domI dom_map_of_conv_image_fst)
  then show ?thesis using Some by (auto simp: or_insert_def)
qed (simp add: or_insert_def bt_insert_keys)

lemma or_insert_invar: "bt_invar m \<Longrightarrow> bt_invar (or_insert k v m)"
  by (simp add: or_insert_def bt_insert_invar split: option.split)

definition grows_under :: "string \<Rightarrow> discovered \<Rightarrow> discovered \<Rightarrow> bool" where
  "grows_under out acc acc' \<longleftrightarrow> (bt_invar (fst acc) \<longrightarrow> bt_invar (fst acc'))
     \<and> (\<forall>p \<in> fst ` set (fst acc'). p \<in> fst ` set (fst acc) \<or> beneath out p)"

lemma grows_under_refl: "grows_under out acc acc"
  by (simp add: grows_under_def)

lemma grows_under_trans: "grows_under out acc acc1 \<Longrightarrow> grows_under out acc1 acc2 \<Longrightarrow> grows_under out acc acc2"
  unfolding grows_under_def by blast

lemma grows_under_child: "grows_under (out @ slash # q) acc acc' \<Longrightarrow> grows_under out acc acc'"
  unfolding grows_under_def using beneath_trans [OF beneath_child] by blast

lemma visit_files:
  "visit_output env logical n acc = Inr acc' \<Longrightarrow> grows_under logical acc acc'"
  "visit_children env logical es acc = Inr acc' \<Longrightarrow> grows_under logical acc acc'"
proof (induction env logical n acc and env logical es acc arbitrary: acc' and acc' rule: visit_output_visit_children.induct)
  case (1 env logical content executable files dirs)
  then obtain dirs' where "acc' = (or_insert logical executable files, dirs')"
    by (auto simp: result_simps split: sum.splits)
  then show ?case by (simp add: grows_under_def or_insert_keys or_insert_invar)
next
  case (2 env logical es files dirs)
  then obtain p dirs' where a: "RelativePath_new logical = Inr p" "we_read_dir env logical"
    "visit_children env logical es (files, dirs') = Inr acc'"
    by (auto simp: result_simps split: sum.splits if_splits)
  have "\<not> \<not> we_read_dir env logical" using a(2) by simp
  from 2(1) [OF a(1) this a(3)] show ?case by (simp add: grows_under_def)
next
  case (5 env logical name n rest acc)
  show ?case
  proof (cases "n = FsUnreadable \<or> \<not> we_utf8 env (logical @ slash # name)")
    case True
    with 5(4) have "visit_children env logical rest acc = Inr acc'" by auto
    with 5(1) [OF True] show ?thesis .
  next
    case False
    with 5(4) obtain acc1 where a: "visit_output env (logical @ slash # name) n acc = Inr acc1"
      "\<not> length (fst acc1) + length (snd acc1) > MAX_ARTIFACT_FILES" "visit_children env logical rest acc1 = Inr acc'"
      by (auto simp: result_simps split: if_splits)
    from grows_under_child [OF 5(2) [OF False a(1)]] 5(3) [OF False a(2,3)] show ?thesis by (rule grows_under_trans)
  qed
qed (simp_all add: grows_under_refl)

lemma visit_declared_files:
  "visit_declared env root outs acc = Inr acc' \<Longrightarrow> bt_invar (fst acc) \<Longrightarrow> bt_invar (fst acc')
     \<and> (\<forall>p \<in> fst ` set (fst acc'). p \<in> fst ` set (fst acc) \<or> (\<exists>out \<in> set outs. beneath (do_path out) p))"
proof (induction outs arbitrary: acc)
  case (Cons out outs)
  show ?case
  proof (cases "safe_metadata_under_root root (split_on slash (do_path out))")
    case (Inl e)
    then have "visit_declared env root outs acc = Inr acc'" using Cons.prems(1) by (cases e) (auto split: if_splits)
    from Cons.IH [OF this Cons.prems(2)] show ?thesis by auto
  next
    case (Inr n)
    then obtain acc1 where a: "visit_output env (do_path out) n acc = Inr acc1" "visit_declared env root outs acc1 = Inr acc'"
      using Cons.prems(1) by (auto simp: result_simps)
    have g: "grows_under (do_path out) acc acc1" by (rule visit_files(1) [OF a(1)])
    then have "bt_invar (fst acc1)" using Cons.prems(2) by (simp add: grows_under_def)
    from Cons.IH [OF a(2) this] g show ?thesis unfolding grows_under_def by (metis list.set_intros)
  qed
qed simp

lemma discover_files:
  assumes "discover_outputs env root outs = Inr (files, dirs)"
  shows "distinct (map fst files)" "\<And>p. p \<in> fst ` set files \<Longrightarrow> \<exists>out \<in> set outs. beneath (do_path out) p"
    and "length files \<le> MAX_ARTIFACT_FILES"
proof -
  from assms obtain ds where v: "visit_declared env root outs ([], []) = Inr (files, ds)" and "length files \<le> MAX_ARTIFACT_FILES"
    by (auto simp: discover_outputs_def result_simps split: if_splits)
  then show "length files \<le> MAX_ARTIFACT_FILES" by simp
  have "bt_invar files \<and> (\<forall>p \<in> fst ` set files. \<exists>out \<in> set outs. beneath (do_path out) p)"
    using visit_declared_files [OF v] by (simp add: bt_invar_def)
  then show "distinct (map fst files)" "\<And>p. p \<in> fst ` set files \<Longrightarrow> \<exists>out \<in> set outs. beneath (do_path out) p"
    by (auto simp: bt_invar_def strict_sorted_iff)
qed

section \<open>Capturing\<close>

text \<open>A record is of a file that was opened without following a link, and names the hash and size of what was read.\<close>

definition record_of_file :: "(u8 list \<Rightarrow> string) \<Rightarrow> capture_io \<Rightarrow> ArtifactRecord \<Rightarrow> bool" where
  "record_of_file sha io r \<longleftrightarrow>
     (\<exists>c x. open_file_beneath (ci_tree io (ar_path r)) (split_on slash (ar_path r)) = Some (FsFile c x)
        \<and> ar_digest r = sha c \<and> ar_size_bytes r = of_nat (length c) \<and> ar_executable r = x)"

lemma capture_blob_effect:
  assumes inv: "blob_inv sha bl" and cap: "capture_blob sha io p remaining bl = (res, bl')"
  shows "blob_inv sha bl'" "bs_refs bl' = bs_refs bl" "known_digests bl \<subseteq> known_digests bl'"
    and "res = Inr (digest, n, x) \<Longrightarrow> digest \<in> known_digests bl' \<and> (\<exists>c.
      open_file_beneath (ci_tree io p) (split_on slash p) = Some (FsFile c x) \<and> digest = sha c \<and> n = of_nat (length c))"
proof -
  have "(bl' = bl \<and> isl res) \<or> (\<exists>c x digest r. open_file_beneath (ci_tree io p) (split_on slash p) = Some (FsFile c x)
      \<and> BlobDigest_parse (sha c) = Inr digest
      \<and> put_stream sha (ci_put io p) (ci_verify io p) digest (of_nat (length c)) (ci_stream io p) bl = (r, bl')
      \<and> res = (case r of Inl e \<Rightarrow> Inl (ArtBlob e) | Inr _ \<Rightarrow> Inr (digest, of_nat (length c), x)))"
    using cap by (auto simp: capture_blob_def split: option.splits fs_node.splits if_splits sum.splits prod.splits)
  then have "blob_inv sha bl' \<and> bs_refs bl' = bs_refs bl \<and> known_digests bl \<subseteq> known_digests bl' \<and>
    (res = Inr (digest, n, x) \<longrightarrow> digest \<in> known_digests bl' \<and> (\<exists>c.
      open_file_beneath (ci_tree io p) (split_on slash p) = Some (FsFile c x) \<and> digest = sha c \<and> n = of_nat (length c)))"
  proof (elim disjE exE conjE)
    fix c y d r
    assume f: "open_file_beneath (ci_tree io p) (split_on slash p) = Some (FsFile c y)" "BlobDigest_parse (sha c) = Inr d"
      and put: "put_stream sha (ci_put io p) (ci_verify io p) d (of_nat (length c)) (ci_stream io p) bl = (r, bl')"
      and res: "res = (case r of Inl e \<Rightarrow> Inl (ArtBlob e) | Inr _ \<Rightarrow> Inr (d, of_nat (length c), y))"
    from f(2) have d: "d = sha c" "valid_digest d" by (auto simp: BlobDigest_parse_Ok)
    note put' = put_stream_inv [OF inv d(2) put] put_stream_grows [OF inv d(2) put]
    show ?thesis using f(1) d(1) put' res by (cases r) auto
  qed (use inv in auto)
  then show "blob_inv sha bl'" "bs_refs bl' = bs_refs bl" "known_digests bl \<subseteq> known_digests bl'"
    "res = Inr (digest, n, x) \<Longrightarrow> digest \<in> known_digests bl' \<and> (\<exists>c.
      open_file_beneath (ci_tree io p) (split_on slash p) = Some (FsFile c x) \<and> digest = sha c \<and> n = of_nat (length c))"
    by simp_all
qed

lemma capture_files_effect:
  assumes "blob_inv sha bl" "capture_files sha io i g e files sofar bl = (res, bl')"
  shows "blob_inv sha bl' \<and> bs_refs bl' = bs_refs bl \<and> known_digests bl \<subseteq> known_digests bl'
    \<and> (\<forall>rs. res = Inr rs \<longrightarrow> map ar_path rs = map fst files \<and> (\<forall>r \<in> set rs. record_of_file sha io r
         \<and> ar_digest r \<in> known_digests bl' \<and> ar_execution_id r = i \<and> ar_generation r = g \<and> ar_expires r = e))"
  using assms
proof (induction files arbitrary: sofar bl res bl')
  case (Cons f files)
  obtain p x where f: "f = (p, x)" by force
  obtain r bl1 where c: "capture_blob sha io p (MAX_ARTIFACT_TOTAL_BYTES - unat sofar) bl = (r, bl1)" by force
  note c' = capture_blob_effect [OF Cons.prems(1) c]
  show ?case
  proof (cases "\<exists>d n y a. r = Inr (d, n, y) \<and> id_new ''artifact id'' (ci_uuid io p) = Inr a")
    case True
    then obtain d n y a where r: "r = Inr (d, n, y)" "id_new ''artifact id'' (ci_uuid io p) = Inr a" by blast
    obtain rest bl2 where rest: "capture_files sha io i g e files (u64_saturating_add sofar n) bl1 = (rest, bl2)" by force
    note IH = Cons.IH [OF c'(1) rest]
    have "bl' = bl2" and res: "res = (case rest of Inl er \<Rightarrow> Inl er | Inr rs \<Rightarrow> Inr (\<lparr>ar_artifact_id = a, ar_execution_id = i,
        ar_generation = g, ar_path = p, ar_kind = ArtifactFile, ar_digest = d, ar_size_bytes = n,
        ar_executable = y, ar_created = ci_now io p, ar_expires = e\<rparr> # rs))"
      using Cons.prems(2) c r rest by (auto simp: f split: sum.splits)
    with IH c'(2,3) c'(4) [OF r(1)] show ?thesis
      by (cases rest) (auto simp: record_of_file_def f)
  next
    case False
    then have "bl' = bl1 \<and> isl res" using Cons.prems(2) c by (auto simp: f split: sum.splits prod.splits)
    with c' show ?thesis by auto
  qed
qed auto

section \<open>Pinning and inserting\<close>

lemma fold_pins:
  "fold (\<lambda>(w, d) m. m((k, w, d) \<mapsto> e)) es m
     = (\<lambda>(k', w', d). if k' = k \<and> (w', d) \<in> set es then Some e else m (k', w', d))"
  by (induction es arbitrary: m) (auto simp: fun_eq_iff)

lemma retain_per_owner_effect:
  assumes inv: "blob_inv sha bl" and r: "retain_per_owner io k es e bl = (res, bl')"
  shows "blob_inv sha bl'" "known_digests bl' = known_digests bl" "isl res \<Longrightarrow> bl' = bl"
    and "res = Inr () \<Longrightarrow> (w, d) \<in> set es \<Longrightarrow> ref_view bl' (k, w, d) = Some (map_option as_i64 e)"
proof -
  show "blob_inv sha bl'" by (rule retain_inv(2) [OF inv r])
  have "(bl' = bl \<and> (es = [] \<or> isl res)) \<or> retain_all k e es bl = Inr bl'"
    using r by (auto simp: retain_per_owner_def split: if_splits sum.splits)
  then show "known_digests bl' = known_digests bl"
    "res = Inr () \<Longrightarrow> (w, d) \<in> set es \<Longrightarrow> ref_view bl' (k, w, d) = Some (map_option as_i64 e)"
    using retain_all_spec [of es bl k e] by (auto simp: fold_pins split: if_splits)
  show "isl res \<Longrightarrow> bl' = bl" using r by (auto simp: retain_per_owner_def split: if_splits sum.splits)
qed

abbreviation row_for :: "'b artifact_serde \<Rightarrow> PrincipalId \<Rightarrow> ArtifactRecord \<Rightarrow> 'b artifact_row" where
  "row_for sd pid r \<equiv> artifact_row_of pid (the (record_to_vec sd r)) r"

lemma insert_rows_effect:
  "insert_rows sd pid rs st = Inr st' \<Longrightarrow> st' = st @ map (row_for sd pid) rs
     \<and> (\<forall>r \<in> set rs. record_to_vec sd r \<noteq> None \<and> ar_artifact_id r \<notin> a_artifact_id ` set st) \<and> distinct (map ar_artifact_id rs)"
proof (induction rs arbitrary: st)
  case (Cons r rs)
  from Cons.prems obtain json where j: "record_to_vec sd r = Some json" "\<not> list_ex (clashes (artifact_row_of pid json r)) st"
    "insert_rows sd pid rs (st @ [artifact_row_of pid json r]) = Inr st'"
    by (auto simp: Let_def split: option.splits if_splits)
  have id: "a_artifact_id (artifact_row_of pid json r) = ar_artifact_id r" by (simp add: artifact_row_of_def)
  have new: "ar_artifact_id r \<notin> a_artifact_id ` set st"
    using j(2) id by (auto simp: list_ex_iff clashes_def)
  note IH = Cons.IH [OF j(3)]
  have "ar_artifact_id r \<notin> ar_artifact_id ` set rs"
    using IH id by auto
  with IH j(1) new show ?case by auto
qed simp

lemma stored_row_get:
  assumes "record_from_slice sd (the (record_to_vec sd r)) = Some r" "as_i64 now < as_i64 (ar_expires r)"
    and "r \<in> set rs" "distinct (map ar_artifact_id rs)" "ar_artifact_id r \<notin> a_artifact_id ` set st"
  shows "artifact_get sd True now (ar_artifact_id r) pid (st @ map (row_for sd pid) rs) = Ok r"
    and "pid' \<noteq> pid \<Longrightarrow> artifact_get sd True now (ar_artifact_id r) pid' (st @ map (row_for sd pid) rs) = Err ArtMissingRequired"
proof -
  let ?P = "\<lambda>q row. a_artifact_id row = ar_artifact_id r \<and> a_principal_id row = q \<and> a_expires row > as_i64 now"
  have none: "List.find (?P q) st = None" for q using assms(5) unfolding find_None_iff by (metis image_eqI)
  have "List.find P xs = None \<Longrightarrow> List.find P (xs @ ys) = List.find P ys" for P xs and ys :: "'a artifact_row list"
    by (induction xs) (auto split: if_splits)
  then have app: "List.find (?P q) (st @ ys) = List.find (?P q) ys" for q ys using none by blast
  have "List.find (?P pid) (map (row_for sd pid) rs) = Some (row_for sd pid r)"
    using assms(2-4) by (induction rs) (auto simp: artifact_row_of_def)
  then show "artifact_get sd True now (ar_artifact_id r) pid (st @ map (row_for sd pid) rs) = Ok r"
    using assms(1) by (simp add: artifact_get_def app artifact_row_of_def)
  have "List.find (?P pid') (map (row_for sd pid) rs) = None" if "pid' \<noteq> pid"
    using that by (auto simp: find_None_iff artifact_row_of_def)
  then show "pid' \<noteq> pid \<Longrightarrow> artifact_get sd True now (ar_artifact_id r) pid' (st @ map (row_for sd pid) rs) = Err ArtMissingRequired"
    by (simp add: artifact_get_def app)
qed

lemma known_content:
  assumes "blob_inv sha bl" "d \<in> known_digests bl"
  shows "\<exists>c. bs_files bl (path_for d) = Some c \<and> sha c = d"
proof -
  obtain r where r: "r \<in> set (bs_rows bl)" "b_digest r = d" using assms(2) by (auto simp: digests_def)
  then show ?thesis using assms(1) by (auto simp: blob_inv_def files_ok_def row_backed_def)
qed

lemma capture_declared_stages:
  assumes "capture_declared sd sha env io root outs i g pid expires st bl = (Ok n, st', bl')"
  obtains files dirs rs bl1 where "discover_outputs env root outs = Inr (files, dirs)"
    "capture_files sha io i g expires files 0 bl = (Inr rs, bl1)"
    "retain_per_owner (ci_retain io) ''artifact'' (map (\<lambda>r. (ar_artifact_id r, ar_digest r)) rs) (Some expires) bl1 = (Inr (), bl')"
    "insert_rows sd pid rs st = Inr st'" "n = of_nat (length files)"
  using assms by (auto simp: capture_declared_def insert_many_def Let_def split: if_splits sum.splits prod.splits)

lemma capture_failure:
  assumes inv: "blob_inv sha bl"
    and cap: "capture_declared sd sha env io root outs i g pid expires st bl = (Inl e, st', bl')"
  shows "st' = st" "blob_inv sha bl'" "known_digests bl \<subseteq> known_digests bl'"
proof -
  have c0: "st' = st \<and> (bl' = bl \<or> (\<exists>files rr bl1. capture_files sha io i g expires files 0 bl = (rr, bl1)
      \<and> (bl' = bl1 \<or> (\<exists>es q. retain_per_owner (ci_retain io) ''artifact'' es (Some expires) bl1 = (q, bl')))))"
    using cap by (auto simp: capture_declared_def insert_many_def Let_def split: if_splits sum.splits prod.splits)
  show "st' = st" using c0 by simp
  have "blob_inv sha bl' \<and> known_digests bl \<subseteq> known_digests bl'"
  proof (cases "bl' = bl")
    case False
    with c0 obtain files rr bl1 where f: "capture_files sha io i g expires files 0 bl = (rr, bl1)" and
      c: "bl' = bl1 \<or> (\<exists>es q. retain_per_owner (ci_retain io) ''artifact'' es (Some expires) bl1 = (q, bl'))" by blast
    note f' = capture_files_effect [OF inv f]
    then have inv1: "blob_inv sha bl1" and sub: "known_digests bl \<subseteq> known_digests bl1" by simp_all
    show ?thesis
    proof (cases "bl' = bl1")
      case False
      with c obtain es q where r: "retain_per_owner (ci_retain io) ''artifact'' es (Some expires) bl1 = (q, bl')" by blast
      show ?thesis using retain_per_owner_effect(1,2) [OF inv1 r] sub by simp
    qed (use inv1 sub in simp)
  qed (use inv in simp)
  then show "blob_inv sha bl'" "known_digests bl \<subseteq> known_digests bl'" by simp_all
qed

text \<open>What a successful capture says of one record.\<close>

definition captured ::
  "'b artifact_serde \<Rightarrow> (u8 list \<Rightarrow> string) \<Rightarrow> capture_io \<Rightarrow> DeclaredOutput list \<Rightarrow> ExecutionId \<Rightarrow> ExecutionGeneration
     \<Rightarrow> PrincipalId \<Rightarrow> u64 \<Rightarrow> 'b ArtifactStore \<Rightarrow> BlobStore \<Rightarrow> ArtifactRecord \<Rightarrow> bool" where
  "captured sd sha io outs i g pid expires st bl r \<longleftrightarrow>
     record_of_file sha io r \<and> (\<exists>out \<in> set outs. beneath (do_path out) (ar_path r))
     \<and> ar_execution_id r = i \<and> ar_generation r = g
     \<and> (\<exists>c. bs_files bl (path_for (ar_digest r)) = Some c \<and> sha c = ar_digest r)
     \<and> ref_view bl (''artifact'', ar_artifact_id r, ar_digest r) = Some (Some (as_i64 expires))
     \<and> (\<forall>now. as_i64 now < as_i64 expires \<longrightarrow> artifact_get sd True now (ar_artifact_id r) pid st = Ok r
          \<and> (\<forall>other. other \<noteq> pid \<longrightarrow> artifact_get sd True now (ar_artifact_id r) other st = Err ArtMissingRequired))"

lemma capture_success:
  assumes inv: "blob_inv sha bl"
    and json: "\<And>r encoded. record_to_vec sd r = Some encoded \<Longrightarrow> record_from_slice sd encoded = Some r"
    and cap: "capture_declared sd sha env io root outs i g pid expires st bl = (Inr n, st', bl')"
  obtains rs where "n = of_nat (length rs)" "st' = st @ map (row_for sd pid) rs" "distinct (map ar_path rs)"
    "blob_inv sha bl'" "known_digests bl \<subseteq> known_digests bl'"
    "\<And>r. r \<in> set rs \<Longrightarrow> captured sd sha io outs i g pid expires st' bl' r"
proof -
  from capture_declared_stages [OF cap] obtain files dirs rs bl1 where
    d: "discover_outputs env root outs = Inr (files, dirs)" and
    f: "capture_files sha io i g expires files 0 bl = (Inr rs, bl1)" and
    p: "retain_per_owner (ci_retain io) ''artifact'' (map (\<lambda>r. (ar_artifact_id r, ar_digest r)) rs) (Some expires) bl1 = (Inr (), bl')" and
    s: "insert_rows sd pid rs st = Inr st'" "n = of_nat (length files)" .
  note f' = capture_files_effect [OF inv f]
  have inv1: "blob_inv sha bl1" and paths: "map ar_path rs = map fst files" using f' by simp_all
  note p' = retain_per_owner_effect [OF inv1 p]
  note s' = insert_rows_effect [OF s(1)]
  have "captured sd sha io outs i g pid expires st' bl' r" if r: "r \<in> set rs" for r
    unfolding captured_def
  proof (intro conjI allI impI)
    show "record_of_file sha io r" "ar_execution_id r = i" "ar_generation r = g" using f' r by simp_all
    show "\<exists>out \<in> set outs. beneath (do_path out) (ar_path r)"
      using discover_files(2) [OF d, of "ar_path r"] paths r by (metis image_eqI set_map)
    show "\<exists>c. bs_files bl' (path_for (ar_digest r)) = Some c \<and> sha c = ar_digest r"
      using known_content [OF p'(1)] p'(2) f' r by simp
    show "ref_view bl' (''artifact'', ar_artifact_id r, ar_digest r) = Some (Some (as_i64 expires))"
      using p'(4) [OF refl] r by simp
    have j: "record_from_slice sd (the (record_to_vec sd r)) = Some r" using s' r json by force
    have u: "distinct (map ar_artifact_id rs)" "ar_artifact_id r \<notin> a_artifact_id ` set st" using s' r by simp_all
    fix now :: u64
    assume "as_i64 now < as_i64 expires"
    then have e: "as_i64 now < as_i64 (ar_expires r)" using f' r by simp
    note get = stored_row_get [OF j e r u, where pid = pid]
    show "artifact_get sd True now (ar_artifact_id r) pid st' = Ok r" using get(1) s' by simp
    show "artifact_get sd True now (ar_artifact_id r) other st' = Err ArtMissingRequired" if "other \<noteq> pid" for other
      using get(2) [OF that] s' by simp
  qed
  moreover have "length rs = length files" using paths by (metis length_map)
  moreover have "distinct (map ar_path rs)" using discover_files(1) [OF d] paths by simp
  moreover have "st' = st @ map (row_for sd pid) rs" using s' by simp
  moreover have "known_digests bl \<subseteq> known_digests bl'" using f' p'(2) by simp
  ultimately show thesis using that [of rs] p'(1) s(2) by simp
qed

text \<open>C18: captured artifacts are what was declared and what was read. On success every new record is of a
  regular file at or below a declared output, opened without following a link; it names the hash and size of
  the bytes read; content with that hash is stored and pinned for the artifact until it expires; and the record
  is what its principal, and no one else, gets back under its id. On failure no record is added and no stored
  blob is lost.\<close>

theorem capture_sound:
  assumes inv: "blob_inv sha bl"
    and json: "\<And>r encoded. record_to_vec sd r = Some encoded \<Longrightarrow> record_from_slice sd encoded = Some r"
    and cap: "capture_declared sd sha env io root outs i g pid expires st bl = (res, st', bl')"
  shows "blob_inv sha bl' \<and> known_digests bl \<subseteq> known_digests bl' \<and>
    (case res of Inl e \<Rightarrow> st' = st
     | Inr n \<Rightarrow> \<exists>rs. n = of_nat (length rs) \<and> st' = st @ map (row_for sd pid) rs \<and> distinct (map ar_path rs)
        \<and> (\<forall>r \<in> set rs. captured sd sha io outs i g pid expires st' bl' r))"
proof (cases res)
  case (Inl e)
  from capture_failure [OF inv cap [unfolded Inl]] show ?thesis by (simp add: Inl)
next
  case (Inr n)
  from capture_success [OF inv json cap [unfolded Inr]] show ?thesis unfolding Inr sum.case by metis
qed

section \<open>A concrete capture\<close>

definition sample_outputs :: "DeclaredOutput list" where
  "sample_outputs = [\<lparr>do_path = ''out'', do_required = True\<rparr>]"

definition sample_tree :: fs_node where
  "sample_tree = FsDir [(''out'', FsFile [7] True), (''secret'', FsFile [8] False)]"

definition sample_walk :: walk_env where
  "sample_walk = \<lparr>we_utf8 = (\<lambda>_. True), we_read_dir = (\<lambda>_. True)\<rparr>"

definition sample_capture_io :: capture_io where
  "sample_capture_io = \<lparr>ci_tree = (\<lambda>_. sample_tree), ci_read = (\<lambda>_. True), ci_seek = (\<lambda>_. True),
     ci_stream = (\<lambda>_. [Inr [7]]), ci_put = (\<lambda>_. sample_put_io), ci_verify = (\<lambda>_. sample_verify_io),
     ci_uuid = (\<lambda>_. ''a1''), ci_now = (\<lambda>_. 9), ci_worker = True, ci_retain = True, ci_insert = True\<rparr>"

definition sample_artifact_serde :: "ArtifactRecord artifact_serde" where
  "sample_artifact_serde = \<lparr>record_to_vec = Some, record_from_slice = Some\<rparr>"

lemma sample_sha_7: "sample_sha [7] = sample_digest"
  by (simp add: sample_sha_def sample_digest_def)

lemma sample_discover: "discover_outputs sample_walk sample_tree sample_outputs = Inr ([(''out'', True)], [])"
  by (simp add: discover_outputs_def sample_tree_def sample_outputs_def sample_walk_def is_fs_dir_def or_insert_def
      RelativePath_new_def MAX_PATH_BYTES_def MAX_ARTIFACT_FILES_def bytes_simps)

lemma sample_capture_file:
  "capture_files sample_sha sample_capture_io ''e'' 1 5000 [(''out'', True)] 0 (BlobStore_open 100 None) = (Inr
     [\<lparr>ar_artifact_id = ''a1'', ar_execution_id = ''e'', ar_generation = 1, ar_path = ''out'', ar_kind = ArtifactFile,
       ar_digest = sample_digest, ar_size_bytes = 1, ar_executable = True, ar_created = 9, ar_expires = 5000\<rparr>], sample_blobs)"
  using sample_digest_valid sample_put
  by (simp add: capture_blob_def sample_capture_io_def sample_tree_def sample_sha_7 MAX_BLOB_BYTES_def
      MAX_ARTIFACT_TOTAL_BYTES_def id_new_def id_byte_def MAX_ID_BYTES_def bytes_simps)

lemma sample_captures:
  "\<exists>st' bl'. capture_declared sample_artifact_serde sample_sha sample_walk sample_capture_io sample_tree sample_outputs
     ''e'' 1 ''p'' 5000 [] (BlobStore_open 100 None) = (Ok 1, st', bl')"
proof -
  have "retain_one ''artifact'' ''a1'' sample_digest (Some 5000) sample_blobs
      = Ok (upsert_reference ''artifact'' ''a1'' sample_digest (Some (as_i64 5000)) sample_blobs)"
    using sample_fields(1) by (auto simp: retain_one_def)
  moreover have "ci_worker sample_capture_io" "ci_retain sample_capture_io" "ci_insert sample_capture_io"
    by (simp_all add: sample_capture_io_def)
  moreover have "WorkspaceManifest_validate \<lparr>wm_schema_version = 1, wm_entries = [File ''out'' d n True]\<rparr> = Ok ()"
    if "n = 0 \<or> n = 1" for d n
    using that by (auto simp: manifest_eval)
  ultimately show ?thesis
    unfolding capture_declared_def sample_discover sum.case prod.case sample_capture_file
    by (simp add: retain_per_owner_def insert_many_def sample_artifact_serde_def Let_def)
qed

theorem capture_sound_witness:
  "\<exists>st' bl' r. capture_declared sample_artifact_serde sample_sha sample_walk sample_capture_io sample_tree sample_outputs
     ''e'' 1 ''p'' 5000 [] (BlobStore_open 100 None) = (Ok 1, st', bl')
   \<and> artifact_get sample_artifact_serde True 10 (ar_artifact_id r) ''p'' st' = Ok r
   \<and> artifact_get sample_artifact_serde True 10 (ar_artifact_id r) ''q'' st' = Err ArtMissingRequired"
proof -
  obtain st' bl' where run: "capture_declared sample_artifact_serde sample_sha sample_walk sample_capture_io sample_tree
      sample_outputs ''e'' 1 ''p'' 5000 [] (BlobStore_open 100 None) = (Ok 1, st', bl')" using sample_captures by blast
  have json: "record_to_vec sample_artifact_serde r = Some b \<Longrightarrow> record_from_slice sample_artifact_serde b = Some r" for r b
    by (simp add: sample_artifact_serde_def)
  from capture_sound [OF fresh_blob_inv json run] obtain rs where rs: "(1::u32) = of_nat (length rs)"
    "\<forall>r \<in> set rs. captured sample_artifact_serde sample_sha sample_capture_io sample_outputs ''e'' 1 ''p'' 5000 st' bl' r"
    by auto
  then obtain r where r: "r \<in> set rs" by (cases rs) auto
  with rs(2) have c: "captured sample_artifact_serde sample_sha sample_capture_io sample_outputs ''e'' 1 ''p'' 5000 st' bl' r" by blast
  have "as_i64 10 < as_i64 5000" by (simp add: as_i64_def)
  with c have "artifact_get sample_artifact_serde True 10 (ar_artifact_id r) ''p'' st' = Ok r
     \<and> artifact_get sample_artifact_serde True 10 (ar_artifact_id r) ''q'' st' = Err ArtMissingRequired"
    by (simp add: captured_def)
  with run show ?thesis by blast
qed

text \<open>One unsupported file below a declared directory fails the whole capture.\<close>

theorem unsupported_child_fails_capture:
  "capture_declared sd sha sample_walk sample_capture_io
     (FsDir [(''out'', FsDir [(''result'', FsFile [7] False), (''pipe'', FsOther)])]) sample_outputs i g pid e st bl
   = (Err ArtUnsupportedType, st, bl)"
  by (simp add: capture_declared_def discover_outputs_def sample_outputs_def sample_walk_def is_fs_dir_def or_insert_def
      sample_capture_io_def RelativePath_new_def MAX_PATH_BYTES_def MAX_ARTIFACT_FILES_def bytes_simps)

end
