(* ===== verification/Telemetry.thy ===== *)
theory Telemetry
  imports Complex_Main Core_Spec
begin

text \<open>
  Optional host telemetry. The normalised vocabulary and its validation are in
  \<^verbatim>\<open>crates/eggwork-core/src/lib.rs\<close>; the provider adapter, the cache and the polling owner are in
  \<^verbatim>\<open>crates/eggwork-server/src/telemetry.rs\<close>. URL parsing, the HTTP client, JSON and the provider's own
  payload validation are parameters; durations are in milliseconds, monotonic instants in nanoseconds.
\<close>

section \<open>Floating-point readings\<close>

text \<open>The values of an \<^verbatim>\<open>f32\<close> as far as comparisons see them; the two zeros compare equal.\<close>

datatype f32 = F32_NaN | F32_Inf bool | F32 rat

definition f32_is_finite :: "f32 \<Rightarrow> bool" where
  "f32_is_finite x \<longleftrightarrow> (case x of F32 _ \<Rightarrow> True | _ \<Rightarrow> False)"

fun f32_le :: "f32 \<Rightarrow> f32 \<Rightarrow> bool" where
  "f32_le F32_NaN _ = False"
| "f32_le _ F32_NaN = False"
| "f32_le (F32_Inf True) y = True"
| "f32_le x (F32_Inf False) = True"
| "f32_le (F32_Inf False) y = False"
| "f32_le x (F32_Inf True) = False"
| "f32_le (F32 p) (F32 q) = (p \<le> q)"

fun f32_lt :: "f32 \<Rightarrow> f32 \<Rightarrow> bool" where
  "f32_lt F32_NaN _ = False"
| "f32_lt _ F32_NaN = False"
| "f32_lt (F32_Inf a) (F32_Inf b) = (a \<and> \<not> b)"
| "f32_lt (F32_Inf a) (F32 _) = a"
| "f32_lt (F32 _) (F32_Inf b) = (\<not> b)"
| "f32_lt (F32 p) (F32 q) = (p < q)"

section \<open>The normalised vocabulary\<close>

definition MAX_TELEMETRY_SAMPLE_INTERVAL_MS :: u64 where "MAX_TELEMETRY_SAMPLE_INTERVAL_MS = 86400000"
definition NODE_TELEMETRY_SCHEMA_VERSION :: u16 where "NODE_TELEMETRY_SCHEMA_VERSION = 1"

datatype TelemetrySource = Gregg

datatype TelemetryProviderState =
  TpDisabled | TpWarming | TpReady | TpStale | TpUnavailable | TpInvalid

datatype TelemetryErrorCategory =
    TcConnection | TcTimeout | TcHttpStatus | TcMalformed | TcSchemaVersion | TcInvalid | TcTooLarge
  | TcClockSkew

datatype 'a TelemetryMetric = MetricUnsupported | MetricUnknown | MetricValue 'a

record TelemetryCpu =
  cpu_logical_cores :: u32
  cpu_usage_pct :: f32
  cpu_iowait_pct :: "f32 option"

record TelemetryMemory =
  mem_available_bytes :: u64
  mem_total_bytes :: u64
  mem_used_bytes :: u64

record TelemetryLoad =
  load_one :: f32
  load_five :: f32
  load_fifteen :: f32

record TelemetrySwap =
  swap_used_bytes :: u64
  swap_total_bytes :: u64

record TelemetryDisk =
  disk_available_bytes :: u64
  disk_total_bytes :: u64
  disk_volume_count :: u32

record TelemetryDiskIo =
  dio_read_bytes_per_sec :: u64
  dio_write_bytes_per_sec :: u64

record TelemetryNetwork =
  net_rx_bytes_per_sec :: u64
  net_tx_bytes_per_sec :: u64

record HostTelemetry =
  ht_observed_at :: u64
  ht_sample_interval :: u64
  ht_cpu :: "TelemetryCpu TelemetryMetric"
  ht_memory :: "TelemetryMemory TelemetryMetric"
  ht_load :: "TelemetryLoad TelemetryMetric"
  ht_swap :: "TelemetrySwap TelemetryMetric"
  ht_disk :: "TelemetryDisk TelemetryMetric"
  ht_disk_io :: "TelemetryDiskIo TelemetryMetric"
  ht_network :: "TelemetryNetwork TelemetryMetric"

record NodeTelemetry =
  nt_schema_version :: u16
  nt_node_id :: NodeId
  nt_source :: TelemetrySource
  nt_state :: TelemetryProviderState
  nt_age_ms :: "u64 option"
  nt_last_error :: "TelemetryErrorCategory option"
  nt_observation :: "HostTelemetry option"

definition telemetry_value :: "'a TelemetryMetric \<Rightarrow> 'a option" where
  "telemetry_value x = (case x of MetricValue v \<Rightarrow> Some v | _ \<Rightarrow> None)"

definition metric_is_unsupported :: "'a TelemetryMetric \<Rightarrow> bool" where
  "metric_is_unsupported x \<longleftrightarrow> (case x of MetricUnsupported \<Rightarrow> True | _ \<Rightarrow> False)"

definition metric_is_unknown :: "'a TelemetryMetric \<Rightarrow> bool" where
  "metric_is_unknown x \<longleftrightarrow> (case x of MetricUnknown \<Rightarrow> True | _ \<Rightarrow> False)"

definition validate_percentage :: "f32 \<Rightarrow> string \<Rightarrow> ValidationError + unit" where
  "validate_percentage value field =
     (if \<not> f32_is_finite value \<or> \<not> (f32_le (F32 0) value \<and> f32_le value (F32 100))
      then Err (OutOfRange field) else Ok ())"

definition validate_load :: "f32 \<Rightarrow> string \<Rightarrow> ValidationError + unit" where
  "validate_load value field =
     (if \<not> f32_is_finite value \<or> f32_lt value (F32 0) then Err (OutOfRange field) else Ok ())"

definition validate_cpu :: "TelemetryCpu TelemetryMetric \<Rightarrow> ValidationError + unit" where
  "validate_cpu x =
     (case x of
        MetricValue cpu \<Rightarrow>
          if cpu_logical_cores cpu = 0 then Err (OutOfRange ''telemetry cpu logical cores'')
          else and_then (validate_percentage (cpu_usage_pct cpu) ''telemetry cpu usage'') (\<lambda>_.
            case cpu_iowait_pct cpu of
              Some iowait \<Rightarrow> validate_percentage iowait ''telemetry cpu iowait''
            | None \<Rightarrow> Ok ())
      | _ \<Rightarrow> Ok ())"

definition HostTelemetry_validate :: "HostTelemetry \<Rightarrow> ValidationError + unit" where
  "HostTelemetry_validate h =
     (if ht_observed_at h = 0 then Err (OutOfRange ''telemetry observation timestamp'')
      else if ht_sample_interval h = 0 \<or> ht_sample_interval h > MAX_TELEMETRY_SAMPLE_INTERVAL_MS
      then Err (OutOfRange ''telemetry sample interval'')
      else and_then (validate_cpu (ht_cpu h)) (\<lambda>_.
        if (case ht_memory h of MetricValue v \<Rightarrow> mem_used_bytes v > mem_total_bytes v | _ \<Rightarrow> False)
        then Err (OutOfRange ''telemetry memory used bytes'')
        else and_then
          (case ht_load h of
             MetricValue l \<Rightarrow>
               and_then (validate_load (load_one l) ''telemetry load one'') (\<lambda>_.
               and_then (validate_load (load_five l) ''telemetry load five'') (\<lambda>_.
                 validate_load (load_fifteen l) ''telemetry load fifteen''))
           | _ \<Rightarrow> Ok ()) (\<lambda>_.
          if (case ht_swap h of MetricValue v \<Rightarrow> swap_used_bytes v > swap_total_bytes v | _ \<Rightarrow> False)
          then Err (OutOfRange ''telemetry swap used bytes'')
          else Ok ())))"

definition NodeTelemetry_validate :: "NodeTelemetry \<Rightarrow> ValidationError + unit" where
  "NodeTelemetry_validate t =
     (if nt_schema_version t \<noteq> NODE_TELEMETRY_SCHEMA_VERSION
      then Err (OutOfRange ''node telemetry schema version'')
      else if nt_state t \<in> {TpReady, TpStale} \<and> nt_observation t = None
      then Err (OutOfRange ''node telemetry observation'')
      else if nt_state t \<in> {TpDisabled, TpWarming} \<and> nt_observation t \<noteq> None
      then Err (OutOfRange ''node telemetry observation'')
      else if (nt_observation t \<noteq> None) \<noteq> (nt_age_ms t \<noteq> None)
      then Err (OutOfRange ''node telemetry age'')
      else (case nt_observation t of Some h \<Rightarrow> HostTelemetry_validate h | None \<Rightarrow> Ok ()))"

section \<open>Configuration\<close>

definition PROVIDER_STATUS_PATH :: string where "PROVIDER_STATUS_PATH = ''/v2/status''"
definition MAX_PROVIDER_BODY_BYTES :: nat where "MAX_PROVIDER_BODY_BYTES = 256 * 1024"
definition MAX_CLOCK_SKEW :: u64 where "MAX_CLOCK_SKEW = 30000"
definition MAX_BACKOFF :: nat where "MAX_BACKOFF = 300000"
definition MIN_REFRESH_SECONDS :: u64 where "MIN_REFRESH_SECONDS = 1"
definition MAX_REFRESH_SECONDS :: u64 where "MAX_REFRESH_SECONDS = 3600"
definition MAX_FRESHNESS_SECONDS :: u64 where "MAX_FRESHNESS_SECONDS = 3600"

datatype TelemetryConfigError = InvalidEndpoint | InvalidRefreshInterval | InvalidFreshness

record HostTelemetryConfig =
  tc_endpoint :: string
  tc_refresh_interval :: nat
  tc_freshness :: nat

text \<open>What the code reads of a parsed \<^verbatim>\<open>url::Url\<close>; an IPv6 address is its 128-bit value.\<close>

datatype url_host = HostDomain string | HostIpv4 u8 u8 u8 u8 | HostIpv6 "128 word"

record parsed_url =
  url_scheme :: string
  url_cannot_be_a_base :: bool
  url_username :: string
  url_password :: "string option"
  url_query :: "string option"
  url_fragment :: "string option"
  url_path :: string
  url_port_or_known_default :: "u16 option"
  url_host :: "url_host option"
  url_host_str :: "string option"
  url_to_string :: string

definition ipv4_to_string :: "u8 \<Rightarrow> u8 \<Rightarrow> u8 \<Rightarrow> u8 \<Rightarrow> string" where
  "ipv4_to_string a b c d = join_with (CHR ''.'') (map (decimal \<circ> unat) [a, b, c, d])"

text \<open>\<^verbatim>\<open>str::split_once("://")\<close>: what follows the first occurrence.\<close>

fun after_scheme :: "string \<Rightarrow> string option" where
  "after_scheme [] = None"
| "after_scheme (c # cs) =
     (if take 3 (c # cs) = ''://'' then Some (drop 3 (c # cs)) else after_scheme cs)"

definition names_explicit_port :: "string \<Rightarrow> bool" where
  "names_explicit_port raw =
     (case after_scheme raw of
        None \<Rightarrow> False
      | Some rest \<Rightarrow>
          let authority = takeWhile (\<lambda>c. c \<notin> {slash, CHR ''?'', CHR ''#''}) rest;
              authority = (case rsplit_once (CHR ''@'') authority of None \<Rightarrow> authority | Some (_, host) \<Rightarrow> host)
          in
          (case authority of
             CHR ''['' # inner \<Rightarrow>
               (case split_once (CHR '']'') inner of
                  None \<Rightarrow> False
                | Some (_, tail) \<Rightarrow> tail \<noteq> [] \<and> hd tail = CHR '':'' \<and> length tail > 1)
           | _ \<Rightarrow>
               (case rsplit_once (CHR '':'') authority of
                  None \<Rightarrow> False
                | Some (_, port) \<Rightarrow> port \<noteq> [] \<and> list_all is_ascii_digit port)))"

text \<open>The only loopback IPv6 address is \<^verbatim>\<open>::1\<close>, which prints as such.\<close>

definition validate_endpoint ::
  "(string \<Rightarrow> parsed_url option) \<Rightarrow> string \<Rightarrow> TelemetryConfigError + string" where
  "validate_endpoint parse raw =
     (case parse raw of
        None \<Rightarrow> Err InvalidEndpoint
      | Some u \<Rightarrow>
          if url_scheme u \<noteq> ''http'' then Err InvalidEndpoint
          else if url_cannot_be_a_base u then Err InvalidEndpoint
          else if url_username u \<noteq> [] \<or> url_password u \<noteq> None then Err InvalidEndpoint
          else if url_query u \<noteq> None \<or> url_fragment u \<noteq> None then Err InvalidEndpoint
          else if url_path u \<noteq> PROVIDER_STATUS_PATH then Err InvalidEndpoint
          else if \<not> names_explicit_port raw then Err InvalidEndpoint
          else (case url_port_or_known_default u of
                  None \<Rightarrow> Err InvalidEndpoint
                | Some port \<Rightarrow>
                    if port = 0 then Err InvalidEndpoint
                    else (case url_host u of
                            Some (HostIpv4 a b c d) \<Rightarrow>
                              if a \<noteq> 127 \<or> url_host_str u \<noteq> Some (ipv4_to_string a b c d)
                              then Err InvalidEndpoint else Ok (url_to_string u)
                          | Some (HostIpv6 address) \<Rightarrow>
                              if address \<noteq> 1 \<or> url_host_str u \<noteq> Some ''[::1]''
                              then Err InvalidEndpoint else Ok (url_to_string u)
                          | _ \<Rightarrow> Err InvalidEndpoint)))"

definition HostTelemetryConfig_new ::
  "(string \<Rightarrow> parsed_url option) \<Rightarrow> string \<Rightarrow> u64 \<Rightarrow> u64 \<Rightarrow> TelemetryConfigError + HostTelemetryConfig" where
  "HostTelemetryConfig_new parse endpoint refresh_seconds freshness_seconds =
     (if \<not> (MIN_REFRESH_SECONDS \<le> refresh_seconds \<and> refresh_seconds \<le> MAX_REFRESH_SECONDS)
      then Err InvalidRefreshInterval
      else if \<not> (MIN_REFRESH_SECONDS \<le> freshness_seconds \<and> freshness_seconds \<le> MAX_FRESHNESS_SECONDS)
      then Err InvalidFreshness
      else if freshness_seconds < refresh_seconds then Err InvalidFreshness
      else and_then (validate_endpoint parse endpoint) (\<lambda>e.
        Ok \<lparr>tc_endpoint = e, tc_refresh_interval = unat refresh_seconds * 1000,
            tc_freshness = unat freshness_seconds * 1000\<rparr>))"

section \<open>The provider\<close>

datatype TelemetryError =
    TeConnection | TeTimeout | TeHttpStatus | TeMalformed | TeSchemaVersion | TeInvalid | TeTooLarge | TeClockSkew

fun category :: "TelemetryError \<Rightarrow> TelemetryErrorCategory" where
  "category TeConnection = TcConnection"
| "category TeTimeout = TcTimeout"
| "category TeHttpStatus = TcHttpStatus"
| "category TeMalformed = TcMalformed"
| "category TeSchemaVersion = TcSchemaVersion"
| "category TeInvalid = TcInvalid"
| "category TeTooLarge = TcTooLarge"
| "category TeClockSkew = TcClockSkew"

datatype ProviderOutcome = Observed HostTelemetry | Warming

text \<open>The errors of the HTTP client that the code tells apart; every other variant is \<open>FetchOther\<close>.\<close>

datatype FetchError =
    FetchTimeout | FetchTransportIoTimeout | FetchDecodedBodyTooLarge | FetchDecompressionRatioExceeded
  | FetchBody | FetchProtocol | FetchConnect | FetchCustomTransport | FetchIo | FetchHyper | FetchHyperClient
  | FetchOther

definition classify_fetch_error :: "FetchError \<Rightarrow> TelemetryError" where
  "classify_fetch_error e =
     (if e \<in> {FetchTimeout, FetchTransportIoTimeout} then TeTimeout
      else if e \<in> {FetchDecodedBodyTooLarge, FetchDecompressionRatioExceeded} then TeTooLarge
      else if e \<in> {FetchBody, FetchProtocol} then TeMalformed
      else TeConnection)"

text \<open>What the code reads of the provider's status payload.\<close>

record status_payload =
  sp_schema_version :: nat
  sp_observed_at :: u64
  sp_sample_interval :: u64
  sp_cap_cpu_iowait :: bool
  sp_cap_load_average :: bool
  sp_cap_swap :: bool
  sp_logical_cores :: u32
  sp_usage_pct :: f32
  sp_iowait_pct :: "f32 option"
  sp_memory_total :: u64
  sp_memory_used :: u64
  sp_load :: "(f32 \<times> f32 \<times> f32) option"
  sp_swap :: "(u64 \<times> u64) option"
  sp_drives :: "(u64 option \<times> u64) list option"
  sp_disk_io :: "(u64 \<times> u64) option"
  sp_network :: "(u64 \<times> u64) option"

definition normalize_disk_io :: "u64 \<times> u64 \<Rightarrow> TelemetryDiskIo" where
  "normalize_disk_io d = \<lparr>dio_read_bytes_per_sec = fst d, dio_write_bytes_per_sec = snd d\<rparr>"

definition normalize_network :: "u64 \<times> u64 \<Rightarrow> TelemetryNetwork" where
  "normalize_network n = \<lparr>net_rx_bytes_per_sec = fst n, net_tx_bytes_per_sec = snd n\<rparr>"

definition normalize_disk :: "(u64 option \<times> u64) list option \<Rightarrow> TelemetryDisk TelemetryMetric" where
  "normalize_disk drives =
     (case drives of
        None \<Rightarrow> MetricUnsupported
      | Some ds \<Rightarrow>
          if ds = [] then MetricUnknown
          else MetricValue
            \<lparr>disk_available_bytes = foldl (\<lambda>s d. u64_saturating_add s (case fst d of None \<Rightarrow> 0 | Some v \<Rightarrow> v)) 0 ds,
             disk_total_bytes = foldl (\<lambda>s d. u64_saturating_add s (snd d)) 0 ds,
             disk_volume_count = (if length ds < 2 ^ 32 then of_nat (length ds) else - 1)\<rparr>)"

definition normalize_status :: "status_payload \<Rightarrow> HostTelemetry" where
  "normalize_status p =
     \<lparr>ht_observed_at = sp_observed_at p, ht_sample_interval = sp_sample_interval p,
      ht_cpu = MetricValue \<lparr>cpu_logical_cores = sp_logical_cores p, cpu_usage_pct = sp_usage_pct p,
        cpu_iowait_pct = (if sp_cap_cpu_iowait p then sp_iowait_pct p else None)\<rparr>,
      ht_memory = MetricValue
        \<lparr>mem_available_bytes = u64_saturating_sub (sp_memory_total p) (sp_memory_used p),
         mem_total_bytes = sp_memory_total p, mem_used_bytes = sp_memory_used p\<rparr>,
      ht_load = (case (sp_cap_load_average p, sp_load p) of
          (True, Some (a, b, c)) \<Rightarrow> MetricValue \<lparr>load_one = a, load_five = b, load_fifteen = c\<rparr>
        | (True, None) \<Rightarrow> MetricUnknown | (False, _) \<Rightarrow> MetricUnsupported),
      ht_swap = (case (sp_cap_swap p, sp_swap p) of
          (True, Some (used, cap)) \<Rightarrow> MetricValue \<lparr>swap_used_bytes = used, swap_total_bytes = cap\<rparr>
        | (True, None) \<Rightarrow> MetricUnknown | (False, _) \<Rightarrow> MetricUnsupported),
      ht_disk = normalize_disk (sp_drives p),
      ht_disk_io = (case sp_disk_io p of Some d \<Rightarrow> MetricValue (normalize_disk_io d) | None \<Rightarrow> MetricUnsupported),
      ht_network = (case sp_network p of Some n \<Rightarrow> MetricValue (normalize_network n) | None \<Rightarrow> MetricUnsupported)\<rparr>"

text \<open>
  The provider's library: decoding a status payload, its own validation, its schema version, and decoding a
  health envelope that says whether the provider is warming.
\<close>

record provider_lib =
  pl_status_from_slice :: "u8 list \<Rightarrow> status_payload option"
  pl_payload_valid :: "status_payload \<Rightarrow> bool"
  pl_schema_version :: nat
  pl_health_warming :: "u8 list \<Rightarrow> bool"

text \<open>\<open>wall\<close> is the wall clock in Unix milliseconds, absent before the epoch or past \<^verbatim>\<open>u64\<close>.\<close>

definition exceeds_clock_skew :: "u64 option \<Rightarrow> u64 \<Rightarrow> bool" where
  "exceeds_clock_skew wall observed_at \<longleftrightarrow>
     (case wall of None \<Rightarrow> False | Some now \<Rightarrow> observed_at > u64_saturating_add now MAX_CLOCK_SKEW)"

definition decode_status ::
  "provider_lib \<Rightarrow> u64 option \<Rightarrow> u8 list \<Rightarrow> TelemetryError + ProviderOutcome" where
  "decode_status lib wall body =
     (case pl_status_from_slice lib body of
        None \<Rightarrow> Err TeMalformed
      | Some payload \<Rightarrow>
          if sp_schema_version payload \<noteq> pl_schema_version lib then Err TeSchemaVersion
          else if \<not> pl_payload_valid lib payload then Err TeInvalid
          else if exceeds_clock_skew wall (sp_observed_at payload) then Err TeClockSkew
          else
            let observation = normalize_status payload in
            if HostTelemetry_validate observation \<noteq> Ok () then Err TeInvalid
            else Ok (Observed observation))"

text \<open>A reply: the transport failed, or a status line and then a body that may fail to arrive.\<close>

definition observe_provider ::
  "provider_lib \<Rightarrow> u64 option \<Rightarrow> FetchError + nat \<times> (FetchError + u8 list) \<Rightarrow> TelemetryError + ProviderOutcome" where
  "observe_provider lib wall reply =
     (case reply of
        Inl e \<Rightarrow> Err (classify_fetch_error e)
      | Inr (status, body) \<Rightarrow>
          if status = 200 then
            (case body of
               Inl e \<Rightarrow> Err (classify_fetch_error e)
             | Inr bytes \<Rightarrow>
                 if length bytes > MAX_PROVIDER_BODY_BYTES then Err TeTooLarge else decode_status lib wall bytes)
          else if status = 503 then
            (case body of
               Inl e \<Rightarrow> Err (classify_fetch_error e)
             | Inr bytes \<Rightarrow> if pl_health_warming lib bytes then Ok Warming else Err TeHttpStatus)
          else Err TeHttpStatus)"

section \<open>The cache\<close>

record TelemetrySnapshot =
  ts_state :: TelemetryProviderState
  ts_observation :: "HostTelemetry option"
  ts_age_ms :: "u64 option"
  ts_last_error :: "TelemetryErrorCategory option"

record CacheEntry =
  ce_state :: TelemetryProviderState
  ce_observation :: "HostTelemetry option"
  ce_received_at :: "nat option"
  ce_provider_stale :: bool
  ce_last_error :: "TelemetryErrorCategory option"

record TelemetryCache =
  tk_entry :: CacheEntry
  tk_freshness :: nat

definition CacheEntry_disabled :: CacheEntry where
  "CacheEntry_disabled = \<lparr>ce_state = TpDisabled, ce_observation = None, ce_received_at = None,
     ce_provider_stale = False, ce_last_error = None\<rparr>"

definition TelemetryCache_new :: "nat \<Rightarrow> TelemetryCache" where
  "TelemetryCache_new freshness = \<lparr>tk_entry = CacheEntry_disabled, tk_freshness = freshness\<rparr>"

definition TelemetryCache_disabled :: TelemetryCache where
  "TelemetryCache_disabled = TelemetryCache_new 0"

text \<open>\<^verbatim>\<open>elapsed().as_millis().min(u64::MAX) as u64\<close>; \<^verbatim>\<open>elapsed\<close> saturates at zero.\<close>

definition elapsed_ms :: "nat \<Rightarrow> nat \<Rightarrow> u64" where
  "elapsed_ms now received_at = of_nat (min ((now - received_at) div 1000000) (2 ^ 64 - 1))"

definition cache_snapshot :: "nat \<Rightarrow> TelemetryCache \<Rightarrow> TelemetrySnapshot" where
  "cache_snapshot now cache =
     (let entry = tk_entry cache; age_ms = map_option (elapsed_ms now) (ce_received_at entry);
          state = (if ce_state entry = TpReady then
              let aged_out = (case age_ms of None \<Rightarrow> False | Some age \<Rightarrow> age > of_nat (tk_freshness cache)) in
              if ce_provider_stale entry \<or> aged_out then TpStale else TpReady
            else ce_state entry)
      in \<lparr>ts_state = state, ts_observation = ce_observation entry, ts_age_ms = age_ms,
          ts_last_error = ce_last_error entry\<rparr>)"

definition record_observation :: "nat \<Rightarrow> HostTelemetry \<Rightarrow> bool \<Rightarrow> TelemetryCache \<Rightarrow> TelemetryCache" where
  "record_observation now observation provider_stale cache =
     cache\<lparr>tk_entry := \<lparr>ce_state = TpReady, ce_observation = Some observation, ce_received_at = Some now,
       ce_provider_stale = provider_stale, ce_last_error = None\<rparr>\<rparr>"

definition record_warming :: "TelemetryCache \<Rightarrow> TelemetryCache" where
  "record_warming cache =
     cache\<lparr>tk_entry := (tk_entry cache)\<lparr>ce_state := TpWarming, ce_last_error := None\<rparr>\<rparr>"

definition record_failure :: "TelemetryErrorCategory \<Rightarrow> TelemetryCache \<Rightarrow> TelemetryCache" where
  "record_failure c cache =
     cache\<lparr>tk_entry := (tk_entry cache)\<lparr>ce_state := TpUnavailable, ce_last_error := Some c\<rparr>\<rparr>"

definition record_invalid :: "TelemetryCache \<Rightarrow> TelemetryCache" where
  "record_invalid cache =
     cache\<lparr>tk_entry := (tk_entry cache)\<lparr>ce_state := TpInvalid, ce_last_error := Some TcInvalid\<rparr>\<rparr>"

section \<open>The polling owner\<close>

definition is_provider_sample_stale :: "u64 option \<Rightarrow> HostTelemetry \<Rightarrow> nat \<Rightarrow> bool" where
  "is_provider_sample_stale wall observation freshness =
     (case wall of
        None \<Rightarrow> False
      | Some now \<Rightarrow>
          if ht_observed_at observation > u64_saturating_add now MAX_CLOCK_SKEW then True
          else u64_saturating_sub now (ht_observed_at observation) > of_nat freshness)"

text \<open>\<^verbatim>\<open>Duration::MAX\<close> in milliseconds; \<^verbatim>\<open>saturating_mul\<close> stops there.\<close>

definition duration_max :: nat where
  "duration_max = (2 ^ 64 - 1) * 1000 + 999"

definition backoff :: "nat \<Rightarrow> u32 \<Rightarrow> nat" where
  "backoff refresh_interval failures =
     (let exponent = min (unat failures - 1) 5; scaled = min (refresh_interval * 2 ^ exponent) duration_max
      in min scaled MAX_BACKOFF)"

definition u32_saturating_add :: "u32 \<Rightarrow> u32 \<Rightarrow> u32" where
  "u32_saturating_add a b = (if unat a + unat b < 2 ^ 32 then a + b else - 1)"

text \<open>
  One turn of the loop: what the provider answered, the two clocks when the answer is recorded. The result is
  the cache, the failure count and the delay before the next turn, in which the loop may be cancelled.
\<close>

record poll =
  po_outcome :: "TelemetryError + ProviderOutcome"
  po_wall :: "u64 option"
  po_now :: nat

definition refresh_turn :: "nat \<Rightarrow> nat \<Rightarrow> poll \<Rightarrow> TelemetryCache \<times> u32 \<Rightarrow> (TelemetryCache \<times> u32) \<times> nat" where
  "refresh_turn refresh_interval freshness p s =
     (case s of (cache, failures) \<Rightarrow>
        let s' = (case po_outcome p of
              Inr (Observed observation) \<Rightarrow>
                (record_observation (po_now p) observation
                   (is_provider_sample_stale (po_wall p) observation freshness) cache, 0)
            | Inr Warming \<Rightarrow> (record_warming cache, 0)
            | Inl e \<Rightarrow>
                ((if e = TeInvalid then record_invalid cache else record_failure (category e) cache),
                 u32_saturating_add failures 1))
        in (s', if snd s' = 0 then refresh_interval else backoff refresh_interval (snd s')))"

text \<open>The loop over the answers that arrive before the cancellation.\<close>

fun refresh_loop :: "nat \<Rightarrow> nat \<Rightarrow> poll list \<Rightarrow> TelemetryCache \<times> u32 \<Rightarrow> TelemetryCache \<times> u32" where
  "refresh_loop refresh_interval freshness [] s = s"
| "refresh_loop refresh_interval freshness (p # ps) s =
     refresh_loop refresh_interval freshness ps (fst (refresh_turn refresh_interval freshness p s))"

record TelemetryMonitor =
  tm_cache :: TelemetryCache
  tm_cancelled :: bool
  tm_task :: bool

definition TelemetryMonitor_disabled :: TelemetryMonitor where
  "TelemetryMonitor_disabled = \<lparr>tm_cache = TelemetryCache_disabled, tm_cancelled = False, tm_task = False\<rparr>"

definition TelemetryMonitor_start :: "HostTelemetryConfig \<Rightarrow> TelemetryMonitor" where
  "TelemetryMonitor_start config =
     \<lparr>tm_cache = TelemetryCache_new (tc_freshness config), tm_cancelled = False, tm_task = True\<rparr>"

definition TelemetryMonitor_shutdown :: "TelemetryMonitor \<Rightarrow> TelemetryMonitor" where
  "TelemetryMonitor_shutdown monitor = monitor\<lparr>tm_cancelled := True, tm_task := False\<rparr>"

text \<open>What a node serves of the cache, \<^verbatim>\<open>node_telemetry\<close> of \<^verbatim>\<open>crates/eggwork-server/src/lib.rs\<close>.\<close>

definition node_telemetry :: "nat \<Rightarrow> NodeId \<Rightarrow> TelemetryMonitor \<Rightarrow> NodeTelemetry" where
  "node_telemetry now node_id monitor =
     (let s = cache_snapshot now (tm_cache monitor) in
      \<lparr>nt_schema_version = NODE_TELEMETRY_SCHEMA_VERSION, nt_node_id = node_id, nt_source = Gregg,
       nt_state = ts_state s, nt_age_ms = ts_age_ms s, nt_last_error = ts_last_error s,
       nt_observation = ts_observation s\<rparr>)"

end
