(* ===== verification/Telemetry_Props.thy ===== *)
theory Telemetry_Props
  imports Telemetry
begin

text \<open>
  Properties of host telemetry: what a node can serve after any sequence of provider replies, and the
  cadence of polling.
\<close>

section \<open>The cache through the polling loop\<close>

text \<open>One turn against the provider's library: the clocks when the reply is decoded and when it is recorded.\<close>

type_synonym reply = "FetchError + nat \<times> (FetchError + u8 list)"

definition poll_of :: "provider_lib \<Rightarrow> u64 option \<times> reply \<times> u64 option \<times> nat \<Rightarrow> poll" where
  "poll_of lib x = (case x of (decoded, reply, wall, now) \<Rightarrow>
     \<lparr>po_outcome = observe_provider lib decoded reply, po_wall = wall, po_now = now\<rparr>)"

definition entry_ok :: "CacheEntry \<Rightarrow> bool" where
  "entry_ok e \<longleftrightarrow>
     (ce_observation e = None \<longleftrightarrow> ce_received_at e = None)
     \<and> (\<forall>h. ce_observation e = Some h \<longrightarrow> HostTelemetry_validate h = Ok ())
     \<and> (ce_state e = TpReady \<longrightarrow> ce_observation e \<noteq> None)
     \<and> (ce_state e = TpDisabled \<longrightarrow> ce_observation e = None)
     \<and> ce_state e \<noteq> TpStale"

lemma observed_valid:
  "observe_provider lib wall reply = Inr (Observed h) \<Longrightarrow> HostTelemetry_validate h = Ok ()"
  by (auto simp: observe_provider_def decode_status_def Let_def
      split: sum.splits prod.splits if_splits option.splits)

lemma refresh_turn_ok:
  assumes "entry_ok (tk_entry cache)"
  shows "entry_ok (tk_entry (fst (fst (refresh_turn r f (poll_of lib x) (cache, n)))))"
proof -
  obtain decoded reply wall now where x: "x = (decoded, reply, wall, now)" by (cases x)
  show ?thesis
  proof (cases "observe_provider lib decoded reply")
    case (Inl e)
    then show ?thesis using assms
      by (simp add: x poll_of_def refresh_turn_def Let_def entry_ok_def record_invalid_def record_failure_def)
  next
    case (Inr y)
    then show ?thesis using assms observed_valid [of lib decoded reply]
      by (cases y) (simp_all add: x poll_of_def refresh_turn_def Let_def entry_ok_def record_observation_def
          record_warming_def)
  qed
qed

lemma refresh_turn_freshness [simp]:
  "tk_freshness (fst (fst (refresh_turn r f p s))) = tk_freshness (fst s)"
  by (cases s) (auto simp: refresh_turn_def Let_def record_observation_def record_warming_def record_failure_def
      record_invalid_def split: sum.splits ProviderOutcome.splits)

lemma refresh_loop_ok:
  assumes "entry_ok (tk_entry (fst s))"
  shows "entry_ok (tk_entry (fst (refresh_loop r f (map (poll_of lib) xs) s)))
    \<and> tk_freshness (fst (refresh_loop r f ps s)) = tk_freshness (fst s)"
proof
  show "entry_ok (tk_entry (fst (refresh_loop r f (map (poll_of lib) xs) s)))"
    using assms
  proof (induction xs arbitrary: s)
    case (Cons x xs)
    obtain cache n where s: "s = (cache, n)" by (cases s)
    with Cons.prems show ?case using Cons.IH refresh_turn_ok [of cache] by simp
  qed simp
  show "tk_freshness (fst (refresh_loop r f ps s)) = tk_freshness (fst s)"
    by (induction ps arbitrary: s) simp_all
qed

lemma CacheEntry_disabled_ok: "entry_ok CacheEntry_disabled"
  by (simp add: entry_ok_def CacheEntry_disabled_def)

lemma served_verdict:
  assumes "entry_ok (tk_entry (tm_cache monitor))"
  shows "NodeTelemetry_validate (node_telemetry now i monitor) = Ok ()
    \<longleftrightarrow> \<not> (ce_state (tk_entry (tm_cache monitor)) = TpWarming \<and> ce_observation (tk_entry (tm_cache monitor)) \<noteq> None)"
  using assms
  by (cases "ce_state (tk_entry (tm_cache monitor))"; cases "ce_observation (tk_entry (tm_cache monitor))")
     (auto simp: entry_ok_def NodeTelemetry_validate_def node_telemetry_def cache_snapshot_def Let_def)

lemma served_ready:
  assumes "nt_state (node_telemetry now i monitor) = TpReady" and "entry_ok (tk_entry (tm_cache monitor))"
  shows "\<exists>h a. nt_observation (node_telemetry now i monitor) = Some h \<and> HostTelemetry_validate h = Ok ()
    \<and> nt_age_ms (node_telemetry now i monitor) = Some a \<and> a \<le> of_nat (tk_freshness (tm_cache monitor))
    \<and> \<not> ce_provider_stale (tk_entry (tm_cache monitor))"
  using assms
  by (auto simp: node_telemetry_def cache_snapshot_def Let_def entry_ok_def split: if_splits)

text \<open>C34: whatever the provider answers and whenever it is asked, the cache of a started node is well typed: an
  observation and its receipt time come and go together, a cached observation passes the validation a client
  repeats, and what is served as \<^verbatim>\<open>ready\<close> is a valid observation no older than the freshness bound. The served
  document passes \<^verbatim>\<open>NodeTelemetry::validate\<close> exactly when the cache is not in the state \<^verbatim>\<open>warming\<close> while still
  holding an earlier observation.\<close>

theorem telemetry_typed:
  assumes run: "cache = fst (refresh_loop r f (map (poll_of lib) xs) (tm_cache (TelemetryMonitor_start config), 0))"
    and served: "t = node_telemetry now i ((TelemetryMonitor_start config)\<lparr>tm_cache := cache\<rparr>)"
  shows "(nt_observation t = None \<longleftrightarrow> nt_age_ms t = None)
    \<and> (\<forall>h. nt_observation t = Some h \<longrightarrow> HostTelemetry_validate h = Ok ())
    \<and> (nt_state t = TpReady \<longrightarrow>
        (\<exists>h a. nt_observation t = Some h \<and> nt_age_ms t = Some a \<and> a \<le> of_nat (tc_freshness config)))
    \<and> (NodeTelemetry_validate t = Ok () \<longleftrightarrow>
        \<not> (ce_state (tk_entry cache) = TpWarming \<and> ce_observation (tk_entry cache) \<noteq> None))"
proof -
  let ?m = "(TelemetryMonitor_start config)\<lparr>tm_cache := cache\<rparr>"
  have "entry_ok (tk_entry (tm_cache (TelemetryMonitor_start config)))"
    by (simp add: TelemetryMonitor_start_def TelemetryCache_new_def CacheEntry_disabled_ok)
  with refresh_loop_ok [of "(tm_cache (TelemetryMonitor_start config), 0)" r f lib xs "map (poll_of lib) xs"]
  have ok: "entry_ok (tk_entry cache)" and fresh: "tk_freshness cache = tc_freshness config"
    by (simp_all add: run TelemetryMonitor_start_def TelemetryCache_new_def)
  have "nt_observation t = ce_observation (tk_entry cache)"
    and "nt_age_ms t = map_option (elapsed_ms now) (ce_received_at (tk_entry cache))"
    by (simp_all add: served node_telemetry_def cache_snapshot_def Let_def)
  then show ?thesis
    using ok fresh served_verdict [of ?m now i] served_ready [of now i ?m]
    by (auto simp: served entry_ok_def)
qed

section \<open>Cadence\<close>

definition failed_poll :: "poll \<Rightarrow> bool" where
  "failed_poll p = isl (po_outcome p)"

lemma refresh_turn_failures:
  "snd (fst (refresh_turn r f p (cache, n))) = (if failed_poll p then u32_saturating_add n 1 else 0)"
  by (auto simp: refresh_turn_def Let_def failed_poll_def split: sum.splits ProviderOutcome.splits)

lemma refresh_turn_delay:
  "snd (refresh_turn r f p s) =
     (if snd (fst (refresh_turn r f p s)) = 0 then r else backoff r (snd (fst (refresh_turn r f p s))))"
  by (cases s) (simp add: refresh_turn_def Let_def)

lemma consecutive_failures:
  assumes "list_all failed_poll fs" and "unat n + length fs < 2 ^ 32"
  shows "unat (snd (refresh_loop r f fs (cache, n))) = unat n + length fs"
  using assms
proof (induction fs arbitrary: cache n)
  case (Cons p fs)
  obtain cache' n' where turn: "fst (refresh_turn r f p (cache, n)) = (cache', n')" by force
  have "n' = u32_saturating_add n 1"
    using refresh_turn_failures [of r f p cache n] Cons.prems turn by simp
  moreover have "unat (u32_saturating_add n 1) = unat n + 1"
    using Cons.prems(2) by (simp add: u32_saturating_add_def unat_word_ariths)
  ultimately show ?case using Cons turn by simp
qed simp

lemma backoff_value: "backoff r n = min (r * 2 ^ min (unat n - 1) 5) MAX_BACKOFF"
  by (simp add: backoff_def Let_def MAX_BACKOFF_def duration_max_def min.assoc)

text \<open>The delay before the next poll is the configured interval after a success, and after \<open>k\<close> consecutive
  failures it is the interval doubled \<open>k - 1\<close> times, at most five, and at most five minutes. For an interval up to
  five minutes failures never shorten the delay; for a longer one they do, down to five minutes.\<close>

theorem poll_cadence:
  assumes fails: "list_all failed_poll fs" and bound: "length fs + 1 < 2 ^ 32"
    and s: "s = refresh_loop r f fs (cache, 0)"
  shows "(\<not> failed_poll p \<longrightarrow> snd (refresh_turn r f p s) = r)
    \<and> (failed_poll p \<longrightarrow>
        snd (refresh_turn r f p s) = min (r * 2 ^ min (length fs) 5) MAX_BACKOFF
        \<and> (r \<le> MAX_BACKOFF \<longrightarrow> r \<le> snd (refresh_turn r f p s))
        \<and> (MAX_BACKOFF < r \<longrightarrow> snd (refresh_turn r f p s) < r))"
proof -
  obtain c n where cn: "s = (c, n)" by (cases s)
  have n: "unat n = length fs"
    using consecutive_failures [OF fails, of 0 r f cache] bound by (simp add: s [symmetric] cn)
  have "unat (u32_saturating_add n 1) = length fs + 1"
    using n bound by (simp add: u32_saturating_add_def unat_word_ariths)
  moreover from this have "u32_saturating_add n 1 \<noteq> 0" by auto
  ultimately have "failed_poll p \<Longrightarrow> snd (refresh_turn r f p s) = min (r * 2 ^ min (length fs) 5) MAX_BACKOFF"
    using refresh_turn_delay [of r f p s] refresh_turn_failures [of r f p c n] by (simp add: cn backoff_value)
  moreover have "r \<le> r * 2 ^ min (length fs) 5" by simp
  moreover have "\<not> failed_poll p \<Longrightarrow> snd (refresh_turn r f p s) = r"
    using refresh_turn_delay [of r f p s] refresh_turn_failures [of r f p c n] by (simp add: cn)
  ultimately show ?thesis by auto
qed

section \<open>A sample provider\<close>

definition sample_payload :: status_payload where
  "sample_payload =
     \<lparr>sp_schema_version = 2, sp_observed_at = 5000, sp_sample_interval = 1000, sp_cap_cpu_iowait = True,
      sp_cap_load_average = True, sp_cap_swap = False, sp_logical_cores = 4, sp_usage_pct = F32 (25 / 2),
      sp_iowait_pct = Some (F32 0), sp_memory_total = 100, sp_memory_used = 40,
      sp_load = Some (F32 1, F32 (1 / 2), F32 0), sp_swap = None, sp_drives = Some [(Some 7, 10), (None, 20)],
      sp_disk_io = None, sp_network = Some (1, 2)\<rparr>"

definition sample_lib :: provider_lib where
  "sample_lib = \<lparr>pl_status_from_slice = (\<lambda>b. if b = [1] then Some sample_payload else None),
     pl_payload_valid = (\<lambda>_. True), pl_schema_version = 2, pl_health_warming = (\<lambda>b. b = [2])\<rparr>"

definition sample_config :: HostTelemetryConfig where
  "sample_config = \<lparr>tc_endpoint = ''http://127.0.0.1:80/v2/status'', tc_refresh_interval = 10000, tc_freshness = 60000\<rparr>"

abbreviation status_reply :: "u64 option \<times> reply \<times> u64 option \<times> nat" where
  "status_reply \<equiv> (Some 5000, Inr (200, Inr [1]), Some 5000, 1000000)"

abbreviation warming_reply :: "u64 option \<times> reply \<times> u64 option \<times> nat" where
  "warming_reply \<equiv> (Some 6000, Inr (503, Inr [2]), Some 6000, 2000000)"

lemmas sample_provider_defs = sample_payload_def sample_lib_def sample_config_def

lemma sample_observed: "observe_provider sample_lib (Some 5000) (Inr (200, Inr [1])) = Inr (Observed (normalize_status sample_payload))"
  by (simp add: observe_provider_def decode_status_def sample_provider_defs MAX_PROVIDER_BODY_BYTES_def Let_def
      exceeds_clock_skew_def u64_saturating_add_def MAX_CLOCK_SKEW_def HostTelemetry_validate_def normalize_status_def
      MAX_TELEMETRY_SAMPLE_INTERVAL_MS_def validate_cpu_def validate_percentage_def validate_load_def
      f32_is_finite_def)

lemma sample_warming: "observe_provider sample_lib (Some 6000) (Inr (503, Inr [2])) = Inr Warming"
  by (simp add: observe_provider_def sample_lib_def)

definition sample_cache :: TelemetryCache where
  "sample_cache = fst (refresh_loop 10000 60000 (map (poll_of sample_lib) [status_reply])
     (tm_cache (TelemetryMonitor_start sample_config), 0))"

lemma sample_cache_eq:
  "sample_cache = \<lparr>tk_entry = \<lparr>ce_state = TpReady, ce_observation = Some (normalize_status sample_payload),
     ce_received_at = Some 1000000, ce_provider_stale = False, ce_last_error = None\<rparr>, tk_freshness = 60000\<rparr>"
  and sample_first_turn: "fst (refresh_turn 10000 60000 (poll_of sample_lib status_reply)
     (tm_cache (TelemetryMonitor_start sample_config), 0)) = (sample_cache, 0)"
  by (simp_all add: sample_cache_def poll_of_def refresh_turn_def sample_observed record_observation_def Let_def
      TelemetryMonitor_start_def TelemetryCache_new_def sample_config_def is_provider_sample_stale_def
      u64_saturating_add_def MAX_CLOCK_SKEW_def u64_saturating_sub_def normalize_status_def sample_payload_def)

theorem telemetry_typed_witness:
  "nt_state (node_telemetry 31000000 ''n'' ((TelemetryMonitor_start sample_config)\<lparr>tm_cache := sample_cache\<rparr>)) = TpReady
    \<and> NodeTelemetry_validate
        (node_telemetry 31000000 ''n'' ((TelemetryMonitor_start sample_config)\<lparr>tm_cache := sample_cache\<rparr>)) = Ok ()"
  using telemetry_typed [OF sample_cache_def refl, of 31000000 "''n''"]
  by (simp add: sample_cache_eq node_telemetry_def cache_snapshot_def Let_def elapsed_ms_def)

theorem poll_cadence_witness:
  "snd (refresh_turn 3600000 3600000 \<lparr>po_outcome = Inl TeTimeout, po_wall = None, po_now = 0\<rparr>
     (refresh_loop 3600000 3600000 [] (TelemetryCache_new 3600000, 0))) = 300000"
  using poll_cadence [of "[]" _ 3600000 3600000 "TelemetryCache_new 3600000"
      "\<lparr>po_outcome = Inl TeTimeout, po_wall = None, po_now = 0\<rparr>", OF _ _ refl]
  by (simp add: failed_poll_def MAX_BACKOFF_def)

text \<open>A provider that restarts answers with a sample, then warms up again. \<^verbatim>\<open>record_warming\<close> keeps the sample, and
  the document the node serves then fails the validation of the wire contract.\<close>

lemma warming_after_sample_is_invalid:
  "NodeTelemetry_validate (node_telemetry now ''n'' ((TelemetryMonitor_start sample_config)\<lparr>tm_cache :=
      fst (refresh_loop 10000 60000 (map (poll_of sample_lib) [status_reply, warming_reply])
        (tm_cache (TelemetryMonitor_start sample_config), 0))\<rparr>)) = Err (OutOfRange ''node telemetry observation'')"
  unfolding list.map refresh_loop.simps sample_first_turn
  by (simp add: poll_of_def sample_warming refresh_turn_def record_warming_def Let_def NodeTelemetry_validate_def
      node_telemetry_def cache_snapshot_def sample_cache_eq)

text \<open>A node with a configured provider reports \<^verbatim>\<open>disabled\<close> until the first answer.\<close>

lemma configured_provider_starts_disabled:
  "nt_state (node_telemetry now i (TelemetryMonitor_start config)) = TpDisabled"
  by (simp add: node_telemetry_def cache_snapshot_def TelemetryMonitor_start_def TelemetryCache_new_def
      CacheEntry_disabled_def Let_def)

end
