(* ===== verification/Runner.thy ===== *)
theory Runner
  imports Core_Spec Ordered_Map
begin

text \<open>
  The finite-process runner of \<^verbatim>\<open>crates/eggwork-runner/src/lib.rs\<close>, first part: bounded output capture,
  requests and their validation, setup of sandbox and resource controls, the trust checks on helper
  executables, and the commands and launch specifications the runner builds. The file system, the process
  environment, JSON and the outcome of spawned probes are parameters. A canonical path is the list of its
  components; the wiring of standard streams of a command is not represented.
\<close>

unbundle bit_operations_syntax

section \<open>Bounded capture\<close>

record BoundedCapture =
  cap_head :: "u8 list"
  cap_tail :: "u8 list"
  cap_total_bytes :: u64
  cap_omitted_bytes :: u64

definition BoundedCapture_default :: BoundedCapture where
  "BoundedCapture_default = \<lparr>cap_head = [], cap_tail = [], cap_total_bytes = 0, cap_omitted_bytes = 0\<rparr>"

definition capture_push :: "u8 list \<Rightarrow> nat \<Rightarrow> BoundedCapture \<Rightarrow> BoundedCapture" where
  "capture_push bytes limit c =
     (let head_limit = (limit + 1) div 2;
          tail_limit = limit - head_limit;
          total = u64_saturating_add (cap_total_bytes c) (of_nat (length bytes));
          room = head_limit - length (cap_head c);
          (head, remaining) =
            (if length (cap_head c) < head_limit
             then (cap_head c @ take (min room (length bytes)) bytes, drop (min room (length bytes)) bytes)
             else (cap_head c, bytes));
          tail =
            (if tail_limit = 0 then cap_tail c
             else if length remaining \<ge> tail_limit then drop (length remaining - tail_limit) remaining
             else if length (cap_tail c) + length remaining \<le> tail_limit then cap_tail c @ remaining
             else drop (length (cap_tail c) - (tail_limit - length remaining)) (cap_tail c) @ remaining)
      in \<lparr>cap_head = head, cap_tail = tail, cap_total_bytes = total,
          cap_omitted_bytes = u64_saturating_sub total (of_nat (length head + length tail))\<rparr>)"

text \<open>The per-byte version the source keeps as a test oracle.\<close>

definition capture_byte :: "nat \<Rightarrow> u8 \<Rightarrow> u8 list \<times> u8 list \<Rightarrow> u8 list \<times> u8 list" where
  "capture_byte limit byte s =
     (let head_limit = (limit + 1) div 2; tail_limit = limit - head_limit in
      case s of (head, tail) \<Rightarrow>
        if length head < head_limit then (head @ [byte], tail)
        else if tail_limit > 0
        then (head, (if length tail = tail_limit then tl tail else tail) @ [byte])
        else (head, tail))"

definition push_per_byte :: "u8 list \<Rightarrow> nat \<Rightarrow> BoundedCapture \<Rightarrow> BoundedCapture" where
  "push_per_byte bytes limit c =
     (let total = u64_saturating_add (cap_total_bytes c) (of_nat (length bytes));
          (head, tail) = fold (capture_byte limit) bytes (cap_head c, cap_tail c)
      in \<lparr>cap_head = head, cap_tail = tail, cap_total_bytes = total,
          cap_omitted_bytes = u64_saturating_sub total (of_nat (length head + length tail))\<rparr>)"

section \<open>Requests and outcomes\<close>

datatype SandboxRequest = SandboxNone | SandboxBestEffort string | SandboxRequired string

datatype SandboxOutcome =
  OutcomeNotRequested | OutcomeNotApplied string | OutcomeApplied string | OutcomeFailed string

type_synonym ResourceSetupRequest = ResourceRequirements

datatype ResourceSetupOutcome =
  ResourcesNotRequested | ResourcesNotApplied string | ResourcesApplied string | ResourcesFailed string

datatype ResourceDimension = DimMemory | DimCpu | DimPids

record SetupOutcome =
  so_sandbox :: SandboxOutcome
  so_resources :: ResourceSetupOutcome

datatype RunnerError =
    InvalidRequest string | InvalidRoot string | InvalidWorkingDirectory string | CancelledBeforeSpawn
  | Setup string | RequiredSetupUnavailable | UnsupportedPlatform | Spawn string | Io string | Wait string

definition RunnerError_to_string :: "RunnerError \<Rightarrow> string" where
  "RunnerError_to_string e =
     (case e of
        InvalidRequest s \<Rightarrow> ''invalid execution request: '' @ s
      | InvalidRoot s \<Rightarrow> ''execution root is invalid: '' @ s
      | InvalidWorkingDirectory s \<Rightarrow> ''working directory is invalid: '' @ s
      | CancelledBeforeSpawn \<Rightarrow> ''execution was cancelled before spawn''
      | Setup s \<Rightarrow> ''sandbox or resource setup failed: '' @ s
      | RequiredSetupUnavailable \<Rightarrow> ''required sandbox/resource setup has no configured backend''
      | UnsupportedPlatform \<Rightarrow> ''process-tree control is unsupported on this platform''
      | Spawn s \<Rightarrow> ''process spawn failed: '' @ s
      | Io s \<Rightarrow> ''process I/O failed: '' @ s
      | Wait s \<Rightarrow> ''process wait failed: '' @ s)"

definition ValidationError_to_string :: "ValidationError \<Rightarrow> string" where
  "ValidationError_to_string e =
     (case e of
        Empty f \<Rightarrow> f @ '' must not be empty''
      | TooLong f n \<Rightarrow> f @ '' exceeds its '' @ decimal n @ ''-byte limit''
      | InvalidSyntax f \<Rightarrow> f @ '' has invalid syntax''
      | TooMany f n \<Rightarrow> f @ '' exceeds its '' @ decimal n @ ''-item limit''
      | Forbidden f \<Rightarrow> f @ '' contains a forbidden value''
      | InvalidPath f \<Rightarrow> f @ '' must be relative and confined''
      | OutOfRange f \<Rightarrow> f @ '' is outside its supported range'')"

definition is_requested :: "ResourceSetupRequest \<Rightarrow> bool" where
  "is_requested r \<longleftrightarrow> memory_bytes r \<noteq> NotRequested \<or> cpu_millis r \<noteq> NotRequested \<or> pids r \<noteq> NotRequested"

definition is_required :: "'a Requirement \<Rightarrow> bool" where
  "is_required r \<longleftrightarrow> (case r of Required _ \<Rightarrow> True | _ \<Rightarrow> False)"

definition requested_value :: "'a Requirement \<Rightarrow> 'a option" where
  "requested_value r = (case r of NotRequested \<Rightarrow> None | BestEffort v \<Rightarrow> Some v | Required v \<Rightarrow> Some v)"

definition has_required :: "ResourceSetupRequest \<Rightarrow> bool" where
  "has_required r \<longleftrightarrow> is_required (memory_bytes r) \<or> is_required (cpu_millis r) \<or> is_required (pids r)"

text \<open>Properties of the systemd transient unit.\<close>

definition unit_properties :: "ResourceSetupRequest \<Rightarrow> (string \<times> string) list" where
  "unit_properties r =
     (case requested_value (memory_bytes r) of
        Some v \<Rightarrow> [(''MemoryMax'', decimal (unat v)), (''MemorySwapMax'', ''0'')] | None \<Rightarrow> [])
     @ (case requested_value (cpu_millis r) of
          Some v \<Rightarrow> [(''CPUQuota'', decimal (unat v div 10) @ ''.'' @ decimal (unat v mod 10) @ ''%'')] | None \<Rightarrow> [])
     @ (case requested_value (pids r) of Some v \<Rightarrow> [(''TasksMax'', decimal (unat v))] | None \<Rightarrow> [])"

record ExecutionProvenance =
  pv_execution_id :: "ExecutionId option"
  pv_generation :: "ExecutionGeneration option"

record RunnerRequest =
  rq_argv :: "string list"
  rq_root :: string
  rq_cwd :: "RelativePath option"
  rq_environment :: "(string \<times> string) list"
  rq_stdin :: StdinPolicy
  rq_timeout :: nat
  rq_capture_limit :: nat
  rq_event_chunk_bytes :: nat
  rq_overflow :: OverflowPolicy
  rq_provenance :: ExecutionProvenance
  rq_sandbox :: SandboxRequest
  rq_resources :: ResourceSetupRequest

definition RunnerRequest_new :: "string list \<Rightarrow> string \<Rightarrow> RunnerRequest" where
  "RunnerRequest_new args root =
     \<lparr>rq_argv = args, rq_root = root, rq_cwd = None, rq_environment = [], rq_stdin = Null, rq_timeout = 30000,
      rq_capture_limit = MAX_CAPTURE_BYTES, rq_event_chunk_bytes = MAX_EVENT_CHUNK_BYTES, rq_overflow = Truncate,
      rq_provenance = \<lparr>pv_execution_id = None, pv_generation = None\<rparr>, rq_sandbox = SandboxNone,
      rq_resources = \<lparr>memory_bytes = NotRequested, cpu_millis = NotRequested, pids = NotRequested\<rparr>\<rparr>"

definition sandbox_for :: "IsolationRequirement \<Rightarrow> SandboxRequest" where
  "sandbox_for i =
     (case i of IsolationNone \<Rightarrow> SandboxNone | IsolationBestEffort \<Rightarrow> SandboxBestEffort ''workspace_rw''
      | IsolationRequired \<Rightarrow> SandboxRequired ''workspace_rw'')"

definition from_spec :: "ExecutionSpec \<Rightarrow> string \<Rightarrow> ExecutionProvenance \<Rightarrow> RunnerError + RunnerRequest" where
  "from_spec spec root provenance =
     (case ExecutionSpec_validate spec of
        Inl e \<Rightarrow> Err (InvalidRequest (ValidationError_to_string e))
      | Inr _ \<Rightarrow>
          let c = command spec in
          Ok \<lparr>rq_argv = argv c, rq_root = root, rq_cwd = cwd c,
              rq_environment = map (\<lambda>e. (env_name e, env_value e)) (environment c), rq_stdin = stdin c,
              rq_timeout = unat (timeout_millis c), rq_capture_limit = capture_limit_bytes (cs_output c),
              rq_event_chunk_bytes = event_chunk_bytes (cs_output c), rq_overflow = overflow (cs_output c),
              rq_provenance = provenance, rq_sandbox = sandbox_for (isolation c), rq_resources = resources c\<rparr>)"

text \<open>\<^verbatim>\<open>canonicalize\<close> of the root and of a path below it, with the text of a failure, and \<^verbatim>\<open>is_dir\<close>.\<close>

record runner_fs =
  rf_canonicalize :: "string \<Rightarrow> string + string list"
  rf_join :: "string list \<Rightarrow> RelativePath \<Rightarrow> string + string list"
  rf_is_dir :: "string list \<Rightarrow> bool"

definition argv_accepted :: "string list \<Rightarrow> bool" where
  "argv_accepted args \<longleftrightarrow> args \<noteq> [] \<and> length args \<le> MAX_ARG_COUNT
     \<and> list_all (\<lambda>a. a \<noteq> [] \<and> length a \<le> MAX_ARG_BYTES \<and> nul \<notin> set a) args"

definition environment_accepted :: "(string \<times> string) list \<Rightarrow> bool" where
  "environment_accepted env \<longleftrightarrow> length env \<le> MAX_ENV_COUNT
     \<and> list_all (\<lambda>(k, v). k \<noteq> [] \<and> length k \<le> MAX_ENV_NAME_BYTES \<and> length v \<le> MAX_ENV_VALUE_BYTES
           \<and> nul \<notin> set k \<and> CHR ''='' \<notin> set k \<and> nul \<notin> set v) env"

definition RunnerRequest_validate :: "runner_fs \<Rightarrow> RunnerRequest \<Rightarrow> RunnerError + string list" where
  "RunnerRequest_validate fs rq =
     (if \<not> argv_accepted (rq_argv rq)
      then Err (InvalidRequest ''argv is empty or contains an empty/NUL entry'')
      else if \<not> environment_accepted (rq_environment rq)
      then Err (InvalidRequest ''environment violates bounds or syntax'')
      else if rq_capture_limit rq > MAX_CAPTURE_BYTES \<or> rq_event_chunk_bytes rq = 0
              \<or> rq_event_chunk_bytes rq > MAX_EVENT_CHUNK_BYTES
      then Err (InvalidRequest ''output limits are outside supported bounds'')
      else if rq_timeout rq = 0 \<or> rq_timeout rq > MAX_TIMEOUT_MILLIS
      then Err (InvalidRequest ''timeout must be positive'')
      else if (case rq_stdin rq of Bytes v \<Rightarrow> length v > MAX_STDIN_BYTES | Null \<Rightarrow> False)
      then Err (InvalidRequest (RunnerError_to_string (InvalidRequest ''stdin exceeds limit'')))
      else (case rf_canonicalize fs (rq_root rq) of
              Inl e \<Rightarrow> Err (InvalidRoot e)
            | Inr root \<Rightarrow>
                if \<not> rf_is_dir fs root then Err (InvalidRoot ''execution root is not a directory'')
                else (case rq_cwd rq of
                        None \<Rightarrow> Ok root
                      | Some relative \<Rightarrow>
                          (case rf_join fs root relative of
                             Inl e \<Rightarrow> Err (InvalidWorkingDirectory e)
                           | Inr canonical \<Rightarrow>
                               if \<not> prefix root canonical \<or> \<not> rf_is_dir fs canonical
                               then Err (InvalidWorkingDirectory ''cwd escapes root or is not a directory'')
                               else Ok canonical))))"

section \<open>Results\<close>

datatype TerminationReason = TermExited | TermTimedOut | TermCancelled | TermOutputLimit

record CleanupDiagnostics =
  cd_signal_error :: "string option"
  cd_wait_error :: "string option"
  cd_stdin_error :: "string option"

record RunnerResult =
  rs_termination :: TerminationReason
  rs_exit_code :: "int option"
  rs_stdout :: BoundedCapture
  rs_stderr :: BoundedCapture
  rs_cleanup :: CleanupDiagnostics
  rs_setup :: SetupOutcome
  rs_resource_request :: ResourceSetupRequest
  rs_limits_exceeded :: "ResourceDimension list"
  rs_chunks_dropped :: u64
  rs_provenance :: ExecutionProvenance

definition dimension_result ::
  "ResourceSetupOutcome \<Rightarrow> ResourceDimension list \<Rightarrow> bool \<Rightarrow> ResourceDimension \<Rightarrow> ResourceDimensionResult" where
  "dimension_result outcome limits_exceeded requested kind =
     (case outcome of
        ResourcesNotRequested \<Rightarrow>
          if \<not> requested then DimNotRequested else DimNotApplied ''resource control was not requested''
      | ResourcesNotApplied reason \<Rightarrow> if requested then DimNotApplied reason else DimNotRequested
      | ResourcesFailed reason \<Rightarrow> if requested then DimNotApplied reason else DimNotRequested
      | ResourcesApplied backend \<Rightarrow>
          if requested
          then if kind \<in> set limits_exceeded then DimLimitExceeded backend else DimApplied backend
          else DimNotRequested)"

definition resource_result ::
  "ResourceSetupOutcome \<Rightarrow> ResourceSetupRequest \<Rightarrow> ResourceDimension list \<Rightarrow> ResourceResult" where
  "resource_result outcome request limits_exceeded =
     \<lparr>rr_memory_bytes = dimension_result outcome limits_exceeded (memory_bytes request \<noteq> NotRequested) DimMemory,
      rr_cpu_millis = dimension_result outcome limits_exceeded (cpu_millis request \<noteq> NotRequested) DimCpu,
      rr_pids = dimension_result outcome limits_exceeded (pids request \<noteq> NotRequested) DimPids\<rparr>"

text \<open>\<^verbatim>\<open>Option::or_else\<close>\<close>

definition or_else :: "'a option \<Rightarrow> 'a option \<Rightarrow> 'a option" where
  "or_else a b = (case a of None \<Rightarrow> b | Some _ \<Rightarrow> a)"

definition execution_result :: "RunnerResult \<Rightarrow> ExecutionResult" where
  "execution_result r =
     \<lparr>er_state =
        (if rs_limits_exceeded r \<noteq> [] then Failed
         else case rs_termination r of
           TermExited \<Rightarrow> if rs_exit_code r = Some 0 then Succeeded else Failed
         | TermTimedOut \<Rightarrow> TimedOut | TermCancelled \<Rightarrow> Cancelled | TermOutputLimit \<Rightarrow> Failed),
      exit_code = rs_exit_code r,
      failure =
        (if rs_limits_exceeded r \<noteq> [] then Some FailResourceLimit
         else if rs_termination r = TermOutputLimit then Some FailOutputLimit
         else if rs_exit_code r = None \<and> rs_termination r = TermExited then Some FailInternal
         else None),
      stdout_bytes = cap_total_bytes (rs_stdout r), stderr_bytes = cap_total_bytes (rs_stderr r),
      stdout_omitted = cap_omitted_bytes (rs_stdout r), stderr_omitted = cap_omitted_bytes (rs_stderr r),
      cleanup_warning = or_else (cd_signal_error (rs_cleanup r))
        (or_else (cd_wait_error (rs_cleanup r)) (cd_stdin_error (rs_cleanup r))),
      finalization_failure = None, artifact_count = 0,
      sandbox = Some (case so_sandbox (rs_setup r) of
          OutcomeNotRequested \<Rightarrow> SandboxNotRequested | OutcomeNotApplied s \<Rightarrow> SandboxNotApplied s
        | OutcomeApplied s \<Rightarrow> SandboxApplied s | OutcomeFailed s \<Rightarrow> SandboxFailed s),
      er_resources = Some (resource_result (so_resources (rs_setup r)) (rs_resource_request r) (rs_limits_exceeded r))\<rparr>"

end
