(* ===== verification/Runner_Setup.thy ===== *)
theory Runner_Setup
  imports Runner
begin

text \<open>
  The runner, second part: discovery of and trust in the helper executables, setup of sandbox and resource
  controls behind the \<^verbatim>\<open>ExecutionSetup\<close> interface, the environment and the commands of a child, and the
  launch specification and handshake of the sandbox helper.
\<close>

section \<open>Trusted executables\<close>

record file_meta =
  fm_is_file :: bool
  fm_is_dir :: bool
  fm_is_symlink :: bool
  fm_uid :: nat
  fm_mode :: u32

text \<open>A command: program, arguments, working directory and environment (cleared first or inherited).\<close>

record cmd =
  cm_program :: string
  cm_args :: "string list"
  cm_cwd :: "string option"
  cm_env_clear :: bool
  cm_env :: "(string, string) btree_map"

datatype timed_wait = WaitSpawnFailed | WaitExited bool | WaitFailed | WaitTimeout

record sys_env =
  se_canonicalize :: "string \<Rightarrow> string option"
  se_symlink_metadata :: "string \<Rightarrow> file_meta option"
  se_parent :: "string \<Rightarrow> string list option"
  se_metadata :: "string list \<Rightarrow> file_meta option"
  se_euid :: nat
  se_pid :: nat
  se_var :: "string \<Rightarrow> string option"
  se_probe :: "cmd \<Rightarrow> timed_wait"
  se_landlock :: bool

text \<open>\<^verbatim>\<open>mode & 0o022\<close>, \<^verbatim>\<open>mode & 0o111\<close>, \<^verbatim>\<open>mode & 0o1000\<close>\<close>

definition others_write :: "file_meta \<Rightarrow> bool" where
  "others_write m \<longleftrightarrow> fm_mode m AND 18 \<noteq> 0"

definition executable_mode :: "file_meta \<Rightarrow> bool" where
  "executable_mode m \<longleftrightarrow> fm_mode m AND 73 \<noteq> 0"

definition sticky_mode :: "file_meta \<Rightarrow> bool" where
  "sticky_mode m \<longleftrightarrow> fm_mode m AND 512 \<noteq> 0"

definition owned :: "sys_env \<Rightarrow> file_meta \<Rightarrow> bool" where
  "owned sys m \<longleftrightarrow> fm_uid m = 0 \<or> fm_uid m = se_euid sys"

definition system_binary :: "file_meta \<Rightarrow> bool" where
  "system_binary m \<longleftrightarrow> fm_is_file m \<and> fm_uid m = 0 \<and> \<not> others_write m \<and> executable_mode m"

fun find_map :: "('a \<Rightarrow> 'b option) \<Rightarrow> 'a list \<Rightarrow> 'b option" where
  "find_map f [] = None"
| "find_map f (x # xs) = (case f x of Some y \<Rightarrow> Some y | None \<Rightarrow> find_map f xs)"

record SystemdCgroupBackend =
  sb_systemd_run :: string
  sb_user_manager :: bool

definition systemd_discover :: "sys_env \<Rightarrow> string + SystemdCgroupBackend" where
  "systemd_discover sys =
     (case find_map (se_canonicalize sys) [''/usr/bin/systemd-run'', ''/bin/systemd-run''] of
        None \<Rightarrow> Err ''systemd transient resource backend is unavailable''
      | Some p \<Rightarrow>
          (case se_symlink_metadata sys p of
             None \<Rightarrow> Err ''systemd transient resource backend is unavailable''
           | Some m \<Rightarrow>
               if \<not> system_binary m then Err ''systemd transient resource backend failed trust checks''
               else Ok \<lparr>sb_systemd_run = p, sb_user_manager = (se_euid sys \<noteq> 0)\<rparr>))"

definition systemctl_path :: "sys_env \<Rightarrow> string option" where
  "systemctl_path sys =
     (case find_map (se_canonicalize sys) [''/usr/bin/systemctl'', ''/bin/systemctl''] of
        None \<Rightarrow> None
      | Some p \<Rightarrow> (case se_symlink_metadata sys p of
                     None \<Rightarrow> None | Some m \<Rightarrow> if system_binary m then Some p else None))"

text \<open>The loop over the proper ancestors of a directory, up to the root.\<close>

definition ancestor_dirs :: "string list \<Rightarrow> string list list" where
  "ancestor_dirs p = map (\<lambda>k. take k p) (rev [0..<length p])"

definition check_ancestor :: "sys_env \<Rightarrow> string list \<Rightarrow> string + unit" where
  "check_ancestor sys p =
     (case se_metadata sys p of
        None \<Rightarrow> Err ''sandbox helper ancestor is invalid''
      | Some m \<Rightarrow>
          let sticky_root_directory = (fm_is_dir m \<and> fm_uid m = 0 \<and> sticky_mode m) in
          if \<not> fm_is_dir m \<or> (\<not> owned sys m \<and> \<not> sticky_root_directory)
             \<or> (others_write m \<and> \<not> sticky_root_directory)
          then Err ''sandbox helper ancestor trust check failed'' else Ok ())"

definition verify_trusted_helper :: "sys_env \<Rightarrow> string \<Rightarrow> string + unit" where
  "verify_trusted_helper sys path =
     (case se_symlink_metadata sys path of
        None \<Rightarrow> Err ''sandbox helper is unavailable''
      | Some m \<Rightarrow>
          if \<not> fm_is_file m \<or> fm_is_symlink m \<or> \<not> owned sys m \<or> others_write m \<or> \<not> executable_mode m
          then Err ''sandbox helper trust check failed''
          else (case se_parent sys path of
                  None \<Rightarrow> Err ''sandbox helper location is invalid''
                | Some parent \<Rightarrow>
                    (case se_metadata sys parent of
                       None \<Rightarrow> Err ''sandbox helper location is invalid''
                     | Some pm \<Rightarrow>
                         if \<not> fm_is_dir pm \<or> \<not> owned sys pm \<or> others_write pm
                         then Err ''sandbox helper directory trust check failed''
                         else for_each (check_ancestor sys) (ancestor_dirs parent))))"

section \<open>systemd commands\<close>

definition resource_unit_name :: "sys_env \<Rightarrow> nat \<Rightarrow> string" where
  "resource_unit_name sys nonce = ''eggwork-'' @ decimal (se_pid sys) @ ''-'' @ decimal nonce @ ''.scope''"

definition base_command :: "SystemdCgroupBackend \<Rightarrow> cmd" where
  "base_command b = \<lparr>cm_program = sb_systemd_run b, cm_args = (if sb_user_manager b then [''--user''] else []),
     cm_cwd = None, cm_env_clear = False, cm_env = []\<rparr>"

definition property_args :: "ResourceSetupRequest \<Rightarrow> string list" where
  "property_args r = map (\<lambda>(k, v). ''--property='' @ k @ ''='' @ v) (unit_properties r)"

definition systemd_probe :: "sys_env \<Rightarrow> nat \<Rightarrow> ResourceSetupRequest \<Rightarrow> string + unit" where
  "systemd_probe sys nonce r =
     and_then (systemd_discover sys) (\<lambda>b.
       let c = (base_command b)\<lparr>cm_args := cm_args (base_command b)
             @ [''--scope'', ''--quiet'', ''--collect'', ''--unit='' @ resource_unit_name sys nonce]
             @ property_args r @ [''--'', ''/usr/bin/true'']\<rparr>
       in (case se_probe sys c of
             WaitSpawnFailed \<Rightarrow> Err ''systemd transient resource backend is unavailable''
           | WaitExited True \<Rightarrow> Ok ()
           | WaitExited False \<Rightarrow> Err ''systemd could not establish the requested cgroup limits''
           | WaitFailed \<Rightarrow> Err ''systemd could not establish the requested cgroup limits''
           | WaitTimeout \<Rightarrow> Err ''systemd resource capability probe timed out''))"

definition set_env :: "string \<Rightarrow> string \<Rightarrow> cmd \<Rightarrow> cmd" where
  "set_env k v c = c\<lparr>cm_env := bt_insert k v (cm_env c)\<rparr>"

definition systemd_wrap ::
  "sys_env \<Rightarrow> nat \<Rightarrow> SystemdCgroupBackend \<Rightarrow> cmd \<Rightarrow> ResourceSetupRequest \<Rightarrow> RunnerError + cmd \<times> string" where
  "systemd_wrap sys nonce b inner r =
     (case cm_cwd inner of
        None \<Rightarrow> Err (Setup ''resource command cwd is unavailable'')
      | Some dir \<Rightarrow>
          let unit = resource_unit_name sys nonce;
              c = (base_command b)\<lparr>cm_args := cm_args (base_command b)
                    @ [''--scope'', ''--quiet'', ''--unit='' @ unit, ''--working-directory'', dir]
                    @ property_args r @ [''--'', cm_program inner] @ cm_args inner,
                    cm_cwd := Some dir, cm_env_clear := True, cm_env := []\<rparr>;
              c1 = fold (\<lambda>k c. case se_var sys k of Some v \<Rightarrow> set_env k v c | None \<Rightarrow> c)
                    [''DBUS_SESSION_BUS_ADDRESS'', ''XDG_RUNTIME_DIR'', ''HOME''] c;
              c2 = set_env ''PATH'' ''/usr/bin:/bin'' c1
          in Ok (fold (\<lambda>(k, v). set_env k v) (cm_env inner) c2, unit))"

definition wrap_resource_command ::
  "sys_env \<Rightarrow> nat \<Rightarrow> cmd \<Rightarrow> ResourceSetupRequest \<Rightarrow> ResourceSetupOutcome \<Rightarrow> RunnerError + cmd \<times> string option" where
  "wrap_resource_command sys nonce c r outcome =
     (if outcome = ResourcesApplied ''systemd-cgroup-v2''
      then (case systemd_discover sys of
              Inl e \<Rightarrow> Err (Setup e)
            | Inr b \<Rightarrow> and_then (systemd_wrap sys nonce b c r) (\<lambda>(c', unit). Ok (c', Some unit)))
      else Ok (c, None))"

section \<open>Setup\<close>

definition best_effort :: "SandboxRequest \<Rightarrow> bool" where
  "best_effort s \<longleftrightarrow> (case s of SandboxBestEffort _ \<Rightarrow> True | _ \<Rightarrow> False)"

definition sandbox_required :: "SandboxRequest \<Rightarrow> bool" where
  "sandbox_required s \<longleftrightarrow> (case s of SandboxRequired _ \<Rightarrow> True | _ \<Rightarrow> False)"

definition resources_applied :: "ResourceSetupOutcome \<Rightarrow> bool" where
  "resources_applied outcome \<longleftrightarrow> (case outcome of ResourcesApplied _ \<Rightarrow> True | _ \<Rightarrow> False)"

definition sandbox_applied :: "SandboxOutcome \<Rightarrow> bool" where
  "sandbox_applied outcome \<longleftrightarrow> (case outcome of OutcomeApplied _ \<Rightarrow> True | _ \<Rightarrow> False)"

definition prepare_resources ::
  "sys_env \<Rightarrow> nat \<Rightarrow> string \<Rightarrow> ResourceSetupRequest \<Rightarrow> RunnerError + ResourceSetupOutcome" where
  "prepare_resources sys nonce helper r =
     and_then
       (if is_requested r then
          (case systemd_probe sys nonce r of
             Inr _ \<Rightarrow> Ok (ResourcesApplied ''systemd-cgroup-v2'')
           | Inl reason \<Rightarrow> if has_required r then Err (Setup reason) else Ok (ResourcesNotApplied reason))
        else Ok ResourcesNotRequested) (\<lambda>outcome.
     if resources_applied outcome then
       (case verify_trusted_helper sys helper of
          Inl reason \<Rightarrow> if has_required r then Err (Setup reason) else Ok (ResourcesNotApplied reason)
        | Inr _ \<Rightarrow> Ok outcome)
     else Ok outcome)"

definition prepare_sandbox :: "sys_env \<Rightarrow> string \<Rightarrow> SandboxRequest \<Rightarrow> string \<Rightarrow> RunnerError + SandboxOutcome" where
  "prepare_sandbox sys helper s profile =
     (if profile \<noteq> ''workspace_rw''
      then if best_effort s then Ok (OutcomeNotApplied ''unsupported sandbox profile'')
           else Err (Setup ''unsupported sandbox profile'')
      else (case verify_trusted_helper sys helper of
              Inr _ \<Rightarrow> Ok (OutcomeApplied profile)
            | Inl reason \<Rightarrow> if best_effort s then Ok (OutcomeNotApplied reason) else Err (Setup reason)))"

definition landlock_prepare ::
  "sys_env \<Rightarrow> nat \<Rightarrow> string \<Rightarrow> SandboxRequest \<Rightarrow> ResourceSetupRequest \<Rightarrow> RunnerError + SetupOutcome" where
  "landlock_prepare sys nonce helper s r =
     and_then (prepare_resources sys nonce helper r) (\<lambda>resources.
     and_then
       (case s of
          SandboxNone \<Rightarrow> Ok OutcomeNotRequested
        | SandboxBestEffort profile \<Rightarrow> prepare_sandbox sys helper s profile
        | SandboxRequired profile \<Rightarrow> prepare_sandbox sys helper s profile) (\<lambda>outcome.
     Ok \<lparr>so_sandbox = outcome, so_resources = resources\<rparr>))"

definition LANDLOCK_WORKSPACE_RW_CAPABILITY :: string where
  "LANDLOCK_WORKSPACE_RW_CAPABILITY = ''isolation.landlock.workspace-rw.v1''"

definition execution_capabilities :: "sys_env \<Rightarrow> (string \<Rightarrow> nat) \<Rightarrow> string \<Rightarrow> string list" where
  "execution_capabilities sys nonce helper =
     (if verify_trusted_helper sys helper = Ok () \<and> se_landlock sys then [LANDLOCK_WORKSPACE_RW_CAPABILITY] else [])
     @ map fst (filter (\<lambda>(feature, r). systemd_probe sys (nonce feature) r = Ok ())
         [(''resources.cgroups-v2.memory'',
            \<lparr>memory_bytes = BestEffort (32 * 1024 * 1024), cpu_millis = NotRequested, pids = NotRequested\<rparr>),
          (''resources.cgroups-v2.cpu'',
            \<lparr>memory_bytes = NotRequested, cpu_millis = BestEffort 100, pids = NotRequested\<rparr>),
          (''resources.cgroups-v2.pids'',
            \<lparr>memory_bytes = NotRequested, cpu_millis = NotRequested, pids = BestEffort 16\<rparr>)])"

definition no_setup_prepare :: "SandboxRequest \<Rightarrow> ResourceSetupRequest \<Rightarrow> RunnerError + SetupOutcome" where
  "no_setup_prepare s r =
     (if sandbox_required s \<or> has_required r then Err RequiredSetupUnavailable
      else Ok \<lparr>so_sandbox = (case s of SandboxNone \<Rightarrow> OutcomeNotRequested
                 | _ \<Rightarrow> OutcomeNotApplied ''no sandbox backend is configured''),
               so_resources = (if is_requested r then ResourcesNotApplied ''no resource-control backend is configured''
                 else ResourcesNotRequested)\<rparr>)"

section \<open>The environment of a child\<close>

definition denied_prefixes :: "string list" where
  "denied_prefixes =
     [''LD_'', ''DYLD_'', ''PATH'', ''IFS'', ''SHELLOPTS'', ''CDPATH'', ''BASH_ENV'', ''ENV'', ''PYTHONPATH'',
      ''PYTHONHOME'', ''NODE_OPTIONS'', ''RUBYOPT'', ''PERL5OPT'', ''GIT_ASKPASS'', ''SSH_ASKPASS'', ''GIT_CONFIG'',
      ''GIT_CONFIG_'', ''AWS_'', ''AZURE_'', ''GOOGLE_'', ''SSH_AUTH_SOCK'']"

definition denied_environment_key :: "string \<Rightarrow> bool" where
  "denied_environment_key key =
     (let upper = to_ascii_uppercase key in list_ex (\<lambda>denied. upper = denied \<or> prefix denied upper) denied_prefixes)"

definition baseline_child_environment :: "(string \<times> string) list" where
  "baseline_child_environment =
     [(''CI'', ''1''), (''NO_COLOR'', ''1''), (''TERM'', ''dumb''), (''GIT_TERMINAL_PROMPT'', ''0''), (''PAGER'', ''cat''),
      (''PATH'', ''/usr/bin:/bin''), (''LANG'', ''C.UTF-8''), (''LC_ALL'', ''C.UTF-8'')]"

text \<open>The variables of the request that are not denied, then the provenance.\<close>

definition allowed_environment :: "RunnerRequest \<Rightarrow> (string \<times> string) list" where
  "allowed_environment rq = filter (\<lambda>(k, _). \<not> denied_environment_key k) (rq_environment rq)"

definition provenance_environment :: "ExecutionProvenance \<Rightarrow> (string \<times> string) list" where
  "provenance_environment p =
     (case pv_execution_id p of Some i \<Rightarrow> [(''EGGWORK_EXECUTION_ID'', i)] | None \<Rightarrow> [])
     @ (case pv_generation p of Some g \<Rightarrow> [(''EGGWORK_EXECUTION_GENERATION'', decimal (unat g))] | None \<Rightarrow> [])"

text \<open>An absolute canonical path as a string.\<close>

definition path_string :: "string list \<Rightarrow> string" where
  "path_string p = slash # join_with slash p"

definition direct_command :: "RunnerRequest \<Rightarrow> string list \<Rightarrow> cmd" where
  "direct_command rq dir =
     \<lparr>cm_program = hd (rq_argv rq), cm_args = tl (rq_argv rq), cm_cwd = Some (path_string dir), cm_env_clear = True,
      cm_env = fold (\<lambda>(k, v). bt_insert k v)
        (baseline_child_environment @ allowed_environment rq @ provenance_environment (rq_provenance rq)) []\<rparr>"

section \<open>The launch specification and the handshake\<close>

record SandboxLaunchSpec =
  ls_schema_version :: u16
  ls_profile :: "string option"
  ls_root :: "string list"
  ls_cwd :: "string list"
  ls_argv :: "string list"
  ls_environment :: "(string \<times> string) list"
  ls_memory_bytes :: "u64 option"
  ls_cpu_millis :: "u64 option"
  ls_pids :: "u32 option"

record channel_io =
  hi_tempdir :: bool
  hi_permissions :: bool
  hi_bind :: bool
  hi_encoded :: "SandboxLaunchSpec \<Rightarrow> nat option"
  hi_write :: bool
  hi_spec_path :: string
  hi_status_path :: string
  hi_directory :: string

definition channel_profile :: "RunnerRequest \<Rightarrow> RunnerError + string option" where
  "channel_profile rq =
     (case rq_sandbox rq of
        SandboxBestEffort p \<Rightarrow> if p = ''workspace_rw'' then Ok (Some p) else Err (Setup ''unsupported sandbox profile'')
      | SandboxRequired p \<Rightarrow> if p = ''workspace_rw'' then Ok (Some p) else Err (Setup ''unsupported sandbox profile'')
      | SandboxNone \<Rightarrow>
          if is_requested (rq_resources rq) then Ok None else Err (Setup ''unsupported sandbox profile''))"

definition launch_environment :: "RunnerRequest \<Rightarrow> (string \<times> string) list" where
  "launch_environment rq =
     [(''PATH'', ''/usr/bin:/bin''), (''LANG'', ''C.UTF-8''), (''LC_ALL'', ''C.UTF-8''), (''CI'', ''1''), (''NO_COLOR'', ''1''),
      (''TERM'', ''dumb''), (''GIT_TERMINAL_PROMPT'', ''0''), (''PAGER'', ''cat'')]
     @ allowed_environment rq @ provenance_environment (rq_provenance rq)"

definition launch_spec :: "RunnerRequest \<Rightarrow> string option \<Rightarrow> string list \<Rightarrow> string list \<Rightarrow> bool \<Rightarrow> SandboxLaunchSpec" where
  "launch_spec rq profile root dir applied =
     \<lparr>ls_schema_version = 1, ls_profile = profile, ls_root = root, ls_cwd = dir, ls_argv = rq_argv rq,
      ls_environment = launch_environment rq,
      ls_memory_bytes = (if applied then requested_value (memory_bytes (rq_resources rq)) else None),
      ls_cpu_millis = (if applied then requested_value (cpu_millis (rq_resources rq)) else None),
      ls_pids = (if applied then requested_value (pids (rq_resources rq)) else None)\<rparr>"

definition SandboxChannel_new ::
  "runner_fs \<Rightarrow> channel_io \<Rightarrow> RunnerRequest \<Rightarrow> string list \<Rightarrow> bool \<Rightarrow> RunnerError + SandboxLaunchSpec" where
  "SandboxChannel_new fs io rq dir applied =
     and_then (channel_profile rq) (\<lambda>profile.
       if \<not> hi_tempdir io \<or> \<not> hi_permissions io then Err (Setup ''sandbox channel unavailable'')
       else if \<not> hi_bind io then Err (Setup ''sandbox status channel unavailable'')
       else (case rf_canonicalize fs (rq_root rq) of
               Inl _ \<Rightarrow> Err (InvalidRoot ''execution root is invalid'')
             | Inr root \<Rightarrow>
                 let spec = launch_spec rq profile root dir applied in
                 (case hi_encoded io spec of
                    None \<Rightarrow> Err (Setup ''sandbox specification is invalid'')
                  | Some len \<Rightarrow>
                      if len > 1024 * 1024 then Err (Setup ''sandbox specification exceeds its bound'')
                      else if \<not> hi_write io then Err (Setup ''sandbox specification unavailable'')
                      else Ok spec)))"

definition channel_command :: "channel_io \<Rightarrow> string \<Rightarrow> cmd" where
  "channel_command io helper =
     \<lparr>cm_program = helper, cm_args = [''--spec'', hi_spec_path io, ''--status'', hi_status_path io],
      cm_cwd = Some (hi_directory io), cm_env_clear = True,
      cm_env = fold (\<lambda>(k, v). bt_insert k v)
        [(''PATH'', ''/usr/bin:/bin''), (''LANG'', ''C.UTF-8''), (''LC_ALL'', ''C.UTF-8'')] []\<rparr>"

text \<open>One awaited step of the handshake: cancelled, timed out, failed, or done.\<close>

datatype 'a timed = TimedCancelled | TimedOutStep | TimedFailed | TimedOk 'a

datatype SandboxWaitError = BeforeTarget RunnerError | AfterTarget RunnerError

fun timed_step :: "(RunnerError \<Rightarrow> SandboxWaitError) \<Rightarrow> 'a timed \<Rightarrow> ('a \<Rightarrow> SandboxWaitError + 'b) \<Rightarrow> SandboxWaitError + 'b" where
  "timed_step phase TimedCancelled k = Err (phase CancelledBeforeSpawn)"
| "timed_step phase TimedOutStep k = Err (phase (Setup ''sandbox status timed out''))"
| "timed_step phase TimedFailed k = Err (phase (Setup ''sandbox status channel failed''))"
| "timed_step phase (TimedOk x) k = k x"

record handshake =
  hs_accept :: "unit timed"
  hs_status :: "u8 timed"
  hs_spawned :: "u8 timed"

text \<open>The result says whether the helper confirmed the restriction and then the start of the target.\<close>

definition SandboxChannel_wait :: "handshake \<Rightarrow> SandboxWaitError + bool" where
  "SandboxChannel_wait h =
     timed_step BeforeTarget (hs_accept h) (\<lambda>_.
     timed_step BeforeTarget (hs_status h) (\<lambda>status.
       if status \<in> {0, 2, 3, 30, 31} then Ok False
       else if status \<ge> 4
       then Err (BeforeTarget (Setup (''sandbox helper rejected its launch specification (status ''
              @ decimal (unat status) @ '')'')))
       else if status = 1
       then timed_step AfterTarget (hs_spawned h) (\<lambda>spawned.
              if spawned = 1 then Ok True
              else if spawned = 0 then Err (AfterTarget (Spawn ''sandbox target could not start''))
              else Err (AfterTarget (Setup ''sandbox status was invalid'')))
       else Err (BeforeTarget (Setup ''sandbox status was invalid''))))"

text \<open>The post-mortem status byte, if it arrived: limits exceeded and limits that could not be observed.\<close>

definition resource_status :: "u8 option \<Rightarrow> ResourceDimension list \<times> ResourceDimension list" where
  "resource_status byte =
     (case byte of
        None \<Rightarrow> ([], [])
      | Some b \<Rightarrow>
          ((if b AND 1 \<noteq> 0 then [DimMemory] else []) @ (if b AND 2 \<noteq> 0 then [DimPids] else []),
           if b AND 4 \<noteq> 0 then [DimMemory, DimPids] else []))"

end
