(* ===== verification/Runner_Run.thy ===== *)
theory Runner_Run
  imports Runner_Setup
begin

text \<open>
  The runner, third part: the readers of the output pipes, the owner of the process tree
  (\<^verbatim>\<open>crates/eggwork-runner/src/process_tree.rs\<close>, Unix), and \<^verbatim>\<open>LocalProcessRunner::run\<close>. What the operating
  system, the helper and the clock do during a run is the argument \<open>run_io\<close>; the commands that were spawned
  are returned beside the result.
\<close>

section \<open>Reading the output pipes\<close>

definition READ_BUFFER :: nat where "READ_BUFFER = 8192"

text \<open>
  What a reader accumulates: the capture, the bytes dropped because the channel did not take them, whether it
  signalled an overflow, and the chunks the channel took. \<open>accepts\<close> says for the \<open>n\<close>-th chunk whether
  \<^verbatim>\<open>try_send\<close> succeeded.
\<close>

record reader_state =
  rd_capture :: BoundedCapture
  rd_dropped :: u64
  rd_overflowed :: bool
  rd_sent :: "u8 list list"
  rd_chunk :: nat

definition send_chunk :: "(nat \<Rightarrow> bool) \<Rightarrow> u8 list \<Rightarrow> reader_state \<Rightarrow> reader_state" where
  "send_chunk accepts bytes s =
     (if accepts (rd_chunk s) then s\<lparr>rd_sent := rd_sent s @ [bytes], rd_chunk := rd_chunk s + 1\<rparr>
      else s\<lparr>rd_dropped := rd_dropped s + of_nat (length bytes), rd_chunk := rd_chunk s + 1\<rparr>)"

definition read_chunk ::
  "(nat \<Rightarrow> bool) \<Rightarrow> nat \<Rightarrow> nat \<Rightarrow> OverflowPolicy \<Rightarrow> u8 list \<Rightarrow> reader_state \<Rightarrow> reader_state" where
  "read_chunk accepts capture_limit chunk_limit policy bytes s =
     (let before = cap_total_bytes (rd_capture s); capture = capture_push bytes capture_limit (rd_capture s);
          over = (policy = Terminate \<and> before \<le> of_nat capture_limit \<and> cap_total_bytes capture > of_nat capture_limit)
      in fold (send_chunk accepts) (chunks chunk_limit bytes)
           (s\<lparr>rd_capture := capture, rd_overflowed := rd_overflowed s \<or> over\<rparr>))"

text \<open>A read fails, or delivers bytes; an empty read or the end of the list is the end of the stream.\<close>

fun read_loop ::
  "(nat \<Rightarrow> bool) \<Rightarrow> nat \<Rightarrow> nat \<Rightarrow> OverflowPolicy \<Rightarrow> (string + u8 list) list \<Rightarrow> reader_state \<Rightarrow> RunnerError + reader_state" where
  "read_loop accepts capture_limit chunk_limit policy [] s = Ok s"
| "read_loop accepts capture_limit chunk_limit policy (Inl e # _) s = Err (Io e)"
| "read_loop accepts capture_limit chunk_limit policy (Inr bytes # rest) s =
     (if bytes = [] then Ok s
      else read_loop accepts capture_limit chunk_limit policy rest
             (read_chunk accepts capture_limit chunk_limit policy bytes s))"

definition spawn_reader ::
  "(nat \<Rightarrow> bool) \<Rightarrow> nat \<Rightarrow> nat \<Rightarrow> OverflowPolicy \<Rightarrow> (string + u8 list) list \<Rightarrow> RunnerError + reader_state" where
  "spawn_reader accepts capture_limit chunk_limit policy reads =
     read_loop accepts capture_limit chunk_limit policy reads
       \<lparr>rd_capture = BoundedCapture_default, rd_dropped = 0, rd_overflowed = False, rd_sent = [], rd_chunk = 0\<rparr>"

section \<open>The process tree\<close>

text \<open>An exit status is the code, absent for a process ended by a signal.\<close>

type_synonym exit_status = "int option"

record TreeConvergence =
  tv_status :: "exit_status option"
  tv_signal_error :: "string option"
  tv_wait_error :: "string option"

record group_io =
  gi_group :: "nat option"
  gi_term :: "string option + bool"
  gi_kill :: "string option + unit"
  gi_reap :: "(string + exit_status) option"

text \<open>\<^verbatim>\<open>killpg\<close>: delivered, or an error; \<^verbatim>\<open>ESRCH\<close> (here \<open>Inl None\<close>) means the group is gone.\<close>

definition terminate_group :: "group_io \<Rightarrow> string + bool" where
  "terminate_group io =
     (case gi_group io of
        None \<Rightarrow> Err ''child pid is unavailable''
      | Some _ \<Rightarrow> (case gi_term io of Inr _ \<Rightarrow> Ok True | Inl None \<Rightarrow> Ok False | Inl (Some e) \<Rightarrow> Err e))"

definition kill_group :: "group_io \<Rightarrow> string + unit" where
  "kill_group io =
     (case gi_group io of
        None \<Rightarrow> Err ''child pid is unavailable''
      | Some _ \<Rightarrow> (case gi_kill io of Inr _ \<Rightarrow> Ok () | Inl None \<Rightarrow> Ok () | Inl (Some e) \<Rightarrow> Err e))"

definition converge_after_leader_exit :: "group_io \<Rightarrow> TreeConvergence" where
  "converge_after_leader_exit io =
     (case terminate_group io of
        Inr True \<Rightarrow>
          (case kill_group io of
             Inr _ \<Rightarrow> \<lparr>tv_status = None, tv_signal_error = None, tv_wait_error = None\<rparr>
           | Inl e \<Rightarrow> \<lparr>tv_status = None, tv_signal_error = Some e, tv_wait_error = None\<rparr>)
      | Inr False \<Rightarrow> \<lparr>tv_status = None, tv_signal_error = None, tv_wait_error = None\<rparr>
      | Inl e \<Rightarrow> \<lparr>tv_status = None, tv_signal_error = Some e, tv_wait_error = None\<rparr>)"

definition terminate_and_reap :: "group_io \<Rightarrow> TreeConvergence" where
  "terminate_and_reap io =
     (let signal_error = (case terminate_group io of Inr _ \<Rightarrow> None | Inl e \<Rightarrow> Some e);
          signal_error = (case kill_group io of Inl e \<Rightarrow> or_else signal_error (Some e) | Inr _ \<Rightarrow> signal_error)
      in case gi_reap io of
           Some (Inr status) \<Rightarrow> \<lparr>tv_status = Some status, tv_signal_error = signal_error, tv_wait_error = None\<rparr>
         | Some (Inl e) \<Rightarrow> \<lparr>tv_status = None, tv_signal_error = signal_error, tv_wait_error = Some e\<rparr>
         | None \<Rightarrow> \<lparr>tv_status = None, tv_signal_error = signal_error,
                     tv_wait_error = Some ''child did not exit after SIGKILL''\<rparr>)"

section \<open>A run\<close>

text \<open>Which arm of the \<^verbatim>\<open>select!\<close> settled the wait.\<close>

datatype settle = SettleCancelled | SettleTimeout | SettleMonitor bool | SettleExit "string + exit_status"

record run_io =
  ro_cancelled :: bool
  ro_fs :: runner_fs
  ro_sys :: sys_env
  ro_prepare :: "SandboxRequest \<Rightarrow> ResourceSetupRequest \<Rightarrow> RunnerError + SetupOutcome"
  ro_helper :: "string option"
  ro_channel :: channel_io
  ro_spawn :: "cmd \<Rightarrow> string option"
  ro_handshake :: handshake
  ro_nonce :: nat
  ro_nonce2 :: nat
  ro_has_stdin :: bool
  ro_has_stdout :: bool
  ro_has_stderr :: bool
  ro_settle :: settle
  ro_wait :: "string + exit_status"
  ro_status_byte :: "u8 option"
  ro_unit_result :: "string option"
  ro_stop_unit :: "string option"
  ro_tree :: group_io
  ro_stdin :: "string option"
  ro_stdout :: "(string + u8 list) list"
  ro_stderr :: "(string + u8 list) list"
  ro_accepts_out :: "nat \<Rightarrow> bool"
  ro_accepts_err :: "nat \<Rightarrow> bool"

definition use_helper :: "RunnerRequest \<Rightarrow> SetupOutcome \<Rightarrow> string option \<Rightarrow> bool" where
  "use_helper rq setup helper \<longleftrightarrow>
     ((rq_sandbox rq \<noteq> SandboxNone \<and> sandbox_applied (so_sandbox setup)) \<or> resources_applied (so_resources setup))
     \<and> helper \<noteq> None"

definition optional_setup :: "RunnerRequest \<Rightarrow> bool" where
  "optional_setup rq \<longleftrightarrow> \<not> sandbox_required (rq_sandbox rq) \<and> \<not> has_required (rq_resources rq)"

text \<open>The prepared outcome after the helper could not be used for a request that tolerates it.\<close>

definition downgrade :: "RunnerRequest \<Rightarrow> string \<Rightarrow> string \<Rightarrow> SetupOutcome \<Rightarrow> SetupOutcome" where
  "downgrade rq sandbox_reason resource_reason setup =
     \<lparr>so_sandbox = (if rq_sandbox rq \<noteq> SandboxNone then OutcomeNotApplied sandbox_reason else so_sandbox setup),
      so_resources = (if resources_applied (so_resources setup) then ResourcesNotApplied resource_reason
                      else so_resources setup)\<rparr>"

text \<open>What a launched tree is known by: the outcome, whether a session with the helper is open, the unit.\<close>

record launched =
  la_setup :: SetupOutcome
  la_session :: bool
  la_unit :: "string option"

definition spawn_platform :: "run_io \<Rightarrow> cmd \<Rightarrow> RunnerError + unit" where
  "spawn_platform io c = (case ro_spawn io c of Some e \<Rightarrow> Err (Spawn e) | None \<Rightarrow> Ok ())"

definition relaunch ::
  "run_io \<Rightarrow> RunnerRequest \<Rightarrow> string list \<Rightarrow> SetupOutcome \<Rightarrow> cmd list \<Rightarrow> (RunnerError + launched) \<times> cmd list" where
  "relaunch io rq dir setup spawned =
     (case wrap_resource_command (ro_sys io) (ro_nonce2 io) (direct_command rq dir) (rq_resources rq) (so_resources setup) of
        Inl e \<Rightarrow> (Err e, spawned)
      | Inr (c, unit) \<Rightarrow>
          (case spawn_platform io c of
             Inl e \<Rightarrow> (Err e, spawned)
           | Inr _ \<Rightarrow> (Ok \<lparr>la_setup = setup, la_session = False, la_unit = unit\<rparr>, spawned @ [c])))"

definition launch ::
  "run_io \<Rightarrow> RunnerRequest \<Rightarrow> string list \<Rightarrow> SetupOutcome \<Rightarrow> (RunnerError + launched) \<times> cmd list" where
  "launch io rq dir setup =
     (let channel =
        (case ro_helper io of
           Some helper \<Rightarrow>
             if use_helper rq setup (ro_helper io) then
               (case SandboxChannel_new (ro_fs io) (ro_channel io) rq dir (resources_applied (so_resources setup)) of
                  Inr _ \<Rightarrow> Ok (Some helper, setup)
                | Inl e \<Rightarrow>
                    if optional_setup rq
                    then Ok (None, downgrade rq (RunnerError_to_string e) (RunnerError_to_string e) setup)
                    else Err e)
             else Ok (None, setup)
         | None \<Rightarrow> Ok (None, setup))
      in
      case channel of
        Inl e \<Rightarrow> (Err e, [])
      | Inr (chan, setup1) \<Rightarrow>
          let c = (case chan of Some helper \<Rightarrow> channel_command (ro_channel io) helper | None \<Rightarrow> direct_command rq dir) in
          (case wrap_resource_command (ro_sys io) (ro_nonce io) c (rq_resources rq) (so_resources setup1) of
             Inl e \<Rightarrow> (Err e, [])
           | Inr (c1, unit) \<Rightarrow>
               (case spawn_platform io c1 of
                  Inl e \<Rightarrow> (Err e, [])
                | Inr _ \<Rightarrow>
                    if chan = None then (Ok \<lparr>la_setup = setup1, la_session = False, la_unit = unit\<rparr>, [c1])
                    else (case SandboxChannel_wait (ro_handshake io) of
                            Inr True \<Rightarrow> (Ok \<lparr>la_setup = setup1, la_session = True, la_unit = unit\<rparr>, [c1])
                          | Inr False \<Rightarrow>
                              if optional_setup rq
                              then relaunch io rq dir
                                     (downgrade rq ''Landlock helper could not enforce the requested profile''
                                        ''resource helper could not verify the cgroup limits'' setup1) [c1]
                              else (Err RequiredSetupUnavailable, [c1])
                          | Inl (BeforeTarget e) \<Rightarrow>
                              if optional_setup rq \<and> e \<noteq> CancelledBeforeSpawn
                              then relaunch io rq dir
                                     (downgrade rq (RunnerError_to_string e) (RunnerError_to_string e) setup1) [c1]
                              else (Err e, [c1])
                          | Inl (AfterTarget e) \<Rightarrow> (Err e, [c1])))))"

definition monitor_termination :: "bool \<Rightarrow> TerminationReason option" where
  "monitor_termination overflowed = (if overflowed then Some TermOutputLimit else None)"

definition settle_exit :: "string + exit_status \<Rightarrow> TerminationReason \<times> exit_status option \<times> string option" where
  "settle_exit w = (case w of Inr status \<Rightarrow> (TermExited, Some status, None) | Inl e \<Rightarrow> (TermExited, None, Some e))"

definition settled :: "run_io \<Rightarrow> TerminationReason \<times> exit_status option \<times> string option" where
  "settled io =
     (case ro_settle io of
        SettleCancelled \<Rightarrow> (TermCancelled, None, None)
      | SettleTimeout \<Rightarrow> (TermTimedOut, None, None)
      | SettleMonitor overflowed \<Rightarrow>
          (case monitor_termination overflowed of Some t \<Rightarrow> (t, None, None) | None \<Rightarrow> settle_exit (ro_wait io))
      | SettleExit w \<Rightarrow> settle_exit w)"

text \<open>Limits exceeded, and the outcome when an installed limit could not be observed.\<close>

definition observed_limits ::
  "run_io \<Rightarrow> RunnerRequest \<Rightarrow> TerminationReason \<Rightarrow> launched \<Rightarrow> ResourceDimension list \<times> ResourceSetupOutcome" where
  "observed_limits io rq termination la =
     (let (exceeded, unobserved) =
            (if termination = TermExited \<and> la_session la then resource_status (ro_status_byte io) else ([], []));
          exceeded =
            (if la_unit la \<noteq> None \<and> \<not> isl (systemd_discover (ro_sys io)) \<and> ro_unit_result io = Some ''oom-kill''
                \<and> DimMemory \<notin> set exceeded then exceeded @ [DimMemory] else exceeded);
          blind = ((memory_bytes (rq_resources rq) \<noteq> NotRequested \<and> DimMemory \<in> set unobserved)
                   \<or> (pids (rq_resources rq) \<noteq> NotRequested \<and> DimPids \<in> set unobserved));
          outcome =
            (if resources_applied (so_resources (la_setup la)) \<and> blind
             then ResourcesNotApplied ''installed resource limits could not be observed after exit''
             else so_resources (la_setup la))
      in (exceeded, outcome))"

definition unit_warning :: "run_io \<Rightarrow> launched \<Rightarrow> string option" where
  "unit_warning io la =
     (if la_unit la = None then None
      else if isl (systemd_discover (ro_sys io)) then Some ''systemd scope cleanup was unavailable''
      else ro_stop_unit io)"

definition converge :: "run_io \<Rightarrow> exit_status option \<Rightarrow> TreeConvergence" where
  "converge io status =
     (case status of
        Some s \<Rightarrow> (converge_after_leader_exit (ro_tree io))\<lparr>tv_status := Some s\<rparr>
      | None \<Rightarrow> terminate_and_reap (ro_tree io))"

definition finish :: "run_io \<Rightarrow> RunnerRequest \<Rightarrow> launched \<Rightarrow> RunnerError + RunnerResult" where
  "finish io rq la =
     (if \<not> ro_has_stdout io then Err (Io ''stdout pipe missing'')
      else if \<not> ro_has_stderr io then Err (Io ''stderr pipe missing'')
      else
        let (termination, status, wait_error) = settled io;
            (exceeded, outcome) = observed_limits io rq termination la;
            convergence = converge io status;
            cleanup = \<lparr>cd_signal_error = or_else (unit_warning io la) (tv_signal_error convergence),
                       cd_wait_error = or_else (tv_wait_error convergence) wait_error,
                       cd_stdin_error = (case rq_stdin rq of
                           Bytes _ \<Rightarrow> if ro_has_stdin io then ro_stdin io else None | Null \<Rightarrow> None)\<rparr>
        in
        and_then (spawn_reader (ro_accepts_out io) (rq_capture_limit rq) (rq_event_chunk_bytes rq) (rq_overflow rq)
                    (ro_stdout io)) (\<lambda>out.
        and_then (spawn_reader (ro_accepts_err io) (rq_capture_limit rq) (rq_event_chunk_bytes rq) (rq_overflow rq)
                    (ro_stderr io)) (\<lambda>err.
        Ok \<lparr>rs_termination = termination, rs_exit_code = Option.bind (tv_status convergence) (\<lambda>s. s),
            rs_stdout = rd_capture out, rs_stderr = rd_capture err, rs_cleanup = cleanup,
            rs_setup = (la_setup la)\<lparr>so_resources := outcome\<rparr>, rs_resource_request = rq_resources rq,
            rs_limits_exceeded = exceeded, rs_chunks_dropped = rd_dropped out + rd_dropped err,
            rs_provenance = rq_provenance rq\<rparr>)))"

definition run :: "run_io \<Rightarrow> RunnerRequest \<Rightarrow> (RunnerError + RunnerResult) \<times> cmd list" where
  "run io rq =
     (if ro_cancelled io then (Err CancelledBeforeSpawn, [])
      else case RunnerRequest_validate (ro_fs io) rq of
        Inl e \<Rightarrow> (Err e, [])
      | Inr dir \<Rightarrow>
          (case ro_prepare io (rq_sandbox rq) (rq_resources rq) of
             Inl e \<Rightarrow> (Err e, [])
           | Inr setup \<Rightarrow>
               (case launch io rq dir setup of
                  (Inl e, spawned) \<Rightarrow> (Err e, spawned)
                | (Inr la, spawned) \<Rightarrow> (finish io rq la, spawned))))"

end
