(* ===== verification/Helper.thy ===== *)
theory Helper
  imports Runner_Setup
begin

text \<open>
  The trusted sandbox helper, \<^verbatim>\<open>crates/eggwork-sandbox-helper/src/main.rs\<close>: it reads the launch specification
  the runner wrote, checks it again, verifies the cgroup limits it finds itself under, restricts itself with
  Landlock, starts the target and reports on the status socket. The Landlock library and the kernel, JSON and
  the cgroup file system are parameters. The bytes written to the status socket are returned in order.
\<close>

section \<open>Reading the specification\<close>

definition MAX_SPEC_BYTES :: nat where "MAX_SPEC_BYTES = 1024 * 1024"

record spec_meta =
  sm_meta :: file_meta
  sm_len :: nat
  sm_dev :: nat
  sm_ino :: nat

text \<open>The four sets of Landlock rights the helper grants beneath a path.\<close>

datatype access = AccessAll | AccessReadExecute | AccessReadWriteFile | AccessReadFile

record helper_io =
  he_args :: "string list"
  he_connect :: "string \<Rightarrow> bool"
  he_symlink_metadata :: "string \<Rightarrow> spec_meta option"
  he_open :: "string \<Rightarrow> bool"
  he_opened :: "string \<Rightarrow> (nat \<times> nat) option"
  he_read :: "string \<Rightarrow> u8 list option"
  he_from_slice :: "u8 list \<Rightarrow> SandboxLaunchSpec option"
  he_canonicalize :: "string list \<Rightarrow> string list option"
  he_is_dir :: "string list \<Rightarrow> bool"
  he_open_directory :: "string list \<Rightarrow> bool"
  he_euid :: nat
  he_cgroup_membership :: "string option"
  he_cgroup_read :: "string \<Rightarrow> string \<Rightarrow> string option"
  he_runtime :: "string \<Rightarrow> (string list \<times> bool) option"
  he_landlock :: "(string list \<times> access) list \<Rightarrow> bool"
  he_fully_enforced :: bool
  he_no_new_privs :: bool
  he_status_write :: "nat \<Rightarrow> bool"
  he_spawn :: "cmd \<Rightarrow> bool"
  he_wait :: "(int option \<times> int option) option"
  he_events_before :: "string \<Rightarrow> string option"
  he_events_after :: "string \<Rightarrow> string option"

definition spec_environment_ok :: "(string \<times> string) list \<Rightarrow> bool" where
  "spec_environment_ok env \<longleftrightarrow> length env \<le> MAX_ENV_COUNT
     \<and> list_all (\<lambda>(k, v). k \<noteq> [] \<and> length k \<le> MAX_ENV_NAME_BYTES \<and> length v \<le> MAX_ENV_VALUE_BYTES
           \<and> CHR ''='' \<notin> set k \<and> nul \<notin> set k \<and> nul \<notin> set v
           \<and> \<not> (denied_environment_key k \<and> k \<noteq> ''PATH'') \<and> \<not> (k = ''PATH'' \<and> v \<noteq> ''/usr/bin:/bin'')) env
     \<and> distinct (map fst env)"

definition spec_accepted :: "SandboxLaunchSpec \<Rightarrow> bool" where
  "spec_accepted spec \<longleftrightarrow>
     ls_schema_version spec = 1 \<and> (case ls_profile spec of Some p \<Rightarrow> p = ''workspace_rw'' | None \<Rightarrow> True)
     \<and> argv_accepted (ls_argv spec) \<and> spec_environment_ok (ls_environment spec)"

definition private_file :: "helper_io \<Rightarrow> spec_meta \<Rightarrow> bool" where
  "private_file io m \<longleftrightarrow> fm_is_file (sm_meta m) \<and> \<not> fm_is_symlink (sm_meta m) \<and> fm_uid (sm_meta m) = he_euid io
     \<and> fm_mode (sm_meta m) AND 63 = 0 \<and> sm_len m \<le> MAX_SPEC_BYTES"

text \<open>The specification, or the status code of the check that failed.\<close>

definition read_spec :: "helper_io \<Rightarrow> string \<Rightarrow> u8 + SandboxLaunchSpec" where
  "read_spec io path =
     (case he_symlink_metadata io path of
        None \<Rightarrow> Err 4
      | Some m \<Rightarrow>
          if \<not> private_file io m then Err 5
          else if \<not> he_open io path then Err 6
          else (case he_opened io path of
                  None \<Rightarrow> Err 7
                | Some (dev, ino) \<Rightarrow>
                    if dev \<noteq> sm_dev m \<or> ino \<noteq> sm_ino m then Err 8
                    else (case he_read io path of
                            None \<Rightarrow> Err 9
                          | Some bytes \<Rightarrow>
                              if length (take (MAX_SPEC_BYTES + 1) bytes) > MAX_SPEC_BYTES then Err 10
                              else (case he_from_slice io (take (MAX_SPEC_BYTES + 1) bytes) of
                                      None \<Rightarrow> Err 11
                                    | Some spec \<Rightarrow>
                                        if \<not> spec_accepted spec then Err 12
                                        else (case he_canonicalize io (ls_root spec) of
                                                None \<Rightarrow> Err 13
                                              | Some root \<Rightarrow>
                                                  (case he_canonicalize io (ls_cwd spec) of
                                                     None \<Rightarrow> Err 14
                                                   | Some dir \<Rightarrow>
                                                       if root \<noteq> ls_root spec \<or> \<not> he_is_dir io root
                                                          \<or> \<not> prefix root dir \<or> \<not> he_is_dir io dir then Err 15
                                                       else if \<not> he_open_directory io root then Err 16
                                                       else Ok spec))))))"

section \<open>Limits\<close>

text \<open>\<^verbatim>\<open>str::lines\<close>: a final line end opens no further line; a carriage return before a line end is dropped.\<close>

definition drop_cr :: "string \<Rightarrow> string" where
  "drop_cr s = (if s \<noteq> [] \<and> byte_of (last s) = 13 then butlast s else s)"

definition lines :: "string \<Rightarrow> string list" where
  "lines s =
     (let parts = split_on (char_of (10 :: nat)) s;
          whole = (if last parts = [] then map drop_cr (butlast parts) else map drop_cr (butlast parts) @ [last parts])
      in whole)"

text \<open>The ASCII white space of \<^verbatim>\<open>str::trim\<close> and \<^verbatim>\<open>split_whitespace\<close>; the files read are ASCII.\<close>

definition is_space :: "char \<Rightarrow> bool" where
  "is_space c \<longleftrightarrow> byte_of c = 32 \<or> (9 \<le> byte_of c \<and> byte_of c \<le> 13)"

definition trim :: "string \<Rightarrow> string" where
  "trim s = rev (dropWhile is_space (rev (dropWhile is_space s)))"

fun split_whitespace :: "string \<Rightarrow> string list" where
  "split_whitespace [] = []"
| "split_whitespace (c # cs) =
     (if is_space c then split_whitespace cs
      else (case cs of
              [] \<Rightarrow> [[c]]
            | d # _ \<Rightarrow> if is_space d then [c] # split_whitespace cs
                       else (case split_whitespace cs of [] \<Rightarrow> [[c]] | w # ws \<Rightarrow> (c # w) # ws)))"

text \<open>The cgroup v2 path of the helper, without leading slashes.\<close>

definition own_cgroup :: "helper_io \<Rightarrow> string option" where
  "own_cgroup io =
     Option.bind (he_cgroup_membership io) (\<lambda>membership.
       map_option (dropWhile (\<lambda>c. c = slash)) (find_map (strip_prefix ''0::'') (lines membership)))"

definition memory_limit_ok :: "(string \<Rightarrow> string option) \<Rightarrow> u64 \<Rightarrow> bool" where
  "memory_limit_ok read_file limit \<longleftrightarrow>
     (case Option.bind (read_file ''memory.max'') (\<lambda>v. parse_u64 (trim v)) of
        None \<Rightarrow> False | Some actual \<Rightarrow> actual \<le> limit)
     \<and> (case read_file ''memory.swap.max'' of None \<Rightarrow> False | Some v \<Rightarrow> trim v = ''0'')"

definition pids_limit_ok :: "(string \<Rightarrow> string option) \<Rightarrow> u32 \<Rightarrow> bool" where
  "pids_limit_ok read_file limit \<longleftrightarrow>
     (case Option.bind (read_file ''pids.max'') (\<lambda>v. parse_u32 (trim v)) of
        None \<Rightarrow> False | Some actual \<Rightarrow> actual \<le> limit)"

definition cpu_limit_ok :: "(string \<Rightarrow> string option) \<Rightarrow> u64 \<Rightarrow> bool" where
  "cpu_limit_ok read_file limit \<longleftrightarrow>
     (case read_file ''cpu.max'' of
        None \<Rightarrow> False
      | Some v \<Rightarrow>
          (case split_whitespace v of
             q # p # _ \<Rightarrow>
               (case (parse_u64 q, parse_u64 p) of
                  (Some quota, Some period) \<Rightarrow>
                    period \<noteq> 0 \<and> min (unat quota * 1000) (2 ^ 64 - 1) div unat period \<le> unat limit
                | _ \<Rightarrow> False)
           | _ \<Rightarrow> False))"

definition verify_resource_limits :: "helper_io \<Rightarrow> SandboxLaunchSpec \<Rightarrow> bool" where
  "verify_resource_limits io spec =
     (if ls_memory_bytes spec = None \<and> ls_cpu_millis spec = None \<and> ls_pids spec = None then True
      else case own_cgroup io of
        None \<Rightarrow> False
      | Some grp \<Rightarrow>
          let read_file = he_cgroup_read io grp in
          (case ls_memory_bytes spec of None \<Rightarrow> True | Some v \<Rightarrow> memory_limit_ok read_file v)
          \<and> (case ls_pids spec of None \<Rightarrow> True | Some v \<Rightarrow> pids_limit_ok read_file v)
          \<and> (case ls_cpu_millis spec of None \<Rightarrow> True | Some v \<Rightarrow> cpu_limit_ok read_file v))"

section \<open>Event counters\<close>

definition read_counter :: "string option \<Rightarrow> string \<Rightarrow> u64 option" where
  "read_counter contents key =
     Option.bind contents (\<lambda>s. find_map (\<lambda>line.
       case split_once (CHR '' '') line of
         None \<Rightarrow> None | Some (name, value) \<Rightarrow> if name = key then parse_u64 value else None) (lines s))"

text \<open>A counter is opened before the target starts (if the group is known) and read again afterwards.\<close>

definition open_counter :: "helper_io \<Rightarrow> string \<Rightarrow> string \<Rightarrow> u64 option" where
  "open_counter io filename key = (if own_cgroup io = None then None else read_counter (he_events_before io filename) key)"

definition counter_exceeded :: "helper_io \<Rightarrow> string \<Rightarrow> string \<Rightarrow> bool" where
  "counter_exceeded io filename key \<longleftrightarrow>
     (case open_counter io filename key of
        None \<Rightarrow> False
      | Some baseline \<Rightarrow>
          (case read_counter (he_events_after io filename) key of None \<Rightarrow> False | Some v \<Rightarrow> v > baseline))"

definition resource_events_code :: "helper_io \<Rightarrow> SandboxLaunchSpec \<Rightarrow> u8" where
  "resource_events_code io spec =
     (let track_memory = ls_memory_bytes spec \<noteq> None; track_pids = ls_pids spec \<noteq> None in
      (if track_memory \<and> counter_exceeded io ''memory.events'' ''oom_kill'' then 1 else 0)
      OR (if track_pids \<and> counter_exceeded io ''pids.events'' ''max'' then 2 else 0)
      OR (if (track_memory \<and> open_counter io ''memory.events'' ''oom_kill'' = None)
             \<or> (track_pids \<and> open_counter io ''pids.events'' ''max'' = None) then 4 else 0))"

section \<open>Restriction\<close>

text \<open>Everything beneath the pinned root; below the runtime paths that exist, reading and executing, or for a
  file reading alone; the null device may be written.\<close>

definition landlock_rules :: "helper_io \<Rightarrow> string list \<Rightarrow> (string list \<times> access) list" where
  "landlock_rules io root =
     (root, AccessAll) # concat (map (\<lambda>p. case he_runtime io p of
         None \<Rightarrow> []
       | Some (canonical, dir) \<Rightarrow>
           [(canonical, if dir then AccessReadExecute
                        else if canonical = [''dev'', ''null''] then AccessReadWriteFile else AccessReadFile)])
       [''/usr'', ''/etc/ld.so.cache'', ''/etc/ssl/certs'', ''/dev/null''])"

definition restrict :: "helper_io \<Rightarrow> string list \<Rightarrow> u8 + (string list \<times> access) list" where
  "restrict io root =
     (let rules = landlock_rules io root in
      if \<not> he_landlock io rules then Err 2
      else if \<not> he_fully_enforced io then Err 30
      else if \<not> he_no_new_privs io then Err 31
      else Ok rules)"

section \<open>The helper process\<close>

text \<open>\<^verbatim>\<open>status.code().unwrap_or_else(|| 128 + status.signal().unwrap_or(0))\<close>\<close>

definition helper_exit_code :: "int option \<times> int option \<Rightarrow> int" where
  "helper_exit_code status =
     (case status of
        (Some code, _) \<Rightarrow> code | (None, Some signal) \<Rightarrow> 128 + signal | (None, None) \<Rightarrow> 128)"

definition target_command :: "SandboxLaunchSpec \<Rightarrow> cmd" where
  "target_command spec =
     \<lparr>cm_program = hd (ls_argv spec), cm_args = tl (ls_argv spec), cm_cwd = Some (path_string (ls_cwd spec)),
      cm_env_clear = True,
      cm_env = fold (\<lambda>(k, v). bt_insert k v) (filter (\<lambda>(k, _). k \<noteq> ''PATH'') (ls_environment spec))
        [(''PATH'', ''/usr/bin:/bin'')]\<rparr>"

record helper_outcome =
  ho_exit :: int
  ho_status :: "u8 list"
  ho_rules :: "(string list \<times> access) list option"
  ho_target :: "cmd option"

text \<open>A failure of the helper itself: what it reported before giving up with exit code 125.\<close>

definition gives_up :: "u8 list \<Rightarrow> (string list \<times> access) list option \<Rightarrow> cmd option \<Rightarrow> helper_outcome" where
  "gives_up status rules target =
     \<lparr>ho_exit = 125, ho_status = status, ho_rules = rules, ho_target = target\<rparr>"

definition start_target ::
  "helper_io \<Rightarrow> SandboxLaunchSpec \<Rightarrow> (string list \<times> access) list option \<Rightarrow> helper_outcome" where
  "start_target io spec rules =
     (if \<not> he_status_write io 0 then gives_up [] rules None
      else
        let c = target_command spec in
        if \<not> he_spawn io c then gives_up (if he_status_write io 1 then [1, 0] else [1]) rules None
        else if \<not> he_status_write io 1 then gives_up [1] rules (Some c)
        else (case he_wait io of
                None \<Rightarrow> gives_up [1, 1] rules (Some c)
              | Some status \<Rightarrow>
                  \<lparr>ho_exit = helper_exit_code status,
                   ho_status = [1, 1] @ (if he_status_write io 2 then [resource_events_code io spec] else []),
                   ho_rules = rules, ho_target = Some c\<rparr>))"

definition helper_run :: "helper_io \<Rightarrow> helper_outcome" where
  "helper_run io =
     (case he_args io of
        [] \<Rightarrow> gives_up [] None None
      | first # rest \<Rightarrow>
          if first = ''--version'' then
            (if rest = [] then \<lparr>ho_exit = 0, ho_status = [], ho_rules = None, ho_target = None\<rparr>
             else gives_up [] None None)
          else if first \<noteq> ''--spec'' then gives_up [] None None
          else (case rest of
                  [spec_path, flag, status_path] \<Rightarrow>
                    if flag \<noteq> ''--status'' \<or> \<not> he_connect io status_path then gives_up [] None None
                    else (case read_spec io spec_path of
                            Inl code \<Rightarrow> gives_up (if he_status_write io 0 then [code] else []) None None
                          | Inr spec \<Rightarrow>
                              if \<not> verify_resource_limits io spec
                              then gives_up (if he_status_write io 0 then [2] else []) None None
                              else if ls_profile spec = None then start_target io spec None
                              else (case restrict io (ls_root spec) of
                                      Inl code \<Rightarrow> gives_up (if he_status_write io 0 then [code] else []) None None
                                    | Inr rules \<Rightarrow> start_target io spec (Some rules)))
                | _ \<Rightarrow> gives_up [] None None))"

end
