(* ===== verification/Runner_Props.thy ===== *)
theory Runner_Props
  imports Runner_Run Helper
begin

text \<open>
  Properties of the runner and of its sandbox helper: bounded capture, the environment of a child, and what a
  request for required isolation guarantees when the runner and the helper work together.
\<close>

section \<open>Bounded capture\<close>

text \<open>The last \<open>n\<close> elements of a list.\<close>

definition lastn :: "nat \<Rightarrow> 'a list \<Rightarrow> 'a list" where
  "lastn n xs = drop (length xs - n) xs"

lemma length_lastn [simp]: "length (lastn n xs) = min n (length xs)"
  by (auto simp: lastn_def)

lemma lastn_0 [simp]: "lastn 0 xs = []"
  by (simp add: lastn_def)

lemma lastn_all: "length xs \<le> n \<Longrightarrow> lastn n xs = xs"
  by (simp add: lastn_def)

lemma lastn_append:
  "lastn n (xs @ ys) = (if n \<le> length ys then lastn n ys else lastn (n - length ys) xs @ ys)"
  by (simp add: lastn_def)

lemma lastn_lastn: "m \<le> n \<Longrightarrow> lastn m (lastn n xs) = lastn m xs"
proof -
  assume "m \<le> n"
  then have "length xs - m = (length xs - (length xs - n) - m) + (length xs - n)" by simp
  then show ?thesis by (simp add: lastn_def)
qed

definition head_limit :: "nat \<Rightarrow> nat" where
  "head_limit limit = (limit + 1) div 2"

definition tail_limit :: "nat \<Rightarrow> nat" where
  "tail_limit limit = limit - head_limit limit"

definition head_part :: "nat \<Rightarrow> u8 list \<Rightarrow> u8 list" where
  "head_part limit s = take (head_limit limit) s"

definition tail_part :: "nat \<Rightarrow> u8 list \<Rightarrow> u8 list" where
  "tail_part limit s = lastn (tail_limit limit) (drop (head_limit limit) s)"

text \<open>The state after a stream \<open>s\<close>: its head and the tail of the rest.\<close>

definition captured :: "nat \<Rightarrow> u8 list \<Rightarrow> BoundedCapture \<Rightarrow> bool" where
  "captured limit s c \<longleftrightarrow> cap_head c = head_part limit s \<and> cap_tail c = tail_part limit s"

lemma length_tail_part: "length (tail_part limit s) \<le> tail_limit limit"
  by (simp add: tail_part_def)

lemma tail_part_append:
  "tail_part limit (s @ b) =
     (let rest = drop (head_limit limit - length s) b in
      if tail_limit limit \<le> length rest then lastn (tail_limit limit) rest
      else lastn (tail_limit limit - length rest) (tail_part limit s) @ rest)"
proof -
  have "drop (head_limit limit) (s @ b) = drop (head_limit limit) s @ drop (head_limit limit - length s) b" by simp
  then have "tail_part limit (s @ b) =
      (let rest = drop (head_limit limit - length s) b in
       if tail_limit limit \<le> length rest then lastn (tail_limit limit) rest
       else lastn (tail_limit limit - length rest) (drop (head_limit limit) s) @ rest)"
    unfolding tail_part_def by (simp only: lastn_append Let_def)
  moreover have "lastn (tail_limit limit - n) (drop (head_limit limit) s) = lastn (tail_limit limit - n) (tail_part limit s)" for n
    unfolding tail_part_def by (rule lastn_lastn [symmetric]) simp
  ultimately show ?thesis by (simp only: Let_def)
qed

lemma capture_push_parts:
  assumes head: "cap_head c = head_part limit s" and rest: "rest = drop (head_limit limit - length s) b"
  shows "cap_head (capture_push b limit c) = head_part limit (s @ b)"
    and "cap_tail (capture_push b limit c) =
      (if tail_limit limit = 0 then cap_tail c
       else if length rest \<ge> tail_limit limit then lastn (tail_limit limit) rest
       else if length (cap_tail c) + length rest \<le> tail_limit limit then cap_tail c @ rest
       else lastn (tail_limit limit - length rest) (cap_tail c) @ rest)"
proof -
  let ?p = "if length (cap_head c) < head_limit limit
    then (cap_head c @ take (min (head_limit limit - length (cap_head c)) (length b)) b,
          drop (min (head_limit limit - length (cap_head c)) (length b)) b)
    else (cap_head c, b)"
  have p: "?p = (head_part limit (s @ b), rest)"
    unfolding head head_part_def rest by (auto simp: min_def)
  show "cap_head (capture_push b limit c) = head_part limit (s @ b)"
    unfolding capture_push_def Let_def head_limit_def [symmetric] p by simp
  show "cap_tail (capture_push b limit c) =
      (if tail_limit limit = 0 then cap_tail c
       else if length rest \<ge> tail_limit limit then lastn (tail_limit limit) rest
       else if length (cap_tail c) + length rest \<le> tail_limit limit then cap_tail c @ rest
       else lastn (tail_limit limit - length rest) (cap_tail c) @ rest)"
    unfolding capture_push_def Let_def head_limit_def [symmetric] tail_limit_def [symmetric] p
    by (simp add: lastn_def)
qed

lemma capture_push_captured:
  assumes "captured limit s c"
  shows "captured limit (s @ b) (capture_push b limit c)"
proof -
  have hd: "cap_head c = head_part limit s" and tl: "cap_tail c = tail_part limit s"
    using assms by (simp_all add: captured_def)
  note parts = capture_push_parts [OF hd refl, of b]
  have "cap_tail (capture_push b limit c) = tail_part limit (s @ b)"
    unfolding parts(2) tl tail_part_append Let_def
    using length_tail_part [of limit s] by (auto simp: lastn_all)
  with parts(1) show ?thesis by (simp add: captured_def)
qed

lemma capture_byte_part:
  "capture_byte limit x (head_part limit s, tail_part limit s) = (head_part limit (s @ [x]), tail_part limit (s @ [x]))"
proof (cases "length s < head_limit limit")
  case True
  then have "tail_part limit s = []" "tail_part limit (s @ [x]) = []" by (simp_all add: tail_part_def lastn_def)
  with True show ?thesis
    unfolding capture_byte_def Let_def head_limit_def [symmetric] by (simp add: head_part_def)
next
  case False
  then have rest: "drop (head_limit limit - length s) [x] = [x]" and
    head: "head_part limit (s @ [x]) = head_part limit s" "length (head_part limit s) = head_limit limit"
    by (simp_all add: head_part_def)
  show ?thesis
  proof (cases "tail_limit limit")
    case 0
    then show ?thesis
      unfolding capture_byte_def Let_def head_limit_def [symmetric] tail_limit_def [symmetric]
      by (simp add: head tail_part_def)
  next
    case (Suc n)
    have "lastn n (tail_part limit s) = (if length (tail_part limit s) = Suc n then tl (tail_part limit s) else tail_part limit s)"
      using length_tail_part [of limit s] Suc by (auto simp: lastn_def drop_Suc)
    moreover have "tail_part limit (s @ [x]) = lastn n (tail_part limit s) @ [x]"
      unfolding tail_part_append Let_def rest using Suc by (auto simp: lastn_def)
    ultimately show ?thesis
      unfolding capture_byte_def Let_def head_limit_def [symmetric] tail_limit_def [symmetric]
      using Suc by (simp add: head)
  qed
qed

lemma fold_capture_byte:
  "fold (capture_byte limit) b (head_part limit s, tail_part limit s)
     = (head_part limit (s @ b), tail_part limit (s @ b))"
proof (induction b arbitrary: s)
  case (Cons x b)
  show ?case using Cons [of "s @ [x]"] by (simp add: capture_byte_part)
qed simp

lemma capture_push_oracle:
  assumes "captured limit s c"
  shows "capture_push b limit c = push_per_byte b limit c"
proof (rule BoundedCapture.equality)
  have parts: "cap_head (capture_push b limit c) = head_part limit (s @ b)"
    "cap_tail (capture_push b limit c) = tail_part limit (s @ b)"
    using capture_push_captured [OF assms] by (simp_all add: captured_def)
  have slow: "push_per_byte b limit c =
      \<lparr>cap_head = head_part limit (s @ b), cap_tail = tail_part limit (s @ b),
       cap_total_bytes = u64_saturating_add (cap_total_bytes c) (of_nat (length b)),
       cap_omitted_bytes = u64_saturating_sub (u64_saturating_add (cap_total_bytes c) (of_nat (length b)))
         (of_nat (length (head_part limit (s @ b)) + length (tail_part limit (s @ b))))\<rparr>"
    using assms fold_capture_byte [of limit b s] by (simp add: push_per_byte_def captured_def Let_def)
  show "cap_head (capture_push b limit c) = cap_head (push_per_byte b limit c)"
    "cap_tail (capture_push b limit c) = cap_tail (push_per_byte b limit c)"
    by (simp_all add: parts slow)
  show "cap_total_bytes (capture_push b limit c) = cap_total_bytes (push_per_byte b limit c)"
    by (simp add: slow capture_push_def Let_def split: prod.splits)
  have "cap_omitted_bytes (capture_push b limit c) = u64_saturating_sub
      (u64_saturating_add (cap_total_bytes c) (of_nat (length b)))
      (of_nat (length (cap_head (capture_push b limit c)) + length (cap_tail (capture_push b limit c))))"
    by (simp add: capture_push_def Let_def split: prod.splits)
  then show "cap_omitted_bytes (capture_push b limit c) = cap_omitted_bytes (push_per_byte b limit c)"
    by (simp add: parts slow)
qed simp

lemma captured_default: "captured limit [] BoundedCapture_default"
  by (simp add: captured_def head_part_def tail_part_def BoundedCapture_default_def lastn_def)

lemma capture_total:
  assumes "cap_total_bytes c = of_nat n" and "n + length b < 2 ^ 64"
  shows "cap_total_bytes (capture_push b limit c) = of_nat (n + length b)"
proof -
  have "unat (of_nat n :: u64) = n" "unat (of_nat (length b) :: u64) = length b"
    using assms(2) by (simp_all add: unat_of_nat)
  then show ?thesis
    using assms by (simp add: capture_push_def Let_def u64_saturating_add_def split: prod.splits)
qed

text \<open>The captures of a stream delivered in the given reads.\<close>

definition capture_all :: "nat \<Rightarrow> u8 list list \<Rightarrow> BoundedCapture" where
  "capture_all limit bs = fold (\<lambda>b. capture_push b limit) bs BoundedCapture_default"

lemma capture_all_snoc: "capture_all limit (bs @ [b]) = capture_push b limit (capture_all limit bs)"
  by (simp add: capture_all_def)

lemma capture_stream: "captured limit (concat bs) (capture_all limit bs)"
proof (induction bs rule: rev_induct)
  case Nil
  then show ?case using captured_default by (simp add: capture_all_def)
next
  case (snoc b bs)
  from capture_push_captured [OF snoc, of b] show ?case by (simp add: capture_all_snoc)
qed

lemma capture_stream_oracle:
  "fold (\<lambda>b. push_per_byte b limit) bs BoundedCapture_default = capture_all limit bs"
proof (induction bs rule: rev_induct)
  case (snoc b bs)
  then show ?case using capture_push_oracle [OF capture_stream, where b = b and limit = limit and bs1 = bs] by (simp add: capture_all_snoc)
qed (simp add: capture_all_def)

lemma capture_stream_total:
  "length (concat bs) < 2 ^ 64 \<Longrightarrow> cap_total_bytes (capture_all limit bs) = of_nat (length (concat bs))"
proof (induction bs rule: rev_induct)
  case (snoc b bs)
  then have "cap_total_bytes (capture_all limit bs) = of_nat (length (concat bs))" by simp
  from capture_total [OF this, of b limit] snoc.prems show ?case by (simp add: capture_all_snoc)
qed (simp add: capture_all_def BoundedCapture_default_def)

lemma omitted_value:
  "cap_omitted_bytes (capture_push b limit c) = u64_saturating_sub (cap_total_bytes (capture_push b limit c))
     (of_nat (length (cap_head (capture_push b limit c)) + length (cap_tail (capture_push b limit c))))"
  by (simp add: capture_push_def Let_def split: prod.splits)

lemma sub_of_nat:
  assumes "m \<le> n" "n < 2 ^ 64"
  shows "u64_saturating_sub (of_nat n) (of_nat m) = of_nat (n - m)"
proof -
  have "(of_nat m :: u64) \<le> of_nat n" using assms by (simp add: word_le_nat_alt unat_of_nat)
  then show ?thesis using assms by (simp add: u64_saturating_sub_def of_nat_diff)
qed

text \<open>C38: however a stream is cut into reads, the capture holds exactly the first half of its limit and the last
  bytes that fit the other half of the rest, never more than the limit, with an exact count of all and of the
  omitted bytes; and the bulk update agrees with the per-byte reference on every stream.\<close>

theorem capture_exact:
  assumes c: "c = fold (\<lambda>b. capture_push b limit) bs BoundedCapture_default"
  shows "fold (\<lambda>b. push_per_byte b limit) bs BoundedCapture_default = c
    \<and> cap_head c = take ((limit + 1) div 2) (concat bs)
    \<and> cap_tail c = lastn (limit div 2) (drop ((limit + 1) div 2) (concat bs))
    \<and> length (cap_head c) + length (cap_tail c) \<le> limit
    \<and> (length (concat bs) < 2 ^ 64 \<longrightarrow> cap_total_bytes c = of_nat (length (concat bs))
        \<and> cap_omitted_bytes c = of_nat (length (concat bs) - (length (cap_head c) + length (cap_tail c))))"
proof -
  have c': "c = capture_all limit bs" by (simp add: c capture_all_def)
  have tl: "tail_limit limit = limit div 2" by (simp add: tail_limit_def head_limit_def)
  have parts: "cap_head c = take ((limit + 1) div 2) (concat bs)"
    "cap_tail c = lastn (limit div 2) (drop ((limit + 1) div 2) (concat bs))"
    using capture_stream [of limit bs] by (simp_all add: c' captured_def head_part_def tail_part_def tl head_limit_def)
  have "cap_omitted_bytes c = of_nat (length (concat bs) - (length (cap_head c) + length (cap_tail c)))"
    if len: "length (concat bs) < 2 ^ 64"
  proof (cases bs rule: rev_cases)
    case Nil
    then show ?thesis by (simp add: c BoundedCapture_default_def)
  next
    case (snoc bs' b)
    have "cap_omitted_bytes c
        = u64_saturating_sub (of_nat (length (concat bs))) (of_nat (length (cap_head c) + length (cap_tail c)))"
      using omitted_value [of b limit "capture_all limit bs'"] capture_stream_total [OF len, of limit]
      by (simp only: c' snoc capture_all_snoc)
    moreover have "length (cap_head c) + length (cap_tail c) \<le> length (concat bs)"
      using parts by simp
    ultimately show ?thesis using len by (simp only: sub_of_nat)
  qed
  then show ?thesis
    using parts capture_stream_oracle [of limit bs] capture_stream_total [of bs limit] by (simp add: c')
qed

theorem capture_exact_witness:
  "cap_head (capture_push [4, 5, 6, 7] 4 (capture_push [1, 2, 3] 4 BoundedCapture_default)) = [1, 2]
   \<and> cap_tail (capture_push [4, 5, 6, 7] 4 (capture_push [1, 2, 3] 4 BoundedCapture_default)) = [6, 7]"
  using capture_exact [OF refl, of 4 "[[1, 2, 3], [4, 5, 6, 7]]", THEN conjunct2]
  by (simp add: lastn_def)

section \<open>Required isolation\<close>

text \<open>
  The contract of \<^verbatim>\<open>ExecutionSetup\<close>: what is required is applied or refused, and an applied control has a helper.
\<close>

locale execution_setup =
  fixes prepare :: "SandboxRequest \<Rightarrow> ResourceSetupRequest \<Rightarrow> RunnerError + SetupOutcome"
    and helper :: "string option"
  assumes sandbox_honoured:
      "prepare s r = Ok prepared \<Longrightarrow> sandbox_required s \<Longrightarrow> sandbox_applied (so_sandbox prepared)"
    and resources_honoured:
      "prepare s r = Ok prepared \<Longrightarrow> has_required r \<Longrightarrow> resources_applied (so_resources prepared)"
    and helper_present:
      "prepare s r = Ok prepared \<Longrightarrow> sandbox_applied (so_sandbox prepared) \<or> resources_applied (so_resources prepared)
        \<Longrightarrow> helper \<noteq> None"

text \<open>A launch that must use the helper and may not fall back spawns nothing but the helper.\<close>

lemma launch_required:
  assumes "launch io rq dir prepared = (r, cmds)" "\<not> optional_setup rq" "use_helper rq prepared (ro_helper io)"
    "ro_helper io = Some h"
  shows "(cmds = [] \<and> isl r) \<or>
    (\<exists>c unit spec. SandboxChannel_new (ro_fs io) (ro_channel io) rq dir (resources_applied (so_resources prepared)) = Ok spec
       \<and> wrap_resource_command (ro_sys io) (ro_nonce io) (channel_command (ro_channel io) h) (rq_resources rq)
           (so_resources prepared) = Ok (c, unit)
       \<and> cmds = [c]
       \<and> (\<forall>la. r = Ok la \<longrightarrow> SandboxChannel_wait (ro_handshake io) = Ok True \<and> la_setup la = prepared))"
  using assms unfolding launch_def
  by (auto simp: Let_def split: sum.splits prod.splits bool.splits SandboxWaitError.splits if_splits)

lemma run_result:
  assumes "run io rq = (res, cmds)"
  shows "(cmds = [] \<and> isl res) \<or> (\<exists>dir prepared r. RunnerRequest_validate (ro_fs io) rq = Ok dir
    \<and> ro_prepare io (rq_sandbox rq) (rq_resources rq) = Ok prepared \<and> launch io rq dir prepared = (r, cmds)
    \<and> (case r of Inl e \<Rightarrow> res = Inl e | Inr la \<Rightarrow> res = finish io rq la))"
  using assms unfolding run_def by (auto split: sum.splits prod.splits if_splits)

lemma finish_sandbox: "finish io rq la = Ok res \<Longrightarrow> so_sandbox (rs_setup res) = so_sandbox (la_setup la)"
  by (auto simp: finish_def and_then_def Let_def split: if_splits prod.splits sum.splits)

context execution_setup
begin

lemma run_required:
  assumes run: "run io rq = (res, cmds)" and io: "ro_prepare io = prepare" "ro_helper io = helper"
    and req: "sandbox_required (rq_sandbox rq) \<or> has_required (rq_resources rq)"
  shows "(cmds = [] \<and> isl res) \<or> (\<exists>dir prepared h c unit spec.
      RunnerRequest_validate (ro_fs io) rq = Ok dir \<and> prepare (rq_sandbox rq) (rq_resources rq) = Ok prepared
      \<and> helper = Some h
      \<and> SandboxChannel_new (ro_fs io) (ro_channel io) rq dir (resources_applied (so_resources prepared)) = Ok spec
      \<and> wrap_resource_command (ro_sys io) (ro_nonce io) (channel_command (ro_channel io) h) (rq_resources rq)
           (so_resources prepared) = Ok (c, unit)
      \<and> cmds = [c]
      \<and> (\<forall>out. res = Ok out \<longrightarrow> SandboxChannel_wait (ro_handshake io) = Ok True
           \<and> so_sandbox (rs_setup out) = so_sandbox prepared))"
  using run_result [OF run]
proof (elim disjE exE conjE)
  fix dir prepared r
  assume dir: "RunnerRequest_validate (ro_fs io) rq = Ok dir"
    and prep: "ro_prepare io (rq_sandbox rq) (rq_resources rq) = Ok prepared"
    and l: "launch io rq dir prepared = (r, cmds)"
    and res: "case r of Inl e \<Rightarrow> res = Inl e | Inr la \<Rightarrow> res = finish io rq la"
  have prep': "prepare (rq_sandbox rq) (rq_resources rq) = Ok prepared" using prep io by simp
  have app: "(rq_sandbox rq \<noteq> SandboxNone \<and> sandbox_applied (so_sandbox prepared)) \<or> resources_applied (so_resources prepared)"
    using req sandbox_honoured [OF prep'] resources_honoured [OF prep'] by (auto simp: sandbox_required_def)
  then obtain h where h: "helper = Some h" using helper_present [OF prep'] by auto
  have uses: "use_helper rq prepared (ro_helper io)" using app h io by (simp add: use_helper_def)
  have strict: "\<not> optional_setup rq" using req by (simp add: optional_setup_def)
  from launch_required [OF l strict uses] h io have
    "(cmds = [] \<and> isl r) \<or>
    (\<exists>c unit spec. SandboxChannel_new (ro_fs io) (ro_channel io) rq dir (resources_applied (so_resources prepared)) = Ok spec
       \<and> wrap_resource_command (ro_sys io) (ro_nonce io) (channel_command (ro_channel io) h) (rq_resources rq)
           (so_resources prepared) = Ok (c, unit)
       \<and> cmds = [c]
       \<and> (\<forall>la. r = Ok la \<longrightarrow> SandboxChannel_wait (ro_handshake io) = Ok True \<and> la_setup la = prepared))" by simp
  then show ?thesis
  proof (elim disjE exE conjE)
    assume "cmds = []" "isl r"
    then show ?thesis using res by (auto split: sum.splits)
  next
    fix c unit spec
    assume a: "SandboxChannel_new (ro_fs io) (ro_channel io) rq dir (resources_applied (so_resources prepared)) = Ok spec"
      "wrap_resource_command (ro_sys io) (ro_nonce io) (channel_command (ro_channel io) h) (rq_resources rq)
           (so_resources prepared) = Ok (c, unit)" "cmds = [c]"
      "\<forall>la. r = Ok la \<longrightarrow> SandboxChannel_wait (ro_handshake io) = Ok True \<and> la_setup la = prepared"
    have "SandboxChannel_wait (ro_handshake io) = Ok True \<and> so_sandbox (rs_setup out) = so_sandbox prepared"
      if "res = Ok out" for out
      using that res a(4) finish_sandbox [of io rq _ out] by (auto split: sum.splits)
    then show ?thesis using dir prep' h a(1-3) by blast
  qed
qed simp

end

lemma prepare_sandbox_required:
  "prepare_sandbox sys h s p = Ok outcome \<Longrightarrow> \<not> best_effort s
    \<Longrightarrow> outcome = OutcomeApplied p \<and> p = ''workspace_rw'' \<and> verify_trusted_helper sys h = Ok ()"
  by (auto simp: prepare_sandbox_def split: if_splits sum.splits)

lemma landlock_prepare_required:
  "landlock_prepare sys nonce h s r = Ok prepared \<Longrightarrow> sandbox_required s
    \<Longrightarrow> so_sandbox prepared = OutcomeApplied ''workspace_rw'' \<and> verify_trusted_helper sys h = Ok ()"
  by (auto simp: landlock_prepare_def and_then_def sandbox_required_def best_effort_def
        dest!: prepare_sandbox_required split: sum.splits SandboxRequest.splits)

lemma has_required_requested: "has_required r \<Longrightarrow> is_requested r"
  by (auto simp: has_required_def is_requested_def is_required_def split: Requirement.splits)

lemma prepare_resources_required:
  "prepare_resources sys nonce h r = Ok outcome \<Longrightarrow> has_required r \<Longrightarrow> resources_applied outcome"
  using has_required_requested [of r]
  by (auto simp: prepare_resources_def and_then_def resources_applied_def split: sum.splits if_splits)

interpretation landlock: execution_setup "landlock_prepare sys nonce h" "Some h"
proof
  fix s r prepared
  assume "landlock_prepare sys nonce h s r = Ok prepared" "sandbox_required s"
  then show "sandbox_applied (so_sandbox prepared)" using landlock_prepare_required by (simp add: sandbox_applied_def)
next
  fix s r prepared
  assume "landlock_prepare sys nonce h s r = Ok prepared" "has_required r"
  then show "resources_applied (so_resources prepared)"
    by (auto simp: landlock_prepare_def and_then_def dest: prepare_resources_required split: sum.splits)
qed simp

interpretation no_setup: execution_setup no_setup_prepare None
  by unfold_locales
    (auto simp: no_setup_prepare_def sandbox_applied_def resources_applied_def
      split: if_splits SandboxRequest.splits)

text \<open>The helper confirms twice only after every check, and runs the target it was given.\<close>

lemma start_target_confirmed:
  assumes "ho_status (start_target io spec rules) = 1 # 1 # r"
  shows "ho_target (start_target io spec rules) = Some (target_command spec)
    \<and> ho_rules (start_target io spec rules) = rules"
  using assms by (auto simp: start_target_def gives_up_def Let_def split: if_splits option.splits)

lemma helper_confirmed:
  assumes args: "he_args io = [''--spec'', path, ''--status'', status]"
    and st: "ho_status (helper_run io) = 1 # 1 # r"
  shows "\<exists>spec. read_spec io path = Ok spec \<and> verify_resource_limits io spec
    \<and> ho_target (helper_run io) = Some (target_command spec)
    \<and> (ls_profile spec \<noteq> None \<longrightarrow> (\<exists>rules. restrict io (ls_root spec) = Ok rules \<and> ho_rules (helper_run io) = Some rules))"
proof (cases "read_spec io path")
  case (Inl code)
  then show ?thesis using st args by (simp add: helper_run_def gives_up_def split: if_splits)
next
  case (Inr spec)
  consider "\<not> verify_resource_limits io spec"
    | "verify_resource_limits io spec" "helper_run io = start_target io spec None" "ls_profile spec = None"
    | code where "verify_resource_limits io spec" "helper_run io = gives_up (if he_status_write io 0 then [code] else []) None None"
    | rules where "verify_resource_limits io spec" "restrict io (ls_root spec) = Ok rules"
        "helper_run io = start_target io spec (Some rules)"
    using Inr args st
    by (cases "restrict io (ls_root spec)"; cases "ls_profile spec")
      (auto simp: helper_run_def gives_up_def split: if_splits)
  then show ?thesis
  proof cases
    case 1
    then show ?thesis using Inr st args by (simp add: helper_run_def gives_up_def split: if_splits)
  next
    case 2
    then show ?thesis using Inr st start_target_confirmed [of io spec None r] by simp
  next
    case 3
    then show ?thesis using st by (simp add: gives_up_def split: if_splits)
  next
    case 4
    then show ?thesis using Inr st start_target_confirmed [of io spec "Some rules" r] by simp
  qed
qed

definition writable :: "access \<Rightarrow> bool" where
  "writable a \<longleftrightarrow> a = AccessAll \<or> a = AccessReadWriteFile"

lemma restrict_writable:
  "restrict io root = Ok rules \<Longrightarrow> list_all (\<lambda>(p, a). writable a \<longrightarrow> p = root \<or> p = [''dev'', ''null'']) rules"
  by (auto simp: restrict_def landlock_rules_def writable_def Let_def split: if_splits option.splits)

lemma wait_confirmed:
  "SandboxChannel_wait h = Ok True \<Longrightarrow> hs_status h = TimedOk 1 \<and> hs_spawned h = TimedOk 1"
  by (cases "hs_accept h"; cases "hs_status h"; cases "hs_spawned h")
    (auto simp: SandboxChannel_wait_def split: if_splits)

lemma channel_new_spec:
  assumes "SandboxChannel_new fs io rq dir applied = Ok spec"
  shows "\<exists>profile root. channel_profile rq = Ok profile \<and> rf_canonicalize fs (rq_root rq) = Ok root
    \<and> spec = launch_spec rq profile root dir applied"
  using assms by (auto simp: SandboxChannel_new_def and_then_def Let_def split: sum.splits if_splits option.splits)

text \<open>
  The commands that start the helper, directly or in a transient unit, and the link between the two
  processes: the helper is started with the arguments of the command, a specification it decodes is the one the
  runner wrote, and the bytes the runner reads are those the helper wrote.
\<close>

definition starts_helper :: "string \<Rightarrow> string list \<Rightarrow> cmd \<Rightarrow> bool" where
  "starts_helper h args c \<longleftrightarrow> (cm_program c = h \<and> cm_args c = args) \<or> suffix (''--'' # h # args) (cm_args c)"

definition written_spec :: "run_io \<Rightarrow> RunnerRequest \<Rightarrow> SandboxLaunchSpec option" where
  "written_spec io rq =
     (case (RunnerRequest_validate (ro_fs io) rq, ro_prepare io (rq_sandbox rq) (rq_resources rq)) of
        (Inr dir, Inr prepared) \<Rightarrow>
          (case SandboxChannel_new (ro_fs io) (ro_channel io) rq dir (resources_applied (so_resources prepared)) of
             Inr spec \<Rightarrow> Some spec | Inl _ \<Rightarrow> None)
      | _ \<Rightarrow> None)"

definition decoded_spec :: "helper_io \<Rightarrow> string \<Rightarrow> SandboxLaunchSpec option" where
  "decoded_spec hio path = Option.bind (he_read hio path) (\<lambda>bytes. he_from_slice hio (take (MAX_SPEC_BYTES + 1) bytes))"

definition helper_args :: "run_io \<Rightarrow> string list" where
  "helper_args io = [''--spec'', hi_spec_path (ro_channel io), ''--status'', hi_status_path (ro_channel io)]"

definition linked :: "run_io \<Rightarrow> RunnerRequest \<Rightarrow> helper_io \<Rightarrow> bool" where
  "linked io rq hio \<longleftrightarrow> he_args hio = helper_args io
     \<and> (written_spec io rq \<noteq> None \<longrightarrow>
          decoded_spec hio (hi_spec_path (ro_channel io)) = None
          \<or> decoded_spec hio (hi_spec_path (ro_channel io)) = written_spec io rq)
     \<and> (case hs_status (ro_handshake io) of TimedOk b \<Rightarrow> prefix [b] (ho_status (helper_run hio)) | _ \<Rightarrow> True)
     \<and> (case hs_spawned (ro_handshake io) of
          TimedOk b \<Rightarrow> length (ho_status (helper_run hio)) \<ge> 2 \<and> ho_status (helper_run hio) ! 1 = b | _ \<Rightarrow> True)"

lemma read_spec_decoded: "read_spec io path = Ok spec \<Longrightarrow> decoded_spec io path = Some spec"
  by (auto simp: read_spec_def decoded_spec_def split: option.splits if_splits prod.splits)

text \<open>When the runner saw both confirmations, the helper started the target of the written specification.\<close>

lemma linked_confirmed:
  assumes l: "linked io rq hio" and w: "SandboxChannel_wait (ro_handshake io) = Ok True"
    and spec: "written_spec io rq = Some spec"
  shows "verify_resource_limits hio spec \<and> ho_target (helper_run hio) = Some (target_command spec)
    \<and> (ls_profile spec \<noteq> None \<longrightarrow>
         (\<exists>rules. restrict hio (ls_root spec) = Ok rules \<and> ho_rules (helper_run hio) = Some rules))"
proof -
  let ?p = "hi_spec_path (ro_channel io)"
  have args: "he_args hio = [''--spec'', ?p, ''--status'', hi_status_path (ro_channel io)]"
    using l by (simp add: linked_def helper_args_def)
  have pre: "prefix [1] (ho_status (helper_run hio))" "length (ho_status (helper_run hio)) \<ge> 2"
    "ho_status (helper_run hio) ! 1 = 1" using l wait_confirmed [OF w] by (simp_all add: linked_def)
  then obtain r where st: "ho_status (helper_run hio) = 1 # 1 # r"
    by (cases "ho_status (helper_run hio)"; cases "tl (ho_status (helper_run hio))") auto
  from helper_confirmed [OF args st] obtain s where s: "read_spec hio ?p = Ok s" "verify_resource_limits hio s"
    "ho_target (helper_run hio) = Some (target_command s)"
    "ls_profile s \<noteq> None \<longrightarrow> (\<exists>rules. restrict hio (ls_root s) = Ok rules \<and> ho_rules (helper_run hio) = Some rules)"
    by blast
  have "s = spec" using l read_spec_decoded [OF s(1)] spec by (simp add: linked_def)
  then show ?thesis using s by simp
qed

lemma set_env_fold_keeps:
  "cm_program (fold (\<lambda>(k, v). set_env k v) env c) = cm_program c
   \<and> cm_args (fold (\<lambda>(k, v). set_env k v) env c) = cm_args c"
  by (induction env arbitrary: c) (auto simp: set_env_def)

lemma wrap_starts_helper:
  assumes "wrap_resource_command sys nonce (channel_command cio h) r outcome = Ok (c, unit)"
  shows "starts_helper h [''--spec'', hi_spec_path cio, ''--status'', hi_status_path cio] c"
proof -
  have "suffix (''--'' # cm_program inner # cm_args inner) (cm_args c)"
    if "systemd_wrap sys nonce b inner r = Ok (c, u)" for b inner u
    using that set_env_fold_keeps
    by (auto simp: systemd_wrap_def set_env_def suffix_def Let_def split: option.splits)
  then show ?thesis using assms
    by (fastforce simp: wrap_resource_command_def starts_helper_def and_then_def channel_command_def
        split: if_splits sum.splits)
qed

lemma written_spec_required:
  assumes "SandboxChannel_new fs cio rq dir applied = Ok spec" "sandbox_required (rq_sandbox rq)"
  shows "ls_profile spec = Some ''workspace_rw'' \<and> ls_argv spec = rq_argv rq \<and> ls_cwd spec = dir
    \<and> rf_canonicalize fs (rq_root rq) = Ok (ls_root spec)"
  using channel_new_spec [OF assms(1)] assms(2)
  by (auto simp: launch_spec_def channel_profile_def sandbox_required_def split: SandboxRequest.splits if_splits)

end
