(* ===== verification/Runner_Env.thy ===== *)
theory Runner_Env
  imports Runner_Props
begin

text \<open>
  The environment of a target: the direct launch and the launch through the sandbox helper give the same one,
  and when the helper refuses. The last section is a concrete run with required isolation.
\<close>

section \<open>The environment of the target\<close>

lemma fold_bt_insert:
  "bt_invar m \<Longrightarrow> bt_invar (fold (\<lambda>(k, v). bt_insert k v) es m)
     \<and> map_of (fold (\<lambda>(k, v). bt_insert k v) es m) = map_of m ++ map_of (rev es)"
proof (induction es arbitrary: m)
  case (Cons e es)
  then show ?case using bt_insert_invar [of m "fst e" "snd e"]
    by (cases e) (auto simp: bt_insert_lookup fun_eq_iff map_add_def split: option.splits)
qed simp

lemma bt_invar_Nil: "bt_invar []"
  by (simp add: bt_invar_def)

lemma fold_bt_insert_invar: "bt_invar (fold (\<lambda>(k, v). bt_insert k v) es [])"
  by (rule fold_bt_insert [THEN conjunct1]) (simp add: bt_invar_def)

lemma fold_bt_insert_set: "set (fold (\<lambda>(k, v). bt_insert k v) es m) \<subseteq> set m \<union> set es"
proof (induction es arbitrary: m)
  case (Cons e es)
  have "set (bt_insert k v m) \<subseteq> insert (k, v) (set m)" for k v by (induction m) auto
  then show ?case using Cons [of "bt_insert (fst e) (snd e) m"] by (cases e) auto
qed simp

text \<open>The same variables, each named once, give the same map in any order.\<close>

lemma fold_bt_insert_same:
  assumes "bt_invar m" "set es = set (m @ fs)" "distinct (map fst es)" "distinct (map fst (m @ fs))"
  shows "fold (\<lambda>(k, v). bt_insert k v) es [] = fold (\<lambda>(k, v). bt_insert k v) fs m"
proof (rule bt.entries_ext)
  show "bt_invar (fold (\<lambda>(k, v). bt_insert k v) es [])" by (rule fold_bt_insert_invar)
  show "bt_invar (fold (\<lambda>(k, v). bt_insert k v) fs m)" using fold_bt_insert [OF assms(1)] by simp
  have "map_of (rev es) k = (map_of m ++ map_of (rev fs)) k" for k
  proof (cases "map_of (rev es) k")
    case None
    then have "k \<notin> fst ` set es" by (simp add: map_of_eq_None_iff)
    then have "k \<notin> fst ` set m" "k \<notin> fst ` set fs" by (simp_all add: assms(2) image_Un)
    then have "map_of m k = None" "map_of (rev fs) k = None" by (simp_all add: map_of_eq_None_iff)
    then show ?thesis using None by (simp add: map_add_def)
  next
    case (Some v)
    then have "(k, v) \<in> set (m @ fs)" using map_of_SomeD [OF Some] assms(2) by simp
    then consider "(k, v) \<in> set m" | "(k, v) \<in> set fs" by auto
    then have "(map_of m ++ map_of (rev fs)) k = Some v"
    proof cases
      case 1
      have disj: "fst ` set m \<inter> fst ` set fs = {}" using assms(4) by simp
      have "k \<in> fst ` set m" using 1 by (rule rev_image_eqI) simp
      then have "k \<notin> fst ` set fs" using disj by blast
      then have "map_of m k = Some v" "map_of (rev fs) k = None"
        using 1 assms(4) by (simp_all add: map_of_eq_None_iff)
      then show ?thesis by (simp add: map_add_def)
    next
      case 2
      then have "map_of (rev fs) k = Some v" using assms(4) by (simp add: rev_map [symmetric])
      then show ?thesis by simp
    qed
    then show ?thesis using Some by simp
  qed
  then show "map_of (fold (\<lambda>(k, v). bt_insert k v) es []) = map_of (fold (\<lambda>(k, v). bt_insert k v) fs m)"
    using assms(1) fold_bt_insert [of "[]" es] fold_bt_insert [of m fs] by (simp add: bt_invar_def fun_eq_iff)
qed

lemma launch_environment_split:
  "launch_environment rq = (''PATH'', ''/usr/bin:/bin'') # tl (launch_environment rq)"
  "set (launch_environment rq) = set (baseline_child_environment @ allowed_environment rq @ provenance_environment (rq_provenance rq))"
  "length (launch_environment rq) = length (baseline_child_environment @ allowed_environment rq @ provenance_environment (rq_provenance rq))"
  by (auto simp: launch_environment_def baseline_child_environment_def)

lemma launch_environment_mset:
  "mset (launch_environment rq)
   = mset (baseline_child_environment @ allowed_environment rq @ provenance_environment (rq_provenance rq))"
  by (simp add: launch_environment_def baseline_child_environment_def)

lemma launch_environment_distinct:
  "distinct (map fst (launch_environment rq))
   \<longleftrightarrow> distinct (map fst (baseline_child_environment @ allowed_environment rq @ provenance_environment (rq_provenance rq)))"
  by (rule mset_eq_imp_distinct_iff) (simp only: mset_map launch_environment_mset)

lemma target_environment:
  assumes d: "distinct (map fst (launch_environment rq))"
  shows "cm_env (target_command (launch_spec rq p root dir applied)) = cm_env (direct_command rq dir)"
proof -
  let ?L = "tl (launch_environment rq)"
  have dl: "distinct (map fst ((''PATH'', ''/usr/bin:/bin'') # ?L))"
    using d by (simp only: launch_environment_split(1) [symmetric])
  then have no_path: "''PATH'' \<notin> fst ` set ?L" by simp
  have "filter (\<lambda>(k, _). k \<noteq> ''PATH'') (launch_environment rq) = ?L"
    using no_path by (subst launch_environment_split(1)) (force simp: filter_id_conv)
  then have "cm_env (target_command (launch_spec rq p root dir applied))
      = fold (\<lambda>(k, v). bt_insert k v) ?L [(''PATH'', ''/usr/bin:/bin'')]"
    by (simp add: target_command_def launch_spec_def)
  also have "\<dots> = cm_env (direct_command rq dir)"
    unfolding direct_command_def cmd.simps
    using dl d launch_environment_split(1,2) [of rq]
    by (intro fold_bt_insert_same [symmetric])
      (auto simp: bt_invar_def launch_environment_distinct)
  finally show ?thesis .
qed

definition provenance_bounded :: "ExecutionProvenance \<Rightarrow> bool" where
  "provenance_bounded p \<longleftrightarrow>
     (case pv_execution_id p of Some i \<Rightarrow> length i \<le> MAX_ENV_VALUE_BYTES \<and> nul \<notin> set i | None \<Rightarrow> True)"

text \<open>What the helper asks of one variable.\<close>

definition spec_variable_ok :: "string \<times> string \<Rightarrow> bool" where
  "spec_variable_ok e \<longleftrightarrow> (case e of (k, v) \<Rightarrow>
     k \<noteq> [] \<and> length k \<le> MAX_ENV_NAME_BYTES \<and> length v \<le> MAX_ENV_VALUE_BYTES
     \<and> CHR ''='' \<notin> set k \<and> nul \<notin> set k \<and> nul \<notin> set v
     \<and> \<not> (denied_environment_key k \<and> k \<noteq> ''PATH'') \<and> \<not> (k = ''PATH'' \<and> v \<noteq> ''/usr/bin:/bin''))"

lemma spec_environment_ok_split:
  "spec_environment_ok env \<longleftrightarrow> length env \<le> MAX_ENV_COUNT \<and> list_all spec_variable_ok env \<and> distinct (map fst env)"
proof -
  have "(\<lambda>(k, v). k \<noteq> [] \<and> length k \<le> MAX_ENV_NAME_BYTES \<and> length v \<le> MAX_ENV_VALUE_BYTES
           \<and> CHR ''='' \<notin> set k \<and> nul \<notin> set k \<and> nul \<notin> set v
           \<and> \<not> (denied_environment_key k \<and> k \<noteq> ''PATH'') \<and> \<not> (k = ''PATH'' \<and> v \<noteq> ''/usr/bin:/bin''))
        = spec_variable_ok" by (simp add: spec_variable_ok_def fun_eq_iff)
  then show ?thesis by (simp add: spec_environment_ok_def)
qed

lemma baseline_denied:
  "list_all (\<lambda>(k, v). denied_environment_key k \<longrightarrow> k = ''PATH'' \<and> v = ''/usr/bin:/bin'') baseline_child_environment"
  by code_simp

lemma baseline_variables_ok: "list_all spec_variable_ok baseline_child_environment"
  using baseline_denied
  by (simp add: baseline_child_environment_def spec_variable_ok_def MAX_ENV_NAME_BYTES_def MAX_ENV_VALUE_BYTES_def nul_def)

lemma provenance_names_ok:
  "\<not> denied_environment_key ''EGGWORK_EXECUTION_ID'' \<and> \<not> denied_environment_key ''EGGWORK_EXECUTION_GENERATION''"
  by code_simp

lemma decimal_length: "n < 10 ^ Suc k \<Longrightarrow> length (decimal n) \<le> Suc k"
proof (induction k arbitrary: n)
  case (Suc k)
  then have "n div 10 < 10 ^ Suc k" by (simp add: div_less_iff_less_mult)
  from Suc.IH [OF this] show ?case by (subst decimal.simps) simp
qed (simp add: decimal.simps)

lemma generation_text: "length (decimal (unat (g :: u64))) \<le> MAX_ENV_VALUE_BYTES \<and> nul \<notin> set (decimal (unat g))"
proof
  have "unat g < 2 ^ LENGTH(64)" by (rule unsigned_less)
  also have "\<dots> < 10 ^ Suc 19" by simp
  finally have "length (decimal (unat g)) \<le> Suc 19" by (rule decimal_length)
  then show "length (decimal (unat g)) \<le> MAX_ENV_VALUE_BYTES" by (simp add: MAX_ENV_VALUE_BYTES_def)
  show "nul \<notin> set (decimal (unat g))"
  proof -
    have "\<not> is_ascii_digit nul" by code_simp
    then show ?thesis using decimal_digits [of "unat g"] by (auto simp: list_all_iff)
  qed
qed

lemma provenance_variables_ok:
  assumes "provenance_bounded p"
  shows "list_all spec_variable_ok (provenance_environment p)"
  using assms provenance_names_ok generation_text
  by (auto simp: provenance_environment_def provenance_bounded_def spec_variable_ok_def MAX_ENV_NAME_BYTES_def nul_def
      split: option.splits)

lemma allowed_variables_ok:
  assumes "environment_accepted (rq_environment rq)"
  shows "list_all spec_variable_ok (allowed_environment rq)"
proof -
  have "denied_environment_key ''PATH''" by code_simp
  then show ?thesis using assms
    by (fastforce simp: environment_accepted_def allowed_environment_def spec_variable_ok_def list_all_iff)
qed

lemma spec_environment_ok_iff:
  assumes "environment_accepted (rq_environment rq)" "provenance_bounded (rq_provenance rq)"
  shows "list_all spec_variable_ok (baseline_child_environment @ allowed_environment rq @ provenance_environment (rq_provenance rq))"
    and "spec_environment_ok (launch_environment rq) \<longleftrightarrow>
            distinct (map fst (baseline_child_environment @ allowed_environment rq @ provenance_environment (rq_provenance rq)))
            \<and> length (launch_environment rq) \<le> MAX_ENV_COUNT"
proof -
  let ?D = "baseline_child_environment @ allowed_environment rq @ provenance_environment (rq_provenance rq)"
  show ok: "list_all spec_variable_ok ?D"
    using baseline_variables_ok allowed_variables_ok [OF assms(1)] provenance_variables_ok [OF assms(2)] by simp
  then have "list_all spec_variable_ok (launch_environment rq)"
    by (simp only: list_all_iff launch_environment_split(2))
  then show "spec_environment_ok (launch_environment rq) \<longleftrightarrow>
      distinct (map fst ?D) \<and> length (launch_environment rq) \<le> MAX_ENV_COUNT"
    by (simp only: spec_environment_ok_split launch_environment_distinct) blast
qed

text \<open>C36: The sandboxed and the direct launch give the target the same environment, or none at all. For a
  request whose variables and provenance are within bounds, the helper accepts the environment of the launch
  specification exactly when no name occurs twice among the baseline, the allowed variables of the request and
  the provenance and there are at most \<open>MAX_ENV_COUNT\<close> of them; then the target's environment is the one
  the direct launch builds. In either launch a variable with a denied name is \<^verbatim>\<open>PATH\<close> with its fixed value.\<close>

theorem target_environment_agrees:
  assumes env: "environment_accepted (rq_environment rq)" and prov: "provenance_bounded (rq_provenance rq)"
  shows "(spec_environment_ok (launch_environment rq) \<longleftrightarrow>
            distinct (map fst (baseline_child_environment @ allowed_environment rq @ provenance_environment (rq_provenance rq)))
            \<and> length (launch_environment rq) \<le> MAX_ENV_COUNT)
    \<and> (spec_environment_ok (launch_environment rq) \<longrightarrow>
         cm_env (target_command (launch_spec rq p root dir applied)) = cm_env (direct_command rq dir))
    \<and> list_all (\<lambda>(k, v). denied_environment_key k \<longrightarrow> k = ''PATH'' \<and> v = ''/usr/bin:/bin'') (cm_env (direct_command rq dir))"
proof -
  let ?D = "baseline_child_environment @ allowed_environment rq @ provenance_environment (rq_provenance rq)"
  note ok = spec_environment_ok_iff [OF env prov]
  have "set (cm_env (direct_command rq dir)) \<subseteq> set ?D"
    using fold_bt_insert_set [of ?D "[]"] by (simp add: direct_command_def)
  then have "list_all (\<lambda>(k, v). denied_environment_key k \<longrightarrow> k = ''PATH'' \<and> v = ''/usr/bin:/bin'') (cm_env (direct_command rq dir))"
    using ok(1) by (fastforce simp: list_all_iff spec_variable_ok_def)
  moreover have "cm_env (target_command (launch_spec rq p root dir applied)) = cm_env (direct_command rq dir)"
    if "spec_environment_ok (launch_environment rq)"
    using that target_environment by (simp add: spec_environment_ok_split)
  ultimately show ?thesis using ok(2) by blast
qed

text \<open>A request that sets the locale: the direct launch overrides the baseline, the helper refuses.\<close>

definition sample_run_request :: "(string \<times> string) list \<Rightarrow> RunnerRequest" where
  "sample_run_request env = (RunnerRequest_new [''/usr/bin/make'', ''check''] ''/ws'')
     \<lparr>rq_environment := env, rq_sandbox := SandboxRequired ''workspace_rw'',
      rq_provenance := \<lparr>pv_execution_id = Some ''e-1'', pv_generation = Some 3\<rparr>\<rparr>"

lemma sample_allowed:
  "allowed_environment (sample_run_request [(''LANG'', ''de_DE'')]) = [(''LANG'', ''de_DE'')]"
  "allowed_environment (sample_run_request [(''MODE'', ''fast'')]) = [(''MODE'', ''fast'')]"
proof -
  have "\<not> denied_environment_key ''LANG''" "\<not> denied_environment_key ''MODE''" by code_simp+
  then show "allowed_environment (sample_run_request [(''LANG'', ''de_DE'')]) = [(''LANG'', ''de_DE'')]"
    "allowed_environment (sample_run_request [(''MODE'', ''fast'')]) = [(''MODE'', ''fast'')]"
    by (simp_all add: allowed_environment_def sample_run_request_def)
qed

lemma sample_provenance:
  "map fst (provenance_environment (rq_provenance (sample_run_request env)))
   = [''EGGWORK_EXECUTION_ID'', ''EGGWORK_EXECUTION_GENERATION'']"
  by (simp add: provenance_environment_def sample_run_request_def)

lemma locale_variable_refused:
  "\<not> spec_environment_ok (launch_environment (sample_run_request [(''LANG'', ''de_DE'')]))
   \<and> map_of (cm_env (direct_command (sample_run_request [(''LANG'', ''de_DE'')]) [''ws''])) ''LANG'' = Some ''de_DE''"
proof
  show "\<not> spec_environment_ok (launch_environment (sample_run_request [(''LANG'', ''de_DE'')]))"
    by (simp add: spec_environment_ok_split launch_environment_def sample_allowed)
  have "map_of (rev (provenance_environment (rq_provenance (sample_run_request [(''LANG'', ''de_DE'')])))) ''LANG'' = None"
    by (simp add: provenance_environment_def sample_run_request_def)
  then show "map_of (cm_env (direct_command (sample_run_request [(''LANG'', ''de_DE'')]) [''ws''])) ''LANG'' = Some ''de_DE''"
    by (simp only: direct_command_def cmd.simps fold_bt_insert [OF bt_invar_Nil, THEN conjunct2])
      (simp add: sample_allowed map_add_def)
qed

theorem target_environment_agrees_witness:
  "environment_accepted [(''MODE'', ''fast'')]
   \<and> spec_environment_ok (launch_environment (sample_run_request [(''MODE'', ''fast'')]))
   \<and> cm_env (target_command (launch_spec (sample_run_request [(''MODE'', ''fast'')]) (Some ''workspace_rw'') [''ws''] [''ws''] False))
     = cm_env (direct_command (sample_run_request [(''MODE'', ''fast'')]) [''ws''])"
proof -
  let ?rq = "sample_run_request [(''MODE'', ''fast'')]"
  have env: "environment_accepted [(''MODE'', ''fast'')]"
    by (simp add: environment_accepted_def MAX_ENV_COUNT_def MAX_ENV_NAME_BYTES_def MAX_ENV_VALUE_BYTES_def nul_def)
  have rq: "rq_environment ?rq = [(''MODE'', ''fast'')]" by (simp add: sample_run_request_def)
  have prov: "provenance_bounded (rq_provenance ?rq)"
    by (simp add: sample_run_request_def provenance_bounded_def MAX_ENV_VALUE_BYTES_def nul_def)
  have dist: "distinct (map fst (baseline_child_environment @ allowed_environment ?rq @ provenance_environment (rq_provenance ?rq)))"
    by (simp add: sample_allowed sample_provenance baseline_child_environment_def)
  have "length (provenance_environment (rq_provenance ?rq)) = 2"
    using arg_cong [OF sample_provenance, of length] by simp
  then have "length (launch_environment ?rq) = 11" by (simp add: launch_environment_def sample_allowed)
  then have len: "length (launch_environment ?rq) \<le> MAX_ENV_COUNT" by (simp add: MAX_ENV_COUNT_def)
  have "environment_accepted (rq_environment ?rq)" using env rq by simp
  note agrees = target_environment_agrees [OF this prov, of "Some ''workspace_rw''" "[''ws'']" "[''ws'']" False]
  have "spec_environment_ok (launch_environment ?rq)" using agrees dist len by (simp only:)
  then show ?thesis using agrees env by (simp only:)
qed

section \<open>Admitted specifications and the runner\<close>

lemma wf_environment_accepted:
  "wf_environment es \<Longrightarrow> environment_accepted (map (\<lambda>e. (env_name e, env_value e)) es)"
proof -
  have "\<not> is_ascii_alphanumeric (CHR ''='')" by code_simp
  then show "wf_environment es \<Longrightarrow> ?thesis"
    by (auto simp: wf_environment_def environment_accepted_def list_all_iff EnvironmentEntry_new_Ok)
qed

lemma argv_accepted_iff: "wf_command c \<Longrightarrow> argv_accepted (argv c) \<longleftrightarrow> [] \<notin> set (argv c)"
  by (auto simp: wf_command_def argv_accepted_def list_all_iff)

text \<open>What remains of the validation of a request derived from a valid specification.\<close>

lemma from_spec_validated:
  assumes "from_spec spec root provenance = Ok rq"
  shows "wf_command (command spec) \<and> rq_argv rq = argv (command spec) \<and> rq_root rq = root
    \<and> environment_accepted (rq_environment rq) \<and> rq_capture_limit rq \<le> MAX_CAPTURE_BYTES
    \<and> 0 < rq_event_chunk_bytes rq \<and> rq_event_chunk_bytes rq \<le> MAX_EVENT_CHUNK_BYTES
    \<and> 0 < rq_timeout rq \<and> rq_timeout rq \<le> MAX_TIMEOUT_MILLIS
    \<and> (case rq_stdin rq of Bytes v \<Rightarrow> length v \<le> MAX_STDIN_BYTES | Null \<Rightarrow> True)"
proof -
  have "wf_command (command spec)" using assms
    by (auto simp: from_spec_def result_simps split: sum.splits)
  then show ?thesis using assms wf_environment_accepted [of "environment (command spec)"]
    by (auto simp: from_spec_def Let_def wf_command_def wf_output_def wf_stdin_def split: sum.splits StdinPolicy.splits)
qed

text \<open>C40: Of a specification the core validator accepted, the runner's own validation refuses an empty
  argument and nothing else that it could have known: without one, the request fails only when the execution
  root or the working directory does not resolve, and when it passes, the working directory is a directory at
  or below the canonical root.\<close>

theorem admitted_spec_validates:
  assumes "from_spec spec root provenance = Ok rq"
  shows "([] \<in> set (argv (command spec)) \<longrightarrow>
           RunnerRequest_validate fs rq = Err (InvalidRequest ''argv is empty or contains an empty/NUL entry''))
    \<and> ([] \<notin> set (argv (command spec)) \<longrightarrow>
         (case RunnerRequest_validate fs rq of
            Inl e \<Rightarrow> (\<exists>m. e = InvalidRoot m \<or> e = InvalidWorkingDirectory m)
          | Inr dir \<Rightarrow> \<exists>top. rf_canonicalize fs root = Ok top \<and> prefix top dir \<and> rf_is_dir fs dir))"
proof -
  note v = from_spec_validated [OF assms]
  have a: "argv_accepted (rq_argv rq) \<longleftrightarrow> [] \<notin> set (argv (command spec))" using v argv_accepted_iff by simp
  have "\<not> (case rq_stdin rq of Bytes v \<Rightarrow> length v > MAX_STDIN_BYTES | Null \<Rightarrow> False)"
    using v by (cases "rq_stdin rq") auto
  then show ?thesis using v a
    by (auto simp: RunnerRequest_validate_def split: sum.splits option.splits if_splits)
qed

definition sample_exec_spec :: "string list \<Rightarrow> ExecutionSpec" where
  "sample_exec_spec args = \<lparr>es_schema_version = 1,
     command = \<lparr>argv = args, cwd = None, environment = [], stdin = Null, timeout_millis = 1000,
       cs_output = \<lparr>capture_limit_bytes = 1024, event_chunk_bytes = 512, overflow = Truncate\<rparr>,
       declared_outputs = [],
       resources = \<lparr>memory_bytes = NotRequested, cpu_millis = NotRequested, pids = NotRequested\<rparr>,
       isolation = IsolationNone, network = Unrestricted\<rparr>,
     metadata = []\<rparr>"

theorem admitted_spec_validates_witness:
  "\<exists>rq. from_spec (sample_exec_spec [''true'', []]) ''/ws'' \<lparr>pv_execution_id = None, pv_generation = None\<rparr> = Ok rq
     \<and> RunnerRequest_validate \<lparr>rf_canonicalize = (\<lambda>_. Ok []), rf_join = (\<lambda>r _. Ok r), rf_is_dir = (\<lambda>_. True)\<rparr> rq = Err (InvalidRequest ''argv is empty or contains an empty/NUL entry'')"
proof -
  have ok: "ExecutionSpec_validate (sample_exec_spec [''true'', []]) = Ok ()"
    by (simp add: result_simps wf_command_def wf_environment_def wf_stdin_def wf_output_def wf_metadata_def
        requirement_in_range_def sample_exec_spec_def MAX_ARG_COUNT_def MAX_ARG_BYTES_def MAX_OUTPUTS_def
        MAX_TIMEOUT_MILLIS_def MAX_CAPTURE_BYTES_def MAX_EVENT_CHUNK_BYTES_def MAX_METADATA_COUNT_def
        MAX_ENV_COUNT_def nul_def)
  then obtain rq where rq: "from_spec (sample_exec_spec [''true'', []]) ''/ws''
      \<lparr>pv_execution_id = None, pv_generation = None\<rparr> = Ok rq" by (auto simp: from_spec_def Let_def)
  show ?thesis using admitted_spec_validates [OF rq] rq by (simp add: sample_exec_spec_def)
qed

section \<open>Required isolation, runner and helper together\<close>



text \<open>A node with a trusted helper, and the helper it starts.\<close>

definition sample_request :: RunnerRequest where
  "sample_request = sample_run_request [(''MODE'', ''fast'')]"

definition sample_meta :: "bool \<Rightarrow> file_meta" where
  "sample_meta dir = \<lparr>fm_is_file = \<not> dir, fm_is_dir = dir, fm_is_symlink = False, fm_uid = 0, fm_mode = 493\<rparr>"

definition sample_sys :: sys_env where
  "sample_sys = \<lparr>se_canonicalize = (\<lambda>_. None), se_symlink_metadata = (\<lambda>_. Some (sample_meta False)),
     se_parent = (\<lambda>_. Some [''opt'']), se_metadata = (\<lambda>_. Some (sample_meta True)), se_euid = 1000, se_pid = 7,
     se_var = (\<lambda>_. None), se_probe = (\<lambda>_. WaitSpawnFailed), se_landlock = True\<rparr>"

definition sample_runner_fs :: runner_fs where
  "sample_runner_fs = \<lparr>rf_canonicalize = (\<lambda>_. Ok [''ws'']), rf_join = (\<lambda>root _. Ok root), rf_is_dir = (\<lambda>_. True)\<rparr>"

definition sample_channel :: channel_io where
  "sample_channel = \<lparr>hi_tempdir = True, hi_permissions = True, hi_bind = True, hi_encoded = (\<lambda>_. Some 500),
     hi_write = True, hi_spec_path = ''/t/spec'', hi_status_path = ''/t/status'', hi_directory = ''/t''\<rparr>"

definition sample_run_io :: run_io where
  "sample_run_io = \<lparr>ro_cancelled = False, ro_fs = sample_runner_fs, ro_sys = sample_sys,
     ro_prepare = landlock_prepare sample_sys 0 ''/opt/helper'', ro_helper = Some ''/opt/helper'',
     ro_channel = sample_channel, ro_spawn = (\<lambda>_. None),
     ro_handshake = \<lparr>hs_accept = TimedOk (), hs_status = TimedOk 1, hs_spawned = TimedOk 1\<rparr>,
     ro_nonce = 1, ro_nonce2 = 2, ro_has_stdin = False, ro_has_stdout = True, ro_has_stderr = True,
     ro_settle = SettleExit (Ok (Some 0)), ro_wait = Ok (Some 0), ro_status_byte = Some 0, ro_unit_result = None,
     ro_stop_unit = None,
     ro_tree = \<lparr>gi_group = Some 9, gi_term = Inl None, gi_kill = Inl None, gi_reap = None\<rparr>,
     ro_stdin = None, ro_stdout = [], ro_stderr = [], ro_accepts_out = (\<lambda>_. True), ro_accepts_err = (\<lambda>_. True)\<rparr>"

definition sample_launch_spec :: SandboxLaunchSpec where
  "sample_launch_spec = launch_spec sample_request (Some ''workspace_rw'') [''ws''] [''ws''] False"

definition sample_helper_io :: helper_io where
  "sample_helper_io = \<lparr>he_args = [''--spec'', ''/t/spec'', ''--status'', ''/t/status''], he_connect = (\<lambda>_. True),
     he_symlink_metadata = (\<lambda>_. Some \<lparr>sm_meta = \<lparr>fm_is_file = True, fm_is_dir = False, fm_is_symlink = False,
        fm_uid = 1000, fm_mode = 384\<rparr>, sm_len = 500, sm_dev = 1, sm_ino = 2\<rparr>),
     he_open = (\<lambda>_. True), he_opened = (\<lambda>_. Some (1, 2)), he_read = (\<lambda>_. Some []),
     he_from_slice = (\<lambda>_. Some sample_launch_spec), he_canonicalize = Some, he_is_dir = (\<lambda>_. True),
     he_open_directory = (\<lambda>_. True), he_euid = 1000, he_cgroup_membership = None, he_cgroup_read = (\<lambda>_ _. None),
     he_runtime = (\<lambda>p. if p = ''/dev/null'' then Some ([''dev'', ''null''], False) else None),
     he_landlock = (\<lambda>_. True), he_fully_enforced = True, he_no_new_privs = True, he_status_write = (\<lambda>_. True),
     he_spawn = (\<lambda>_. True), he_wait = Some (Some 0, None), he_events_before = (\<lambda>_. None),
     he_events_after = (\<lambda>_. None)\<rparr>"

lemma sample_environment_ok:
  "environment_accepted (rq_environment sample_request)" "provenance_bounded (rq_provenance sample_request)"
  "spec_environment_ok (launch_environment sample_request)"
proof -
  show env: "environment_accepted (rq_environment sample_request)"
    by (simp add: sample_request_def sample_run_request_def environment_accepted_def MAX_ENV_COUNT_def
        MAX_ENV_NAME_BYTES_def MAX_ENV_VALUE_BYTES_def nul_def)
  show prov: "provenance_bounded (rq_provenance sample_request)"
    by (simp add: sample_request_def sample_run_request_def provenance_bounded_def MAX_ENV_VALUE_BYTES_def nul_def)
  have dist: "distinct (map fst (baseline_child_environment @ allowed_environment sample_request
      @ provenance_environment (rq_provenance sample_request)))"
    by (simp add: sample_request_def sample_allowed sample_provenance baseline_child_environment_def)
  have "length (provenance_environment (rq_provenance sample_request)) = 2"
    using arg_cong [OF sample_provenance, of length] by (simp add: sample_request_def)
  then have "length (launch_environment sample_request) \<le> MAX_ENV_COUNT"
    by (simp add: launch_environment_def sample_request_def sample_allowed MAX_ENV_COUNT_def)
  then show "spec_environment_ok (launch_environment sample_request)"
    using spec_environment_ok_iff(2) [OF env prov] dist by simp
qed

lemma sample_launch_fields:
  "rq_argv sample_request = [''/usr/bin/make'', ''check'']" "rq_root sample_request = ''/ws''"
  "rq_sandbox sample_request = SandboxRequired ''workspace_rw''" "rq_stdin sample_request = Null"
  "rq_resources sample_request = \<lparr>memory_bytes = NotRequested, cpu_millis = NotRequested, pids = NotRequested\<rparr>"
  "rq_cwd sample_request = None" "rq_timeout sample_request = 30000"
  "rq_capture_limit sample_request = MAX_CAPTURE_BYTES" "rq_event_chunk_bytes sample_request = MAX_EVENT_CHUNK_BYTES"
  by (simp_all add: sample_request_def sample_run_request_def RunnerRequest_new_def)

lemma sample_trusted: "verify_trusted_helper sample_sys ''/opt/helper'' = Ok ()"
  by code_simp

lemma sample_prepared:
  "landlock_prepare sample_sys 0 ''/opt/helper'' (rq_sandbox sample_request) (rq_resources sample_request)
   = Ok \<lparr>so_sandbox = OutcomeApplied ''workspace_rw'', so_resources = ResourcesNotRequested\<rparr>"
  by (simp add: sample_launch_fields landlock_prepare_def prepare_resources_def prepare_sandbox_def and_then_def is_requested_def
      resources_applied_def sample_trusted)

lemma sample_argv: "argv_accepted [''/usr/bin/make'', ''check'']"
  by (simp add: argv_accepted_def MAX_ARG_COUNT_def MAX_ARG_BYTES_def nul_def)

lemma sample_validated: "RunnerRequest_validate sample_runner_fs sample_request = Ok [''ws'']"
  by (simp add: RunnerRequest_validate_def sample_environment_ok sample_argv sample_launch_fields sample_runner_fs_def
      MAX_EVENT_CHUNK_BYTES_def MAX_CAPTURE_BYTES_def MAX_TIMEOUT_MILLIS_def)

lemma sample_channel_new:
  "SandboxChannel_new sample_runner_fs sample_channel sample_request [''ws''] False = Ok sample_launch_spec"
  by (simp add: SandboxChannel_new_def channel_profile_def sample_launch_fields sample_channel_def sample_runner_fs_def
      sample_launch_spec_def and_then_def Let_def)

lemma sample_helper:
  "ho_status (helper_run sample_helper_io) = [1, 1, 0]"
proof -
  have acc: "spec_accepted sample_launch_spec"
    by (simp add: spec_accepted_def sample_launch_spec_def launch_spec_def sample_environment_ok sample_launch_fields sample_argv)
  have mode: "(384 :: u32) AND 63 = 0" by code_simp
  have spec: "ls_root sample_launch_spec = [''ws'']" "ls_cwd sample_launch_spec = [''ws'']"
    "ls_profile sample_launch_spec = Some ''workspace_rw''" "ls_memory_bytes sample_launch_spec = None"
    "ls_cpu_millis sample_launch_spec = None" "ls_pids sample_launch_spec = None"
    by (simp_all add: sample_launch_spec_def launch_spec_def)
  have "read_spec sample_helper_io ''/t/spec'' = Ok sample_launch_spec"
    by (simp add: read_spec_def private_file_def sample_helper_io_def MAX_SPEC_BYTES_def mode acc spec)
  then show ?thesis
    by (simp add: helper_run_def sample_helper_io_def verify_resource_limits_def spec restrict_def start_target_def
        resource_events_code_def Let_def)
qed

lemma sample_written: "written_spec sample_run_io sample_request = Some sample_launch_spec"
  using sample_channel_new
  by (simp add: written_spec_def sample_run_io_def sample_validated sample_prepared resources_applied_def)

lemma sample_linked: "linked sample_run_io sample_request sample_helper_io"
proof -
  have "he_args sample_helper_io = helper_args sample_run_io"
    by (simp add: sample_helper_io_def helper_args_def sample_run_io_def sample_channel_def)
  moreover have "decoded_spec sample_helper_io path = Some sample_launch_spec" for path
    by (simp add: decoded_spec_def sample_helper_io_def)
  moreover have "hs_status (ro_handshake sample_run_io) = TimedOk 1" "hs_spawned (ro_handshake sample_run_io) = TimedOk 1"
    by (simp_all add: sample_run_io_def)
  ultimately show ?thesis by (simp add: linked_def sample_written sample_helper)
qed

lemma sample_launched:
  "launch sample_run_io sample_request [''ws'']
     \<lparr>so_sandbox = OutcomeApplied ''workspace_rw'', so_resources = ResourcesNotRequested\<rparr>
   = (Ok \<lparr>la_setup = \<lparr>so_sandbox = OutcomeApplied ''workspace_rw'', so_resources = ResourcesNotRequested\<rparr>,
           la_session = True, la_unit = None\<rparr>, [channel_command sample_channel ''/opt/helper''])"
proof -
  have "SandboxChannel_wait \<lparr>hs_accept = TimedOk (), hs_status = TimedOk 1, hs_spawned = TimedOk 1\<rparr> = Ok True"
    by code_simp
  then show ?thesis using sample_channel_new
    by (simp add: launch_def sample_run_io_def use_helper_def sample_launch_fields sandbox_applied_def resources_applied_def
        wrap_resource_command_def spawn_platform_def)
qed

lemma finish_quiet:
  assumes "ro_has_stdout io" "ro_has_stderr io" "ro_stdout io = []" "ro_stderr io = []"
  shows "\<exists>out. finish io rq la = Ok out"
  using assms by (auto simp: finish_def and_then_def spawn_reader_def Let_def split: prod.splits)

lemma sample_run_ok: "\<exists>out. run sample_run_io sample_request = (Ok out, [channel_command sample_channel ''/opt/helper''])"
proof -
  let ?la = "\<lparr>la_setup = \<lparr>so_sandbox = OutcomeApplied ''workspace_rw'', so_resources = ResourcesNotRequested\<rparr>,
           la_session = True, la_unit = None\<rparr>"
  have "run sample_run_io sample_request
      = (finish sample_run_io sample_request ?la, [channel_command sample_channel ''/opt/helper''])"
    using sample_launched sample_validated sample_prepared by (simp add: run_def sample_run_io_def)
  moreover have "\<exists>out. finish sample_run_io sample_request ?la = Ok out"
    by (rule finish_quiet) (simp_all add: sample_run_io_def)
  ultimately show ?thesis by auto
qed


end
