(* ===== verification/Node_Route.thy ===== *)
theory Node_Route
  imports Blob Artifact Telemetry Runner_Setup
begin

text \<open>
  The stateless half of the node service, \<^verbatim>\<open>crates/eggwork-server/src/lib.rs\<close>: operations and the resources
  they act on, routing, the policy for request bodies, authentication of the peer, the advertised capabilities
  and the checks against them, query strings, bounded bodies, and the responses. The HTTP server, TLS and JSON
  are parameters; a response is its status and the document it carries.
\<close>

section \<open>Constants\<close>

definition API_SCHEMA_VERSION :: u16 where "API_SCHEMA_VERSION = 1"
definition MAX_REQUEST_BYTES :: nat where "MAX_REQUEST_BYTES = 1024 * 1024"
definition EVENT_CAPACITY :: nat where "EVENT_CAPACITY = 32"
definition MAX_RECENT_EXECUTIONS :: nat where "MAX_RECENT_EXECUTIONS = 1024"
definition MAX_BLOB_FIND_REQUEST_BYTES :: nat where "MAX_BLOB_FIND_REQUEST_BYTES = 64 * 1024"
definition MAX_WORKSPACE_REQUEST_BYTES :: nat where "MAX_WORKSPACE_REQUEST_BYTES = 4 * 1024 * 1024"

section \<open>Operations, resources, routes\<close>

datatype Operation =
    OpCapabilities | OpStatus | OpTelemetry | OpExecute | OpObserve | OpCancel | OpRenew | OpEvents
  | OpBlobRead | OpBlobWrite | OpWorkspaceCreate | OpArtifactRead

datatype ResourceId =
    ResExecution ExecutionId | ResBlob BlobDigest | ResWorkspace WorkspaceId | ResArtifact ArtifactId

record OperationRequest =
  or_operation :: Operation
  or_resource :: "ResourceId option"

datatype Route =
    RCapabilities | RStatus | RTelemetry | RExecute | RObserve ExecutionId | RCancel ExecutionId
  | RRenew ExecutionId | REvents ExecutionId | RBlobMissing | RBlobPrepare | RBlobUpload BlobDigest
  | RBlobDownload BlobDigest | RBlobInvalidDigest | RWorkspaceCreate | RWorkspaceDerive
  | RArtifactList ExecutionId | RArtifactDownload ArtifactId

text \<open>The paths of the \<^verbatim>\<open>_\<close> arm, by their components.\<close>

definition operation_for_parts :: "string \<Rightarrow> string list \<Rightarrow> (Operation \<times> Route) option" where
  "operation_for_parts meth parts =
     (if length parts = 4 \<and> take 2 parts = [[], ''v1''] \<and> parts ! 2 = ''artifacts'' then
        (case id_new ''artifact id'' (parts ! 3) of
           Inl _ \<Rightarrow> None
         | Inr artifact \<Rightarrow> if meth = ''GET'' then Some (OpArtifactRead, RArtifactDownload artifact) else None)
      else if length parts = 4 \<and> take 3 parts = [[], ''v1'', ''executions''] then
        (case id_new ''execution id'' (parts ! 3) of
           Inl _ \<Rightarrow> None
         | Inr i \<Rightarrow> if meth = ''GET'' then Some (OpObserve, RObserve i) else None)
      else if length parts = 5 \<and> take 3 parts = [[], ''v1'', ''executions''] then
        (case id_new ''execution id'' (parts ! 3) of
           Inl _ \<Rightarrow> None
         | Inr i \<Rightarrow>
             if meth = ''POST'' \<and> parts ! 4 = ''cancel'' then Some (OpCancel, RCancel i)
             else if meth = ''POST'' \<and> parts ! 4 = ''renew'' then Some (OpRenew, RRenew i)
             else if meth = ''GET'' \<and> parts ! 4 = ''events'' then Some (OpEvents, REvents i)
             else if meth = ''GET'' \<and> parts ! 4 = ''artifacts'' then Some (OpArtifactRead, RArtifactList i)
             else None)
      else if length parts = 4 \<and> take 2 parts = [[], ''v1''] \<and> parts ! 2 = ''blobs'' then
        (if meth \<noteq> ''PUT'' \<and> meth \<noteq> ''GET'' then None
         else (case BlobDigest_parse (parts ! 3) of
                 Inl _ \<Rightarrow> Some (if meth = ''PUT'' then OpBlobWrite else OpBlobRead, RBlobInvalidDigest)
               | Inr digest \<Rightarrow>
                   if meth = ''PUT'' then Some (OpBlobWrite, RBlobUpload digest)
                   else Some (OpBlobRead, RBlobDownload digest)))
      else None)"

definition fixed_routes :: "((string \<times> string) \<times> (Operation \<times> Route)) list" where
  "fixed_routes =
     [((''GET'', ''/v1/capabilities''), (OpCapabilities, RCapabilities)),
      ((''GET'', ''/v1/status''), (OpStatus, RStatus)),
      ((''GET'', ''/v1/node/telemetry''), (OpTelemetry, RTelemetry)),
      ((''POST'', ''/v1/executions''), (OpExecute, RExecute)),
      ((''POST'', ''/v1/blobs/missing''), (OpBlobRead, RBlobMissing)),
      ((''POST'', ''/v1/blobs/prepare''), (OpBlobWrite, RBlobPrepare)),
      ((''POST'', ''/v1/workspaces''), (OpWorkspaceCreate, RWorkspaceCreate)),
      ((''POST'', ''/v1/workspaces/derive''), (OpWorkspaceCreate, RWorkspaceDerive))]"

definition operation_for :: "string \<Rightarrow> string \<Rightarrow> (Operation \<times> Route) option" where
  "operation_for meth path =
     (case map_of fixed_routes (meth, path) of
        Some found \<Rightarrow> Some found
      | None \<Rightarrow> operation_for_parts meth (split_on slash path))"

text \<open>\<^verbatim>\<open>parts.get(n)?\<close> then a parser, then the constructor.\<close>

definition resource_part :: "string list \<Rightarrow> (string \<Rightarrow> 'e + string) \<Rightarrow> (string \<Rightarrow> ResourceId) \<Rightarrow> ResourceId option" where
  "resource_part parts parse con =
     (if length parts \<le> 3 then None
      else case parse (parts ! 3) of Inl _ \<Rightarrow> None | Inr x \<Rightarrow> Some (con x))"

definition resource_for_path :: "Operation \<Rightarrow> string \<Rightarrow> ResourceId option" where
  "resource_for_path operation path =
     (let parts = split_on slash path in
      case operation of
        OpObserve \<Rightarrow> resource_part parts (id_new ''execution id'') ResExecution
      | OpCancel \<Rightarrow> resource_part parts (id_new ''execution id'') ResExecution
      | OpRenew \<Rightarrow> resource_part parts (id_new ''execution id'') ResExecution
      | OpEvents \<Rightarrow> resource_part parts (id_new ''execution id'') ResExecution
      | OpBlobRead \<Rightarrow> resource_part parts BlobDigest_parse ResBlob
      | OpBlobWrite \<Rightarrow> resource_part parts BlobDigest_parse ResBlob
      | OpArtifactRead \<Rightarrow>
          if length parts > 2 \<and> parts ! 2 = ''artifacts''
          then resource_part parts (id_new ''artifact id'') ResArtifact
          else resource_part parts (id_new ''execution id'') ResExecution
      | _ \<Rightarrow> None)"

section \<open>Request bodies\<close>

datatype RequestBodyPolicy = BodyBuffer nat | BodyStream nat | BodyReject

text \<open>\<^verbatim>\<open>str::ends_with\<close>\<close>

definition ends_with :: "string \<Rightarrow> string \<Rightarrow> bool" where
  "ends_with suf s \<longleftrightarrow> length suf \<le> length s \<and> drop (length s - length suf) s = suf"

definition request_body_policy :: "string \<Rightarrow> string \<Rightarrow> RequestBodyPolicy" where
  "request_body_policy meth path =
     (if meth = ''POST'' \<and> (path = ''/v1/blobs/missing'' \<or> path = ''/v1/blobs/prepare'')
      then BodyBuffer MAX_BLOB_FIND_REQUEST_BYTES
      else if meth = ''POST'' \<and> path = ''/v1/workspaces'' then BodyBuffer MAX_WORKSPACE_REQUEST_BYTES
      else if meth = ''POST'' \<and> path = ''/v1/workspaces/derive'' then BodyBuffer MAX_WORKSPACE_REQUEST_BYTES
      else if meth = ''PUT''
              \<and> (case strip_prefix ''/v1/blobs/'' path of
                   None \<Rightarrow> False | Some d \<Rightarrow> \<not> isl (BlobDigest_parse d))
      then BodyStream MAX_BLOB_BYTES
      else if meth = ''POST'' \<and> path = ''/v1/executions'' then BodyBuffer MAX_REQUEST_BYTES
      else if meth = ''POST'' \<and> (ends_with ''/cancel'' path \<or> ends_with ''/renew'' path)
      then BodyBuffer MAX_REQUEST_BYTES
      else BodyReject)"

text \<open>A body is the chunks its reader delivers; a chunk may be a read failure.\<close>

fun read_chunks :: "nat \<Rightarrow> (unit + u8 list) list \<Rightarrow> u8 list \<Rightarrow> (u8 list) option" where
  "read_chunks limit [] acc = Some acc"
| "read_chunks limit (Inl _ # _) acc = None"
| "read_chunks limit (Inr chunk # rest) acc =
     (if length acc + length chunk > limit then None else read_chunks limit rest (acc @ chunk))"

definition read_limited_body :: "nat \<Rightarrow> (unit + u8 list) list \<Rightarrow> (u8 list) option" where
  "read_limited_body limit body = read_chunks limit body []"

section \<open>Peers\<close>

record tls_info =
  tl_client_authenticated :: bool
  tl_certificates_present :: bool
  tl_chain :: "u8 list list option"

text \<open>A map collected from entries keeps the last value of a repeated key.\<close>

definition resolve_verified_leaf ::
  "(u8 list \<Rightarrow> string) \<Rightarrow> (string \<times> PrincipalId) list \<Rightarrow> u8 list \<Rightarrow> PrincipalId option" where
  "resolve_verified_leaf fingerprint entries leaf = map_of (rev entries) (fingerprint leaf)"

definition authenticated_principal ::
  "(u8 list \<Rightarrow> PrincipalId option) \<Rightarrow> tls_info option \<Rightarrow> PrincipalId option" where
  "authenticated_principal resolver tls =
     (case tls of
        None \<Rightarrow> None
      | Some t \<Rightarrow>
          if \<not> tl_client_authenticated t \<or> \<not> tl_certificates_present t then None
          else (case tl_chain t of
                  None \<Rightarrow> None
                | Some chain \<Rightarrow>
                    if chain = [] \<or> length chain > 8 \<or> list_ex (\<lambda>c. length c > 64 * 1024) chain then None
                    else resolver (hd chain)))"

section \<open>Capabilities\<close>

definition static_capability_features :: "string list" where
  "static_capability_features =
     [''exec.argv.v1'', ''events.live.v1'', ''auth.mtls.v1'', ''blob.sha256.v1'', ''blob.stream.v1'',
      ''workspace.manifest.v1'', ''workspace.materialize.v1'', ''workspace.derive.v1'', ''artifact.declared.v1'',
      ''artifact.stream.v1'', ''artifact.retention.v1'', ''network.unrestricted.v1'']"

definition server_capability_features :: "string list \<Rightarrow> string list" where
  "server_capability_features dynamic = remdups_adj (sort (static_capability_features @ dynamic))"

definition node_capabilities_for :: "string list \<Rightarrow> u32 \<Rightarrow> NodeCapabilities" where
  "node_capabilities_for feats max_active =
     \<lparr>protocol_min = \<lparr>major = 1, minor = 0\<rparr>, protocol_max = \<lparr>major = 1, minor = 0\<rparr>, features = feats,
      max_active_executions = max_active\<rparr>"

definition check_isolation_supported :: "string list \<Rightarrow> IsolationRequirement \<Rightarrow> bool" where
  "check_isolation_supported feats i =
     (case i of
        IsolationNone \<Rightarrow> True | IsolationBestEffort \<Rightarrow> True
      | IsolationRequired \<Rightarrow> LANDLOCK_WORKSPACE_RW_CAPABILITY \<in> set feats)"

definition check_resources_supported :: "string list \<Rightarrow> ResourceRequirements \<Rightarrow> bool" where
  "check_resources_supported feats r \<longleftrightarrow>
     (\<not> is_required (memory_bytes r) \<or> ''resources.cgroups-v2.memory'' \<in> set feats)
     \<and> (\<not> is_required (cpu_millis r) \<or> ''resources.cgroups-v2.cpu'' \<in> set feats)
     \<and> (\<not> is_required (pids r) \<or> ''resources.cgroups-v2.pids'' \<in> set feats)"

definition check_network_supported :: "NetworkRequirement \<Rightarrow> bool" where
  "check_network_supported n \<longleftrightarrow> n = Unrestricted"

section \<open>Queries\<close>

fun query_pairs :: "string \<Rightarrow> string list \<Rightarrow> string option \<Rightarrow> unit + string option" where
  "query_pairs name [] found = Ok found"
| "query_pairs name (pair # rest) found =
     (case split_once (CHR ''='') pair of
        None \<Rightarrow> Err ()
      | Some (key, val) \<Rightarrow>
          if key = name then if found \<noteq> None then Err () else query_pairs name rest (Some val)
          else if key \<noteq> ''generation'' \<and> key \<noteq> ''after'' \<and> key \<noteq> ''lease'' then Err ()
          else query_pairs name rest found)"

definition query_parameter :: "string option \<Rightarrow> string \<Rightarrow> unit + string option" where
  "query_parameter query name =
     (case query of None \<Rightarrow> Ok None | Some q \<Rightarrow> query_pairs name (split_on (CHR ''&'') q) None)"

text \<open>\<^verbatim>\<open>value.parse::<u64>().ok().and_then(|v| ExecutionGeneration::new(v).ok())\<close>\<close>

definition parse_generation :: "string \<Rightarrow> ExecutionGeneration option" where
  "parse_generation v =
     Option.bind (parse_u64 v) (\<lambda>n. case ExecutionGeneration_new n of Inl _ \<Rightarrow> None | Inr g \<Rightarrow> Some g)"

section \<open>Responses\<close>

record WorkspaceReadyResponse =
  wy_schema_version :: u16
  wy_workspace_id :: WorkspaceId
  wy_execution_id :: ExecutionId
  wy_generation :: ExecutionGeneration
  wy_manifest_digest :: string
  wy_logical_bytes :: u64

text \<open>
  The document of a response. A stream of events is what it starts from: the cursor, the replayed events,
  whether the execution was terminal, and the subscription to the live events of a record (its address and the
  number of events sent before). A stream of bytes is what was delivered of it.
\<close>

datatype NodeBody =
    BodyError string string | BodySnapshot ExecutionSnapshot | BodyCapabilities NodeCapabilities
  | BodyStatus NodeStatus | BodyTelemetry NodeTelemetry | BodyMissing "BlobDigest list" | BodyUploadRequired bool
  | BodyWorkspace WorkspaceReadyResponse | BodyArtifacts "ArtifactRecord list" | BodyEmpty
  | BodyBlob BlobDigest "u8 list" | BodyArtifact ArtifactId BlobDigest "u8 list"
  | BodyEvents ExecutionId ExecutionGeneration u64 "ExecutionEvent list" bool "(nat \<times> nat) option"

record Response =
  rp_status :: nat
  rp_body :: NodeBody

definition json_response :: "nat \<Rightarrow> NodeBody \<Rightarrow> Response" where
  "json_response status body = \<lparr>rp_status = status, rp_body = body\<rparr>"

definition error_response :: "nat \<Rightarrow> string \<Rightarrow> string \<Rightarrow> Response" where
  "error_response status code message = json_response status (BodyError code message)"

definition blob_error_response :: "BlobError \<Rightarrow> Response" where
  "blob_error_response e =
     (case e of
        BlobTooLarge \<Rightarrow> error_response 413 ''blob_too_large'' ''blob exceeds size limit''
      | BlobQuotaExceeded \<Rightarrow> error_response 507 ''quota_exceeded'' ''blob storage quota exceeded''
      | BlobLengthMismatch \<Rightarrow> error_response 422 ''length_mismatch'' ''blob length does not match''
      | BlobDigestMismatch \<Rightarrow> error_response 422 ''digest_mismatch'' ''blob digest does not match''
      | BlobNotFound \<Rightarrow> error_response 404 ''blob_not_found'' ''blob not found''
      | BlobCorruptExisting \<Rightarrow> error_response 500 ''corrupt_blob'' ''stored blob was quarantined''
      | _ \<Rightarrow> error_response 500 ''storage_error'' ''blob storage operation failed'')"

end
