(* ===== verification/Node.thy ===== *)
theory Node
  imports Node_Route Store_Inv Workspace
begin

text \<open>
  The node service: its state, the publication of events, and the request handlers with the dispatcher.
  A handler is one step on the state: admission holds the lock of the execution table across the steps that
  decide it. Records of executions are shared objects, so they live in a list and the table holds their
  positions. Outcomes of I/O, clocks and fresh identifiers of a request are the fields of \<open>node_io\<close>; JSON,
  the hash, the resolver and the authorizer are fields of \<open>node_env\<close>.
\<close>

section \<open>State\<close>

record ExecutionRecord =
  rc_snapshot :: ExecutionSnapshot
  rc_cancelled :: bool
  rc_events :: "ExecutionEvent list"
  rc_finished :: bool
  rc_lease_hash :: string
  rc_expires_at :: nat
  rc_lease_expired :: bool

record WorkspaceCapture =
  wc_id :: WorkspaceId
  wc_root :: string
  wc_principal :: PrincipalId
  wc_outputs :: "DeclaredOutput list"

text \<open>
  A spawned \<^verbatim>\<open>run_execution\<close>; it owns one permit. Its select loop sees the output channel (what is queued and
  whether all senders are gone), the outcome of the runner once it has returned, and its local variables.
\<close>

record OutputChunk =
  oc_stderr :: bool
  oc_bytes :: "u8 list"

record select_state =
  sl_queue :: "OutputChunk list"
  sl_senders_gone :: bool
  sl_outcome :: "(RunnerError + RunnerResult) option"
  sl_result :: "RunnerResult option"
  sl_error :: "RunnerError option"
  sl_output_closed :: bool

datatype task_phase = PhaseSpawned | PhaseSelect select_state | PhaseDrain select_state

record execution_task =
  xt_record :: nat
  xt_request :: RunnerRequest
  xt_workspace :: "WorkspaceCapture option"
  xt_phase :: task_phase

record ('b, 'w, 'a) NodeState =
  nd_node_id :: NodeId
  nd_execution_root :: string
  nd_max_active :: u32
  nd_permits :: nat
  nd_draining :: bool
  nd_marker :: bool
  nd_store :: "'b ExecutionStore"
  nd_blobs :: BlobStore
  nd_workspaces :: "'w WorkspaceManager"
  nd_artifacts :: "'a ArtifactStore"
  nd_lease_ttl :: nat
  nd_features :: "string list"
  nd_executions :: "(ExecutionId \<times> nat) list"
  nd_records :: "ExecutionRecord list"
  nd_tasks :: "execution_task list"
  nd_telemetry :: TelemetryMonitor

record ExecuteRequest =
  xq_schema_version :: u16
  xq_handle :: ExecutionHandle
  xq_workspace_id :: "WorkspaceId option"
  xq_spec :: ExecutionSpec

record ControlRequest =
  cq_schema_version :: u16
  cq_handle :: ExecutionHandle
  cq_renewal_id :: "string option"

record WorkspaceCreateRequest =
  wq_schema_version :: u16
  wq_workspace_id :: WorkspaceId
  wq_handle :: ExecutionHandle
  wq_manifest :: WorkspaceManifest

record DeriveWorkspaceRequest =
  dq_schema_version :: u16
  dq_workspace_id :: WorkspaceId
  dq_handle :: ExecutionHandle
  dq_patch :: WorkspaceManifestPatch

record ('b, 'w, 'a) node_env =
  ne_serde :: "'b serde"
  ne_ws :: "'w ws_env"
  ne_art :: "'a artifact_serde"
  ne_sha :: "u8 list \<Rightarrow> string"
  ne_sha_hex :: "string \<Rightarrow> string"
  ne_to_vec :: "ExecutionSpec \<Rightarrow> string option"
  ne_to_vec_ws :: "ExecutionSpec \<times> WorkspaceId \<Rightarrow> string option"
  ne_resolver :: "u8 list \<Rightarrow> PrincipalId option"
  ne_authorize :: "PrincipalId \<Rightarrow> OperationRequest \<Rightarrow> bool"
  ne_execute :: "u8 list \<Rightarrow> ExecuteRequest option"
  ne_control :: "u8 list \<Rightarrow> ControlRequest option"
  ne_missing :: "u8 list \<Rightarrow> BlobDigest list option"
  ne_prepare :: "u8 list \<Rightarrow> (BlobDigest \<times> u64) option"
  ne_create :: "u8 list \<Rightarrow> WorkspaceCreateRequest option"
  ne_derive :: "u8 list \<Rightarrow> DeriveWorkspaceRequest option"

record node_io =
  ni_metric :: "string \<Rightarrow> bool"
  ni_lookup :: bool
  ni_reserve :: bool
  ni_commit :: bool
  ni_page :: bool
  ni_load :: bool
  ni_lease :: bool
  ni_find :: bool
  ni_query :: bool
  ni_verify :: verify_io
  ni_put :: put_io
  ni_opened :: bool
  ni_retain :: bool
  ni_renew :: bool
  ni_release :: bool
  ni_resolve :: bool
  ni_active :: "bool \<times> bool \<times> bool"
  ni_terminal :: "bool \<times> bool"
  ni_materialize :: materialize_io
  ni_manifest :: lookup_io
  ni_artifacts :: bool
  ni_order :: "(ExecutionId \<times> nat) list \<Rightarrow> (ExecutionId \<times> nat) list"
  ni_reads :: "nat list"
  ni_now_ms :: u64
  ni_unix :: int
  ni_unix_store :: int
  ni_instant :: nat
  ni_uuid :: string

record http_request =
  hq_method :: string
  hq_path :: string
  hq_query :: "string option"
  hq_tls :: "tls_info option"
  hq_declared_length :: "u64 option"
  hq_body :: "(unit + u8 list) list"

text \<open>A handler answers, or fails with the message of an internal service error.\<close>

type_synonym ('b, 'w, 'a) handled = "(string + Response) \<times> ('b, 'w, 'a) NodeState"

section \<open>Metrics and drains\<close>

definition count_metric :: "node_io \<Rightarrow> string \<Rightarrow> u64 \<Rightarrow> ('b, 'w, 'a) NodeState \<Rightarrow> ('b, 'w, 'a) NodeState" where
  "count_metric io name amount nd =
     nd\<lparr>nd_store := snd (increment_metric (ni_metric io name) name amount (nd_store nd))\<rparr>"

definition is_draining :: "('b, 'w, 'a) NodeState \<Rightarrow> bool" where
  "is_draining nd \<longleftrightarrow> nd_draining nd \<or> nd_marker nd"

definition answer :: "nat \<Rightarrow> string \<Rightarrow> string \<Rightarrow> ('b, 'w, 'a) NodeState \<Rightarrow> ('b, 'w, 'a) handled" where
  "answer status code message nd = (Ok (error_response status code message), nd)"

definition authorize_resource :: "('b, 'w, 'a) node_env \<Rightarrow> PrincipalId \<Rightarrow> Operation \<Rightarrow> ResourceId \<Rightarrow> bool" where
  "authorize_resource env p operation resource =
     ne_authorize env p \<lparr>or_operation = operation, or_resource = Some resource\<rparr>"

definition lease_hash :: "('b, 'w, 'a) node_env \<Rightarrow> LeaseId \<Rightarrow> string" where
  "lease_hash env lease = ne_sha_hex env lease"

section \<open>Publication\<close>

definition record_at :: "nat \<Rightarrow> ('b, 'w, 'a) NodeState \<Rightarrow> ExecutionRecord option" where
  "record_at a nd = (if a < length (nd_records nd) then Some (nd_records nd ! a) else None)"

definition set_record :: "nat \<Rightarrow> ExecutionRecord \<Rightarrow> ('b, 'w, 'a) NodeState \<Rightarrow> ('b, 'w, 'a) NodeState" where
  "set_record a r nd = nd\<lparr>nd_records := (nd_records nd)[a := r]\<rparr>"

definition publish ::
  "('b, 'w, 'a) node_env \<Rightarrow> bool \<Rightarrow> int \<Rightarrow> nat \<Rightarrow> ExecutionState \<Rightarrow> ExecutionResult option \<Rightarrow> ExecutionEventKind
     \<Rightarrow> ('b, 'w, 'a) NodeState \<Rightarrow> ('b, 'w, 'a) NodeState" where
  "publish env io now a state result kind nd =
     (case record_at a nd of
        None \<Rightarrow> nd
      | Some r \<Rightarrow>
          if is_terminal (sn_state (rc_snapshot r)) then nd
          else
            let proposed = (rc_snapshot r)\<lparr>sn_state := state,
                  sn_result := (case result of Some x \<Rightarrow> Some x | None \<Rightarrow> sn_result (rc_snapshot r))\<rparr>
            in
            (case commit_event (ne_serde env) io now proposed kind (nd_store nd) of
               (Inr (Some event), st) \<Rightarrow>
                 set_record a (r\<lparr>rc_snapshot := proposed, rc_events := rc_events r @ [event]\<rparr>) (nd\<lparr>nd_store := st\<rparr>)
             | (Inr None, st) \<Rightarrow> nd\<lparr>nd_store := st\<rparr>
             | (Inl _, st) \<Rightarrow> set_record a (r\<lparr>rc_cancelled := True\<rparr>) (nd\<lparr>nd_store := st, nd_draining := True\<rparr>)))"

definition new_record :: "nat \<Rightarrow> ExecutionSnapshot \<Rightarrow> string \<Rightarrow> nat \<Rightarrow> ExecutionRecord" where
  "new_record now snapshot hash ttl =
     \<lparr>rc_snapshot = snapshot, rc_cancelled = False, rc_events = [], rc_finished = False, rc_lease_hash = hash,
      rc_expires_at = now + ttl, rc_lease_expired = False\<rparr>"

text \<open>A record rebuilt from the store has no publisher and its own drain flag: only its snapshot and hash are read.\<close>

definition recovered_record :: "nat \<Rightarrow> ExecutionSnapshot \<Rightarrow> string \<Rightarrow> ExecutionRecord" where
  "recovered_record now snapshot hash =
     \<lparr>rc_snapshot = snapshot, rc_cancelled = False, rc_events = [], rc_finished = True, rc_lease_hash = hash,
      rc_expires_at = now, rc_lease_expired = False\<rparr>"

section \<open>Event streams\<close>

text \<open>The record whose events are served: shared, by its position, or rebuilt.\<close>

datatype event_source = SharedRecord nat | RebuiltRecord ExecutionRecord

definition source_snapshot :: "event_source \<Rightarrow> ('b, 'w, 'a) NodeState \<Rightarrow> ExecutionSnapshot option" where
  "source_snapshot src nd =
     (case src of SharedRecord a \<Rightarrow> map_option rc_snapshot (record_at a nd) | RebuiltRecord r \<Rightarrow> Some (rc_snapshot r))"

definition subscription :: "event_source \<Rightarrow> ('b, 'w, 'a) NodeState \<Rightarrow> (nat \<times> nat) option" where
  "subscription src nd =
     (case src of
        SharedRecord a \<Rightarrow> map_option (\<lambda>r. (a, length (rc_events r))) (record_at a nd) | RebuiltRecord _ \<Rightarrow> None)"

definition event_response ::
  "('b, 'w, 'a) node_env \<Rightarrow> node_io \<Rightarrow> ExecutionId \<Rightarrow> ExecutionGeneration \<Rightarrow> u64 \<Rightarrow> event_source \<Rightarrow> ('b, 'w, 'a) NodeState
     \<Rightarrow> ('b, 'w, 'a) handled" where
  "event_response env io i generation after src nd =
     (case load_page (ne_serde env) (ni_page io) i generation after (nd_store nd) of
        Inl _ \<Rightarrow> (Err ''execution store unavailable'', nd)
      | Inr None \<Rightarrow> answer 404 ''execution_not_found'' ''execution not found'' nd
      | Inr (Some page) \<Rightarrow>
          if u64_saturating_add after 1 < pg_base_sequence page
          then answer 410 ''history_expired'' ''event history has expired'' (count_metric io ''event_history_resync'' 1 nd)
          else if after \<ge> pg_next_sequence page
          then answer 416 ''cursor_ahead'' ''event cursor is ahead of the journal'' nd
          else (Ok \<lparr>rp_status = 202, rp_body = BodyEvents i generation after (pg_events page)
                    (case source_snapshot src nd of Some s \<Rightarrow> is_terminal (sn_state s) | None \<Rightarrow> False)
                    (subscription src nd)\<rparr>, nd))"

section \<open>Admission\<close>

text \<open>What the checks of a request derive from it.\<close>

record admission =
  ad_id :: ExecutionId
  ad_generation :: ExecutionGeneration
  ad_version :: u16
  ad_digest :: string
  ad_lease_hash :: string
  ad_workspace_id :: "WorkspaceId option"
  ad_capture :: "WorkspaceCapture option"
  ad_request :: RunnerRequest

text \<open>A refusal: the metric it counts, if any, and the response.\<close>

type_synonym refusal = "string option \<times> Response"

definition refuse :: "nat \<Rightarrow> string \<Rightarrow> string \<Rightarrow> refusal + 'x" where
  "refuse status code message = Inl (None, error_response status code message)"

definition refuse_counted :: "string \<Rightarrow> nat \<Rightarrow> string \<Rightarrow> string \<Rightarrow> refusal + 'x" where
  "refuse_counted metric status code message = Inl (Some metric, error_response status code message)"

definition check_body :: "('b, 'w, 'a) node_env \<Rightarrow> (unit + u8 list) list \<Rightarrow> refusal + ExecuteRequest" where
  "check_body env body =
     (case read_limited_body MAX_REQUEST_BYTES body of
        None \<Rightarrow> refuse 413 ''request_too_large'' ''request body exceeds limit''
      | Some bytes \<Rightarrow>
          (case ne_execute env bytes of
             None \<Rightarrow> refuse 400 ''invalid_request'' ''request body is invalid'' | Some wire \<Rightarrow> Inr wire))"

definition check_request ::
  "('b, 'w, 'a) node_env \<Rightarrow> PrincipalId \<Rightarrow> ('b, 'w, 'a) NodeState \<Rightarrow> ExecuteRequest \<Rightarrow> refusal + unit" where
  "check_request env p nd wire =
     (let c = command (xq_spec wire) in
      if xq_schema_version wire \<noteq> API_SCHEMA_VERSION
      then refuse 426 ''protocol_version'' ''unsupported schema version''
      else if \<not> authorize_resource env p OpExecute (ResExecution (eh_execution_id (xq_handle wire)))
              \<or> (case xq_workspace_id wire of
                   None \<Rightarrow> False | Some w \<Rightarrow> \<not> authorize_resource env p OpExecute (ResWorkspace w))
      then refuse 403 ''forbidden'' ''operation is not authorized''
      else if isl (ExecutionGeneration_new (eh_generation (xq_handle wire)))
      then refuse 400 ''invalid_request'' ''execution generation is invalid''
      else if es_schema_version (xq_spec wire) \<noteq> API_SCHEMA_VERSION
      then refuse_counted ''rejected_invalid'' 426 ''protocol_version'' ''unsupported execution schema version''
      else if isl (ExecutionSpec_validate (xq_spec wire))
      then refuse_counted ''rejected_invalid'' 400 ''invalid_request'' ''execution specification is invalid''
      else if declared_outputs c \<noteq> [] \<and> xq_workspace_id wire = None
      then refuse_counted ''rejected_invalid'' 400 ''workspace_required'' ''declared outputs require an execution workspace''
      else if is_draining nd
      then refuse_counted ''rejected_draining'' 503 ''draining'' ''node is not accepting executions''
      else if \<not> check_isolation_supported (nd_features nd) (isolation c)
      then refuse_counted ''rejected_capability'' 409 ''capability_mismatch''
             ''requested filesystem isolation capability is unavailable''
      else if \<not> check_resources_supported (nd_features nd) (resources c)
      then refuse_counted ''rejected_capability'' 409 ''capability_mismatch''
             ''requested resource control capability is unavailable''
      else if \<not> check_network_supported (network c)
      then refuse_counted ''rejected_capability'' 409 ''capability_mismatch'' ''requested network capability is unavailable''
      else Inr ())"

definition execution_root_for ::
  "('b, 'w, 'a) node_env \<Rightarrow> node_io \<Rightarrow> PrincipalId \<Rightarrow> ExecuteRequest \<Rightarrow> ('b, 'w, 'a) NodeState \<Rightarrow> refusal + string" where
  "execution_root_for env io p wire nd =
     (case xq_workspace_id wire of
        None \<Rightarrow> Inr (nd_execution_root nd)
      | Some w \<Rightarrow>
          (case resolve (ne_ws env) (ni_resolve io) (ni_now_ms io) w (eh_execution_id (xq_handle wire))
                  (eh_generation (xq_handle wire)) p (nd_workspaces nd) of
             Inl _ \<Rightarrow> refuse_counted ''rejected_invalid'' 409 ''workspace_not_ready''
                        ''workspace is unavailable for this execution''
           | Inr ready \<Rightarrow> Inr (rw_root ready)))"

definition prepare_admission ::
  "('b, 'w, 'a) node_env \<Rightarrow> node_io \<Rightarrow> PrincipalId \<Rightarrow> (unit + u8 list) list \<Rightarrow> ('b, 'w, 'a) NodeState \<Rightarrow> refusal + admission" where
  "prepare_admission env io p body nd =
     and_then (check_body env body) (\<lambda>wire.
     and_then (check_request env p nd wire) (\<lambda>_.
       let i = eh_execution_id (xq_handle wire); generation = eh_generation (xq_handle wire) in
       case request_digest_with_workspace (ne_sha_hex env) (ne_to_vec env) (ne_to_vec_ws env) (xq_spec wire)
              (xq_workspace_id wire) of
         None \<Rightarrow> refuse_counted ''rejected_invalid'' 400 ''invalid_request'' ''execution specification is invalid''
       | Some (version, digest) \<Rightarrow>
           and_then (execution_root_for env io p wire nd) (\<lambda>root.
           case from_spec (xq_spec wire) root \<lparr>pv_execution_id = Some i, pv_generation = Some generation\<rparr> of
             Inl _ \<Rightarrow> refuse_counted ''rejected_invalid'' 400 ''invalid_request'' ''execution specification is invalid''
           | Inr request \<Rightarrow>
               Inr \<lparr>ad_id = i, ad_generation = generation, ad_version = version, ad_digest = digest,
                    ad_lease_hash = lease_hash env (eh_lease_id (xq_handle wire)),
                    ad_workspace_id = xq_workspace_id wire,
                    ad_capture = map_option (\<lambda>w. \<lparr>wc_id = w, wc_root = root, wc_principal = p,
                      wc_outputs = declared_outputs (command (xq_spec wire))\<rparr>) (xq_workspace_id wire),
                    ad_request = request\<rparr>)))"

text \<open>A request whose identity the store already has: it is answered with the events of that execution.\<close>

definition replay_execution ::
  "('b, 'w, 'a) node_env \<Rightarrow> node_io \<Rightarrow> PrincipalId \<Rightarrow> admission \<Rightarrow> ExistingExecution \<Rightarrow> ('b, 'w, 'a) NodeState
     \<Rightarrow> ('b, 'w, 'a) handled" where
  "replay_execution env io p ad existing nd =
     (if ex_canonical_version existing \<noteq> ad_version ad
      then answer 409 ''canonicalization_version_mismatch''
             ''execution identity uses an unsupported request canonicalization version'' nd
      else if ex_principal_id existing \<noteq> p
      then answer 403 ''forbidden'' ''execution belongs to another principal'' nd
      else if ex_digest existing \<noteq> ad_digest ad \<or> ex_lease_token_hash existing \<noteq> ad_lease_hash ad
      then answer 409 ''execution_identity_conflict'' ''execution identity conflicts with an existing request'' nd
      else
        let rebuilt = RebuiltRecord (recovered_record (ni_instant io) (ex_snapshot existing) (ex_lease_token_hash existing));
            src = (case map_of (nd_executions nd) (ad_id ad) of
                     None \<Rightarrow> rebuilt
                   | Some a \<Rightarrow>
                       (case record_at a nd of
                          None \<Rightarrow> rebuilt
                        | Some r \<Rightarrow> if sn_generation (rc_snapshot r) = ad_generation ad then SharedRecord a else rebuilt))
        in event_response env io (ad_id ad) (ad_generation ad) 0 src nd)"

text \<open>The identifiers of terminal records in table order, until enough are found to make room.\<close>

fun evictable :: "('b, 'w, 'a) NodeState \<Rightarrow> nat \<Rightarrow> (ExecutionId \<times> nat) list \<Rightarrow> ExecutionId list \<Rightarrow> ExecutionId list" where
  "evictable nd entries [] found = found"
| "evictable nd entries ((i, a) # rest) found =
     (let found = (case record_at a nd of
            Some r \<Rightarrow> if is_terminal (sn_state (rc_snapshot r)) then found @ [i] else found | None \<Rightarrow> found)
      in if entries - length found < MAX_RECENT_EXECUTIONS then found else evictable nd entries rest found)"

definition make_room :: "node_io \<Rightarrow> ('b, 'w, 'a) NodeState \<Rightarrow> ('b, 'w, 'a) NodeState" where
  "make_room io nd =
     (if length (nd_executions nd) \<ge> MAX_RECENT_EXECUTIONS
      then let gone = evictable nd (length (nd_executions nd)) (ni_order io (nd_executions nd)) [] in
           nd\<lparr>nd_executions := filter (\<lambda>(i, _). i \<notin> set gone) (nd_executions nd)\<rparr>
      else nd)"

definition activate_workspace ::
  "('b, 'w, 'a) node_env \<Rightarrow> node_io \<Rightarrow> WorkspaceId option \<Rightarrow> ('b, 'w, 'a) NodeState \<Rightarrow> bool \<times> ('b, 'w, 'a) NodeState" where
  "activate_workspace env io w nd =
     (case w of
        None \<Rightarrow> (True, nd)
      | Some i \<Rightarrow>
          (case ni_active io of (io1, io2, io3) \<Rightarrow>
            (case mark_active (ne_ws env) io1 io2 io3 (ni_now_ms io) i (nd_workspaces nd) (nd_blobs nd) of
               (r, wk, bl) \<Rightarrow> (\<not> isl r, nd\<lparr>nd_workspaces := wk, nd_blobs := bl\<rparr>))))"

definition retire_workspace ::
  "node_io \<Rightarrow> WorkspaceId option \<Rightarrow> ('b, 'w, 'a) NodeState \<Rightarrow> ('b, 'w, 'a) NodeState" where
  "retire_workspace io w nd =
     (case w of
        None \<Rightarrow> nd
      | Some i \<Rightarrow>
          (case mark_terminal (fst (ni_terminal io)) (snd (ni_terminal io)) i
                  (u64_saturating_add (ni_now_ms io) DEFAULT_RETENTION_MILLIS) (nd_workspaces nd) (nd_blobs nd) of
             (_, wk, bl) \<Rightarrow> nd\<lparr>nd_workspaces := wk, nd_blobs := bl\<rparr>))"

text \<open>\<^verbatim>\<open>HashMap::insert\<close>\<close>

definition table_insert :: "ExecutionId \<Rightarrow> nat \<Rightarrow> (ExecutionId \<times> nat) list \<Rightarrow> (ExecutionId \<times> nat) list" where
  "table_insert i a t = (i, a) # filter (\<lambda>(j, _). j \<noteq> i) t"

definition accepted_snapshot :: "admission \<Rightarrow> ExecutionSnapshot" where
  "accepted_snapshot ad =
     \<lparr>sn_schema_version = API_SCHEMA_VERSION, sn_execution_id = ad_id ad, sn_generation = ad_generation ad,
      sn_state = Accepted, sn_result = None\<rparr>"

text \<open>The tail of an admission whose reservation was created: record, table, first event, tasks, response.\<close>

definition launch_execution ::
  "('b, 'w, 'a) node_env \<Rightarrow> node_io \<Rightarrow> admission \<Rightarrow> ('b, 'w, 'a) NodeState \<Rightarrow> ('b, 'w, 'a) handled" where
  "launch_execution env io ad nd =
     (let a = length (nd_records nd);
          nd1 = nd\<lparr>nd_records := nd_records nd
                    @ [new_record (ni_instant io) (accepted_snapshot ad) (ad_lease_hash ad) (nd_lease_ttl nd)],
                   nd_executions := table_insert (ad_id ad) a (nd_executions nd), nd_permits := nd_permits nd - 1\<rparr>;
          nd2 = publish env (ni_commit io) (ni_unix_store io) a Accepted None (EvState Accepted) nd1;
          nd3 = nd2\<lparr>nd_tasks := nd_tasks nd2
                    @ [\<lparr>xt_record = a, xt_request = ad_request ad, xt_workspace = ad_capture ad,
                        xt_phase = PhaseSpawned\<rparr>]\<rparr>
      in event_response env io (ad_id ad) (ad_generation ad) 0 (SharedRecord a) nd3)"

definition lease_deadline :: "node_io \<Rightarrow> ('b, 'w, 'a) NodeState \<Rightarrow> int" where
  "lease_deadline io nd = min i64_max (ni_unix io + min (int (nd_lease_ttl nd)) i64_max)"

definition admit_execution ::
  "('b, 'w, 'a) node_env \<Rightarrow> node_io \<Rightarrow> PrincipalId \<Rightarrow> admission \<Rightarrow> ('b, 'w, 'a) NodeState \<Rightarrow> ('b, 'w, 'a) handled" where
  "admit_execution env io p ad nd =
     (if is_draining nd
      then answer 503 ''draining'' ''node is not accepting executions'' (count_metric io ''rejected_draining'' 1 nd)
      else if nd_permits nd = 0
      then answer 503 ''busy'' ''node execution limit reached'' (count_metric io ''rejected_busy'' 1 nd)
      else
        let nd1 = make_room io nd in
        if length (nd_executions nd1) \<ge> MAX_RECENT_EXECUTIONS
        then answer 503 ''storage_exhausted'' ''recent execution capacity reached'' (count_metric io ''rejected_storage'' 1 nd1)
        else
          case activate_workspace env io (ad_workspace_id ad) nd1 of
            (False, nd2) \<Rightarrow>
              answer 409 ''workspace_not_ready'' ''workspace is unavailable for this execution''
                (count_metric io ''rejected_invalid'' 1 nd2)
          | (True, nd2) \<Rightarrow>
              (case reserve (ne_serde env) (ni_reserve io) (ni_unix_store io) (accepted_snapshot ad) (ad_version ad)
                      (ad_digest ad) p (ad_lease_hash ad) (lease_deadline io nd) (nd_store nd2) of
                 (Inl _, st) \<Rightarrow>
                   (Err ''execution store unavailable'', retire_workspace io (ad_workspace_id ad) (nd2\<lparr>nd_store := st\<rparr>))
               | (Inr Created, st) \<Rightarrow>
                   launch_execution env io ad (count_metric io ''executions_accepted'' 1 (nd2\<lparr>nd_store := st\<rparr>))
               | (Inr (Existing s), st) \<Rightarrow>
                   let nd3 = nd2\<lparr>nd_store := st\<rparr>;
                       nd4 = (if is_terminal (sn_state s) then retire_workspace io (ad_workspace_id ad) nd3 else nd3)
                   in event_response env io (ad_id ad) (ad_generation ad) 0
                        (RebuiltRecord (recovered_record (ni_instant io) s (ad_lease_hash ad))) nd4
               | (Inr Conflict, st) \<Rightarrow>
                   answer 409 ''execution_identity_conflict'' ''execution identity conflicts with an existing request''
                     (retire_workspace io (ad_workspace_id ad) (nd2\<lparr>nd_store := st\<rparr>))
               | (Inr StaleGeneration, st) \<Rightarrow>
                   answer 409 ''generation_mismatch'' ''execution generation is stale or out of sequence''
                     (retire_workspace io (ad_workspace_id ad) (nd2\<lparr>nd_store := st\<rparr>))
               | (Inr StorageFull, st) \<Rightarrow>
                   answer 503 ''storage_exhausted'' ''execution identity capacity reached''
                     (retire_workspace io (ad_workspace_id ad)
                       (count_metric io ''rejected_storage'' 1 (nd2\<lparr>nd_store := st\<rparr>)))))"

definition execute ::
  "('b, 'w, 'a) node_env \<Rightarrow> node_io \<Rightarrow> http_request \<Rightarrow> PrincipalId \<Rightarrow> ('b, 'w, 'a) NodeState \<Rightarrow> ('b, 'w, 'a) handled" where
  "execute env io req p nd =
     (case prepare_admission env io p (hq_body req) nd of
        Inl (metric, resp) \<Rightarrow>
          (Ok resp, case metric of None \<Rightarrow> nd | Some name \<Rightarrow> count_metric io name 1 nd)
      | Inr ad \<Rightarrow>
          (case lookup_execution (ne_serde env) (ni_lookup io) (ad_id ad) (ad_generation ad) (nd_store nd) of
             Inl _ \<Rightarrow> (Err ''execution store unavailable'', nd)
           | Inr (Some existing) \<Rightarrow> replay_execution env io p ad existing nd
           | Inr None \<Rightarrow> admit_execution env io p ad nd))"

section \<open>Observation and control\<close>

definition observe ::
  "('b, 'w, 'a) node_env \<Rightarrow> node_io \<Rightarrow> ExecutionId \<Rightarrow> string option \<Rightarrow> PrincipalId \<Rightarrow> ('b, 'w, 'a) NodeState
     \<Rightarrow> ('b, 'w, 'a) handled" where
  "observe env io i query p nd =
     (case query_parameter query ''generation'' of
        Inl _ \<Rightarrow> answer 400 ''invalid_request'' ''query is invalid'' nd
      | Inr q \<Rightarrow>
          (case map_option parse_generation q of
             Some None \<Rightarrow> answer 400 ''invalid_request'' ''generation is invalid'' nd
           | g \<Rightarrow>
               (case load_snapshot_for_principal (ne_serde env) (ni_load io) i (Option.bind g (\<lambda>x. x)) p (nd_store nd) of
                  Inl _ \<Rightarrow> (Err ''execution store unavailable'', nd)
                | Inr (Some s) \<Rightarrow> (Ok (json_response 200 (BodySnapshot s)), nd)
                | Inr None \<Rightarrow> answer 404 ''execution_not_found'' ''execution not found'' nd)))"

text \<open>The renewal branch of a control request.\<close>

definition renew_lease ::
  "('b, 'w, 'a) node_env \<Rightarrow> node_io \<Rightarrow> ExecutionId \<Rightarrow> ControlRequest \<Rightarrow> ExistingExecution \<Rightarrow> nat \<Rightarrow> ExecutionRecord
     \<Rightarrow> ('b, 'w, 'a) NodeState \<Rightarrow> ('b, 'w, 'a) handled" where
  "renew_lease env io i cq existing a r nd =
     (case cq_renewal_id cq of
        None \<Rightarrow> answer 400 ''invalid_request'' ''renewal identifier is required'' nd
      | Some renewal_id \<Rightarrow>
          if renewal_id = [] \<or> length renewal_id > MAX_ID_BYTES
          then answer 400 ''invalid_request'' ''renewal identifier is invalid'' nd
          else if is_terminal (sn_state (rc_snapshot r))
          then answer 409 ''execution_terminal'' ''terminal execution cannot be renewed'' nd
          else if rc_lease_expired r \<or> ni_instant io \<ge> rc_expires_at r
          then answer 409 ''lease_expired'' ''execution lease has expired'' nd
          else
            (case update_lease (ni_lease io) (ni_unix_store io) (ni_unix_store io) i (eh_generation (cq_handle cq))
                    (ex_lease_token_hash existing) renewal_id (lease_deadline io nd) (nd_store nd) of
               (Inl _, st) \<Rightarrow> (Err ''execution store unavailable'', nd\<lparr>nd_store := st\<rparr>)
             | (Inr None, st) \<Rightarrow> answer 409 ''lease_expired'' ''execution lease has expired'' (nd\<lparr>nd_store := st\<rparr>)
             | (Inr (Some expires), st) \<Rightarrow>
                 (Ok (json_response 200 (BodySnapshot (rc_snapshot r))),
                  set_record a (r\<lparr>rc_expires_at := ni_instant io + nat (max 0 (expires - ni_unix io))\<rparr>)
                    (nd\<lparr>nd_store := st\<rparr>))))"

text \<open>The cancellation branch.\<close>

definition cancel_record :: "nat \<Rightarrow> ('b, 'w, 'a) NodeState \<Rightarrow> ('b, 'w, 'a) NodeState" where
  "cancel_record a nd =
     (case record_at a nd of None \<Rightarrow> nd | Some r \<Rightarrow> set_record a (r\<lparr>rc_cancelled := True\<rparr>) nd)"

definition current_snapshot :: "nat \<Rightarrow> ExecutionRecord \<Rightarrow> ('b, 'w, 'a) NodeState \<Rightarrow> ExecutionSnapshot" where
  "current_snapshot a r nd = (case record_at a nd of None \<Rightarrow> rc_snapshot r | Some r' \<Rightarrow> rc_snapshot r')"

definition cancel_execution ::
  "('b, 'w, 'a) node_env \<Rightarrow> node_io \<Rightarrow> nat \<Rightarrow> ExecutionRecord \<Rightarrow> ('b, 'w, 'a) NodeState \<Rightarrow> ('b, 'w, 'a) handled" where
  "cancel_execution env io a r nd =
     (let s = sn_state (rc_snapshot r) in
      if \<not> is_terminal s \<and> s \<noteq> Cancelling \<and> (rc_lease_expired r \<or> ni_instant io \<ge> rc_expires_at r)
      then answer 409 ''lease_expired'' ''execution lease has expired'' nd
      else
        let nd' =
          (if \<not> is_terminal s \<and> s \<noteq> Cancelling then
             let nd1 = publish env (ni_commit io) (ni_unix_store io) a Cancelling None (EvState Cancelling) nd
             in if is_terminal (sn_state (current_snapshot a r nd1)) then nd1 else cancel_record a nd1
           else if s = Cancelling then cancel_record a nd else nd)
        in (Ok (json_response 202 (BodySnapshot (current_snapshot a r nd'))), nd'))"

definition control ::
  "('b, 'w, 'a) node_env \<Rightarrow> node_io \<Rightarrow> ExecutionId \<Rightarrow> http_request \<Rightarrow> PrincipalId \<Rightarrow> bool \<Rightarrow> ('b, 'w, 'a) NodeState
     \<Rightarrow> ('b, 'w, 'a) handled" where
  "control env io i req p renew nd =
     (case read_limited_body MAX_REQUEST_BYTES (hq_body req) of
        None \<Rightarrow> answer 413 ''request_too_large'' ''request body exceeds limit'' nd
      | Some bytes \<Rightarrow>
      case ne_control env bytes of
        None \<Rightarrow> answer 400 ''invalid_request'' ''request body is invalid'' nd
      | Some cq \<Rightarrow>
          if cq_schema_version cq \<noteq> API_SCHEMA_VERSION \<or> eh_execution_id (cq_handle cq) \<noteq> i
          then answer 400 ''invalid_request'' ''control request is invalid'' nd
          else
      case lookup_execution (ne_serde env) (ni_lookup io) i (eh_generation (cq_handle cq)) (nd_store nd) of
        Inl _ \<Rightarrow> (Err ''execution store unavailable'', nd)
      | Inr None \<Rightarrow> answer 404 ''execution_not_found'' ''execution not found'' nd
      | Inr (Some existing) \<Rightarrow>
          if ex_principal_id existing \<noteq> p then answer 403 ''forbidden'' ''execution belongs to another principal'' nd
          else if ex_lease_token_hash existing \<noteq> lease_hash env (eh_lease_id (cq_handle cq))
          then answer 403 ''invalid_lease'' ''execution lease is invalid'' nd
          else
      case load_snapshot (ne_serde env) (ni_load io) i None (nd_store nd) of
        Inl _ \<Rightarrow> (Err ''execution store unavailable'', nd)
      | Inr None \<Rightarrow> answer 404 ''execution_not_found'' ''execution not found'' nd
      | Inr (Some latest) \<Rightarrow>
          if sn_generation latest \<noteq> eh_generation (cq_handle cq)
          then answer 409 ''generation_mismatch'' ''execution generation is stale'' nd
          else
      case Option.bind (map_of (nd_executions nd) i) (\<lambda>a. map_option (Pair a) (record_at a nd)) of
        None \<Rightarrow> answer 404 ''execution_not_found'' ''execution not found'' nd
      | Some (a, r) \<Rightarrow>
          if rc_lease_hash r \<noteq> ex_lease_token_hash existing
          then answer 403 ''invalid_lease'' ''execution lease is invalid'' nd
          else if renew then renew_lease env io i cq existing a r nd
          else cancel_execution env io a r nd)"

definition rebuilt_events ::
  "('b, 'w, 'a) node_env \<Rightarrow> node_io \<Rightarrow> ExecutionId \<Rightarrow> ExecutionGeneration \<Rightarrow> u64 \<Rightarrow> ('b, 'w, 'a) NodeState
     \<Rightarrow> ('b, 'w, 'a) handled" where
  "rebuilt_events env io i generation after nd =
     (case load_snapshot (ne_serde env) (ni_load io) i (Some generation) (nd_store nd) of
        Inl _ \<Rightarrow> (Err ''execution store unavailable'', nd)
      | Inr None \<Rightarrow> answer 404 ''execution_not_found'' ''execution not found'' nd
      | Inr (Some s) \<Rightarrow>
          event_response env io i generation after (RebuiltRecord (recovered_record (ni_instant io) s [])) nd)"

definition events_route ::
  "('b, 'w, 'a) node_env \<Rightarrow> node_io \<Rightarrow> ExecutionId \<Rightarrow> string option \<Rightarrow> PrincipalId \<Rightarrow> ('b, 'w, 'a) NodeState
     \<Rightarrow> ('b, 'w, 'a) handled" where
  "events_route env io i query p nd =
     (case query_parameter query ''generation'' of
        Inr (Some gen_text) \<Rightarrow>
      (case parse_generation gen_text of
        None \<Rightarrow> answer 400 ''invalid_request'' ''generation is invalid'' nd
      | Some generation \<Rightarrow>
      (case query_parameter query ''after'' of
        Inr (Some after_text) \<Rightarrow>
      (case parse_u64 after_text of
        None \<Rightarrow> answer 400 ''invalid_request'' ''event cursor is invalid'' nd
      | Some after \<Rightarrow>
          if uint after > i64_max then answer 416 ''cursor_ahead'' ''event cursor is ahead of the journal'' nd
          else
      (case query_parameter query ''lease'' of
        Inr (Some lease_text) \<Rightarrow>
      (case id_new ''lease id'' lease_text of
        Inl _ \<Rightarrow> answer 400 ''invalid_request'' ''execution lease is invalid'' nd
      | Inr lease \<Rightarrow>
      (case lookup_execution (ne_serde env) (ni_lookup io) i generation (nd_store nd) of
        Inl _ \<Rightarrow> (Err ''execution store unavailable'', nd)
      | Inr None \<Rightarrow> answer 404 ''execution_not_found'' ''execution not found'' nd
      | Inr (Some existing) \<Rightarrow>
          if ex_principal_id existing \<noteq> p \<or> ex_lease_token_hash existing \<noteq> lease_hash env lease
          then answer 403 ''forbidden'' ''execution event access is not authorized'' nd
          else
      (case Option.bind (map_of (nd_executions nd) i) (\<lambda>a. map_option (Pair a) (record_at a nd)) of
        Some (a, r) \<Rightarrow>
          if sn_generation (rc_snapshot r) = generation
          then event_response env io i generation after (SharedRecord a) nd
          else rebuilt_events env io i generation after nd
      | None \<Rightarrow> rebuilt_events env io i generation after nd)))
      | _ \<Rightarrow> answer 400 ''invalid_request'' ''execution lease is required'' nd))
      | _ \<Rightarrow> answer 400 ''invalid_request'' ''event cursor is required'' nd))
      | _ \<Rightarrow> answer 400 ''invalid_request'' ''generation is required'' nd)"

section \<open>Blobs\<close>

definition blob_missing ::
  "('b, 'w, 'a) node_env \<Rightarrow> node_io \<Rightarrow> http_request \<Rightarrow> PrincipalId \<Rightarrow> ('b, 'w, 'a) NodeState \<Rightarrow> ('b, 'w, 'a) handled" where
  "blob_missing env io req p nd =
     (case read_limited_body MAX_BLOB_FIND_REQUEST_BYTES (hq_body req) of
        None \<Rightarrow> answer 413 ''request_too_large'' ''request body exceeds limit'' nd
      | Some bytes \<Rightarrow>
      case ne_missing env bytes of
        None \<Rightarrow> answer 400 ''invalid_request'' ''request body is invalid'' nd
      | Some digests \<Rightarrow>
          if list_ex (\<lambda>d. \<not> authorize_resource env p OpBlobRead (ResBlob d)) digests
          then answer 403 ''forbidden'' ''operation is not authorized'' nd
          else (case find_missing (ni_find io) digests (nd_blobs nd) of
                  Inr missing \<Rightarrow> (Ok (json_response 200 (BodyMissing missing)), nd)
                | Inl BlobTooManyDigests \<Rightarrow> answer 413 ''too_many_digests'' ''digest batch exceeds limit'' nd
                | Inl _ \<Rightarrow> answer 500 ''storage_error'' ''blob metadata is unavailable'' nd))"

definition blob_prepare ::
  "('b, 'w, 'a) node_env \<Rightarrow> node_io \<Rightarrow> http_request \<Rightarrow> PrincipalId \<Rightarrow> ('b, 'w, 'a) NodeState \<Rightarrow> ('b, 'w, 'a) handled" where
  "blob_prepare env io req p nd =
     (case read_limited_body MAX_BLOB_FIND_REQUEST_BYTES (hq_body req) of
        None \<Rightarrow> answer 413 ''request_too_large'' ''request body exceeds limit'' nd
      | Some bytes \<Rightarrow>
      case ne_prepare env bytes of
        None \<Rightarrow> answer 400 ''invalid_request'' ''request body is invalid'' nd
      | Some (digest, declared) \<Rightarrow>
          if \<not> authorize_resource env p OpBlobWrite (ResBlob digest)
          then answer 403 ''forbidden'' ''operation is not authorized'' nd
          else (case prepare_upload (ne_sha env) (ni_verify io) (ni_query io) digest declared (nd_blobs nd) of
                  (Inr required, bl) \<Rightarrow> (Ok (json_response 200 (BodyUploadRequired required)), nd\<lparr>nd_blobs := bl\<rparr>)
                | (Inl e, bl) \<Rightarrow> (Ok (blob_error_response e), nd\<lparr>nd_blobs := bl\<rparr>)))"

definition declared_size :: "string option \<Rightarrow> u64 option" where
  "declared_size query = Option.bind (Option.bind query (strip_prefix ''size='')) parse_u64"

definition blob_upload ::
  "('b, 'w, 'a) node_env \<Rightarrow> node_io \<Rightarrow> http_request \<Rightarrow> BlobDigest \<Rightarrow> ('b, 'w, 'a) NodeState \<Rightarrow> ('b, 'w, 'a) handled" where
  "blob_upload env io req digest nd =
     (case declared_size (hq_query req) of
        None \<Rightarrow> answer 400 ''invalid_request'' ''blob size is required'' nd
      | Some declared \<Rightarrow>
          if unat declared > MAX_BLOB_BYTES then answer 413 ''blob_too_large'' ''blob exceeds size limit'' nd
          else if (case hq_declared_length req of None \<Rightarrow> False | Some len \<Rightarrow> len \<noteq> declared)
          then answer 400 ''length_mismatch'' ''declared blob length does not match request'' nd
          else (case put_stream (ne_sha env) (ni_put io) (ni_verify io) digest declared (hq_body req) (nd_blobs nd) of
                  (Inr _, bl) \<Rightarrow>
                    (Ok \<lparr>rp_status = 201, rp_body = BodyEmpty\<rparr>,
                     count_metric io ''blob_upload_bytes'' declared (nd\<lparr>nd_blobs := bl\<rparr>))
                | (Inl e, bl) \<Rightarrow> (Ok (blob_error_response e), nd\<lparr>nd_blobs := bl\<rparr>)))"

text \<open>
  The pieces a download delivers: each read returns at most 64 KiB and at least one byte until the end; the list
  of sizes is what the reads returned before the client left or a read failed.
\<close>

fun stream_reads :: "nat list \<Rightarrow> u8 list \<Rightarrow> u8 list list" where
  "stream_reads [] content = []"
| "stream_reads (n # ns) content =
     (if content = [] then []
      else let k = max 1 (min n (64 * 1024)) in take k content # stream_reads ns (drop k content))"

definition blob_download ::
  "('b, 'w, 'a) node_env \<Rightarrow> node_io \<Rightarrow> BlobDigest \<Rightarrow> ('b, 'w, 'a) NodeState \<Rightarrow> ('b, 'w, 'a) handled" where
  "blob_download env io digest nd =
     (case open_verified (ne_sha env) (ni_verify io) (ni_opened io) digest (nd_blobs nd) of
        (Inl e, bl) \<Rightarrow> (Ok (blob_error_response e), nd\<lparr>nd_blobs := bl\<rparr>)
      | (Inr content, bl) \<Rightarrow>
          let pieces = stream_reads (ni_reads io) content in
          (Ok \<lparr>rp_status = 200, rp_body = BodyBlob digest (concat pieces)\<rparr>,
           fold (\<lambda>c. count_metric io ''blob_download_bytes'' (of_nat (length c))) pieces (nd\<lparr>nd_blobs := bl\<rparr>)))"

section \<open>Workspaces\<close>

definition workspace_ready :: "WorkspaceId \<Rightarrow> ExecutionHandle \<Rightarrow> ReadyWorkspace \<Rightarrow> Response" where
  "workspace_ready w handle ready =
     json_response 201 (BodyWorkspace \<lparr>wy_schema_version = API_SCHEMA_VERSION, wy_workspace_id = w,
       wy_execution_id = eh_execution_id handle, wy_generation = eh_generation handle,
       wy_manifest_digest = rw_manifest_digest ready, wy_logical_bytes = rw_logical_bytes ready\<rparr>)"

definition workspace_error_response :: "WorkspaceError \<Rightarrow> Response" where
  "workspace_error_response e =
     (case e of
        WsInvalidManifest \<Rightarrow> error_response 400 ''invalid_manifest'' ''workspace manifest is invalid''
      | WsInvalidBlob \<Rightarrow> error_response 409 ''missing_blob'' ''workspace references a missing or corrupt blob''
      | WsBlobSizeMismatch \<Rightarrow> error_response 409 ''blob_size_mismatch'' ''workspace blob size does not match''
      | WsQuotaExceeded \<Rightarrow> error_response 507 ''quota_exceeded'' ''workspace quota exceeded''
      | WsConflict \<Rightarrow> error_response 409 ''workspace_identity_conflict'' ''workspace identity conflicts''
      | _ \<Rightarrow> error_response 500 ''workspace_error'' ''workspace materialization failed'')"

definition workspace_create ::
  "('b, 'w, 'a) node_env \<Rightarrow> node_io \<Rightarrow> http_request \<Rightarrow> PrincipalId \<Rightarrow> ('b, 'w, 'a) NodeState \<Rightarrow> ('b, 'w, 'a) handled" where
  "workspace_create env io req p nd =
     (case read_limited_body MAX_WORKSPACE_REQUEST_BYTES (hq_body req) of
        None \<Rightarrow> answer 413 ''request_too_large'' ''workspace manifest exceeds limit'' nd
      | Some bytes \<Rightarrow>
      case ne_create env bytes of
        None \<Rightarrow> answer 400 ''invalid_request'' ''workspace request is invalid'' nd
      | Some wire \<Rightarrow>
          if wq_schema_version wire \<noteq> API_SCHEMA_VERSION
          then answer 426 ''protocol_version'' ''unsupported schema version'' nd
          else if \<not> authorize_resource env p OpWorkspaceCreate (ResWorkspace (wq_workspace_id wire))
          then answer 403 ''forbidden'' ''operation is not authorized'' nd
          else if isl (ExecutionGeneration_new (eh_generation (wq_handle wire)))
          then answer 400 ''invalid_request'' ''workspace owner is invalid'' (count_metric io ''rejected_invalid'' 1 nd)
          else (case materialize (ne_ws env) (ni_materialize io) (wq_workspace_id wire) (wq_handle wire) p
                       (wq_manifest wire) (nd_workspaces nd) (nd_blobs nd) of
                  (Inr ready, wk, bl) \<Rightarrow>
                    (Ok (workspace_ready (wq_workspace_id wire) (wq_handle wire) ready),
                     count_metric io ''workspace_manifest_registrations'' 1 (nd\<lparr>nd_workspaces := wk, nd_blobs := bl\<rparr>))
                | (Inl e, wk, bl) \<Rightarrow>
                    (Ok (workspace_error_response e), nd\<lparr>nd_workspaces := wk, nd_blobs := bl\<rparr>)))"

definition workspace_derive ::
  "('b, 'w, 'a) node_env \<Rightarrow> node_io \<Rightarrow> http_request \<Rightarrow> PrincipalId \<Rightarrow> ('b, 'w, 'a) NodeState \<Rightarrow> ('b, 'w, 'a) handled" where
  "workspace_derive env io req p nd0 =
     (let nd = count_metric io ''workspace_derived_requests'' 1 nd0 in
      case read_limited_body MAX_WORKSPACE_REQUEST_BYTES (hq_body req) of
        None \<Rightarrow> answer 413 ''request_too_large'' ''workspace patch exceeds limit'' nd
      | Some bytes \<Rightarrow>
      case ne_derive env bytes of
        None \<Rightarrow> answer 400 ''invalid_request'' ''workspace derive request is invalid'' nd
      | Some wire \<Rightarrow>
          if dq_schema_version wire \<noteq> API_SCHEMA_VERSION
          then answer 426 ''protocol_version'' ''unsupported schema version'' nd
          else if \<not> authorize_resource env p OpWorkspaceCreate (ResWorkspace (dq_workspace_id wire))
          then answer 403 ''forbidden'' ''operation is not authorized'' nd
          else if isl (ExecutionGeneration_new (eh_generation (dq_handle wire)))
          then answer 400 ''invalid_request'' ''workspace owner is invalid'' (count_metric io ''rejected_invalid'' 1 nd)
          else (case materialize_derived (ne_ws env) (ni_manifest io) (ni_materialize io) (dq_workspace_id wire)
                       (dq_handle wire) p (dq_patch wire) (nd_workspaces nd) (nd_blobs nd) of
                  (Inr ready, wk, bl) \<Rightarrow>
                    (Ok (workspace_ready (dq_workspace_id wire) (dq_handle wire) ready),
                     nd\<lparr>nd_workspaces := wk, nd_blobs := bl,
                        nd_store := snd (increment_metrics (ni_metric io ''workspace_derived_hits'')
                          [(''workspace_derived_hits'', 1), (''workspace_manifest_registrations'', 1),
                           (''workspace_patch_entries'', of_nat (length (wp_entries (dq_patch wire))))] (nd_store nd))\<rparr>)
                | (Inl WsBaseMissing, wk, bl) \<Rightarrow>
                    answer 409 ''base_manifest_missing'' ''base manifest is missing or expired; retry with a full manifest''
                      (count_metric io ''workspace_base_missing'' 1 (nd\<lparr>nd_workspaces := wk, nd_blobs := bl\<rparr>))
                | (Inl WsInvalidPatch, wk, bl) \<Rightarrow>
                    answer 400 ''invalid_patch'' ''workspace patch is invalid'' (nd\<lparr>nd_workspaces := wk, nd_blobs := bl\<rparr>)
                | (Inl e, wk, bl) \<Rightarrow>
                    (Ok (workspace_error_response e), nd\<lparr>nd_workspaces := wk, nd_blobs := bl\<rparr>)))"

section \<open>Artifacts\<close>

definition artifact_list ::
  "('b, 'w, 'a) node_env \<Rightarrow> node_io \<Rightarrow> ExecutionId \<Rightarrow> string option \<Rightarrow> PrincipalId \<Rightarrow> ('b, 'w, 'a) NodeState
     \<Rightarrow> ('b, 'w, 'a) handled" where
  "artifact_list env io i query p nd =
     (case (case query_parameter query ''generation'' of Inr (Some v) \<Rightarrow> parse_generation v | _ \<Rightarrow> None) of
        None \<Rightarrow> answer 400 ''invalid_request'' ''generation is invalid'' nd
      | Some generation \<Rightarrow>
          (case artifact_list_rows (ne_art env) (ni_artifacts io) (ni_now_ms io) i generation p (nd_artifacts nd) of
             Inr rs \<Rightarrow> (Ok (json_response 200 (BodyArtifacts rs)), nd)
           | Inl _ \<Rightarrow> answer 500 ''storage_error'' ''artifact metadata unavailable'' nd))"

definition reader_expiry :: "node_io \<Rightarrow> u64" where
  "reader_expiry io = u64_saturating_add (ni_now_ms io) (30 * 60 * 1000)"

text \<open>Dropping the lease releases the reader's reference.\<close>

definition drop_lease :: "node_io \<Rightarrow> BlobStore \<Rightarrow> BlobStore" where
  "drop_lease io bl = snd (release_references (ni_release io) ''reader'' (ni_uuid io) bl)"

text \<open>Each delivered piece renews the lease first; a failed renewal ends the stream.\<close>

fun leased_reads :: "node_io \<Rightarrow> u8 list list \<Rightarrow> BlobStore \<Rightarrow> u8 list list \<times> BlobStore" where
  "leased_reads io [] bl = ([], bl)"
| "leased_reads io (c # cs) bl =
     (case set_reference_expiry (ni_renew io) ''reader'' (ni_uuid io) (reader_expiry io) bl of
        (Inl _, bl') \<Rightarrow> ([], bl')
      | (Inr _, bl') \<Rightarrow> (case leased_reads io cs bl' of (out, bl'') \<Rightarrow> (c # out, bl'')))"

definition artifact_download ::
  "('b, 'w, 'a) node_env \<Rightarrow> node_io \<Rightarrow> ArtifactId \<Rightarrow> PrincipalId \<Rightarrow> ('b, 'w, 'a) NodeState \<Rightarrow> ('b, 'w, 'a) handled" where
  "artifact_download env io i p nd =
     (case artifact_get (ne_art env) (ni_artifacts io) (ni_now_ms io) i p (nd_artifacts nd) of
        Inl _ \<Rightarrow> answer 404 ''artifact_not_found'' ''artifact not found'' nd
      | Inr rec \<Rightarrow>
          (case retain (ni_retain io) ''reader'' (ni_uuid io) [ar_digest rec] (Some (reader_expiry io)) (nd_blobs nd) of
             (Inl _, bl) \<Rightarrow> answer 404 ''artifact_not_found'' ''artifact not found'' (nd\<lparr>nd_blobs := bl\<rparr>)
           | (Inr _, bl) \<Rightarrow>
               (case open_verified (ne_sha env) (ni_verify io) (ni_opened io) (ar_digest rec) bl of
                  (Inl _, bl') \<Rightarrow>
                    answer 500 ''artifact_unavailable'' ''artifact bytes unavailable'' (nd\<lparr>nd_blobs := drop_lease io bl'\<rparr>)
                | (Inr content, bl') \<Rightarrow>
                    (case leased_reads io (stream_reads (ni_reads io) content) bl' of (pieces, bl'') \<Rightarrow>
                       (Ok \<lparr>rp_status = 200, rp_body = BodyArtifact i (ar_digest rec) (concat pieces)\<rparr>,
                        nd\<lparr>nd_blobs := drop_lease io bl''\<rparr>)))))"

section \<open>Dispatch\<close>

text \<open>\<^verbatim>\<open>available_permits() as u32\<close> and the subtraction at the width of the counter.\<close>

definition node_status :: "('b, 'w, 'a) NodeState \<Rightarrow> NodeStatus" where
  "node_status nd =
     \<lparr>ns_node_id = nd_node_id nd, ns_draining = is_draining nd,
      ns_active_executions = nd_max_active nd - of_nat (nd_permits nd),
      ns_capabilities = node_capabilities_for (nd_features nd) (nd_max_active nd)\<rparr>"

definition serve_route ::
  "('b, 'w, 'a) node_env \<Rightarrow> node_io \<Rightarrow> http_request \<Rightarrow> PrincipalId \<Rightarrow> Route \<Rightarrow> ('b, 'w, 'a) NodeState \<Rightarrow> ('b, 'w, 'a) handled" where
  "serve_route env io req p route nd =
     (case route of
        RCapabilities \<Rightarrow>
          (Ok (json_response 200 (BodyCapabilities (node_capabilities_for (nd_features nd) (nd_max_active nd)))), nd)
      | RStatus \<Rightarrow> (Ok (json_response 200 (BodyStatus (node_status nd))), nd)
      | RTelemetry \<Rightarrow>
          (Ok (json_response 200 (BodyTelemetry (node_telemetry (ni_instant io) (nd_node_id nd) (nd_telemetry nd)))), nd)
      | RExecute \<Rightarrow> execute env io req p nd
      | RObserve i \<Rightarrow> observe env io i (hq_query req) p nd
      | RCancel i \<Rightarrow> control env io i req p False nd
      | RRenew i \<Rightarrow> control env io i req p True nd
      | REvents i \<Rightarrow> events_route env io i (hq_query req) p nd
      | RBlobMissing \<Rightarrow> blob_missing env io req p nd
      | RBlobPrepare \<Rightarrow> blob_prepare env io req p nd
      | RBlobUpload d \<Rightarrow> blob_upload env io req d nd
      | RBlobDownload d \<Rightarrow> blob_download env io d nd
      | RBlobInvalidDigest \<Rightarrow> answer 400 ''invalid_digest'' ''blob digest is invalid'' nd
      | RWorkspaceCreate \<Rightarrow> workspace_create env io req p nd
      | RWorkspaceDerive \<Rightarrow> workspace_derive env io req p nd
      | RArtifactList i \<Rightarrow> artifact_list env io i (hq_query req) p nd
      | RArtifactDownload i \<Rightarrow> artifact_download env io i p nd)"

definition dispatch ::
  "('b, 'w, 'a) node_env \<Rightarrow> node_io \<Rightarrow> http_request \<Rightarrow> ('b, 'w, 'a) NodeState \<Rightarrow> ('b, 'w, 'a) handled" where
  "dispatch env io req nd =
     (case operation_for (hq_method req) (hq_path req) of
        None \<Rightarrow> answer 404 ''not_found'' ''operation not found'' (count_metric io ''rejected_route'' 1 nd)
      | Some (operation, route) \<Rightarrow>
          (case authenticated_principal (ne_resolver env) (hq_tls req) of
             None \<Rightarrow>
               answer 401 ''unauthenticated'' ''verified client identity required''
                 (count_metric io ''rejected_unauthenticated'' 1 nd)
           | Some p \<Rightarrow>
               if \<not> ne_authorize env p
                     \<lparr>or_operation = operation, or_resource = resource_for_path operation (hq_path req)\<rparr>
               then answer 403 ''forbidden'' ''operation is not authorized''
                      (count_metric io ''rejected_unauthorized'' 1 nd)
               else serve_route env io req p route nd))"

end
