(* ===== verification/Node_Run.thy ===== *)
theory Node_Run
  imports Node
begin

text \<open>
  The tasks of the node: the lease monitor, and the execution task with its select loop, its drain loop and its
  end. A task advances in steps between its awaits, so that requests and other tasks can run in between. The
  event stream of a client and the life of the node itself are in \<open>Node_Life\<close>.
\<close>

section \<open>The lease monitor\<close>

text \<open>One turn of the loop at the given instant, with whether the monitor goes on.\<close>

definition monitor_lease :: "nat \<Rightarrow> ExecutionRecord \<Rightarrow> ExecutionRecord \<times> bool" where
  "monitor_lease now r =
     (if is_terminal (sn_state (rc_snapshot r)) then (r, False)
      else if rc_cancelled r then (r, False)
      else if now \<ge> rc_expires_at r then (r\<lparr>rc_lease_expired := True, rc_cancelled := True\<rparr>, False)
      else (r, True))"

definition lease_tick :: "nat \<Rightarrow> nat \<Rightarrow> ('b, 'w, 'a) NodeState \<Rightarrow> ('b, 'w, 'a) NodeState" where
  "lease_tick now a nd =
     (case record_at a nd of None \<Rightarrow> nd | Some r \<Rightarrow> set_record a (fst (monitor_lease now r)) nd)"

section \<open>The select loop\<close>

definition select_start :: select_state where
  "select_start = \<lparr>sl_queue = [], sl_senders_gone = False, sl_outcome = None, sl_result = None, sl_error = None,
     sl_output_closed = False\<rparr>"

text \<open>
  What happens outside the loop: a reader queues a chunk, the last sender goes away, or the spawned runner
  ends, by returning or by a panic.
\<close>

datatype run_event = RunChunk OutputChunk | RunSendersGone | RunReturned "RunnerError + RunnerResult" | RunPanicked

definition deliver :: "run_event \<Rightarrow> select_state \<Rightarrow> select_state" where
  "deliver e s =
     (case e of
        RunChunk c \<Rightarrow> if sl_senders_gone s then s else s\<lparr>sl_queue := sl_queue s @ [c]\<rparr>
      | RunSendersGone \<Rightarrow> s\<lparr>sl_senders_gone := True\<rparr>
      | RunReturned r \<Rightarrow> if sl_outcome s = None then s\<lparr>sl_outcome := Some r\<rparr> else s
      | RunPanicked \<Rightarrow> if sl_outcome s = None then s\<lparr>sl_outcome := Some (Err (Wait ''runner task failed''))\<rparr> else s)"

definition chunk_kind :: "OutputChunk \<Rightarrow> ExecutionEventKind" where
  "chunk_kind c = (if oc_stderr c then EvStderr (oc_bytes c) else EvStdout (oc_bytes c))"

text \<open>
  One pass of the biased \<^verbatim>\<open>select!\<close>: the receive branch is polled first; \<open>between\<close> happens before the join
  branch is polled. A pass without an enabled branch panics.
\<close>

datatype pass = PassOutput OutputChunk select_state | PassContinue select_state | PassBreak select_state | PassPanic

definition poll_join :: "select_state \<Rightarrow> pass" where
  "poll_join s =
     (if sl_result s \<noteq> None \<or> sl_error s \<noteq> None then PassContinue s
      else case sl_outcome s of
        None \<Rightarrow> PassContinue s
      | Some r \<Rightarrow>
          let s' = (case r of Inr v \<Rightarrow> s\<lparr>sl_result := Some v\<rparr> | Inl e \<Rightarrow> s\<lparr>sl_error := Some e\<rparr>)
          in if sl_senders_gone s' \<and> sl_queue s' = [] then PassBreak s' else PassContinue s')"

definition select_pass :: "run_event list \<Rightarrow> select_state \<Rightarrow> pass" where
  "select_pass between s =
     (if sl_output_closed s \<and> (sl_result s \<noteq> None \<or> sl_error s \<noteq> None) then PassPanic
      else if \<not> sl_output_closed s \<and> sl_queue s \<noteq> []
      then PassOutput (hd (sl_queue s)) (s\<lparr>sl_queue := tl (sl_queue s)\<rparr>)
      else if \<not> sl_output_closed s \<and> sl_senders_gone s
      then (let s' = s\<lparr>sl_output_closed := True\<rparr> in if sl_result s' \<noteq> None then PassBreak s' else PassContinue s')
      else poll_join (fold deliver between s))"

section \<open>Steps of an execution task\<close>

definition set_phase :: "nat \<Rightarrow> task_phase \<Rightarrow> ('b, 'w, 'a) NodeState \<Rightarrow> ('b, 'w, 'a) NodeState" where
  "set_phase k ph nd = nd\<lparr>nd_tasks := (nd_tasks nd)[k := (nd_tasks nd ! k)\<lparr>xt_phase := ph\<rparr>]\<rparr>"

text \<open>A task that ends, normally or by a panic, gives its permit back.\<close>

definition end_task :: "nat \<Rightarrow> ('b, 'w, 'a) NodeState \<Rightarrow> ('b, 'w, 'a) NodeState" where
  "end_task k nd = nd\<lparr>nd_tasks := take k (nd_tasks nd) @ drop (Suc k) (nd_tasks nd), nd_permits := nd_permits nd + 1\<rparr>"

definition publish_chunk ::
  "('b, 'w, 'a) node_env \<Rightarrow> bool \<Rightarrow> int \<Rightarrow> nat \<Rightarrow> OutputChunk \<Rightarrow> ('b, 'w, 'a) NodeState \<Rightarrow> ('b, 'w, 'a) NodeState" where
  "publish_chunk env io now a c nd = publish env io now a Running None (chunk_kind c) nd"

text \<open>The first await: the execution is announced as running, then the runner is spawned.\<close>

definition task_begin ::
  "('b, 'w, 'a) node_env \<Rightarrow> bool \<Rightarrow> int \<Rightarrow> nat \<Rightarrow> ('b, 'w, 'a) NodeState \<Rightarrow> ('b, 'w, 'a) NodeState" where
  "task_begin env io now k nd =
     (if k < length (nd_tasks nd) \<and> xt_phase (nd_tasks nd ! k) = PhaseSpawned
      then set_phase k (PhaseSelect select_start)
             (publish env io now (xt_record (nd_tasks nd ! k)) Running None (EvState Running) nd)
      else nd)"

definition task_deliver :: "run_event \<Rightarrow> nat \<Rightarrow> ('b, 'w, 'a) NodeState \<Rightarrow> ('b, 'w, 'a) NodeState" where
  "task_deliver e k nd =
     (if k < length (nd_tasks nd) then
        (case xt_phase (nd_tasks nd ! k) of
           PhaseSelect s \<Rightarrow> set_phase k (PhaseSelect (deliver e s)) nd
         | PhaseDrain s \<Rightarrow> set_phase k (PhaseDrain (deliver e s)) nd
         | PhaseSpawned \<Rightarrow> nd)
      else nd)"

definition task_poll ::
  "('b, 'w, 'a) node_env \<Rightarrow> bool \<Rightarrow> int \<Rightarrow> run_event list \<Rightarrow> nat \<Rightarrow> ('b, 'w, 'a) NodeState \<Rightarrow> ('b, 'w, 'a) NodeState" where
  "task_poll env io now between k nd =
     (if k < length (nd_tasks nd) then
        (case xt_phase (nd_tasks nd ! k) of
           PhaseSelect s \<Rightarrow>
             (case select_pass between s of
                PassOutput c s' \<Rightarrow>
                  set_phase k (PhaseSelect s') (publish_chunk env io now (xt_record (nd_tasks nd ! k)) c nd)
              | PassContinue s' \<Rightarrow> set_phase k (PhaseSelect s') nd
              | PassBreak s' \<Rightarrow> set_phase k (PhaseDrain s') nd
              | PassPanic \<Rightarrow> end_task k nd)
         | _ \<Rightarrow> nd)
      else nd)"

text \<open>One turn of \<^verbatim>\<open>while let Ok(output) = output_rx.try_recv()\<close>.\<close>

definition task_drain ::
  "('b, 'w, 'a) node_env \<Rightarrow> bool \<Rightarrow> int \<Rightarrow> nat \<Rightarrow> ('b, 'w, 'a) NodeState \<Rightarrow> ('b, 'w, 'a) NodeState" where
  "task_drain env io now k nd =
     (if k < length (nd_tasks nd) then
        (case xt_phase (nd_tasks nd ! k) of
           PhaseDrain s \<Rightarrow>
             (case sl_queue s of
                [] \<Rightarrow> nd
              | c # rest \<Rightarrow>
                  set_phase k (PhaseDrain (s\<lparr>sl_queue := rest\<rparr>))
                    (publish_chunk env io now (xt_record (nd_tasks nd ! k)) c nd))
         | _ \<Rightarrow> nd)
      else nd)"

section \<open>The end of an execution\<close>

definition failure_for_runner_error :: "RunnerError option \<Rightarrow> bool \<Rightarrow> ExecutionFailure" where
  "failure_for_runner_error e lease_expired =
     (case e of
        Some (Spawn _) \<Rightarrow> FailSpawn
      | _ \<Rightarrow> if lease_expired then FailLeaseExpired
              else if e = Some CancelledBeforeSpawn then FailInterrupted else FailInternal)"

definition failed_dimension :: "'x Requirement \<Rightarrow> ResourceDimensionResult" where
  "failed_dimension r =
     (case r of NotRequested \<Rightarrow> DimNotRequested
      | _ \<Rightarrow> DimNotApplied ''requested resource enforcement failed before execution'')"

definition failed_result ::
  "ExecutionState \<Rightarrow> ExecutionFailure \<Rightarrow> SandboxRequest \<Rightarrow> ResourceSetupRequest \<Rightarrow> ExecutionResult" where
  "failed_result state f sandbox_request r =
     \<lparr>er_state = state, exit_code = None, failure = Some f, stdout_bytes = 0, stderr_bytes = 0, stdout_omitted = 0,
      stderr_omitted = 0, cleanup_warning = None, finalization_failure = None, artifact_count = 0,
      sandbox = Some (case sandbox_request of
          SandboxNone \<Rightarrow> SandboxNotRequested
        | SandboxBestEffort _ \<Rightarrow> SandboxNotApplied ''best-effort sandbox setup was unavailable''
        | SandboxRequired _ \<Rightarrow> SandboxFailed ''required sandbox setup failed''),
      er_resources = Some \<lparr>rr_memory_bytes = failed_dimension (memory_bytes r),
        rr_cpu_millis = failed_dimension (cpu_millis r), rr_pids = failed_dimension (pids r)\<rparr>\<rparr>"

definition outcome_result :: "RunnerRequest \<Rightarrow> bool \<Rightarrow> select_state \<Rightarrow> ExecutionResult" where
  "outcome_result rq lease_expired s =
     (case sl_result s of
        Some v \<Rightarrow>
          let x = execution_result v in
          if lease_expired then x\<lparr>er_state := Interrupted, failure := Some FailLeaseExpired, exit_code := None\<rparr> else x
      | None \<Rightarrow>
          let f = failure_for_runner_error (sl_error s) lease_expired;
              terminal = (if lease_expired then Interrupted else if f = FailInterrupted then Cancelled else Failed)
          in failed_result terminal f (rq_sandbox rq) (rq_resources rq))"

record finish_io =
  fi_walk :: walk_env
  fi_capture :: capture_io
  fi_tree :: fs_node
  fi_now_ms :: u64
  fi_terminal :: "bool \<times> bool"
  fi_metrics :: bool
  fi_commit :: bool
  fi_unix :: int

definition should_capture :: "WorkspaceCapture \<Rightarrow> select_state \<Rightarrow> ExecutionResult \<Rightarrow> bool" where
  "should_capture w s x \<longleftrightarrow> sl_result s \<noteq> None \<and> wc_outputs w \<noteq> [] \<and> er_state x \<in> {Succeeded, Failed}
     \<and> failure x \<noteq> Some FailOutputLimit"

definition capture_step ::
  "('b, 'w, 'a) node_env \<Rightarrow> finish_io \<Rightarrow> ExecutionSnapshot \<Rightarrow> WorkspaceCapture \<Rightarrow> ExecutionResult \<Rightarrow> ('b, 'w, 'a) NodeState
     \<Rightarrow> ExecutionResult \<times> ('b, 'w, 'a) NodeState" where
  "capture_step env io sn w x nd =
     (case capture_declared (ne_art env) (ne_sha env) (fi_walk io) (fi_capture io) (fi_tree io) (wc_outputs w)
             (sn_execution_id sn) (sn_generation sn) (wc_principal w)
             (u64_saturating_add (fi_now_ms io) DEFAULT_RETENTION_MILLIS) (nd_artifacts nd) (nd_blobs nd) of
        (Inr n, art, bl) \<Rightarrow> (x\<lparr>artifact_count := n\<rparr>, nd\<lparr>nd_artifacts := art, nd_blobs := bl\<rparr>)
      | (Inl _, art, bl) \<Rightarrow>
          (x\<lparr>finalization_failure := Some FinArtifactCapture\<rparr>, nd\<lparr>nd_artifacts := art, nd_blobs := bl\<rparr>))"

definition retain_step ::
  "finish_io \<Rightarrow> WorkspaceCapture \<Rightarrow> ExecutionResult \<Rightarrow> ('b, 'w, 'a) NodeState \<Rightarrow> ExecutionResult \<times> ('b, 'w, 'a) NodeState" where
  "retain_step io w x nd =
     (case mark_terminal (fst (fi_terminal io)) (snd (fi_terminal io)) (wc_id w)
             (u64_saturating_add (fi_now_ms io) DEFAULT_RETENTION_MILLIS) (nd_workspaces nd) (nd_blobs nd) of
        (Inr _, wk, bl) \<Rightarrow> (x, nd\<lparr>nd_workspaces := wk, nd_blobs := bl\<rparr>)
      | (Inl _, wk, bl) \<Rightarrow>
          (x\<lparr>finalization_failure := Some FinRetention\<rparr>, nd\<lparr>nd_workspaces := wk, nd_blobs := bl\<rparr>))"

definition finalize_workspace ::
  "('b, 'w, 'a) node_env \<Rightarrow> finish_io \<Rightarrow> ExecutionSnapshot \<Rightarrow> WorkspaceCapture option \<Rightarrow> select_state \<Rightarrow> ExecutionResult
     \<Rightarrow> ('b, 'w, 'a) NodeState \<Rightarrow> ExecutionResult \<times> ('b, 'w, 'a) NodeState" where
  "finalize_workspace env io sn w s x nd =
     (case w of
        None \<Rightarrow> (x, nd)
      | Some wc \<Rightarrow>
          let (x1, nd1) = (if should_capture wc s x then capture_step env io sn wc x nd else (x, nd))
          in retain_step io wc x1 nd1)"

definition terminal_metric :: "ExecutionState \<Rightarrow> string option" where
  "terminal_metric s =
     (case s of
        Succeeded \<Rightarrow> Some ''terminal_succeeded'' | Failed \<Rightarrow> Some ''terminal_failed''
      | Cancelled \<Rightarrow> Some ''terminal_cancelled'' | TimedOut \<Rightarrow> Some ''terminal_timed_out''
      | Interrupted \<Rightarrow> Some ''terminal_interrupted'' | _ \<Rightarrow> None)"

definition terminal_counters :: "ExecutionResult \<Rightarrow> (string \<times> u64) list" where
  "terminal_counters x =
     (case terminal_metric (er_state x) of Some name \<Rightarrow> [(name, 1)] | None \<Rightarrow> [])
     @ [(''stdout_bytes'', stdout_bytes x), (''stderr_bytes'', stderr_bytes x)]
     @ (if cleanup_warning x \<noteq> None then [(''cleanup_failures'', 1)] else [])"

definition finish_record :: "nat \<Rightarrow> ('b, 'w, 'a) NodeState \<Rightarrow> ('b, 'w, 'a) NodeState" where
  "finish_record a nd =
     (case record_at a nd of None \<Rightarrow> nd | Some r \<Rightarrow> set_record a (r\<lparr>rc_finished := True\<rparr>) nd)"

definition task_finish ::
  "('b, 'w, 'a) node_env \<Rightarrow> finish_io \<Rightarrow> nat \<Rightarrow> ('b, 'w, 'a) NodeState \<Rightarrow> ('b, 'w, 'a) NodeState" where
  "task_finish env io k nd =
     (if k < length (nd_tasks nd) then
        (case (xt_phase (nd_tasks nd ! k), record_at (xt_record (nd_tasks nd ! k)) nd) of
           (PhaseDrain s, Some r) \<Rightarrow>
             if sl_queue s \<noteq> [] then nd
             else
               let a = xt_record (nd_tasks nd ! k);
                   x = outcome_result (xt_request (nd_tasks nd ! k)) (rc_lease_expired r) s;
                   (x1, nd1) = finalize_workspace env io (rc_snapshot r) (xt_workspace (nd_tasks nd ! k)) s x nd;
                   nd2 = nd1\<lparr>nd_store := snd (increment_metrics (fi_metrics io) (terminal_counters x1) (nd_store nd1))\<rparr>;
                   nd3 = publish env (fi_commit io) (fi_unix io) a (er_state x1) (Some x1) (EvState (er_state x1)) nd2
               in end_task k (finish_record a nd3)
         | _ \<Rightarrow> nd)
      else nd)"

end
