(* ===== verification/Node_Life.thy ===== *)
theory Node_Life
  imports Node_Run
begin

text \<open>
  The event stream a client reads, and the life of a node: start with recovery of every store, draining,
  shutdown, waiting for the last execution, and a maintenance pass over all stores. The step relation of a
  running node closes the theory.
\<close>

section \<open>The event stream\<close>

text \<open>What a client receives: a line per event, or the error of a consumer that fell behind.\<close>

datatype live_item = LiveEvent ExecutionEvent | LiveLagged

datatype stream_item = StreamLine ExecutionEvent | StreamError

definition terminal_event :: "ExecutionEvent \<Rightarrow> bool" where
  "terminal_event e \<longleftrightarrow> (case ev_kind e of EvState s \<Rightarrow> is_terminal s | _ \<Rightarrow> False)"

text \<open>
  The unfolding of the stream: replayed events first, then what the live channel delivers, until it closes or
  nothing more has arrived.
\<close>

function stream_events :: "ExecutionEvent list \<Rightarrow> live_item list \<Rightarrow> u64 \<Rightarrow> stream_item list" where
  "stream_events (e # replay) live latest =
     (if ev_sequence e \<le> latest then stream_events replay live latest
      else StreamLine e # (if terminal_event e then [] else stream_events replay live (ev_sequence e)))"
| "stream_events [] (LiveEvent e # live) latest =
     (if ev_sequence e \<le> latest then stream_events [] live latest
      else StreamLine e # (if terminal_event e then [] else stream_events [] live (ev_sequence e)))"
| "stream_events [] (LiveLagged # live) latest = [StreamError]"
| "stream_events [] [] latest = []"
  by pat_completeness auto
termination
  by (relation "measure (\<lambda>(replay, live, latest). length replay + length live)") auto

definition event_stream :: "u64 \<Rightarrow> ExecutionEvent list \<Rightarrow> live_item list \<Rightarrow> bool \<Rightarrow> stream_item list" where
  "event_stream after replay live initial_terminal =
     (if initial_terminal \<and> replay = [] then [] else stream_events replay live after)"

section \<open>Start\<close>

datatype NodeStartError = TlsPolicy | EggServe | InvalidLimit | InvalidLease | AlreadyRunning

record NodeConfig =
  nc_node_id :: NodeId
  nc_execution_root :: string
  nc_blob_quota_bytes :: u64
  nc_workspace_quota_bytes :: u64
  nc_max_active_executions :: u32
  nc_lease_ttl :: nat
  nc_client_auth_required :: bool
  nc_default_identity :: bool
  nc_host_telemetry :: "HostTelemetryConfig option"

text \<open>What a node finds on disk and leaves there.\<close>

record ('b, 'w, 'a) node_disk =
  dk_store :: "'b ExecutionStore option"
  dk_blobs :: "BlobStore option"
  dk_workspaces :: "'w WorkspaceManager option"
  dk_artifacts :: "'a ArtifactStore option"
  dk_marker :: bool

datatype lock_outcome = LockAcquired | LockHeld | LockFailed

record 'w start_io =
  sx_lock :: lock_outcome
  sx_open_store :: bool
  sx_open_blobs :: bool
  sx_open_workspaces :: bool
  sx_open_artifacts :: bool
  sx_recover :: bool
  sx_metric :: bool
  sx_retention :: bool
  sx_reference :: "string \<Rightarrow> bool"
  sx_manifests :: bool
  sx_reconcile :: reconcile_io
  sx_manifest_order :: "'w manifest_row list \<Rightarrow> 'w manifest_row list"
  sx_load :: bool
  sx_serve :: bool
  sx_unix :: int
  sx_now_ms :: u64
  sx_instant :: nat
  sx_capabilities :: "string list"

definition SEMAPHORE_MAX_PERMITS :: nat where "SEMAPHORE_MAX_PERMITS = (2 ^ 64 - 1) div 8"

definition check_config :: "NodeConfig \<Rightarrow> NodeStartError + unit" where
  "check_config cfg =
     (if nc_max_active_executions cfg = 0 \<or> unat (nc_max_active_executions cfg) > SEMAPHORE_MAX_PERMITS then Err InvalidLimit
      else if \<not> nc_client_auth_required cfg \<or> \<not> nc_default_identity cfg then Err TlsPolicy
      else if nc_lease_ttl cfg = 0 then Err InvalidLease
      else Ok ())"

definition acquire_state_lock :: "lock_outcome \<Rightarrow> NodeStartError + unit" where
  "acquire_state_lock lock =
     (case lock of LockAcquired \<Rightarrow> Ok () | LockHeld \<Rightarrow> Err AlreadyRunning | LockFailed \<Rightarrow> Err EggServe)"

text \<open>The four stores, opened; each may refuse.\<close>

definition open_stores ::
  "('b, 'w, 'a) node_env \<Rightarrow> 'w start_io \<Rightarrow> NodeConfig \<Rightarrow> ('b, 'w, 'a) node_disk
     \<Rightarrow> NodeStartError + 'b ExecutionStore \<times> BlobStore \<times> 'w WorkspaceManager \<times> 'a ArtifactStore" where
  "open_stores env io cfg dk =
     (if \<not> sx_open_store io \<or> \<not> sx_open_blobs io \<or> \<not> sx_open_workspaces io \<or> \<not> sx_open_artifacts io then Err EggServe
      else Ok (ExecutionStore_open (dk_store dk), BlobStore_open (nc_blob_quota_bytes cfg) (dk_blobs dk),
               WorkspaceManager_open (ne_ws env) (nc_workspace_quota_bytes cfg) (dk_workspaces dk),
               ArtifactStore_open (dk_artifacts dk)))"

text \<open>Recovery: interrupted executions first, then the retention of workspaces and manifests.\<close>

definition recover_executions ::
  "('b, 'w, 'a) node_env \<Rightarrow> 'w start_io \<Rightarrow> 'b ExecutionStore \<Rightarrow> NodeStartError + 'b ExecutionStore" where
  "recover_executions env io st =
     (case recover (ne_serde env) (sx_recover io) (sx_unix io) st of
        (Inl _, _) \<Rightarrow> Err EggServe
      | (Inr interrupted, st') \<Rightarrow>
          Ok (if interrupted = [] then st'
              else snd (increment_metric (sx_metric io) ''terminal_interrupted'' (of_nat (length interrupted)) st')))"

definition recover_workspaces ::
  "('b, 'w, 'a) node_env \<Rightarrow> 'w start_io \<Rightarrow> 'w WorkspaceManager \<Rightarrow> BlobStore
     \<Rightarrow> NodeStartError + 'w WorkspaceManager \<times> BlobStore" where
  "recover_workspaces env io wk bl =
     (let expiry = u64_saturating_add (sx_now_ms io) DEFAULT_RETENTION_MILLIS in
      case recover_retention (sx_retention io) (sx_reference io) expiry wk bl of
        (Inl _, _) \<Rightarrow> Err EggServe
      | (Inr _, wk1, bl1) \<Rightarrow>
          (case recover_manifest_retention (sx_manifests io) expiry wk1 of
             (Inl _, _) \<Rightarrow> Err EggServe
           | (Inr _, wk2) \<Rightarrow>
               (case reconcile_manifests (ne_ws env) (sx_reconcile io) (sx_manifest_order io) (sx_now_ms io) 1024 wk2 bl1 of
                  (Inl _, _) \<Rightarrow> Err EggServe
                | (Inr _, wk3, bl2) \<Rightarrow> Ok (wk3, bl2))))"

definition load_table :: "ExecutionSnapshot list \<Rightarrow> (ExecutionId \<times> nat) list" where
  "load_table snapshots =
     fold (\<lambda>(a, s). table_insert (sn_execution_id s) a) (enumerate 0 snapshots) []"

definition start_telemetry :: "HostTelemetryConfig option \<Rightarrow> TelemetryMonitor" where
  "start_telemetry settings =
     (case settings of None \<Rightarrow> TelemetryMonitor_disabled | Some s \<Rightarrow> TelemetryMonitor_start s)"

text \<open>A failed start is its error; what its completed steps wrote to the stores is not represented.\<close>

definition node_start ::
  "('b, 'w, 'a) node_env \<Rightarrow> 'w start_io \<Rightarrow> NodeConfig \<Rightarrow> ('b, 'w, 'a) node_disk \<Rightarrow> NodeStartError + ('b, 'w, 'a) NodeState" where
  "node_start env io cfg dk =
     and_then (check_config cfg) (\<lambda>_.
     and_then (acquire_state_lock (sx_lock io)) (\<lambda>_.
     and_then (open_stores env io cfg dk) (\<lambda>(st0, bl0, wk0, art).
     and_then (recover_executions env io st0) (\<lambda>st.
     and_then (recover_workspaces env io wk0 bl0) (\<lambda>(wk, bl).
     case load_all (ne_serde env) (sx_load io) st of
       Inl _ \<Rightarrow> Err EggServe
     | Inr snapshots \<Rightarrow>
         if \<not> sx_serve io then Err EggServe
         else Ok \<lparr>nd_node_id = nc_node_id cfg, nd_execution_root = nc_execution_root cfg,
                  nd_max_active = nc_max_active_executions cfg, nd_permits = unat (nc_max_active_executions cfg),
                  nd_draining = dk_marker dk, nd_marker = dk_marker dk, nd_store = st, nd_blobs = bl,
                  nd_workspaces = wk, nd_artifacts = art, nd_lease_ttl = nc_lease_ttl cfg,
                  nd_features = server_capability_features (sx_capabilities io),
                  nd_executions = load_table snapshots,
                  nd_records = map (\<lambda>s. recovered_record (sx_instant io) s []) snapshots, nd_tasks = [],
                  nd_telemetry = start_telemetry (nc_host_telemetry cfg)\<rparr>)))))"

section \<open>Draining, shutdown, waiting\<close>

text \<open>The drain marker: writing it may fail before or after the rename, removing it before or after the unlink.\<close>

record drain_io =
  di_change :: bool
  di_sync :: bool

definition set_persistent_drain :: "drain_io \<Rightarrow> bool \<Rightarrow> bool \<Rightarrow> bool \<times> bool" where
  "set_persistent_drain io draining marker =
     (if \<not> di_change io then (False, marker) else (di_sync io, draining))"

definition set_draining :: "drain_io \<Rightarrow> bool \<Rightarrow> ('b, 'w, 'a) NodeState \<Rightarrow> ('b, 'w, 'a) NodeState" where
  "set_draining io draining nd =
     (case set_persistent_drain io draining (nd_marker nd) of
        (ok, marker) \<Rightarrow> if ok then nd\<lparr>nd_marker := marker, nd_draining := draining\<rparr> else nd\<lparr>nd_marker := marker\<rparr>)"

definition active_record :: "ExecutionRecord \<Rightarrow> bool" where
  "active_record r \<longleftrightarrow> \<not> rc_finished r \<and> \<not> is_terminal (sn_state (rc_snapshot r))"

definition node_shutdown :: "('b, 'w, 'a) NodeState \<Rightarrow> ('b, 'w, 'a) NodeState" where
  "node_shutdown nd =
     (let nd1 = fold (\<lambda>(_, a) n. case record_at a n of
             Some r \<Rightarrow> if active_record r then set_record a (r\<lparr>rc_cancelled := True\<rparr>) n else n
           | None \<Rightarrow> n) (nd_executions nd) (nd\<lparr>nd_draining := True\<rparr>)
      in nd1\<lparr>nd_telemetry := TelemetryMonitor_shutdown (nd_telemetry nd1)\<rparr>)"

text \<open>The condition on which \<^verbatim>\<open>wait\<close> returns.\<close>

definition wait_returns :: "('b, 'w, 'a) NodeState \<Rightarrow> bool" where
  "wait_returns nd = list_all (\<lambda>(_, a). case record_at a nd of Some r \<Rightarrow> \<not> active_record r | None \<Rightarrow> True) (nd_executions nd)"

section \<open>Maintenance\<close>

record NodeGcReport =
  gr_workspace_candidates :: nat
  gr_workspace_logical_bytes :: u64
  gr_workspaces_deleted :: nat
  gr_manifest_candidates :: nat
  gr_manifests_deleted :: nat
  gr_artifact_candidates :: nat
  gr_artifacts_deleted :: nat
  gr_expired_blob_references :: nat
  gr_blob_candidates :: nat
  gr_blob_candidate_bytes :: u64
  gr_blobs_deleted :: nat
  gr_blob_bytes_deleted :: u64
  gr_dry_run :: bool

record ('w, 'a) gc_io =
  gx_workspace :: bool
  gx_rmdir :: "string \<Rightarrow> bool"
  gx_workspace_order :: "workspace_row list \<Rightarrow> workspace_row list"
  gx_manifest :: bool
  gx_release :: "string \<Rightarrow> bool"
  gx_manifest_order :: "'w manifest_row list \<Rightarrow> 'w manifest_row list"
  gx_artifact :: bool
  gx_artifact_order :: "'a artifact_row list \<Rightarrow> 'a artifact_row list"
  gx_blob :: bool
  gx_unlink :: "string \<Rightarrow> bool"
  gx_row_order :: "blob_row list \<Rightarrow> blob_row list"
  gx_ref_order :: "ref_row list \<Rightarrow> ref_row list"
  gx_now_ms :: u64

definition collect_garbage ::
  "('b, 'w, 'a) node_env \<Rightarrow> ('w, 'a) gc_io \<Rightarrow> bool \<Rightarrow> nat \<Rightarrow> ('b, 'w, 'a) NodeState
     \<Rightarrow> (unit + NodeGcReport) \<times> ('b, 'w, 'a) NodeState" where
  "collect_garbage env io dry_run requested nd =
     (let limit = max 1 (min 1024 requested); now = gx_now_ms io in
      case workspace_garbage_collect (ne_ws env) (gx_workspace io) (gx_rmdir io) (gx_workspace_order io) now limit dry_run
             (nd_workspaces nd) of
        (Inl _, wk) \<Rightarrow> (Err (), nd\<lparr>nd_workspaces := wk\<rparr>)
      | (Inr (wc, wb, wd), wk) \<Rightarrow>
          (case manifest_garbage_collect (gx_manifest io) (gx_release io) (gx_manifest_order io) now limit dry_run wk
                  (nd_blobs nd) of
             (Inl _, wk1, bl) \<Rightarrow> (Err (), nd\<lparr>nd_workspaces := wk1, nd_blobs := bl\<rparr>)
           | (Inr (mc, md), wk1, bl) \<Rightarrow>
               (case artifact_garbage_collect (gx_artifact io) (gx_artifact_order io) now limit dry_run (nd_artifacts nd) of
                  (Inl _, art) \<Rightarrow> (Err (), nd\<lparr>nd_workspaces := wk1, nd_blobs := bl, nd_artifacts := art\<rparr>)
                | (Inr ag, art) \<Rightarrow>
                    (case blob_garbage_collect (gx_blob io) (gx_unlink io) (gx_row_order io) (gx_ref_order io) now limit
                            dry_run bl of
                       (Inl _, bl1) \<Rightarrow> (Err (), nd\<lparr>nd_workspaces := wk1, nd_blobs := bl1, nd_artifacts := art\<rparr>)
                     | (Inr bg, bl1) \<Rightarrow>
                         (Ok \<lparr>gr_workspace_candidates = wc, gr_workspace_logical_bytes = wb, gr_workspaces_deleted = wd,
                              gr_manifest_candidates = mc, gr_manifests_deleted = md,
                              gr_artifact_candidates = ag_candidate_artifacts ag,
                              gr_artifacts_deleted = ag_deleted_artifacts ag,
                              gr_expired_blob_references =
                                (if dry_run then gc_expired_references bg else gc_expired_references_removed bg),
                              gr_blob_candidates = gc_candidate_blobs bg, gr_blob_candidate_bytes = gc_candidate_bytes bg,
                              gr_blobs_deleted = gc_removed_blobs bg, gr_blob_bytes_deleted = gc_removed_bytes bg,
                              gr_dry_run = dry_run\<rparr>,
                          nd\<lparr>nd_workspaces := wk1, nd_blobs := bl1, nd_artifacts := art\<rparr>)))))"

section \<open>A running node\<close>

text \<open>
  One step of a running node: a request, a step of a task, the lease monitor of a record, an operator's
  action, or the marker changed from outside. A step is taken while every execution has room for one more event
  (fewer than \<open>2\<^sup>6\<^sup>3 - 1\<close> events).
\<close>

inductive node_step :: "('b, 'w, 'a) node_env \<Rightarrow> ('b, 'w, 'a) NodeState \<Rightarrow> ('b, 'w, 'a) NodeState \<Rightarrow> bool"
  for env :: "('b, 'w, 'a) node_env" where
  step_request: "sequence_room (nd_store nd) \<Longrightarrow> dispatch env io req nd = (resp, nd') \<Longrightarrow> node_step env nd nd'"
| step_begin: "sequence_room (nd_store nd) \<Longrightarrow> node_step env nd (task_begin env io now k nd)"
| step_deliver: "node_step env nd (task_deliver e k nd)"
| step_poll: "sequence_room (nd_store nd) \<Longrightarrow> node_step env nd (task_poll env io now between k nd)"
| step_drain: "sequence_room (nd_store nd) \<Longrightarrow> node_step env nd (task_drain env io now k nd)"
| step_finish: "sequence_room (nd_store nd) \<Longrightarrow> node_step env nd (task_finish env fio k nd)"
| step_monitor: "node_step env nd (lease_tick now a nd)"
| step_draining: "node_step env nd (set_draining dio flag nd)"
| step_marker: "node_step env nd (nd\<lparr>nd_marker := flag\<rparr>)"
| step_shutdown: "node_step env nd (node_shutdown nd)"
| step_collect: "collect_garbage env gio dry_run requested nd = (report, nd') \<Longrightarrow> node_step env nd nd'"
| step_telemetry: "node_step env nd (nd\<lparr>nd_telemetry := tm\<rparr>)"

inductive node_reachable :: "('b, 'w, 'a) node_env \<Rightarrow> ('b, 'w, 'a) NodeState \<Rightarrow> bool"
  for env :: "('b, 'w, 'a) node_env" where
  reach_start: "node_start env io cfg dk = Ok nd \<Longrightarrow> store_inv (ne_serde env) (ExecutionStore_open (dk_store dk))
    \<Longrightarrow> (\<And>r. r \<in> set (st_executions (ExecutionStore_open (dk_store dk))) \<Longrightarrow> x_next_sequence r < i64_max - 1)
    \<Longrightarrow> node_reachable env nd"
| reach_step: "node_reachable env nd \<Longrightarrow> node_step env nd nd' \<Longrightarrow> node_reachable env nd'"

end
