(* ===== verification/Node_Inv.thy ===== *)
theory Node_Inv
  imports Node_Life Store_Props
begin

text \<open>
  The invariant of a running node and its preservation by every step: each record in memory is what the
  journal holds for it, the events it broadcast are in sequence and end with the terminal one, the table points
  to the records of its identifiers, and permits and tasks add up to the limit. The node relies on the journal
  through the contract \<open>event_journal\<close>.
\<close>

section \<open>Records and the journal\<close>

text \<open>What of a record the invariant speaks about: snapshot, events sent, whether its task has ended.\<close>

type_synonym record_core = "ExecutionSnapshot \<times> ExecutionEvent list \<times> bool"

definition core_of :: "ExecutionRecord \<Rightarrow> record_core" where
  "core_of r = (rc_snapshot r, rc_events r, rc_finished r)"

definition core_key :: "record_core \<Rightarrow> ExecutionId \<times> int" where
  "core_key x = snapshot_key (fst x)"

text \<open>
  What the journal holds for an execution: snapshot, next sequence number and the retained events. Events of a
  record are numbered from one up to the next sequence number without gaps, the retained ones are the last of
  them, and only the last may be terminal. A record that was loaded at the start has sent none and is terminal.
\<close>

type_synonym node_journal = "ExecutionId \<times> int \<rightharpoonup> ExecutionSnapshot \<times> int \<times> ExecutionEvent list"

definition events_ok :: "ExecutionSnapshot \<Rightarrow> ExecutionEvent list \<Rightarrow> int \<times> ExecutionEvent list \<Rightarrow> bool" where
  "events_ok s es = (\<lambda>(n, retained).
     (1 \<le> n \<and> map (\<lambda>e. uint (ev_sequence e)) es = [1..n - 1] \<and> suffix retained es \<or> es = [] \<and> is_terminal (sn_state s))
     \<and> list_all (\<lambda>e. \<not> terminal_event e) (butlast es)
     \<and> (es \<noteq> [] \<longrightarrow> (terminal_event (last es) \<longleftrightarrow> is_terminal (sn_state s))))"

definition records_ok :: "node_journal \<Rightarrow> record_core list \<Rightarrow> bool" where
  "records_ok V xs \<longleftrightarrow> distinct (map core_key xs)
     \<and> (\<forall>x \<in> set xs. \<exists>n. V (core_key x) = Some (fst x, n) \<and> events_ok (fst x) (fst (snd x)) n)"

definition kind_matches :: "ExecutionState \<Rightarrow> ExecutionEventKind \<Rightarrow> bool" where
  "kind_matches s k \<longleftrightarrow> (case k of EvState t \<Rightarrow> is_terminal t | _ \<Rightarrow> False) = is_terminal s"

lemma suffix_snoc_trans: "suffix xs (ys @ [e]) \<Longrightarrow> suffix ys zs \<Longrightarrow> suffix xs (zs @ [e])"
  by (metis append_assoc suffix_def)

lemma events_ok_snoc:
  assumes "events_ok s es (n, retained)" "\<not> is_terminal (sn_state s)" "uint (ev_sequence e) = n"
    "kind_matches (sn_state s') (ev_kind e)" "suffix retained' (retained @ [e])"
  shows "events_ok s' (es @ [e]) (n + 1, retained')"
proof -
  have "list_all (\<lambda>e. \<not> terminal_event e) es"
  proof (cases es rule: rev_cases)
    case (snoc ys y)
    then show ?thesis using assms(1,2) by (simp add: events_ok_def)
  qed simp
  moreover have "terminal_event e \<longleftrightarrow> is_terminal (sn_state s')"
    using assms(4) by (simp add: kind_matches_def terminal_event_def split: ExecutionEventKind.splits)
  moreover have "suffix retained' (es @ [e])"
    using assms(1,2,5) suffix_snoc_trans [of retained' retained e es] by (simp add: events_ok_def)
  moreover have "map (\<lambda>e. uint (ev_sequence e)) (es @ [e]) = [1..n + 1 - 1]"
    using assms(1-3) upto_rec2 [of 1 n] by (simp add: events_ok_def)
  moreover have "1 \<le> n + 1" using assms(1,2) by (simp add: events_ok_def)
  ultimately show ?thesis by (simp add: events_ok_def del: map_append suffix_snoc)
qed

lemma records_ok_update:
  assumes ok: "records_ok V xs" and a: "a < length xs" "xs ! a = (s, es, fin)"
    and V': "V' = V(snapshot_key s \<mapsto> (s', n'))" and key: "snapshot_key s' = snapshot_key s"
    and ev: "events_ok s' es' n'"
  shows "records_ok V' (xs[a := (s', es', fin')])"
proof -
  have ka: "core_key (s', es', fin') = core_key (xs ! a)" using a(2) key by (simp add: core_key_def)
  then have keys: "map core_key (xs[a := (s', es', fin')]) = map core_key xs"
    using a(1) by (simp add: map_update list_update_same_conv)
  have "\<exists>n. V' (core_key x) = Some (fst x, n) \<and> events_ok (fst x) (fst (snd x)) n"
    if "x \<in> set (xs[a := (s', es', fin')])" for x
  proof -
    from that obtain b where b: "b < length xs" "x = xs[a := (s', es', fin')] ! b"
      by (auto simp: in_set_conv_nth)
    show ?thesis
    proof (cases "b = a")
      case True
      then show ?thesis using b a key V' ev by (simp add: core_key_def)
    next
      case False
      then have x: "x = xs ! b" using b by simp
      have "core_key x \<noteq> core_key (xs ! a)"
        using ok a(1) b(1) False x by (simp add: records_ok_def nth_eq_iff_index_eq distinct_conv_nth)
      then have "V' (core_key x) = V (core_key x)" using V' a(2) by (simp add: core_key_def)
      moreover have "x \<in> set xs" using x b(1) by simp
      ultimately show ?thesis using ok by (simp add: records_ok_def)
    qed
  qed
  then show ?thesis using ok keys by (simp only: records_ok_def) blast
qed

text \<open>
  What the node needs of the journal: a commit that writes takes the next sequence number of a live
  execution and makes the proposed snapshot durable; any other outcome changes nothing.
\<close>

locale event_journal =
  fixes inv :: "'st \<Rightarrow> bool" and view :: "'st \<Rightarrow> node_journal" and room :: "'st \<Rightarrow> bool"
    and commit :: "bool \<Rightarrow> int \<Rightarrow> ExecutionSnapshot \<Rightarrow> ExecutionEventKind \<Rightarrow> 'st \<Rightarrow> (StoreError + ExecutionEvent option) \<times> 'st"
  assumes commit_written:
      "inv st \<Longrightarrow> room st \<Longrightarrow> commit io now s k st = (Inr (Some e), st')
        \<Longrightarrow> inv st' \<and> (\<exists>old n es es'. view st (snapshot_key s) = Some (old, n, es) \<and> uint (ev_sequence e) = n \<and> ev_kind e = k
              \<and> suffix es' (es @ [e]) \<and> view st' = (view st)(snapshot_key s \<mapsto> (s, n + 1, es')))"
    and commit_skipped: "inv st \<Longrightarrow> commit io now s k st = (Inr None, st') \<Longrightarrow> st' = st"
    and commit_failed: "commit io now s k st = (Inl err, st') \<Longrightarrow> st' = st"
begin

lemma commit_records:
  assumes "inv st" "room st" and ok: "records_ok (view st) xs" and a: "a < length xs" "xs ! a = (s, es, fin)"
    and live: "\<not> is_terminal (sn_state s)" and key: "snapshot_key s' = snapshot_key s"
    and kind: "kind_matches (sn_state s') k" and c: "commit io now s' k st = (Inr (Some e), st')"
  shows "inv st' \<and> records_ok (view st') (xs[a := (s', es @ [e], fin)])"
proof -
  from commit_written [OF assms(1,2) c, unfolded key] obtain old n held held' where
    st': "inv st'" "view st (snapshot_key s) = Some (old, n, held)" "uint (ev_sequence e) = n" "ev_kind e = k"
    "suffix held' (held @ [e])" "view st' = (view st)(snapshot_key s \<mapsto> (s', n + 1, held'))" by blast
  have "xs ! a \<in> set xs" using a(1) by simp
  then have "events_ok s es (n, held)" using ok st'(2) a(2) by (auto simp: records_ok_def core_key_def)
  from events_ok_snoc [OF this live st'(3) _ st'(5)] kind st'(4) have "events_ok s' (es @ [e]) (n + 1, held')" by simp
  from records_ok_update [OF ok a st'(6) key this] st'(1) show ?thesis by simp
qed

end

text \<open>The journal as the node sees it: the abstract journal with the retained events, decoded.\<close>

definition retained_events :: "'b serde \<Rightarrow> 'b ExecutionStore \<Rightarrow> ExecutionId \<times> int \<Rightarrow> ExecutionEvent list" where
  "retained_events c st k = map (\<lambda>v. the (event_from_slice c (v_encoded v))) (events_of (fst k) (snd k) (st_events st))"

definition node_view :: "'b serde \<Rightarrow> 'b ExecutionStore \<Rightarrow> node_journal" where
  "node_view c st k = map_option (\<lambda>(s, n). (s, n, retained_events c st k)) (journal_view c st k)"

lemma node_view_eq:
  "journal_view c st' = journal_view c st \<Longrightarrow> st_events st' = st_events st \<Longrightarrow> node_view c st' = node_view c st"
  by (simp add: node_view_def [abs_def] retained_events_def)

lemma node_view_metrics [simp]: "node_view c (st\<lparr>st_metrics := ms\<rparr>) = node_view c st"
  by (rule node_view_eq) simp_all

lemma commit_event_node_view:
  assumes "serde_ok c" "store_inv c st" "sequence_room st" "commit_event c io now s k st = (Inr (Some e), st')"
  shows "\<exists>old n es es'. node_view c st (snapshot_key s) = Some (old, n, es) \<and> uint (ev_sequence e) = n \<and> ev_kind e = k
    \<and> suffix es' (es @ [e]) \<and> node_view c st' = (node_view c st)(snapshot_key s \<mapsto> (s, n + 1, es'))"
proof -
  let ?k = "snapshot_key s"
  from commit_event_Some [OF assms(1,2,4)] obtain r where
    r: "find_exec st (sn_execution_id s) (as_i64 (sn_generation s)) = Some r" "e = next_event r k" by metis
  have pos: "1 \<le> x_next_sequence r" using next_sequence_pos assms(2) r(1) by blast
  have "x_next_sequence r < i64_max" using assms(3) find_exec_in [OF r(1)] by (auto simp: sequence_room_def)
  with pos have seq: "uint (ev_sequence e) = x_next_sequence r" by (simp add: r(2) next_event_def as_u64_uint)
  from commit_event_view [OF assms] obtain old n where
    v: "journal_view c st ?k = Some (old, n)" "ev_kind e = k" "journal_view c st' = (journal_view c st)(?k \<mapsto> (s, n + 1))" .
  have n: "n = x_next_sequence r"
    using view_row [of c st] assms(2) r(1) v(1) by (auto simp: snapshot_key_def journal_view_def)
  obtain ev where ev: "event_from_slice c (v_encoded ev) = Some e"
    "ev_sequence e = as_u64 (v_sequence ev)" "Some (v_sequence ev) = map_option snd (journal_view c st ?k)"
    "blob_length c (v_encoded ev) \<le> MAX_RETAINED_EVENT_BYTES"
    and log: "events_of (sn_execution_id s) (as_i64 (sn_generation s)) (st_events st')
      = longest_fit c (events_of (sn_execution_id s) (as_i64 (sn_generation s)) (st_events st) @ [ev])"
    and other: "\<And>j h. (j, h) \<noteq> ?k \<Longrightarrow> events_of j h (st_events st') = events_of j h (st_events st)"
    by (rule commit_event_log [OF assms]) (rule that; simp)
  let ?f = "\<lambda>v. the (event_from_slice c (v_encoded v))"
  have "suffix (map ?f (longest_fit c vs)) (map ?f vs)" for vs
    by (intro map_mono_suffix longest_fit_suffix)
  from this [of "events_of (sn_execution_id s) (as_i64 (sn_generation s)) (st_events st) @ [ev]"]
  have "suffix (retained_events c st' ?k) (retained_events c st ?k @ [e])"
    by (simp add: retained_events_def snapshot_key_def log ev(1) del: suffix_snoc)
  moreover have "retained_events c st' k = retained_events c st k" if "k \<noteq> ?k" for k
    using other [of "fst k" "snd k"] that by (simp add: retained_events_def)
  then have "node_view c st' = (node_view c st)(?k \<mapsto> (s, n + 1, retained_events c st' ?k))"
    by (auto simp: fun_eq_iff node_view_def v(3))
  moreover have "node_view c st ?k = Some (old, n, retained_events c st ?k)" by (simp add: node_view_def v(1))
  ultimately show ?thesis using v(2) seq n by blast
qed

interpretation journal: event_journal "\<lambda>st. serde_ok c \<and> store_inv c st" "node_view c" sequence_room "commit_event c"
proof
  fix st io now s k e st'
  assume inv: "serde_ok c \<and> store_inv c st" and room: "sequence_room st"
    and com: "commit_event c io now s k st = (Inr (Some e), st')"
  then show "(serde_ok c \<and> store_inv c st') \<and> (\<exists>old n es es'. node_view c st (snapshot_key s) = Some (old, n, es)
      \<and> uint (ev_sequence e) = n \<and> ev_kind e = k \<and> suffix es' (es @ [e])
      \<and> node_view c st' = (node_view c st)(snapshot_key s \<mapsto> (s, n + 1, es')))"
    using commit_event_inv [OF _ _ room com] commit_event_node_view [OF _ _ room com] by blast
next
  fix st io now s k st'
  assume "serde_ok c \<and> store_inv c st" "commit_event c io now s k st = (Inr None, st')"
  then show "st' = st" using commit_event_None by blast
next
  fix io now s k st err st'
  assume "commit_event c io now s k st = (Inl err, st')"
  then show "st' = st" by (rule commit_event_Err)
qed

section \<open>The invariant\<close>

definition cores :: "('b, 'w, 'a) NodeState \<Rightarrow> record_core list" where
  "cores nd = map core_of (nd_records nd)"

definition table_ok :: "(ExecutionId \<times> nat) list \<Rightarrow> record_core list \<Rightarrow> bool" where
  "table_ok t xs \<longleftrightarrow> distinct (map fst t)
     \<and> (\<forall>(i, a) \<in> set t. a < length xs \<and> sn_execution_id (fst (xs ! a)) = i)"

definition owners_ok :: "nat list \<Rightarrow> record_core list \<Rightarrow> bool" where
  "owners_ok os xs \<longleftrightarrow> distinct os \<and> (\<forall>a \<in> set os. a < length xs \<and> \<not> snd (snd (xs ! a)))"

definition owners :: "('b, 'w, 'a) NodeState \<Rightarrow> nat list" where
  "owners nd = map xt_record (nd_tasks nd)"

definition node_inv :: "('b, 'w, 'a) node_env \<Rightarrow> ('b, 'w, 'a) NodeState \<Rightarrow> bool" where
  "node_inv env nd \<longleftrightarrow> serde_ok (ne_serde env) \<and> store_inv (ne_serde env) (nd_store nd)
     \<and> records_ok (node_view (ne_serde env) (nd_store nd)) (cores nd)
     \<and> table_ok (nd_executions nd) (cores nd) \<and> owners_ok (owners nd) (cores nd)
     \<and> length (owners nd) + nd_permits nd = unat (nd_max_active nd)"

text \<open>States that the invariant cannot tell apart; the store got from one to the other by its own operations.\<close>

definition same_node :: "('b, 'w, 'a) node_env \<Rightarrow> ('b, 'w, 'a) NodeState \<Rightarrow> ('b, 'w, 'a) NodeState \<Rightarrow> bool" where
  "same_node env nd nd' \<longleftrightarrow>
     (store_inv (ne_serde env) (nd_store nd) \<longrightarrow> store_inv (ne_serde env) (nd_store nd'))
     \<and> (store_step (ne_serde env))\<^sup>*\<^sup>* (nd_store nd) (nd_store nd')
     \<and> node_view (ne_serde env) (nd_store nd') = node_view (ne_serde env) (nd_store nd)
     \<and> cores nd' = cores nd \<and> nd_executions nd' = nd_executions nd \<and> owners nd' = owners nd
     \<and> nd_permits nd' = nd_permits nd \<and> nd_max_active nd' = nd_max_active nd"

lemma same_node_inv: "same_node env nd nd' \<Longrightarrow> node_inv env nd \<Longrightarrow> node_inv env nd'"
  by (simp add: same_node_def node_inv_def)

lemma same_node_refl [simp]: "same_node env nd nd"
  by (simp add: same_node_def)

lemma same_node_trans [trans]: "same_node env a b \<Longrightarrow> same_node env b d \<Longrightarrow> same_node env a d"
  by (auto simp: same_node_def)

lemma same_nodeI:
  assumes "nd_store nd' = nd_store nd" "nd_records nd' = nd_records nd" "nd_executions nd' = nd_executions nd"
    "nd_tasks nd' = nd_tasks nd" "nd_permits nd' = nd_permits nd" "nd_max_active nd' = nd_max_active nd"
  shows "same_node env nd nd'"
  using assms by (simp add: same_node_def cores_def owners_def)

lemma same_node_store:
  assumes "store_inv (ne_serde env) (nd_store nd) \<longrightarrow> store_inv (ne_serde env) st"
    "store_step (ne_serde env) (nd_store nd) st"
    "node_view (ne_serde env) st = node_view (ne_serde env) (nd_store nd)"
  shows "same_node env nd (nd\<lparr>nd_store := st\<rparr>)"
  using assms by (simp add: same_node_def cores_def owners_def)

lemma count_metric_same [simp]: "same_node env nd (count_metric io name amount nd)"
proof -
  obtain res st where "increment_metric (ni_metric io name) name amount (nd_store nd) = (res, st)" by force
  moreover from this obtain ms where "st = (nd_store nd)\<lparr>st_metrics := ms\<rparr>"
    unfolding increment_metric_def using increment_metrics_shape by blast
  moreover have "store_step (ne_serde env) (nd_store nd) st"
    using calculation(1) unfolding increment_metric_def by (rule step_metrics)
  ultimately show ?thesis unfolding count_metric_def by (intro same_node_store) simp_all
qed

lemma set_record_cores:
  "a < length (nd_records nd) \<Longrightarrow> cores (set_record a r nd) = (cores nd)[a := core_of r]"
  by (simp add: cores_def set_record_def map_update)

lemma record_at_Some: "record_at a nd = Some r \<longleftrightarrow> a < length (nd_records nd) \<and> r = nd_records nd ! a"
  by (auto simp: record_at_def)

lemma set_record_frames [simp]:
  "nd_store (set_record a r nd) = nd_store nd" "nd_executions (set_record a r nd) = nd_executions nd"
  "nd_tasks (set_record a r nd) = nd_tasks nd" "nd_permits (set_record a r nd) = nd_permits nd"
  "nd_max_active (set_record a r nd) = nd_max_active nd"
  by (simp_all add: set_record_def)

lemma set_record_same:
  assumes "record_at a nd = Some r" "core_of r' = core_of r"
  shows "same_node env nd (set_record a r' nd)"
proof -
  from assms(1) have a: "a < length (nd_records nd)" "r = nd_records nd ! a" by (auto simp: record_at_Some)
  then have "cores (set_record a r' nd) = cores nd"
    using assms(2) by (simp add: set_record_cores) (simp add: cores_def list_update_same_conv)
  then show ?thesis by (simp add: same_node_def owners_def)
qed

section \<open>Publication\<close>

lemma publish_frames [simp]:
  "nd_executions (publish env io now a s x k nd) = nd_executions nd"
  "nd_tasks (publish env io now a s x k nd) = nd_tasks nd"
  "nd_permits (publish env io now a s x k nd) = nd_permits nd"
  "nd_max_active (publish env io now a s x k nd) = nd_max_active nd"
  "length (nd_records (publish env io now a s x k nd)) = length (nd_records nd)"
  by (simp_all add: publish_def Let_def set_record_def split: option.splits prod.splits sum.splits)

lemma table_ok_update:
  "table_ok t xs \<Longrightarrow> a < length xs \<Longrightarrow> sn_execution_id (fst y) = sn_execution_id (fst (xs ! a)) \<Longrightarrow> table_ok t (xs[a := y])"
  by (force simp: table_ok_def nth_list_update)

lemma owners_ok_update:
  "owners_ok os xs \<Longrightarrow> a < length xs \<Longrightarrow> snd (snd y) = snd (snd (xs ! a)) \<Longrightarrow> owners_ok os (xs[a := y])"
  by (force simp: owners_ok_def nth_list_update)

lemma publish_written:
  assumes inv: "node_inv env nd" and room: "sequence_room (nd_store nd)" and k: "kind_matches s kind"
    and r: "record_at a nd = Some r" "\<not> is_terminal (sn_state (rc_snapshot r))"
    and p: "proposed = (rc_snapshot r)\<lparr>sn_state := s, sn_result := res\<rparr>"
    and c: "commit_event (ne_serde env) io now proposed kind (nd_store nd) = (Inr (Some e), st)"
  shows "node_inv env (set_record a (r\<lparr>rc_snapshot := proposed, rc_events := rc_events r @ [e]\<rparr>) (nd\<lparr>nd_store := st\<rparr>))"
proof -
  from r(1) have a: "a < length (nd_records nd)" "nd_records nd ! a = r" by (auto simp: record_at_Some)
  then have xa: "a < length (cores nd)" "cores nd ! a = (rc_snapshot r, rc_events r, rc_finished r)"
    by (simp_all add: cores_def core_of_def)
  have key: "snapshot_key proposed = snapshot_key (rc_snapshot r)" by (simp add: p snapshot_key_def)
  let ?r = "r\<lparr>rc_snapshot := proposed, rc_events := rc_events r @ [e]\<rparr>"
  have cores': "cores (set_record a ?r (nd\<lparr>nd_store := st\<rparr>)) = (cores nd)[a := (proposed, rc_events r @ [e], rc_finished r)]"
    using a(1) by (simp add: set_record_cores) (simp add: cores_def core_of_def)
  have "(serde_ok (ne_serde env) \<and> store_inv (ne_serde env) st)
      \<and> records_ok (node_view (ne_serde env) st) ((cores nd)[a := (proposed, rc_events r @ [e], rc_finished r)])"
    using journal.commit_records [OF _ room _ xa r(2) key _ c] inv k by (simp add: node_inv_def p)
  moreover have "table_ok (nd_executions nd) ((cores nd)[a := (proposed, rc_events r @ [e], rc_finished r)])"
    using inv xa by (intro table_ok_update) (simp_all add: node_inv_def p)
  moreover have "owners_ok (owners nd) ((cores nd)[a := (proposed, rc_events r @ [e], rc_finished r)])"
    using inv xa by (intro owners_ok_update) (simp_all add: node_inv_def)
  ultimately show ?thesis using inv by (simp add: node_inv_def cores' owners_def)
qed

text \<open>The four outcomes of a publication.\<close>

lemma publish_outcome:
  obtains (ignored) "publish env io now a s x kind nd = nd"
  | (written) r proposed e st where "record_at a nd = Some r" "\<not> is_terminal (sn_state (rc_snapshot r))"
      "proposed = (rc_snapshot r)\<lparr>sn_state := s,
         sn_result := (case x of Some y \<Rightarrow> Some y | None \<Rightarrow> sn_result (rc_snapshot r))\<rparr>"
      "commit_event (ne_serde env) io now proposed kind (nd_store nd) = (Inr (Some e), st)"
      "publish env io now a s x kind nd =
         set_record a (r\<lparr>rc_snapshot := proposed, rc_events := rc_events r @ [e]\<rparr>) (nd\<lparr>nd_store := st\<rparr>)"
  | (skipped) r proposed st where "record_at a nd = Some r"
      "commit_event (ne_serde env) io now proposed kind (nd_store nd) = (Inr None, st)"
      "publish env io now a s x kind nd = nd\<lparr>nd_store := st\<rparr>"
  | (failed) r proposed err st where "record_at a nd = Some r" "\<not> is_terminal (sn_state (rc_snapshot r))"
      "commit_event (ne_serde env) io now proposed kind (nd_store nd) = (Inl err, st)"
      "publish env io now a s x kind nd =
         set_record a (r\<lparr>rc_cancelled := True\<rparr>) (nd\<lparr>nd_store := st, nd_draining := True\<rparr>)"
proof (cases "record_at a nd")
  case None
  then show ?thesis by (intro ignored) (simp add: publish_def)
next
  case (Some r)
  show ?thesis
  proof (cases "is_terminal (sn_state (rc_snapshot r))")
    case True
    then show ?thesis using Some by (intro ignored) (simp add: publish_def)
  next
    case False
    define proposed where "proposed = (rc_snapshot r)\<lparr>sn_state := s,
      sn_result := (case x of Some y \<Rightarrow> Some y | None \<Rightarrow> sn_result (rc_snapshot r))\<rparr>"
    obtain res st where c: "commit_event (ne_serde env) io now proposed kind (nd_store nd) = (res, st)" by force
    have pub: "publish env io now a s x kind nd =
      (case res of Inr (Some e) \<Rightarrow>
          set_record a (r\<lparr>rc_snapshot := proposed, rc_events := rc_events r @ [e]\<rparr>) (nd\<lparr>nd_store := st\<rparr>)
       | Inr None \<Rightarrow> nd\<lparr>nd_store := st\<rparr>
       | Inl _ \<Rightarrow> set_record a (r\<lparr>rc_cancelled := True\<rparr>) (nd\<lparr>nd_store := st, nd_draining := True\<rparr>))"
      using Some False c unfolding publish_def proposed_def Let_def by (auto split: sum.splits option.splits)
    consider e where "res = Inr (Some e)" | "res = Inr None" | err where "res = Inl err"
      by (metis old.sum.exhaust option.exhaust)
    then show ?thesis
    proof cases
      case 1
      then show ?thesis using written [OF Some False proposed_def] c pub by simp
    next
      case 2
      then show ?thesis using skipped [OF Some] c pub by simp
    next
      case 3
      then show ?thesis using failed [OF Some False] c pub by simp
    qed
  qed
qed

lemma publish_inv:
  assumes inv: "node_inv env nd" and room: "sequence_room (nd_store nd)" and k: "kind_matches s kind"
  shows "node_inv env (publish env io now a s x kind nd)"
proof (cases rule: publish_outcome [where env = env and io = io and now = now and a = a and s = s and x = x
    and kind = kind and nd = nd])
  case ignored
  then show ?thesis using inv by simp
next
  case (written r proposed e st)
  then show ?thesis using publish_written [OF inv room k] by simp
next
  case (skipped r proposed st)
  then have "st = nd_store nd" using inv commit_event_None unfolding node_inv_def by blast
  then show ?thesis using inv skipped(3) by simp
next
  case (failed r proposed err st)
  have st: "st = nd_store nd" by (rule commit_event_Err [OF failed(3)])
  have "same_node env nd (nd\<lparr>nd_store := st, nd_draining := True\<rparr>)" by (rule same_nodeI) (simp_all add: st)
  also have "same_node env \<dots> (set_record a (r\<lparr>rc_cancelled := True\<rparr>) (nd\<lparr>nd_store := st, nd_draining := True\<rparr>))"
    using failed(1) by (intro set_record_same [where r = r]) (auto simp: record_at_def core_of_def split: if_splits)
  finally show ?thesis using same_node_inv [OF _ inv] failed(4) by simp
qed

end
