(* ===== verification/Node_Step.thy ===== *)
theory Node_Step
  imports Node_Inv
begin

text \<open>
  Every step of a running node keeps the invariant: the tasks, the request handlers, admission, and the start.
\<close>

section \<open>Tasks\<close>

lemma set_phase_same [simp]: "same_node env nd (set_phase k ph nd)"
proof -
  have "map xt_record ((nd_tasks nd)[k := (nd_tasks nd ! k)\<lparr>xt_phase := ph\<rparr>]) = map xt_record (nd_tasks nd)"
    by (cases "k < length (nd_tasks nd)") (simp_all add: map_update list_update_same_conv list_update_beyond)
  then show ?thesis by (simp add: same_node_def set_phase_def cores_def owners_def)
qed

lemma lease_tick_same: "same_node env nd (lease_tick now a nd)"
proof (cases "record_at a nd")
  case (Some r)
  have "core_of (fst (monitor_lease now r)) = core_of r" by (simp add: monitor_lease_def core_of_def)
  then show ?thesis using set_record_same [OF Some] Some by (simp add: lease_tick_def)
qed (simp add: lease_tick_def)

lemma kind_matches_simps [simp]:
  "kind_matches s (EvState s)" "kind_matches Running (chunk_kind c)"
  by (simp_all add: kind_matches_def chunk_kind_def is_terminal_def)

lemma task_begin_inv:
  "node_inv env nd \<Longrightarrow> sequence_room (nd_store nd) \<Longrightarrow> node_inv env (task_begin env io now k nd)"
  using same_node_inv [OF set_phase_same] publish_inv kind_matches_simps(1) by (metis task_begin_def)

lemma task_deliver_same: "same_node env nd (task_deliver e k nd)"
  by (simp add: task_deliver_def split: task_phase.splits)

lemma publish_chunk_inv:
  "node_inv env nd \<Longrightarrow> sequence_room (nd_store nd) \<Longrightarrow> node_inv env (publish_chunk env io now a c nd)"
  by (simp add: publish_chunk_def publish_inv)

lemma take_drop_other:
  assumes "k < length xs" "distinct xs"
  shows "distinct (take k xs @ drop (Suc k) xs)" "xs ! k \<notin> set (take k xs @ drop (Suc k) xs)"
    "set (take k xs @ drop (Suc k) xs) \<subseteq> set xs"
proof -
  have "distinct (take k xs @ xs ! k # drop (Suc k) xs)" using assms by (simp add: id_take_nth_drop [symmetric])
  then show "distinct (take k xs @ drop (Suc k) xs)" "xs ! k \<notin> set (take k xs @ drop (Suc k) xs)" by auto
  show "set (take k xs @ drop (Suc k) xs) \<subseteq> set xs" using set_take_subset set_drop_subset by fastforce
qed

lemma end_task_frames:
  "nd_store (end_task k nd) = nd_store nd" "cores (end_task k nd) = cores nd"
  "nd_executions (end_task k nd) = nd_executions nd" "nd_permits (end_task k nd) = Suc (nd_permits nd)"
  "nd_max_active (end_task k nd) = nd_max_active nd"
  by (simp_all add: end_task_def cores_def)

lemma end_task_inv:
  assumes inv: "node_inv env nd" and k: "k < length (nd_tasks nd)"
  shows "node_inv env (end_task k nd)"
proof -
  have own: "owners (end_task k nd) = take k (owners nd) @ drop (Suc k) (owners nd)"
    by (simp add: owners_def end_task_def take_map drop_map)
  have k': "k < length (owners nd)" using k by (simp add: owners_def)
  have d: "distinct (owners nd)" using inv by (simp add: node_inv_def owners_ok_def)
  have "owners_ok (owners (end_task k nd)) (cores nd)"
    using inv take_drop_other [OF k' d] by (auto simp: node_inv_def owners_ok_def own)
  moreover have "Suc (length (owners (end_task k nd))) = length (owners nd)" using k' by (simp add: own)
  ultimately show ?thesis using inv by (simp add: node_inv_def end_task_frames)
qed

lemma owners_ok_other:
  assumes "owners_ok os xs" "distinct os'" "set os' \<subseteq> set os" "a \<notin> set os'"
  shows "owners_ok os' (xs[a := y])"
proof -
  have "b < length xs \<and> \<not> snd (snd (xs[a := y] ! b))" if "b \<in> set os'" for b
  proof -
    have "b \<noteq> a" "b \<in> set os" using that assms(3,4) by auto
    then show ?thesis using assms(1) by (simp add: owners_ok_def)
  qed
  then show ?thesis using assms(2) by (simp add: owners_ok_def)
qed

text \<open>Marking the record of a task as finished and ending the task is one change for the invariant.\<close>

lemma finish_task_inv:
  assumes inv: "node_inv env nd" and k: "k < length (nd_tasks nd)"
  shows "node_inv env (end_task k (finish_record (xt_record (nd_tasks nd ! k)) nd))"
proof -
  let ?a = "xt_record (nd_tasks nd ! k)"
  have k': "k < length (owners nd)" and ak: "owners nd ! k = ?a" using k by (simp_all add: owners_def)
  have d: "distinct (owners nd)" using inv by (simp add: node_inv_def owners_ok_def)
  have "?a \<in> set (owners nd)" using k' ak nth_mem by metis
  then have a: "?a < length (cores nd)" using inv by (simp add: node_inv_def owners_ok_def)
  then have r: "record_at ?a nd = Some (nd_records nd ! ?a)" by (simp add: record_at_def cores_def)
  let ?r = "nd_records nd ! ?a"
  let ?xs = "(cores nd)[?a := (rc_snapshot ?r, rc_events ?r, True)]"
  have fr: "finish_record ?a nd = set_record ?a (?r\<lparr>rc_finished := True\<rparr>) nd" by (simp add: finish_record_def r)
  have a': "?a < length (nd_records nd)" using a by (simp add: cores_def)
  have cs: "cores (finish_record ?a nd) = ?xs"
    by (simp only: fr set_record_cores [OF a']) (simp add: core_of_def)
  have xa: "cores nd ! ?a = (rc_snapshot ?r, rc_events ?r, rc_finished ?r)" using a by (simp add: cores_def core_of_def)
  have keys: "map core_key ?xs = map core_key (cores nd)"
    using a xa by (simp add: map_update list_update_same_conv core_key_def)
  have "\<exists>n. node_view (ne_serde env) (nd_store nd) (core_key x) = Some (fst x, n) \<and> events_ok (fst x) (fst (snd x)) n"
    if "x \<in> set ?xs" for x
  proof -
    have "x = (rc_snapshot ?r, rc_events ?r, True) \<or> x \<in> set (cores nd)"
      using that set_update_subset_insert [of "cores nd" ?a] by blast
    moreover have "cores nd ! ?a \<in> set (cores nd)" using a by simp
    ultimately show ?thesis using inv xa by (auto simp: node_inv_def records_ok_def core_key_def)
  qed
  then have rec: "records_ok (node_view (ne_serde env) (nd_store nd)) ?xs"
    using inv keys by (simp only: node_inv_def records_ok_def) blast
  have tab: "table_ok (nd_executions nd) ?xs" using inv xa a by (intro table_ok_update) (simp_all add: node_inv_def)
  have own: "owners (end_task k (finish_record ?a nd)) = take k (owners nd) @ drop (Suc k) (owners nd)"
    by (simp add: owners_def end_task_def take_map drop_map fr)
  have "owners_ok (take k (owners nd) @ drop (Suc k) (owners nd)) ?xs"
    using inv take_drop_other [OF k' d] ak by (intro owners_ok_other [of "owners nd"]) (simp_all add: node_inv_def)
  moreover have "Suc (length (take k (owners nd) @ drop (Suc k) (owners nd))) = length (owners nd)" using k' by simp
  ultimately show ?thesis using inv rec tab own cs by (simp add: node_inv_def end_task_frames fr)
qed

lemma task_poll_inv:
  assumes "node_inv env nd" "sequence_room (nd_store nd)"
  shows "node_inv env (task_poll env io now between k nd)"
  using assms
  by (auto simp: task_poll_def intro!: same_node_inv [OF set_phase_same] publish_chunk_inv end_task_inv
      split: task_phase.splits pass.splits)

lemma task_drain_inv:
  assumes "node_inv env nd" "sequence_room (nd_store nd)"
  shows "node_inv env (task_drain env io now k nd)"
  using assms
  by (auto simp: task_drain_def intro!: same_node_inv [OF set_phase_same] publish_chunk_inv
      split: task_phase.splits list.splits)

text \<open>Changes of the blob, workspace and artifact stores are outside the invariant.\<close>

lemma same_stores [simp]:
  "same_node env nd (nd\<lparr>nd_blobs := bl\<rparr>)" "same_node env nd (nd\<lparr>nd_workspaces := wk\<rparr>)"
  "same_node env nd (nd\<lparr>nd_workspaces := wk, nd_blobs := bl\<rparr>)" "same_node env nd (nd\<lparr>nd_artifacts := art, nd_blobs := bl\<rparr>)"
  "same_node env nd (nd\<lparr>nd_workspaces := wk, nd_blobs := bl, nd_artifacts := art\<rparr>)"
  by (simp_all add: same_nodeI)

lemma finalize_workspace_frames:
  assumes "finalize_workspace env io sn w s x nd = (x', nd')"
  shows "same_node env nd nd'" "nd_tasks nd' = nd_tasks nd" "nd_store nd' = nd_store nd"
  using assms
  by (auto simp: finalize_workspace_def retain_step_def capture_step_def Let_def same_nodeI
      split: option.splits prod.splits sum.splits if_splits)

lemma metrics_store_same:
  "same_node env nd (nd\<lparr>nd_store := snd (increment_metrics io ds (nd_store nd))\<rparr>)"
proof -
  obtain res st where "increment_metrics io ds (nd_store nd) = (res, st)" by force
  moreover from this obtain ms where "st = (nd_store nd)\<lparr>st_metrics := ms\<rparr>" using increment_metrics_shape by blast
  moreover have "store_step (ne_serde env) (nd_store nd) st" by (rule step_metrics [OF calculation(1)])
  ultimately show ?thesis by (intro same_node_store) simp_all
qed

lemma sequence_room_metrics: "sequence_room (snd (increment_metrics io ds st)) = sequence_room st"
proof -
  obtain res st' where r: "increment_metrics io ds st = (res, st')" by force
  then obtain ms where "st' = st\<lparr>st_metrics := ms\<rparr>" using increment_metrics_shape by blast
  then show ?thesis using r by (simp add: sequence_room_def)
qed

lemma finalize_workspace_result:
  "finalize_workspace env io sn w s x nd = (x', nd') \<Longrightarrow> er_state x' = er_state x \<and> nd_records nd' = nd_records nd"
  by (auto simp: finalize_workspace_def retain_step_def capture_step_def Let_def
      split: option.splits prod.splits sum.splits if_splits)

text \<open>The last step of a task: finalisation and counters, then the terminal publication.\<close>

lemma task_finish_cases:
  obtains (idle) "task_finish env io k nd = nd"
      "\<not> (\<exists>s r. k < length (nd_tasks nd) \<and> xt_phase (nd_tasks nd ! k) = PhaseDrain s
         \<and> record_at (xt_record (nd_tasks nd ! k)) nd = Some r \<and> sl_queue s = [])"
  | (ends) s r x nd2 where "k < length (nd_tasks nd)" "xt_phase (nd_tasks nd ! k) = PhaseDrain s" "sl_queue s = []"
      "record_at (xt_record (nd_tasks nd ! k)) nd = Some r"
      "er_state x = er_state (outcome_result (xt_request (nd_tasks nd ! k)) (rc_lease_expired r) s)"
      "same_node env nd nd2" "nd_tasks nd2 = nd_tasks nd" "nd_records nd2 = nd_records nd"
      "sequence_room (nd_store nd2) = sequence_room (nd_store nd)"
      "task_finish env io k nd = end_task k (finish_record (xt_record (nd_tasks nd ! k))
         (publish env (fi_commit io) (fi_unix io) (xt_record (nd_tasks nd ! k)) (er_state x) (Some x)
           (EvState (er_state x)) nd2))"
proof (cases "\<exists>s r. k < length (nd_tasks nd) \<and> xt_phase (nd_tasks nd ! k) = PhaseDrain s
    \<and> record_at (xt_record (nd_tasks nd ! k)) nd = Some r \<and> sl_queue s = []")
  case True
  then obtain s r where c: "k < length (nd_tasks nd)" "xt_phase (nd_tasks nd ! k) = PhaseDrain s" "sl_queue s = []"
    "record_at (xt_record (nd_tasks nd ! k)) nd = Some r" by blast
  obtain x nd1 where f: "finalize_workspace env io (rc_snapshot r) (xt_workspace (nd_tasks nd ! k)) s
      (outcome_result (xt_request (nd_tasks nd ! k)) (rc_lease_expired r) s) nd = (x, nd1)" by force
  define nd2 where "nd2 = nd1\<lparr>nd_store := snd (increment_metrics (fi_metrics io) (terminal_counters x) (nd_store nd1))\<rparr>"
  note ff = finalize_workspace_frames [OF f] finalize_workspace_result [OF f]
  have "same_node env nd nd2" unfolding nd2_def by (rule same_node_trans [OF ff(1) metrics_store_same])
  moreover have "nd_tasks nd2 = nd_tasks nd" "nd_records nd2 = nd_records nd"
    "sequence_room (nd_store nd2) = sequence_room (nd_store nd)"
    using ff by (simp_all add: nd2_def sequence_room_metrics)
  ultimately show ?thesis
    using c f ff(4) by (intro ends [OF c, of x nd2]) (simp_all add: task_finish_def nd2_def Let_def)
next
  case False
  then show ?thesis
    by (intro idle [OF _ False]) (auto simp: task_finish_def split: task_phase.splits option.splits)
qed

lemma task_finish_inv:
  assumes inv: "node_inv env nd" and room: "sequence_room (nd_store nd)"
  shows "node_inv env (task_finish env io k nd)"
proof (cases rule: task_finish_cases [where env = env and io = io and k = k and nd = nd])
  case (ends s r x nd2)
  let ?nd3 = "publish env (fi_commit io) (fi_unix io) (xt_record (nd_tasks nd ! k)) (er_state x) (Some x)
    (EvState (er_state x)) nd2"
  have "node_inv env ?nd3" using same_node_inv [OF ends(6) inv] room ends(9) by (intro publish_inv) simp_all
  then show ?thesis using finish_task_inv [of env ?nd3 k] ends(1,7,10) by simp
qed (simp add: inv)

section \<open>Requests that leave the invariant's view alone\<close>

lemma answer_same [simp]: "same_node env nd nd' \<Longrightarrow> same_node env nd (snd (answer s c m nd'))"
  by (simp add: answer_def)

lemma event_response_same: "same_node env nd (snd (event_response env io i g after src nd))"
  by (simp add: event_response_def split: sum.splits option.splits)

lemma observe_same: "same_node env nd (snd (observe env io i q p nd))"
  by (auto simp: observe_def split: sum.splits option.splits)

lemma events_route_same: "same_node env nd (snd (events_route env io i q p nd))"
  by (auto simp: events_route_def rebuilt_events_def event_response_same split: sum.splits option.splits prod.splits)

lemma blob_routes_same:
  "same_node env nd (snd (blob_missing env io req p nd))"
  "same_node env nd (snd (blob_prepare env io req p nd))"
  by (auto simp: blob_missing_def blob_prepare_def split: sum.splits option.splits prod.splits BlobError.splits)

lemma blob_upload_same: "same_node env nd (snd (blob_upload env io req d nd))"
  using same_node_trans [OF same_stores(1) count_metric_same]
  by (auto simp: blob_upload_def split: sum.splits option.splits prod.splits)

lemma fold_same:
  assumes "\<And>e n. same_node env n (f e n)"
  shows "same_node env n (fold f es n)"
proof (induction es arbitrary: n)
  case (Cons e es)
  show ?case using same_node_trans [OF assms Cons] by simp
qed simp

lemma blob_download_same: "same_node env nd (snd (blob_download env io d nd))"
  using same_node_trans [OF same_stores(1) fold_same [OF count_metric_same]]
  by (auto simp: blob_download_def Let_def split: sum.splits prod.splits)

lemma workspace_create_same: "same_node env nd (snd (workspace_create env io req p nd))"
  using same_node_trans [OF same_stores(3) count_metric_same]
  by (auto simp: workspace_create_def split: sum.splits option.splits prod.splits)

lemma artifact_routes_same:
  "same_node env nd (snd (artifact_list env io i q p nd))"
  "same_node env nd (snd (artifact_download env io i p nd))"
  by (auto simp: artifact_list_def artifact_download_def split: sum.splits option.splits prod.splits)

lemma workspace_derive_same: "same_node env nd (snd (workspace_derive env io req p nd))"
proof -
  let ?m = "count_metric io ''workspace_derived_requests'' 1 nd"
  have *: "same_node env ?m (n\<lparr>nd_workspaces := wk, nd_blobs := bl, nd_store := snd (increment_metrics b ds (nd_store ?m))\<rparr>)"
    if "n = ?m" for n wk bl b ds
    using metrics_store_same [of env ?m b ds] that by (simp add: same_node_def cores_def owners_def)
  have "same_node env ?m (snd (workspace_derive env io req p nd))"
    using same_node_trans [OF same_stores(3) count_metric_same] *
    unfolding workspace_derive_def Let_def
    by (auto simp: answer_def split: sum.splits option.splits prod.splits WorkspaceError.splits)
  then show ?thesis using same_node_trans count_metric_same by blast
qed

section \<open>Control\<close>

lemma renew_lease_same: "record_at a nd = Some r \<Longrightarrow> same_node env nd (snd (renew_lease env io i cq ex a r nd))"
proof -
  assume r: "record_at a nd = Some r"
  have lease: "same_node env nd (nd\<lparr>nd_store := st\<rparr>)"
    if "update_lease b n n2 i g lh rid e (nd_store nd) = (res, st)" for b n n2 i g lh rid e res st
    using that update_lease_inv node_view_eq [OF update_lease_view [OF that]] update_lease_shape [OF that] step_lease [OF that]
    by (intro same_node_store) auto
  have rec: "same_node env (nd\<lparr>nd_store := st\<rparr>) (set_record a (r\<lparr>rc_expires_at := e\<rparr>) (nd\<lparr>nd_store := st\<rparr>))" for st e
    using r by (intro set_record_same [where r = r]) (auto simp: record_at_def core_of_def split: if_splits)
  show ?thesis
    using lease same_node_trans [OF lease rec]
    by (auto simp: renew_lease_def split: option.splits sum.splits prod.splits)
qed

lemma cancel_record_same: "same_node env nd (cancel_record a nd)"
proof (cases "record_at a nd")
  case (Some r)
  then show ?thesis by (simp add: cancel_record_def) (rule set_record_same [OF Some], simp add: core_of_def)
qed (simp add: cancel_record_def)

lemma cancel_execution_inv:
  assumes "node_inv env nd" "sequence_room (nd_store nd)"
  shows "node_inv env (snd (cancel_execution env io a r nd))"
proof -
  have "node_inv env (publish env (ni_commit io) (ni_unix_store io) a Cancelling None (EvState Cancelling) nd)"
    using assms by (simp add: publish_inv)
  then show ?thesis using assms(1) same_node_inv [OF cancel_record_same]
    by (auto simp: cancel_execution_def Let_def answer_def)
qed

lemma control_inv:
  assumes "node_inv env nd" "sequence_room (nd_store nd)"
  shows "node_inv env (snd (control env io i req p renew nd))"
proof -
  have ren: "node_inv env (snd (renew_lease env io i cq ex a r nd))" if "record_at a nd = Some r" for cq ex a r
    using same_node_inv [OF renew_lease_same [OF that] assms(1)] .
  show ?thesis
    using assms(1) ren cancel_execution_inv [OF assms]
    unfolding control_def by (auto simp: answer_def split: option.splits sum.splits bind_splits)
qed

section \<open>Admission\<close>

lemma make_room_inv:
  assumes "node_inv env nd"
  shows "node_inv env (make_room io nd)"
proof -
  have "table_ok (filter P (nd_executions nd)) (cores nd)" for P
    using assms by (auto simp: node_inv_def table_ok_def distinct_map_filter)
  moreover have "cores (nd\<lparr>nd_executions := t\<rparr>) = cores nd" "owners (nd\<lparr>nd_executions := t\<rparr>) = owners nd" for t
    by (simp_all add: cores_def owners_def)
  ultimately show ?thesis using assms by (simp add: make_room_def node_inv_def Let_def)
qed

lemma make_room_frames:
  "nd_store (make_room io nd) = nd_store nd" "nd_permits (make_room io nd) = nd_permits nd"
  "nd_records (make_room io nd) = nd_records nd" "nd_tasks (make_room io nd) = nd_tasks nd"
  by (simp_all add: make_room_def Let_def)

lemma activate_workspace_frames:
  assumes "activate_workspace env io w nd = (ok, nd')"
  shows "same_node env nd nd'" "nd_store nd' = nd_store nd"
  using assms by (auto simp: activate_workspace_def same_nodeI split: option.splits prod.splits)

lemma retire_workspace_same: "same_node env nd (retire_workspace io w nd)"
  by (auto simp: retire_workspace_def split: option.splits prod.splits)

text \<open>Publication does not look at the tasks.\<close>

lemma publish_tasks:
  "publish env io now a s x k (nd\<lparr>nd_tasks := ts\<rparr>) = (publish env io now a s x k nd)\<lparr>nd_tasks := ts\<rparr>"
  by (simp add: publish_def record_at_def set_record_def Let_def split: option.splits prod.splits sum.splits)

lemma table_insert_ok:
  assumes "table_ok t xs" "sn_execution_id (fst y) = i"
  shows "table_ok (table_insert i (length xs) t) (xs @ [y])"
proof -
  have "distinct (map fst (table_insert i (length xs) t))"
    using assms(1) by (auto simp: table_ok_def table_insert_def distinct_map_filter)
  moreover have "a < length (xs @ [y]) \<and> sn_execution_id (fst ((xs @ [y]) ! a)) = j"
    if "(j, a) \<in> set (table_insert i (length xs) t)" for j a
    using that assms by (fastforce simp: table_ok_def table_insert_def nth_append)
  ultimately show ?thesis by (auto simp: table_ok_def)
qed

lemma records_ok_fresh:
  assumes "records_ok V xs" "V (snapshot_key s) = None"
  shows "records_ok (V(snapshot_key s \<mapsto> (s, 1, []))) (xs @ [(s, [], fin)])"
proof -
  have fresh: "core_key x \<noteq> snapshot_key s" if "x \<in> set xs" for x
    using assms that by (force simp: records_ok_def)
  have "\<exists>m. (V(snapshot_key s \<mapsto> (s, 1, []))) (core_key x) = Some (fst x, m) \<and> events_ok (fst x) (fst (snd x)) m"
    if "x \<in> set (xs @ [(s, [], fin)])" for x
  proof (cases "x = (s, [], fin)")
    case True
    then show ?thesis by (auto simp: core_key_def events_ok_def)
  next
    case False
    then show ?thesis using that fresh assms(1) by (simp add: records_ok_def)
  qed
  moreover have "distinct (map core_key (xs @ [(s, [], fin)]))"
    using assms(1) fresh [unfolded core_key_def] by (fastforce simp: records_ok_def core_key_def)
  ultimately show ?thesis by (simp only: records_ok_def) blast
qed

lemma reserve_node_view:
  assumes "serde_ok c" "store_inv c st" "reserve c io now s cv d p lh le st = (Inr Created, st')"
  shows "node_view c st (snapshot_key s) = None"
    and "node_view c st' = (node_view c st)(snapshot_key s \<mapsto> (s, 1, []))"
proof -
  have none: "journal_view c st (snapshot_key s) = None" by (rule reserve_view(1) [OF assms])
  then show "node_view c st (snapshot_key s) = None" by (simp add: node_view_def)
  have "retained_events c st' k = retained_events c st k" for k
    by (simp add: retained_events_def reserve_view(4) [OF assms])
  moreover have "retained_events c st (snapshot_key s) = []"
    using none events_of_fresh [OF assms(2)] by (simp add: retained_events_def journal_view_def snapshot_key_def)
  ultimately show "node_view c st' = (node_view c st)(snapshot_key s \<mapsto> (s, 1, []))"
    by (auto simp: node_view_def reserve_view(2) [OF assms] fun_eq_iff)
qed

lemma owners_ok_snoc: "owners_ok os xs \<Longrightarrow> \<not> snd (snd y) \<Longrightarrow> owners_ok (os @ [length xs]) (xs @ [y])"
  by (force simp: owners_ok_def nth_append)

text \<open>The node right after a reservation: the record, its table entry, its task and its permit.\<close>

definition admitted_node ::
  "node_io \<Rightarrow> admission \<Rightarrow> ('b, 'w, 'a) NodeState \<Rightarrow> ('b, 'w, 'a) NodeState" where
  "admitted_node io ad nd =
     nd\<lparr>nd_records := nd_records nd
          @ [new_record (ni_instant io) (accepted_snapshot ad) (ad_lease_hash ad) (nd_lease_ttl nd)],
        nd_executions := table_insert (ad_id ad) (length (nd_records nd)) (nd_executions nd),
        nd_permits := nd_permits nd - 1,
        nd_tasks := nd_tasks nd @ [\<lparr>xt_record = length (nd_records nd), xt_request = ad_request ad,
                        xt_workspace = ad_capture ad, xt_phase = PhaseSpawned\<rparr>]\<rparr>"

lemma launch_execution_state:
  "launch_execution env io ad nd = event_response env io (ad_id ad) (ad_generation ad) 0 (SharedRecord (length (nd_records nd)))
     (publish env (ni_commit io) (ni_unix_store io) (length (nd_records nd)) Accepted None (EvState Accepted)
       (admitted_node io ad nd))"
  by (simp add: launch_execution_def admitted_node_def Let_def publish_tasks)

lemma admitted_node_inv:
  assumes inv: "node_inv env nd" and permit: "nd_permits nd > 0"
    and res: "reserve (ne_serde env) rio now (accepted_snapshot ad) cv d p lh le (nd_store nd) = (Inr Created, st)"
    and nd': "same_node env (nd\<lparr>nd_store := st\<rparr>) nd'" "nd_records nd' = nd_records nd"
  shows "node_inv env (admitted_node io ad nd')"
proof -
  let ?s = "accepted_snapshot ad" and ?c = "ne_serde env"
  have sok: "serde_ok ?c" and sinv: "store_inv ?c (nd_store nd)" using inv by (simp_all add: node_inv_def)
  have sinv': "store_inv ?c (nd_store nd')" using nd'(1) reserve_inv [OF sok sinv res] by (simp add: same_node_def)
  have view: "node_view ?c (nd_store nd') = (node_view ?c (nd_store nd))(snapshot_key ?s \<mapsto> (?s, 1, []))"
    using nd'(1) reserve_node_view(2) [OF sok sinv res] by (simp add: same_node_def)
  have none: "node_view ?c (nd_store nd) (snapshot_key ?s) = None" by (rule reserve_node_view(1) [OF sok sinv res])
  have len: "length (cores nd) = length (nd_records nd)" by (simp add: cores_def)
  have cs: "cores (admitted_node io ad nd') = cores nd @ [(?s, [], False)]"
    using nd'(2) by (simp add: cores_def admitted_node_def core_of_def new_record_def)
  have ow: "owners (admitted_node io ad nd') = owners nd @ [length (cores nd)]"
    using nd' len by (simp add: same_node_def owners_def admitted_node_def)
  have ex: "nd_executions (admitted_node io ad nd') = table_insert (ad_id ad) (length (cores nd)) (nd_executions nd)"
    using nd' len by (simp add: same_node_def admitted_node_def)
  have "nd_permits (admitted_node io ad nd') = nd_permits nd - 1" "nd_max_active (admitted_node io ad nd') = nd_max_active nd"
    "nd_store (admitted_node io ad nd') = nd_store nd'"
    using nd'(1) by (simp_all add: same_node_def admitted_node_def)
  moreover have "records_ok (node_view ?c (nd_store nd')) (cores nd @ [(?s, [], False)])"
    using inv none records_ok_fresh by (simp add: view node_inv_def)
  moreover have "table_ok (table_insert (ad_id ad) (length (cores nd)) (nd_executions nd)) (cores nd @ [(?s, [], False)])"
    using inv by (intro table_insert_ok) (simp_all add: node_inv_def accepted_snapshot_def)
  moreover have "owners_ok (owners nd @ [length (cores nd)]) (cores nd @ [(?s, [], False)])"
    using inv by (intro owners_ok_snoc) (simp_all add: node_inv_def)
  ultimately show ?thesis using sok sinv' permit inv by (simp add: node_inv_def cs ow ex)
qed

lemma reserve_room:
  assumes "serde_ok c" "store_inv c st" "sequence_room st"
    and "reserve c io now s cv d p lh le st = (Inr Created, st')"
  shows "sequence_room st'"
proof -
  have "store_inv c st'" by (rule reserve_inv [OF assms(1,2,4)])
  then show ?thesis
    using reserve_view(2) [OF assms(1,2,4)] assms(2,3)
    by (auto simp: sequence_room_view i64_max_def)
qed

lemma count_metric_frames [simp]:
  "nd_records (count_metric io n m nd) = nd_records nd"
  "sequence_room (nd_store (count_metric io n m nd)) = sequence_room (nd_store nd)"
  by (simp_all add: count_metric_def increment_metric_def sequence_room_metrics)

lemma admitted_node_store [simp]: "nd_store (admitted_node io ad nd) = nd_store nd"
  by (simp add: admitted_node_def)

lemma launch_execution_inv:
  assumes inv: "node_inv env nd" and room: "sequence_room (nd_store nd)" and permit: "nd_permits nd > 0"
    and res: "reserve (ne_serde env) rio now (accepted_snapshot ad) cv d p lh le (nd_store nd) = (Inr Created, st)"
  shows "node_inv env (snd (launch_execution env io ad (count_metric io n m (nd\<lparr>nd_store := st\<rparr>))))"
proof -
  let ?nd = "count_metric io n m (nd\<lparr>nd_store := st\<rparr>)"
  have "node_inv env (admitted_node io ad ?nd)"
    by (rule admitted_node_inv [OF inv permit res]) simp_all
  moreover have "sequence_room (nd_store (admitted_node io ad ?nd))"
    using reserve_room [OF _ _ room res] inv by (simp add: node_inv_def)
  ultimately have "node_inv env (publish env (ni_commit io) (ni_unix_store io) (length (nd_records ?nd)) Accepted None
      (EvState Accepted) (admitted_node io ad ?nd))" by (intro publish_inv) simp_all
  then show ?thesis
    using same_node_inv [OF event_response_same] by (simp only: launch_execution_state) blast
qed

lemma admit_execution_inv:
  assumes inv: "node_inv env nd" and room: "sequence_room (nd_store nd)"
  shows "node_inv env (snd (admit_execution env io p ad nd))"
proof -
  have inv1: "node_inv env (make_room io nd)" by (rule make_room_inv [OF inv])
  have fin: "node_inv env (snd (answer s c m nd'))" if "same_node env nd'' nd'" "node_inv env nd''" for s c m nd' nd''
    using same_node_inv [OF that] by (simp add: answer_def)
  show ?thesis
  proof (cases "is_draining nd \<or> nd_permits nd = 0 \<or> length (nd_executions (make_room io nd)) \<ge> MAX_RECENT_EXECUTIONS")
    case True
    then show ?thesis using inv inv1 fin [OF count_metric_same] by (auto simp: admit_execution_def Let_def)
  next
    case False
    obtain ok nd2 where act: "activate_workspace env io (ad_workspace_id ad) (make_room io nd) = (ok, nd2)" by fastforce
    note a = activate_workspace_frames [OF act]
    have inv2: "node_inv env nd2" by (rule same_node_inv [OF a(1) inv1])
    have st2: "nd_store nd2 = nd_store nd" using a(2) by (simp add: make_room_frames)
    have permit: "nd_permits nd2 > 0" using a(1) False by (simp add: same_node_def make_room_frames)
    obtain res st where r: "reserve (ne_serde env) (ni_reserve io) (ni_unix_store io) (accepted_snapshot ad) (ad_version ad)
        (ad_digest ad) p (ad_lease_hash ad) (lease_deadline io nd) (nd_store nd2) = (res, st)" by fastforce
    have other: "nd2\<lparr>nd_store := st\<rparr> = nd2" if "res \<noteq> Inr Created" using reserve_other [OF r that] by simp
    show ?thesis
    proof (cases "ok \<and> res = Inr Created")
      case True
      then show ?thesis using launch_execution_inv [OF inv2 _ permit, of _ _ ad] r st2 room False act
        by (auto simp: admit_execution_def Let_def)
    next
      case no: False
      have ws: "node_inv env (retire_workspace io w nd2)"
        "node_inv env (retire_workspace io w (count_metric io n m nd2))" for w n m
        using same_node_inv [OF retire_workspace_same] same_node_inv [OF count_metric_same] inv2 by blast+
      have ev: "node_inv env (snd (event_response env io i g after src nd'))" if "node_inv env nd'" for i g after src nd'
        by (rule same_node_inv [OF event_response_same that])
      show ?thesis
        using False act r no other ws ev inv2 fin [OF count_metric_same inv2]
        by (cases ok) (auto simp: admit_execution_def Let_def answer_def split: sum.splits ReserveResult.splits)
    qed
  qed
qed

lemma replay_execution_same: "same_node env nd (snd (replay_execution env io p ad ex nd))"
  by (simp add: replay_execution_def Let_def event_response_same)

lemma execute_inv:
  assumes "node_inv env nd" "sequence_room (nd_store nd)"
  shows "node_inv env (snd (execute env io req p nd))"
  using assms(1) admit_execution_inv [OF assms] same_node_inv [OF replay_execution_same] same_node_inv [OF count_metric_same]
  by (auto simp: execute_def split: sum.splits option.splits)

section \<open>Dispatch and the other steps\<close>

lemma serve_route_inv:
  assumes "node_inv env nd" "sequence_room (nd_store nd)"
  shows "node_inv env (snd (serve_route env io req p route nd))"
proof (cases route)
  case RExecute
  then show ?thesis using execute_inv [OF assms] by (simp add: serve_route_def)
next
  case (RCancel i)
  then show ?thesis using control_inv [OF assms] by (simp add: serve_route_def)
next
  case (RRenew i)
  then show ?thesis using control_inv [OF assms] by (simp add: serve_route_def)
qed (use assms(1) in \<open>simp_all add: serve_route_def answer_def observe_same [THEN same_node_inv]
  events_route_same [THEN same_node_inv] blob_routes_same [THEN same_node_inv] blob_upload_same [THEN same_node_inv]
  blob_download_same [THEN same_node_inv] workspace_create_same [THEN same_node_inv]
  workspace_derive_same [THEN same_node_inv] artifact_routes_same [THEN same_node_inv]\<close>)

lemma dispatch_inv:
  assumes "node_inv env nd" "sequence_room (nd_store nd)"
  shows "node_inv env (snd (dispatch env io req nd))"
  using assms(1) serve_route_inv [OF assms] same_node_inv [OF count_metric_same]
  by (auto simp: dispatch_def answer_def split: option.splits)

lemma collect_garbage_same: "collect_garbage env io dry_run requested nd = (report, nd') \<Longrightarrow> same_node env nd nd'"
  by (auto simp: collect_garbage_def Let_def same_node_def cores_def owners_def
      split: sum.splits prod.splits)

lemma node_shutdown_same: "same_node env nd (node_shutdown nd)"
proof -
  let ?f = "\<lambda>(_, a) n. case record_at a n of
     Some r \<Rightarrow> if active_record r then set_record a (r\<lparr>rc_cancelled := True\<rparr>) n else n | None \<Rightarrow> n"
  have "same_node env n (?f e n)" for n e
    by (auto split: option.splits prod.splits intro!: set_record_same simp: core_of_def)
  from fold_same [of env ?f, OF this]
  have "same_node env (nd\<lparr>nd_draining := True\<rparr>) (fold ?f (nd_executions nd) (nd\<lparr>nd_draining := True\<rparr>))" .
  then show ?thesis by (simp add: node_shutdown_def Let_def same_node_def cores_def owners_def)
qed

lemma operator_steps_same:
  "same_node env nd (set_draining dio flag nd)" "same_node env nd (nd\<lparr>nd_marker := flag\<rparr>)"
  "same_node env nd (nd\<lparr>nd_telemetry := tm\<rparr>)"
  by (simp_all add: set_draining_def same_node_def cores_def owners_def split: prod.splits)

lemma node_step_inv: "node_step env nd nd' \<Longrightarrow> node_inv env nd \<Longrightarrow> node_inv env nd'"
proof (induction rule: node_step.induct)
  case (step_request nd io req resp nd')
  then show ?case using dispatch_inv [of env nd io req] by simp
next
  case (step_collect gio dry_run requested nd report nd')
  then show ?case using same_node_inv [OF collect_garbage_same] by blast
qed (auto intro: task_begin_inv task_poll_inv task_drain_inv task_finish_inv same_node_inv [OF task_deliver_same]
  same_node_inv [OF lease_tick_same] same_node_inv [OF node_shutdown_same] operator_steps_same [THEN same_node_inv])

end
