(* ===== verification/Node_Reach.thy ===== *)
theory Node_Reach
  imports Node_Step
begin

text \<open>
  A started node satisfies the invariant, and so does every node reached from it. After a start every execution
  of the journal is terminal and in the table of records.
\<close>

section \<open>Loading the records\<close>

lemma load_all_rows:
  assumes "store_inv c st" "load_all c io st = Ok ss"
  defines "rs \<equiv> sort_key (\<lambda>r. (x_execution_id r, x_generation r)) (st_executions st)"
  shows "ss = map (\<lambda>r. the (snapshot_from_slice c (x_snapshot r))) rs"
    and "r \<in> set (st_executions st) \<Longrightarrow> snapshot_key (the (snapshot_from_slice c (x_snapshot r))) = row_key r"
    and "r \<in> set (st_executions st) \<Longrightarrow>
      journal_view c st (row_key r) = Some (the (snapshot_from_slice c (x_snapshot r)), x_next_sequence r)"
proof -
  have "\<exists>x. snapshot_from_slice c b = Some x" if "b \<in> set (map x_snapshot rs)" for b
    using that row_snapshot [OF assms(1)] by (auto simp: rs_def)
  then show "ss = map (\<lambda>r. the (snapshot_from_slice c (x_snapshot r))) rs"
    using assms(2) decode_all_Some [of "map x_snapshot rs" "snapshot_from_slice c"]
    by (auto simp: load_all_def rs_def split: if_splits)
  show "snapshot_key (the (snapshot_from_slice c (x_snapshot r))) = row_key r"
    "journal_view c st (row_key r) = Some (the (snapshot_from_slice c (x_snapshot r)), x_next_sequence r)"
    if "r \<in> set (st_executions st)"
    using row_snapshot [OF assms(1) that] by (metis option.sel)+
qed

lemma load_all_keys:
  assumes "store_inv c st" "load_all c io st = Ok ss"
  shows "map snapshot_key ss = map row_key (sort_key (\<lambda>r. (x_execution_id r, x_generation r)) (st_executions st))"
  using load_all_rows(1,2) [OF assms] by simp

lemma load_all_spec:
  assumes "store_inv c st" "load_all c io st = Ok ss"
  shows "distinct (map snapshot_key ss)"
    and "s \<in> set ss \<Longrightarrow> \<exists>n. 1 \<le> n \<and> journal_view c st (snapshot_key s) = Some (s, n)"
    and "journal_view c st k = Some (s, n) \<Longrightarrow> s \<in> set ss"
proof -
  let ?rs = "sort_key (\<lambda>r. (x_execution_id r, x_generation r)) (st_executions st)"
  note ss = load_all_rows(1) [OF assms] and key = load_all_rows(2,3) [OF assms]
  have "map snapshot_key ss = map row_key ?rs" by (rule load_all_keys [OF assms])
  moreover have "distinct (map row_key ?rs)"
    using store_invD(1) [OF assms(1)] by (simp add: distinct_map)
  ultimately show "distinct (map snapshot_key ss)" by simp
  show "\<exists>n. 1 \<le> n \<and> journal_view c st (snapshot_key s) = Some (s, n)" if "s \<in> set ss"
  proof -
    from that obtain r where r: "r \<in> set (st_executions st)" "s = the (snapshot_from_slice c (x_snapshot r))"
      by (auto simp: ss)
    have "find_exec st (x_execution_id r) (x_generation r) = Some r"
      using find_exec_Some [OF store_invD(1) [OF assms(1)]] r(1) by (simp add: key_is_def)
    then have "1 \<le> x_next_sequence r" by (rule next_sequence_pos [OF assms(1)])
    then show ?thesis using key [OF r(1)] r(2) by auto
  qed
  show "s \<in> set ss" if "journal_view c st k = Some (s, n)"
  proof -
    obtain i g where k: "k = (i, g)" by (cases k)
    from that k obtain r where r: "find_exec st i g = Some r" by (auto simp: journal_view_def split: option.splits)
    from view_row [OF assms(1) r] that k have "snapshot_from_slice c (x_snapshot r) = Some s" by auto
    then show ?thesis using find_exec_in [OF r] by (force simp: ss)
  qed
qed

lemma load_table_snoc: "load_table (ss @ [s]) = table_insert (sn_execution_id s) (length ss) (load_table ss)"
  by (simp add: load_table_def enumerate_append_eq)

lemma load_table_ok: "table_ok (load_table ss) (map (\<lambda>s. (s, es, fin)) ss)"
proof (induction ss rule: rev_induct)
  case (snoc s ss)
  then show ?case using table_insert_ok [of "load_table ss" "map (\<lambda>s. (s, es, fin)) ss" "(s, es, fin)"]
    by (simp add: load_table_snoc)
qed (simp add: load_table_def table_ok_def)

lemma load_table_ids: "fst ` set (load_table ss) = sn_execution_id ` set ss"
proof (induction ss rule: rev_induct)
  case (snoc s ss)
  then show ?case by (auto simp: load_table_snoc table_insert_def image_iff) force+
qed (simp add: load_table_def)

section \<open>A started node\<close>

lemma recover_executions_spec:
  assumes sok: "serde_ok (ne_serde env)" and inv: "store_inv (ne_serde env) st"
    and room: "\<And>r. r \<in> set (st_executions st) \<Longrightarrow> x_next_sequence r < i64_max - 1"
    and res: "recover_executions env io st = Ok st'"
  shows "store_inv (ne_serde env) st'"
    and "journal_view (ne_serde env) st' = map_option interrupt_view \<circ> journal_view (ne_serde env) st"
proof -
  let ?c = "ne_serde env"
  have "sx_recover io" using res by (cases "sx_recover io") (simp_all add: recover_executions_def recover_io)
  moreover have "\<forall>k s n. journal_view ?c st k = Some (s, n) \<longrightarrow> n < i64_max - 1"
    using room find_exec_in by (fastforce simp: journal_view_def)
  then obtain st1 where st1: "recover ?c True (sx_unix io) st = (Ok (recovered_snapshots ?c st), st1)"
    "store_inv ?c st1" "journal_view ?c st1 = map_option interrupt_view \<circ> journal_view ?c st"
    using recover_spec [OF sok inv, of "sx_unix io"] by blast
  ultimately have "st' = st1 \<or> (\<exists>ms. st' = st1\<lparr>st_metrics := ms\<rparr>)"
    using res increment_metrics_shape [of "sx_metric io" _ st1, OF surjective_pairing]
    by (auto simp: recover_executions_def increment_metric_def split: if_splits)
  then show "store_inv ?c st'" and "journal_view ?c st' = map_option interrupt_view \<circ> journal_view ?c st"
    using st1 by auto
qed

lemma node_start_Ok:
  assumes "node_start env io cfg dk = Ok nd"
  obtains st bl wk ss where "recover_executions env io (ExecutionStore_open (dk_store dk)) = Ok st"
    "load_all (ne_serde env) (sx_load io) st = Ok ss"
    "nd_store nd = st" "nd_executions nd = load_table ss" "nd_tasks nd = []"
    "nd_records nd = map (\<lambda>s. recovered_record (sx_instant io) s []) ss"
    "nd_permits nd = unat (nc_max_active_executions cfg)" "nd_max_active nd = nc_max_active_executions cfg"
proof -
  from assms obtain st wk bl where st: "recover_executions env io (ExecutionStore_open (dk_store dk)) = Ok st"
    and "(case load_all (ne_serde env) (sx_load io) st of Inl x \<Rightarrow> Err EggServe
      | Inr snapshots \<Rightarrow> if \<not> sx_serve io then Err EggServe
         else Ok \<lparr>nd_node_id = nc_node_id cfg, nd_execution_root = nc_execution_root cfg,
                  nd_max_active = nc_max_active_executions cfg, nd_permits = unat (nc_max_active_executions cfg),
                  nd_draining = dk_marker dk, nd_marker = dk_marker dk, nd_store = st, nd_blobs = bl,
                  nd_workspaces = wk, nd_artifacts = ArtifactStore_open (dk_artifacts dk), nd_lease_ttl = nc_lease_ttl cfg,
                  nd_features = server_capability_features (sx_capabilities io),
                  nd_executions = load_table snapshots,
                  nd_records = map (\<lambda>s. recovered_record (sx_instant io) s []) snapshots, nd_tasks = [],
                  nd_telemetry = start_telemetry (nc_host_telemetry cfg)\<rparr>) = Ok nd"
    by (fastforce simp: node_start_def and_then_Ok open_stores_def split: if_splits)
  then show ?thesis
    by (cases "load_all (ne_serde env) (sx_load io) st") (auto intro!: that [OF st] split: if_splits)
qed

lemma recovered_terminal:
  "map_option interrupt_view x = Some (s, n) \<Longrightarrow> is_terminal (sn_state s)"
  by (auto simp: interrupt_view_def split: if_splits)

lemma node_start_inv:
  assumes "serde_ok (ne_serde env)" "node_start env io cfg dk = Ok nd"
    and "store_inv (ne_serde env) (ExecutionStore_open (dk_store dk))"
    and "\<And>r. r \<in> set (st_executions (ExecutionStore_open (dk_store dk))) \<Longrightarrow> x_next_sequence r < i64_max - 1"
  shows "node_inv env nd"
proof -
  let ?c = "ne_serde env"
  from node_start_Ok [OF assms(2)] obtain st ss where st: "recover_executions env io (ExecutionStore_open (dk_store dk)) = Ok st"
    and ss: "load_all ?c (sx_load io) st = Ok ss"
    and nd: "nd_store nd = st" "nd_executions nd = load_table ss" "nd_tasks nd = []"
      "nd_records nd = map (\<lambda>s. recovered_record (sx_instant io) s []) ss"
      "nd_permits nd = unat (nc_max_active_executions cfg)" "nd_max_active nd = nc_max_active_executions cfg" .
  note rec = recover_executions_spec [OF assms(1,3,4) st]
  have cs: "cores nd = map (\<lambda>s. (s, [], True)) ss"
    by (simp add: nd cores_def core_of_def recovered_record_def)
  have "\<exists>n. node_view ?c st (snapshot_key s) = Some (s, n) \<and> events_ok s [] n" if s: "s \<in> set ss" for s
  proof -
    from load_all_spec(2) [OF rec(1) ss s] obtain n where n: "1 \<le> n" "journal_view ?c st (snapshot_key s) = Some (s, n)" by blast
    moreover have "is_terminal (sn_state s)"
      using n(2) recovered_terminal [of "journal_view ?c (ExecutionStore_open (dk_store dk)) (snapshot_key s)" s n]
      by (simp add: rec(2))
    ultimately show ?thesis by (auto simp: node_view_def events_ok_def)
  qed
  then have "records_ok (node_view ?c st) (cores nd)"
    using load_all_spec(1) [OF rec(1) ss] by (simp add: records_ok_def cs core_key_def comp_def)
  moreover have "table_ok (nd_executions nd) (cores nd)" by (simp add: cs nd load_table_ok)
  ultimately show ?thesis using assms(1) rec(1) by (simp add: node_inv_def nd owners_def owners_ok_def)
qed

lemma node_reachable_inv:
  assumes "node_reachable env nd" "serde_ok (ne_serde env)"
  shows "node_inv env nd"
  using assms(1)
proof induction
  case (reach_start io cfg dk nd)
  then show ?case using node_start_inv [OF assms(2)] by blast
next
  case (reach_step nd nd')
  then show ?case using node_step_inv by blast
qed

end
