(* ===== verification/Node_Stream.thy ===== *)
theory Node_Stream
  imports Node_Reach
begin

text \<open>
  Event streams of a running node: records only grow, a terminal record never changes, and so a client that
  resumes after a cursor reads exactly the events published after it, whether they come from the journal or
  from the live channel.
\<close>

section \<open>Records only grow\<close>

definition valid_event :: "ExecutionEvent \<Rightarrow> bool" where
  "valid_event e \<longleftrightarrow> ExecutionEvent_validate e = Ok ()"

text \<open>
  The later core of a record: the same execution, the events sent so far followed by valid ones, terminal ones
  unchanged.
\<close>

definition core_grows :: "record_core \<Rightarrow> record_core \<Rightarrow> bool" where
  "core_grows x y \<longleftrightarrow> core_key y = core_key x \<and> (\<exists>es. fst (snd y) = fst (snd x) @ es \<and> list_all valid_event es)
     \<and> (is_terminal (sn_state (fst x)) \<longrightarrow> fst y = fst x \<and> fst (snd y) = fst (snd x))"

definition grows :: "('b, 'w, 'a) node_env \<Rightarrow> ('b, 'w, 'a) NodeState \<Rightarrow> ('b, 'w, 'a) NodeState \<Rightarrow> bool" where
  "grows env nd nd' \<longleftrightarrow> (\<exists>new. list_all (\<lambda>x. fst (snd x) = []) new \<and> list_all2 core_grows (cores nd @ new) (cores nd'))
     \<and> (store_step (ne_serde env))\<^sup>*\<^sup>* (nd_store nd) (nd_store nd')"

lemma core_grows_refl [simp]: "core_grows x x"
  by (simp add: core_grows_def)

lemma core_grows_prefix: "core_grows x y \<Longrightarrow> prefix (fst (snd x)) (fst (snd y))"
  by (auto simp: core_grows_def)

lemma core_grows_trans: "core_grows x y \<Longrightarrow> core_grows y z \<Longrightarrow> core_grows x z"
  by (auto simp: core_grows_def)

lemma growsI:
  "list_all2 core_grows (cores nd @ new) (cores nd') \<Longrightarrow> list_all (\<lambda>x. fst (snd x) = []) new \<Longrightarrow> (store_step (ne_serde env))\<^sup>*\<^sup>* (nd_store nd) (nd_store nd')
    \<Longrightarrow> grows env nd nd'"
  by (auto simp: grows_def)

lemma same_grows: "same_node env nd nd' \<Longrightarrow> grows env nd nd'"
  by (intro growsI [where new = "[]"]) (simp_all add: same_node_def list_all2_refl)

lemma grows_refl [simp]: "grows env nd nd"
  by (rule same_grows [OF same_node_refl])

lemma grows_trans:
  assumes "grows env a b" "grows env b d"
  shows "grows env a d"
proof -
  from assms obtain n1 n2 where n: "list_all2 core_grows (cores a @ n1) (cores b)"
    "list_all2 core_grows (cores b @ n2) (cores d)" "list_all (\<lambda>x. fst (snd x) = []) (n1 @ n2)" by (auto simp: grows_def)
  have "list_all2 core_grows (cores a @ n1 @ n2) (cores b @ n2)"
    using list_all2_appendI [OF n(1) list_all2_refl [of core_grows n2]] by simp
  from list_all2_trans [OF core_grows_trans this n(2)]
  have "list_all2 core_grows (cores a @ n1 @ n2) (cores d)" by simp
  then show ?thesis using assms n(3) by (intro growsI [where new = "n1 @ n2"]) (auto simp: grows_def)
qed

lemma growsD:
  assumes "grows env nd nd'" "record_at a nd = Some r"
  obtains r' where "record_at a nd' = Some r'" "core_grows (core_of r) (core_of r')"
proof -
  from assms(1) obtain new where new: "list_all2 core_grows (cores nd @ new) (cores nd')" by (auto simp: grows_def)
  from assms(2) have a: "a < length (nd_records nd)" "nd_records nd ! a = r" by (auto simp: record_at_Some)
  then have "a < length (nd_records nd')" using list_all2_lengthD [OF new] by (simp add: cores_def)
  moreover from this have "core_grows (core_of r) (core_of (nd_records nd' ! a))"
    using list_all2_nthD2 [OF new, of a] a by (simp add: cores_def nth_append)
  ultimately show ?thesis by (intro that [of "nd_records nd' ! a"]) (simp_all add: record_at_def)
qed

lemma update_grows:
  assumes "record_at a nd = Some r" "core_grows (core_of r) (core_of r')"
  shows "grows env nd (set_record a r' nd)"
proof -
  from assms(1) have a: "a < length (nd_records nd)" "nd_records nd ! a = r" by (auto simp: record_at_Some)
  have "list_all2 core_grows (cores nd) ((cores nd)[a := core_of r'])"
    using a assms(2) by (auto simp: list_all2_conv_all_nth cores_def nth_list_update)
  then show ?thesis using a by (intro growsI [where new = "[]"]) (simp_all add: set_record_cores)
qed

lemma store_grows:
  assumes "store_step (ne_serde env) (nd_store nd) st"
  shows "grows env nd (nd\<lparr>nd_store := st\<rparr>)" "grows env nd (nd\<lparr>nd_store := st, nd_draining := d\<rparr>)"
  using assms by (auto intro!: growsI [where new = "[]"] simp: cores_def list_all2_refl)

lemma record_at_frame [simp]:
  "record_at a (nd\<lparr>nd_store := st\<rparr>) = record_at a nd" "record_at a (nd\<lparr>nd_draining := d\<rparr>) = record_at a nd"
  by (simp_all add: record_at_def)

lemma commit_event_valid:
  assumes "commit_event c io now s k st = (Inr (Some e), st')"
  shows "valid_event e"
  using assms by (auto simp: commit_event_def valid_event_def Let_def split: if_splits option.splits sum.splits)

lemma publish_grows: "grows env nd (publish env io now a s x k nd)"
proof (cases rule: publish_outcome [where env = env and io = io and now = now and a = a and s = s and x = x
    and kind = k and nd = nd])
  case (written r proposed e st)
  note grows_trans [OF store_grows(1) [OF step_commit [OF written(4)]]]
  moreover have "grows env (nd\<lparr>nd_store := st\<rparr>)
      (set_record a (r\<lparr>rc_snapshot := proposed, rc_events := rc_events r @ [e]\<rparr>) (nd\<lparr>nd_store := st\<rparr>))"
    using written(1-3) commit_event_valid [OF written(4)]
    by (intro update_grows [where r = r]) (simp_all add: core_grows_def core_of_def core_key_def snapshot_key_def)
  ultimately show ?thesis by (simp add: written(5))
next
  case (skipped r proposed st)
  then show ?thesis using store_grows(1) [OF step_commit [OF skipped(2)]] by simp
next
  case (failed r proposed err st)
  note grows_trans [OF store_grows(2) [OF step_commit [OF failed(3)]]]
  moreover have "grows env (nd\<lparr>nd_store := st, nd_draining := True\<rparr>)
      (set_record a (r\<lparr>rc_cancelled := True\<rparr>) (nd\<lparr>nd_store := st, nd_draining := True\<rparr>))"
    using failed(1) by (intro update_grows [where r = r]) (simp_all add: core_grows_def core_of_def)
  ultimately show ?thesis by (simp add: failed(4))
qed simp

section \<open>Every step\<close>

lemma finish_record_grows: "grows env nd (finish_record a nd)"
proof (cases "record_at a nd")
  case (Some r)
  then show ?thesis
    using update_grows [OF Some, of "r\<lparr>rc_finished := True\<rparr>"]
    by (simp add: finish_record_def core_grows_def core_of_def core_key_def)
qed (simp add: finish_record_def)

lemma end_task_grows: "grows env nd (end_task k n) \<longleftrightarrow> grows env nd n"
  by (simp add: grows_def cores_def end_task_def)

lemma set_phase_grows: "grows env nd (set_phase k ph n) \<longleftrightarrow> grows env nd n"
  by (simp add: grows_def cores_def set_phase_def)

lemma task_steps_grow:
  "grows env nd (task_begin env io now k nd)"
  "grows env nd (task_poll env io now between k nd)"
  "grows env nd (task_drain env io now k nd)"
  by (simp_all add: task_begin_def task_poll_def task_drain_def publish_chunk_def publish_grows end_task_grows set_phase_grows
      split: task_phase.split pass.split list.split)

lemma task_finish_grows: "grows env nd (task_finish env io k nd)"
proof (cases rule: task_finish_cases [where env = env and io = io and k = k and nd = nd])
  case (ends s r x nd2)
  show ?thesis unfolding ends(10) end_task_grows
    by (rule grows_trans [OF grows_trans [OF same_grows [OF ends(6)] publish_grows] finish_record_grows])
qed simp

lemma answer_grows [simp]: "grows env nd (snd (answer s c m nd')) \<longleftrightarrow> grows env nd nd'"
  by (simp add: answer_def)

lemma cancel_execution_grows: "grows env nd (snd (cancel_execution env io a r nd))"
  using publish_grows grows_trans [OF publish_grows same_grows [OF cancel_record_same]] same_grows [OF cancel_record_same]
  by (auto simp: cancel_execution_def Let_def answer_def)

lemma control_grows: "grows env nd (snd (control env io i req p renew nd))"
  using same_grows [OF renew_lease_same] cancel_execution_grows
  unfolding control_def by (auto split: option.splits sum.splits bind_splits)

lemma launch_execution_grows: "grows env nd (snd (launch_execution env io ad nd))"
proof -
  have "cores (admitted_node io ad nd) = cores nd @ [(accepted_snapshot ad, [], False)]"
    by (simp add: cores_def admitted_node_def core_of_def new_record_def)
  then have "grows env nd (admitted_node io ad nd)" 
    by (intro growsI [where new = "[(accepted_snapshot ad, [], False)]"]) (simp_all add: list_all2_refl)
  then show ?thesis
    using grows_trans [OF grows_trans [OF _ publish_grows] same_grows [OF event_response_same]]
    unfolding launch_execution_state by blast
qed

lemma make_room_grows: "grows env nd (make_room io nd)"
  by (intro growsI [where new = "[]"]) (simp_all add: cores_def make_room_frames list_all2_refl)

lemma admit_execution_grows: "grows env nd (snd (admit_execution env io p ad nd))"
proof (cases "is_draining nd \<or> nd_permits nd = 0 \<or> length (nd_executions (make_room io nd)) \<ge> MAX_RECENT_EXECUTIONS")
  case True
  then show ?thesis
    using same_grows [OF count_metric_same] grows_trans [OF make_room_grows same_grows [OF count_metric_same]]
    by (auto simp: admit_execution_def Let_def)
next
  case False
  obtain ok nd2 where act: "activate_workspace env io (ad_workspace_id ad) (make_room io nd) = (ok, nd2)" by fastforce
  have g2: "grows env nd nd2" by (rule grows_trans [OF make_room_grows same_grows [OF activate_workspace_frames(1) [OF act]]])
  obtain res st where r: "reserve (ne_serde env) (ni_reserve io) (ni_unix_store io) (accepted_snapshot ad) (ad_version ad)
      (ad_digest ad) p (ad_lease_hash ad) (lease_deadline io nd) (nd_store nd2) = (res, st)" by fastforce
  have g3: "grows env nd (nd2\<lparr>nd_store := st\<rparr>)" by (rule grows_trans [OF g2 store_grows(1) [OF step_reserve [OF r]]])
  note more = grows_trans [OF g3 same_grows [OF count_metric_same]]
  note ws = grows_trans [OF g3 same_grows [OF retire_workspace_same]] grows_trans [OF more same_grows [OF retire_workspace_same]]
  note ev = grows_trans [OF _ same_grows [OF event_response_same]]
  show ?thesis
    using False act r ws g3 ev [OF g3] ev [OF ws(1)] grows_trans [OF more launch_execution_grows]
      grows_trans [OF g2 same_grows [OF count_metric_same]]
    by (cases ok) (auto simp: admit_execution_def Let_def split: sum.splits ReserveResult.splits)
qed

lemma serve_route_grows: "grows env nd (snd (serve_route env io req p route nd))"
proof (cases route)
  case RExecute
  have "grows env nd (snd (execute env io req p nd))"
    using admit_execution_grows same_grows [OF replay_execution_same] same_grows [OF count_metric_same]
    by (auto simp: execute_def split: sum.splits option.splits)
  then show ?thesis using RExecute by (simp add: serve_route_def)
qed (simp_all add: serve_route_def control_grows observe_same [THEN same_grows] events_route_same [THEN same_grows]
  blob_routes_same [THEN same_grows] blob_upload_same [THEN same_grows] blob_download_same [THEN same_grows]
  workspace_create_same [THEN same_grows] workspace_derive_same [THEN same_grows] artifact_routes_same [THEN same_grows])

lemma node_step_grows: "node_step env nd nd' \<Longrightarrow> grows env nd nd'"
proof (induction rule: node_step.induct)
  case (step_request nd io req resp nd')
  have "grows env nd (snd (dispatch env io req nd))"
    using serve_route_grows same_grows [OF count_metric_same] by (auto simp: dispatch_def split: option.splits)
  then show ?case using step_request by simp
next
  case (step_collect gio dry_run requested nd report nd')
  then show ?case using same_grows [OF collect_garbage_same] by blast
qed (auto intro: task_steps_grow task_finish_grows same_grows [OF task_deliver_same] same_grows [OF lease_tick_same]
  same_grows [OF node_shutdown_same] operator_steps_same [THEN same_grows])

lemma node_steps_grow: "(node_step env)\<^sup>*\<^sup>* nd nd' \<Longrightarrow> grows env nd nd'"
  by (induction rule: rtranclp_induct) (auto intro: grows_trans node_step_grows)

lemma node_steps_reachable: "(node_step env)\<^sup>*\<^sup>* nd nd' \<Longrightarrow> node_reachable env nd \<Longrightarrow> node_reachable env nd'"
  by (induction rule: rtranclp_induct) (auto intro: reach_step)

text \<open>The events of every record were validated before they were published.\<close>

lemma node_reachable_events_valid:
  assumes "node_reachable env nd" "r \<in> set (nd_records nd)"
  shows "list_all valid_event (rc_events r)"
proof -
  have "list_all (\<lambda>x. list_all valid_event (fst (snd x))) (cores nd)" using assms(1)
  proof (induction rule: node_reachable.induct)
    case (reach_start io cfg dk nd)
    obtain ss where "nd_records nd = map (\<lambda>s. recovered_record (sx_instant io) s []) ss"
      by (rule node_start_Ok [OF reach_start(1)]) (rule that)
    then show ?case by (simp add: cores_def core_of_def recovered_record_def list_all_iff)
  next
    case (reach_step nd nd')
    from node_step_grows [OF this(2)] obtain new where new: "list_all (\<lambda>x. fst (snd x) = []) new"
      "list_all2 core_grows (cores nd @ new) (cores nd')" by (auto simp: grows_def)
    have "list_all (\<lambda>x. list_all valid_event (fst (snd x))) (cores nd @ new)"
      using reach_step.IH new(1) by (auto simp: list_all_iff)
    moreover have "list_all valid_event (fst (snd y))" if "core_grows x y" "list_all valid_event (fst (snd x))" for x y
      using that by (auto simp: core_grows_def)
    ultimately show ?case using new(2) unfolding list_all_length list_all2_conv_all_nth by metis
  qed
  with assms(2) show ?thesis by (auto simp: list_all_iff cores_def core_of_def)
qed

section \<open>What a client reads\<close>

definition after_cursor :: "u64 \<Rightarrow> ExecutionEvent list \<Rightarrow> ExecutionEvent list" where
  "after_cursor cursor es = filter (\<lambda>e. cursor < ev_sequence e) es"

definition in_order :: "ExecutionEvent list \<Rightarrow> bool" where
  "in_order es \<longleftrightarrow> sorted_wrt (<) (map ev_sequence es) \<and> list_all (\<lambda>e. \<not> terminal_event e) (butlast es)"

lemma in_order_Cons:
  "in_order (e # es) \<longleftrightarrow> in_order es \<and> (\<forall>x \<in> set es. ev_sequence e < ev_sequence x) \<and> (terminal_event e \<longrightarrow> es = [])"
  by (auto simp: in_order_def)

lemma after_cursor_all: "(\<And>e. e \<in> set es \<Longrightarrow> cursor < ev_sequence e) \<Longrightarrow> after_cursor cursor es = es"
  by (simp add: after_cursor_def)

lemma after_cursor_later: "e \<in> set (after_cursor cursor es) \<Longrightarrow> cursor < ev_sequence e"
  by (simp add: after_cursor_def)

lemma stream_live:
  "in_order es \<Longrightarrow> stream_events [] (map LiveEvent es) latest = map StreamLine (after_cursor latest es)"
proof (induction es arbitrary: latest)
  case (Cons e es)
  then have "after_cursor (ev_sequence e) es = es" by (intro after_cursor_all) (simp add: in_order_Cons)
  moreover have "after_cursor latest es = es" if "latest < ev_sequence e"
    using Cons.prems that by (intro after_cursor_all) (auto simp: in_order_Cons)
  ultimately show ?case using Cons by (auto simp: in_order_Cons after_cursor_def not_le)
qed (simp add: after_cursor_def)

lemma stream_replay:
  assumes "in_order rs" "\<And>e. e \<in> set rs \<Longrightarrow> latest < ev_sequence e"
  shows "stream_events rs live latest = map StreamLine rs @
    (if rs \<noteq> [] \<and> terminal_event (last rs) then []
     else stream_events [] live (if rs = [] then latest else ev_sequence (last rs)))"
  using assms
proof (induction rs arbitrary: latest)
  case (Cons e rs)
  then have e: "latest < ev_sequence e" "in_order rs" "terminal_event e \<Longrightarrow> rs = []"
    "\<And>x. x \<in> set rs \<Longrightarrow> ev_sequence e < ev_sequence x" by (auto simp: in_order_Cons)
  show ?case using Cons.IH [OF e(2) e(4)] e(1,3) by (auto simp: not_le)
qed simp

lemma in_order_append:
  "in_order (xs @ ys) \<Longrightarrow> in_order xs \<and> in_order ys \<and> (\<forall>x \<in> set xs. \<forall>y \<in> set ys. ev_sequence x < ev_sequence y)
     \<and> (ys \<noteq> [] \<longrightarrow> list_all (\<lambda>e. \<not> terminal_event e) xs)"
  by (induction xs) (auto simp: in_order_Cons in_order_def [of "[]"])

lemma in_order_after_cursor: "in_order xs \<Longrightarrow> in_order (after_cursor cursor xs)"
  by (induction xs) (auto simp: in_order_Cons after_cursor_def in_order_def [of "[]"])

lemma in_order_last: "in_order xs \<Longrightarrow> x \<in> set xs \<Longrightarrow> ev_sequence x \<le> ev_sequence (last xs)"
proof (induction xs)
  case (Cons y ys)
  then show ?case by (cases "ys = []") (auto simp: in_order_Cons intro: less_imp_le)
qed simp

lemma last_after_cursor:
  assumes "in_order xs" "after_cursor cursor xs \<noteq> []"
  shows "last (after_cursor cursor xs) = last xs" "xs \<noteq> []"
proof -
  show "xs \<noteq> []" using assms(2) by (auto simp: after_cursor_def)
  then obtain ys y where xs: "xs = ys @ [y]" by (cases xs rule: rev_cases) auto
  then show "last (after_cursor cursor xs) = last xs"
    using in_order_append [of ys "[y]"] assms by (auto simp: after_cursor_def filter_empty_conv)
qed

text \<open>A replay up to one point and live events from an earlier one give every event once.\<close>

lemma stream_exact:
  assumes es: "in_order (xs @ ys @ zs)"
  shows "stream_events (after_cursor cursor (xs @ ys)) (map LiveEvent (ys @ zs)) cursor
    = map StreamLine (after_cursor cursor (xs @ ys @ zs))"
proof (cases "after_cursor cursor (xs @ ys) = []")
  case True
  have "in_order (ys @ zs)" using in_order_append [OF es] by blast
  then have "stream_events [] (map LiveEvent (ys @ zs)) cursor = map StreamLine (after_cursor cursor (ys @ zs))"
    by (rule stream_live)
  then show ?thesis using True by (simp add: after_cursor_def)
next
  case False
  let ?rs = "after_cursor cursor (xs @ ys)"
  from in_order_append [of "xs @ ys" zs] es have split: "in_order (xs @ ys)"
    "\<And>x z. x \<in> set (xs @ ys) \<Longrightarrow> z \<in> set zs \<Longrightarrow> ev_sequence x < ev_sequence z"
    "zs \<noteq> [] \<Longrightarrow> list_all (\<lambda>e. \<not> terminal_event e) (xs @ ys)" by auto
  note l = last_after_cursor [OF split(1) False]
  have stream: "stream_events ?rs (map LiveEvent (ys @ zs)) cursor = map StreamLine ?rs @
      (if terminal_event (last ?rs) then [] else stream_events [] (map LiveEvent (ys @ zs)) (ev_sequence (last ?rs)))"
    using stream_replay [OF in_order_after_cursor [OF split(1)] after_cursor_later] False by simp
  have top: "ev_sequence x \<le> ev_sequence (last ?rs)" if "x \<in> set (xs @ ys)" for x
    using in_order_last [OF split(1) that] l(1) by simp
  have "cursor < ev_sequence (last ?rs)" by (rule after_cursor_later [OF last_in_set [OF False]])
  moreover have "last ?rs \<in> set (xs @ ys)" unfolding l(1) by (rule last_in_set [OF l(2)])
  from split(2) [OF this] have "ev_sequence (last ?rs) < ev_sequence z" if "z \<in> set zs" for z using that .
  ultimately have zs: "after_cursor cursor zs = zs" "after_cursor (ev_sequence (last ?rs)) zs = zs"
    by (auto intro!: after_cursor_all intro: less_trans)
  have ys: "after_cursor (ev_sequence (last ?rs)) ys = []"
    using top by (simp add: after_cursor_def filter_empty_conv not_less)
  have "in_order (ys @ zs)" using in_order_append [OF es] by blast
  from stream_live [OF this] ys zs(2)
  have live: "stream_events [] (map LiveEvent (ys @ zs)) (ev_sequence (last ?rs)) = map StreamLine zs"
    by (simp add: after_cursor_def)
  have "zs = []" if "terminal_event (last ?rs)"
    using split(3) that l(1) last_in_set [OF l(2)] by (auto simp: list_all_iff simp del: last_append)
  then show ?thesis using stream live zs(1) by (auto simp: after_cursor_def)
qed

section \<open>From the journal to the client\<close>

lemma page_after_cursor:
  assumes inv: "store_inv c st" and view: "node_view c st (i, as_i64 g) = Some (s, n, held)"
    and cur: "uint cur \<le> i64_max" and page: "load_page c io i g cur st = Ok (Some p)"
    and base: "\<not> u64_saturating_add cur 1 < pg_base_sequence p"
  shows "pg_events p = after_cursor cur held"
    and "\<exists>b \<le> uint cur + 1. map (\<lambda>e. uint (ev_sequence e)) held = [b..n - 1]"
proof -
  from view obtain r where r: "find_exec st i (as_i64 g) = Some r" and n: "n = x_next_sequence r"
    and held: "held = map (\<lambda>v. the (event_from_slice c (v_encoded v))) (events_of i (as_i64 g) (st_events st))"
    by (auto simp: node_view_def journal_view_def retained_events_def)
  have io: "io" using page by (cases io) (simp_all add: load_page_def)
  let ?mine = "events_of i (as_i64 g) (st_events st)"
  obtain b where b: "1 \<le> b" "b \<le> n" "n \<le> i64_max" "map v_sequence ?mine = [b..n - 1]"
    and dec: "\<forall>v \<in> set ?mine. \<exists>e. event_from_slice c (v_encoded v) = Some e \<and> ev_sequence e = as_u64 (v_sequence v)"
    and p: "load_page c True i g cur st = Ok (Some \<lparr>pg_base_sequence = as_u64 b, pg_next_sequence = as_u64 n,
      pg_events = (if uint cur + 1 < b then []
        else map (the \<circ> event_from_slice c) (map v_encoded (filter (\<lambda>v. v_sequence v > uint cur) ?mine)))\<rparr>)"
    using load_page_spec [OF inv r cur] unfolding n by blast
  have cb: "\<not> uint cur + 1 < b"
    using base page p io b cur by (auto simp: saturating_succ_less as_u64_uint)
  have seq: "uint (ev_sequence (the (event_from_slice c (v_encoded v)))) = v_sequence v" if "v \<in> set ?mine" for v
  proof -
    have "v_sequence v \<in> set [b..n - 1]" using that b(4) by (metis image_eqI list.set_map)
    then show ?thesis using dec that b by (auto simp: as_u64_uint)
  qed
  have "after_cursor cur held = map (\<lambda>v. the (event_from_slice c (v_encoded v))) (filter (\<lambda>v. v_sequence v > uint cur) ?mine)"
    unfolding held after_cursor_def filter_map comp_def
    by (intro arg_cong [where f = "map _"] filter_cong refl) (simp add: word_less_def seq)
  then show "pg_events p = after_cursor cur held" using page p io cb by (auto simp: comp_def)
  have "map (\<lambda>e. uint (ev_sequence e)) held = map v_sequence ?mine"
    unfolding held list.map_comp using seq by (intro map_cong) simp_all
  then show "\<exists>b \<le> uint cur + 1. map (\<lambda>e. uint (ev_sequence e)) held = [b..n - 1]"
    using b(4) cb by (auto intro!: exI [of _ b])
qed

lemma record_journal:
  assumes "node_inv env nd" "record_at a nd = Some r"
  obtains n held where "node_view (ne_serde env) (nd_store nd) (snapshot_key (rc_snapshot r)) = Some (rc_snapshot r, n, held)"
    "events_ok (rc_snapshot r) (rc_events r) (n, held)"
proof -
  have "core_of r \<in> set (cores nd)" using assms(2) by (auto simp: record_at_Some cores_def)
  then show ?thesis using assms(1) that by (fastforce simp: node_inv_def records_ok_def core_key_def core_of_def)
qed

lemma events_ok_in_order:
  assumes "events_ok s es (n, held)"
  shows "in_order es"
proof -
  have "sorted_wrt (<) (map (\<lambda>e. uint (ev_sequence e)) es)"
    using assms by (auto simp: events_ok_def sorted_wrt_upto)
  then have "sorted_wrt (<) (map ev_sequence es)" by (simp add: sorted_wrt_map word_less_def)
  then show ?thesis using assms by (simp add: in_order_def events_ok_def)
qed

lemma after_cursor_sequences:
  assumes "map (\<lambda>e. uint (ev_sequence e)) es = [1..n - 1]"
  shows "map (\<lambda>e. uint (ev_sequence e)) (after_cursor cur es) = [uint cur + 1..n - 1]"
proof -
  have "map (\<lambda>e. uint (ev_sequence e)) (after_cursor cur es) = filter (\<lambda>x. uint cur < x) [1..n - 1]"
    unfolding assms [symmetric] filter_map comp_def by (simp add: after_cursor_def word_less_def)
  then show ?thesis by (simp add: filter_upto)
qed

lemma after_cursor_suffix:
  assumes "suffix held es" "in_order es" "b \<le> uint cur + 1" "map (\<lambda>e. uint (ev_sequence e)) held = [b..n - 1]"
    "map (\<lambda>e. uint (ev_sequence e)) es = [1..n - 1]"
  shows "after_cursor cur held = after_cursor cur es"
proof -
  from assms(1) obtain xs where es: "es = xs @ held" by (auto simp: suffix_def)
  have "uint (ev_sequence x) < b" if "x \<in> set xs" for x
  proof (cases "held = []")
    case True
    then have "n \<le> b" using assms(4) by simp
    moreover have "uint (ev_sequence x) \<in> set [1..n - 1]" using that es assms(5) by (metis Un_iff image_eqI list.set_map set_append)
    ultimately show ?thesis by simp
  next
    case False
    then have "b = uint (ev_sequence (hd held))" using assms(4) by (cases held) (auto simp: upto.simps split: if_splits)
    moreover have "ev_sequence x < ev_sequence (hd held)"
      using in_order_append [of xs held] assms(2) es that False by simp
    ultimately show ?thesis by (simp add: word_less_def)
  qed
  then have "after_cursor cur xs = []"
    using assms(3) by (fastforce simp: after_cursor_def filter_empty_conv word_less_def)
  then show ?thesis by (simp add: es after_cursor_def)
qed

lemma stream_delivers:
  assumes reach: "node_reachable env nd" and sok: "serde_ok (ne_serde env)"
    and resp: "event_response env io i g after (SharedRecord a) nd
      = (Ok \<lparr>rp_status = 202, rp_body = BodyEvents i g after replay terminal sub\<rparr>, nd1)"
    and r: "record_at a nd = Some r" "snapshot_key (rc_snapshot r) = (i, as_i64 g)"
      "rc_events r \<noteq> [] \<or> \<not> is_terminal (sn_state (rc_snapshot r))"
    and after: "uint after \<le> i64_max" and sub: "m \<le> length (rc_events r)"
    and run: "(node_step env)\<^sup>*\<^sup>* nd nd2" and r2: "record_at a nd2 = Some r2"
  shows "event_stream after replay (map LiveEvent (drop m (rc_events r2))) terminal
      = map StreamLine (after_cursor after (rc_events r2))"
proof -
  let ?c = "ne_serde env" and ?es = "rc_events r" and ?es2 = "rc_events r2"
  have inv: "node_inv env nd" by (rule node_reachable_inv [OF reach sok])
  have inv2: "node_inv env nd2" by (rule node_reachable_inv [OF node_steps_reachable [OF run reach] sok])
  obtain n held where j: "node_view ?c (nd_store nd) (i, as_i64 g) = Some (rc_snapshot r, n, held)"
    "events_ok (rc_snapshot r) ?es (n, held)" using record_journal [OF inv r(1)] r(2) by metis
  obtain n2 held2 where j2: "events_ok (rc_snapshot r2) ?es2 (n2, held2)" using record_journal [OF inv2 r2] by metis
  obtain p where p: "load_page ?c (ni_page io) i g after (nd_store nd) = Ok (Some p)" "replay = pg_events p"
    "\<not> u64_saturating_add after 1 < pg_base_sequence p" "terminal = is_terminal (sn_state (rc_snapshot r))"
    using resp r(1) by (auto simp: event_response_def answer_def error_response_def json_response_def source_snapshot_def
        split: sum.splits option.splits if_splits)
  have sinv: "store_inv ?c (nd_store nd)" using inv by (simp add: node_inv_def)
  note page = page_after_cursor [OF sinv j(1) after p(1,3)]
  from page(2) obtain b where b: "b \<le> uint after + 1" "map (\<lambda>e. uint (ev_sequence e)) held = [b..n - 1]" by blast
  from j(2) have es: "map (\<lambda>e. uint (ev_sequence e)) ?es = [1..n - 1]" "suffix held ?es"
    using r(3) by (auto simp: events_ok_def)
  have replay: "replay = after_cursor after ?es"
    using after_cursor_suffix [OF es(2) events_ok_in_order [OF j(2)] b es(1)] page(1) p(2) by simp
  from growsD [OF node_steps_grow [OF run] r(1)] r2 have "core_grows (core_of r) (core_of r2)" by force
  then obtain zs where zs: "?es2 = ?es @ zs" "is_terminal (sn_state (rc_snapshot r)) \<Longrightarrow> zs = []"
    by (auto simp: core_grows_def core_of_def prefix_def)
  have ord: "in_order (take m ?es @ drop m ?es @ zs)" 
    using events_ok_in_order [OF j2] zs(1) unfolding append_assoc [symmetric] append_take_drop_id by simp
  have live: "map LiveEvent (drop m ?es2) = map LiveEvent (drop m ?es @ zs)" using sub zs(1) by simp
  have stream: "stream_events replay (map LiveEvent (drop m ?es2)) after = map StreamLine (after_cursor after ?es2)"
    using stream_exact [OF ord, of after] 
    unfolding live append_assoc [symmetric] append_take_drop_id replay by (simp add: zs(1))
  show ?thesis
    using stream replay zs p(4) by (auto simp: event_stream_def)
qed


end
