(* ===== verification/Node_Props.thy ===== *)
theory Node_Props
  imports Node_Stream
begin

text \<open>
  Properties of a running node: requests are served only after the authorizer allowed the operation on the
  resource they touch, memory and journal agree, an execution is launched once, its task ends it, and a restart
  after a crash leaves every execution terminal.
\<close>

section \<open>Routing and authorization\<close>

text \<open>What a route is about: its operation, the resource it touches and the body it may carry.\<close>

fun route_operation :: "string \<Rightarrow> Route \<Rightarrow> Operation" where
  "route_operation meth RCapabilities = OpCapabilities"
| "route_operation meth RStatus = OpStatus"
| "route_operation meth RTelemetry = OpTelemetry"
| "route_operation meth RExecute = OpExecute"
| "route_operation meth (RObserve _) = OpObserve"
| "route_operation meth (RCancel _) = OpCancel"
| "route_operation meth (RRenew _) = OpRenew"
| "route_operation meth (REvents _) = OpEvents"
| "route_operation meth RBlobMissing = OpBlobRead"
| "route_operation meth RBlobPrepare = OpBlobWrite"
| "route_operation meth (RBlobUpload _) = OpBlobWrite"
| "route_operation meth (RBlobDownload _) = OpBlobRead"
| "route_operation meth RBlobInvalidDigest = (if meth = ''PUT'' then OpBlobWrite else OpBlobRead)"
| "route_operation meth RWorkspaceCreate = OpWorkspaceCreate"
| "route_operation meth RWorkspaceDerive = OpWorkspaceCreate"
| "route_operation meth (RArtifactList _) = OpArtifactRead"
| "route_operation meth (RArtifactDownload _) = OpArtifactRead"

fun route_resource :: "Route \<Rightarrow> ResourceId option" where
  "route_resource (RObserve i) = Some (ResExecution i)"
| "route_resource (RCancel i) = Some (ResExecution i)"
| "route_resource (RRenew i) = Some (ResExecution i)"
| "route_resource (REvents i) = Some (ResExecution i)"
| "route_resource (RArtifactList i) = Some (ResExecution i)"
| "route_resource (RBlobUpload d) = Some (ResBlob d)"
| "route_resource (RBlobDownload d) = Some (ResBlob d)"
| "route_resource (RArtifactDownload a) = Some (ResArtifact a)"
| "route_resource _ = None"

fun route_body :: "Route \<Rightarrow> RequestBodyPolicy" where
  "route_body RExecute = BodyBuffer MAX_REQUEST_BYTES"
| "route_body (RCancel _) = BodyBuffer MAX_REQUEST_BYTES"
| "route_body (RRenew _) = BodyBuffer MAX_REQUEST_BYTES"
| "route_body RBlobMissing = BodyBuffer MAX_BLOB_FIND_REQUEST_BYTES"
| "route_body RBlobPrepare = BodyBuffer MAX_BLOB_FIND_REQUEST_BYTES"
| "route_body RWorkspaceCreate = BodyBuffer MAX_WORKSPACE_REQUEST_BYTES"
| "route_body RWorkspaceDerive = BodyBuffer MAX_WORKSPACE_REQUEST_BYTES"
| "route_body (RBlobUpload _) = BodyStream MAX_BLOB_BYTES"
| "route_body _ = BodyReject"

lemma length4: "length xs = 4 \<longleftrightarrow> (\<exists>a b c d. xs = [a, b, c, d])"
  by (auto simp: numeral_eq_Suc length_Suc_conv)

lemma length5: "length xs = 5 \<longleftrightarrow> (\<exists>a b c d e. xs = [a, b, c, d, e])"
  by (auto simp: numeral_eq_Suc length_Suc_conv)

lemma ends_with_append [simp]: "ends_with suf (xs @ suf)"
  by (simp add: ends_with_def)

text \<open>A path with an identifier, by the route found for its components.\<close>

lemma parts_route:
  assumes "operation_for_parts meth (split_on slash path) = Some (operation, route)"
  shows "operation = route_operation meth route \<and> resource_for_path operation path = route_resource route
    \<and> (meth = ''GET'' \<and> route_body route = BodyReject
      \<or> (\<exists>d. meth = ''PUT'' \<and> split_on slash path = [[], ''v1'', ''blobs'', d]
           \<and> route_body route = (if isl (BlobDigest_parse d) then BodyReject else BodyStream MAX_BLOB_BYTES))
      \<or> (\<exists>i act. meth = ''POST'' \<and> split_on slash path = [[], ''v1'', ''executions'', i, act]
           \<and> act \<in> {''cancel'', ''renew''} \<and> route_body route = BodyBuffer MAX_REQUEST_BYTES))"
  using assms
  by (auto simp: operation_for_parts_def length4 length5 resource_for_path_def resource_part_def Let_def
      split: if_splits sum.splits)

lemma fixed_route:
  assumes "map_of fixed_routes (meth, path) = Some (operation, route)"
  shows "operation = route_operation meth route \<and> resource_for_path operation path = route_resource route
    \<and> request_body_policy meth path = route_body route"
  using assms
  by (auto simp: fixed_routes_def resource_for_path_def resource_part_def Let_def request_body_policy_def
      BlobDigest_parse_def slash_def ends_with_def split: if_splits)

lemma split_path: "split_on slash path = parts \<Longrightarrow> path = join_with slash parts"
  using join_with_split_on by metis

lemma parts_body:
  assumes "operation_for_parts meth (split_on slash path) = Some (operation, route)"
  shows "request_body_policy meth path = route_body route"
proof -
  consider "meth = ''GET''" "route_body route = BodyReject"
    | d where "meth = ''PUT''" "split_on slash path = [[], ''v1'', ''blobs'', d]"
        "route_body route = (if isl (BlobDigest_parse d) then BodyReject else BodyStream MAX_BLOB_BYTES)"
    | i act where "meth = ''POST''" "split_on slash path = [[], ''v1'', ''executions'', i, act]"
        "act \<in> {''cancel'', ''renew''}" "route_body route = BodyBuffer MAX_REQUEST_BYTES"
    using parts_route [OF assms] by blast
  then show ?thesis
  proof cases
    case 1
    then show ?thesis by (simp add: request_body_policy_def)
  next
    case 2
    have "path = ''/v1/blobs/'' @ d" using split_path [OF 2(2)] by (simp add: slash_def)
    then show ?thesis using 2 by (auto simp: request_body_policy_def)
  next
    case 3
    have path: "path = ''/v1/executions/'' @ i @ ''/'' @ act" using split_path [OF 3(2)] by (simp add: slash_def)
    have "ends_with ''/cancel'' path \<or> ends_with ''/renew'' path"
      using 3(3) ends_with_append [of "''/cancel''" "''/v1/executions/'' @ i"]
        ends_with_append [of "''/renew''" "''/v1/executions/'' @ i"] by (auto simp: path)
    then show ?thesis using 3 by (simp add: request_body_policy_def) (simp add: path)
  qed
qed

lemma operation_for_route:
  assumes "operation_for meth path = Some (operation, route)"
  shows "operation = route_operation meth route \<and> resource_for_path operation path = route_resource route
    \<and> request_body_policy meth path = route_body route"
proof (cases "map_of fixed_routes (meth, path)")
  case None
  then show ?thesis using assms parts_route parts_body by (simp add: operation_for_def)
next
  case (Some found)
  then show ?thesis using assms fixed_route by (simp add: operation_for_def)
qed

definition only_metrics :: "('b, 'w, 'a) NodeState \<Rightarrow> ('b, 'w, 'a) NodeState \<Rightarrow> bool" where
  "only_metrics nd nd' \<longleftrightarrow> (\<exists>ms. nd' = nd\<lparr>nd_store := (nd_store nd)\<lparr>st_metrics := ms\<rparr>\<rparr>)"

lemma only_metrics_refl [simp]: "only_metrics nd nd"
  by (simp add: only_metrics_def) (rule exI [of _ "st_metrics (nd_store nd)"], simp)

lemma count_metric_only [simp]: "only_metrics nd (count_metric io name n nd)"
proof -
  obtain ms where "snd (increment_metrics (ni_metric io name) [(name, n)] (nd_store nd)) = (nd_store nd)\<lparr>st_metrics := ms\<rparr>"
    using increment_metrics_shape [OF surjective_pairing] by blast
  then show ?thesis by (auto simp: only_metrics_def count_metric_def increment_metric_def)
qed


section \<open>Memory and journal\<close>

text \<open>C7: consistency of a running node. In every state a node can reach after a start on a sound database, each
  record in memory holds the snapshot the journal has for its execution, no execution has two records, the
  table leads from an identifier to a record of that execution, every task owns a record of its own that is
  not finished, and the free permits and the tasks add up to the limit, so that the status document reports
  the number of running tasks.
\<close>

theorem node_consistent:
  assumes "node_reachable env nd" "serde_ok (ne_serde env)"
  shows "(\<forall>r \<in> set (nd_records nd). \<exists>n. journal_view (ne_serde env) (nd_store nd) (snapshot_key (rc_snapshot r))
        = Some (rc_snapshot r, n))
    \<and> distinct (map (\<lambda>r. snapshot_key (rc_snapshot r)) (nd_records nd))
    \<and> distinct (map fst (nd_executions nd))
    \<and> (\<forall>(i, a) \<in> set (nd_executions nd). \<exists>r. record_at a nd = Some r \<and> sn_execution_id (rc_snapshot r) = i)
    \<and> distinct (map xt_record (nd_tasks nd))
    \<and> (\<forall>t \<in> set (nd_tasks nd). \<exists>r. record_at (xt_record t) nd = Some r \<and> \<not> rc_finished r)
    \<and> length (nd_tasks nd) + nd_permits nd = unat (nd_max_active nd)
    \<and> unat (ns_active_executions (node_status nd)) = length (nd_tasks nd)"
proof -
  have inv: "node_inv env nd" by (rule node_reachable_inv [OF assms])
  have cs: "length (cores nd) = length (nd_records nd)"
    "a < length (nd_records nd) \<Longrightarrow> cores nd ! a = core_of (nd_records nd ! a)" for a
    by (simp_all add: cores_def)
  have 1: "\<exists>n. journal_view (ne_serde env) (nd_store nd) (snapshot_key (rc_snapshot r)) = Some (rc_snapshot r, n)"
    if "r \<in> set (nd_records nd)" for r
  proof -
    from that obtain a where "record_at a nd = Some r" by (auto simp: in_set_conv_nth record_at_Some)
    from record_journal [OF inv this] show ?thesis by (auto simp: node_view_def)
  qed
  have keys: "map core_key (cores nd) = map (\<lambda>r. snapshot_key (rc_snapshot r)) (nd_records nd)"
    by (simp add: cores_def core_key_def core_of_def)
  have 2: "distinct (map (\<lambda>r. snapshot_key (rc_snapshot r)) (nd_records nd))"
    using inv unfolding keys [symmetric] by (simp add: node_inv_def records_ok_def)
  have 3: "distinct (map fst (nd_executions nd))" using inv by (simp add: node_inv_def table_ok_def)
  have 4: "\<exists>r. record_at a nd = Some r \<and> sn_execution_id (rc_snapshot r) = i" if "(i, a) \<in> set (nd_executions nd)" for i a
    using inv that cs by (fastforce simp: node_inv_def table_ok_def record_at_Some core_of_def)
  have 5: "distinct (map xt_record (nd_tasks nd))" using inv by (simp add: node_inv_def owners_ok_def owners_def)
  have 6: "\<exists>r. record_at (xt_record t) nd = Some r \<and> \<not> rc_finished r" if "t \<in> set (nd_tasks nd)" for t
    using inv that cs by (fastforce simp: node_inv_def owners_ok_def owners_def record_at_Some core_of_def)
  have 7: "length (nd_tasks nd) + nd_permits nd = unat (nd_max_active nd)" using inv by (simp add: node_inv_def owners_def)
  have "nd_max_active nd = of_nat (length (nd_tasks nd) + nd_permits nd)" unfolding 7 by simp
  then have "nd_max_active nd - of_nat (nd_permits nd) = of_nat (length (nd_tasks nd))" by simp
  moreover have "unat (nd_max_active nd) < 2 ^ LENGTH(32)" by (rule unsigned_less)
  then have "length (nd_tasks nd) < 2 ^ LENGTH(32)" using 7 by linarith
  ultimately have 8: "unat (ns_active_executions (node_status nd)) = length (nd_tasks nd)"
    by (simp add: node_status_def unsigned_of_nat take_bit_nat_eq_self)
  show ?thesis using 1 2 3 4 5 6 7 8 by blast
qed

section \<open>One launch per execution generation\<close>

lemma store_steps_identity: "(store_step c)\<^sup>*\<^sup>* st st' \<Longrightarrow> keeps_identity st st'"
  by (induction rule: rtranclp_induct) (auto intro: keeps_identity_trans store_step_identity)

lemma event_response_tasks: "nd_tasks (snd (event_response env io i g after src nd)) = nd_tasks nd"
  by (simp add: event_response_def answer_def count_metric_def split: sum.split option.split)

lemma retire_workspace_tasks: "nd_tasks (retire_workspace io w nd) = nd_tasks nd"
  by (simp add: retire_workspace_def split: option.split prod.split)

lemma activate_workspace_tasks: "activate_workspace env io w nd = (ok, nd') \<Longrightarrow> nd_tasks nd' = nd_tasks nd"
  by (auto simp: activate_workspace_def split: option.splits prod.splits)

lemma count_metric_tasks [simp]: "nd_tasks (count_metric io n m nd) = nd_tasks nd"
  by (simp add: count_metric_def)

text \<open>Only a created reservation adds a task, and it leaves the identity of the request in the journal.\<close>

lemma admit_execution_launched:
  assumes adm: "admit_execution env io p ad nd = (resp, nd')" and new: "nd_tasks nd' \<noteq> nd_tasks nd"
  shows "\<exists>r. find_exec (nd_store nd') (ad_id ad) (as_i64 (ad_generation ad)) = Some r
    \<and> row_identity r = (uint (ad_version ad), ad_digest ad, p, ad_lease_hash ad)"
proof -
  obtain ok nd2 where act: "activate_workspace env io (ad_workspace_id ad) (make_room io nd) = (ok, nd2)" by fastforce
  obtain res st where r: "reserve (ne_serde env) (ni_reserve io) (ni_unix_store io) (accepted_snapshot ad) (ad_version ad)
      (ad_digest ad) p (ad_lease_hash ad) (lease_deadline io nd) (nd_store nd2) = (res, st)" by fastforce
  have same: "nd_tasks nd2 = nd_tasks nd" using activate_workspace_tasks [OF act] by (simp add: make_room_frames)
  have go: "ok" "res = Inr Created" "nd' = snd (launch_execution env io ad (count_metric io ''executions_accepted'' 1 (nd2\<lparr>nd_store := st\<rparr>)))"
    using adm new act r same make_room_frames(4) [of io nd]
    by (auto simp: admit_execution_def Let_def answer_def event_response_tasks retire_workspace_tasks
        split: if_splits bool.splits sum.splits ReserveResult.splits dest!: arg_cong [where f = snd])
  obtain r0 where r0: "find_exec st (ad_id ad) (as_i64 (ad_generation ad)) = Some r0"
    "row_identity r0 = (uint (ad_version ad), ad_digest ad, p, ad_lease_hash ad)"
    using reserve_Created_identity [OF r [unfolded go(2)]] by (auto simp: accepted_snapshot_def)
  have "grows env (nd2\<lparr>nd_store := st\<rparr>) nd'"
    unfolding go(3) by (rule grows_trans [OF same_grows [OF count_metric_same] launch_execution_grows])
  then have "keeps_identity st (nd_store nd')" using store_steps_identity by (fastforce simp: grows_def)
  then show ?thesis using r0 unfolding keeps_identity_def by metis
qed

lemma execute_launched:
  assumes "execute env io req p nd = (resp, nd')" "nd_tasks nd' \<noteq> nd_tasks nd"
  obtains ad where "prepare_admission env io p (hq_body req) nd = Inr ad" "admit_execution env io p ad nd = (resp, nd')"
  using assms
  by (auto simp: execute_def replay_execution_def Let_def answer_def event_response_tasks
      split: sum.splits option.splits if_splits dest!: arg_cong [where f = snd])

lemma lookup_identity:
  assumes inv: "store_inv c st" and r: "find_exec st i (as_i64 g) = Some r" "row_identity r = (uint cv, d, p, lh)"
  shows "\<exists>s. lookup_execution c True i g st = Ok (Some \<lparr>ex_canonical_version = cv, ex_digest = d,
    ex_principal_id = p, ex_lease_token_hash = lh, ex_snapshot = s\<rparr>)"
proof -
  from view_row [OF inv r(1)] obtain s where "snapshot_from_slice c (x_snapshot r) = Some s" .
  then show ?thesis using r by (auto simp: lookup_execution_def row_identity_def)
qed

text \<open>C3: an execution generation is launched at most once. After a request launched it, whatever the node did in
  between, another request for the same generation, from any principal, starts no task and adds no record:
  the principal who started it gets the events of that execution when the request and the lease are the same, a
  different request a conflict, and another principal a refusal.
\<close>

theorem execute_once:
  assumes reach: "node_reachable env nd" and sok: "serde_ok (ne_serde env)" and room: "sequence_room (nd_store nd)"
    and first: "execute env io req p nd = (resp, nd1)" "nd_tasks nd1 \<noteq> nd_tasks nd"
      "prepare_admission env io p (hq_body req) nd = Inr ad"
    and run: "(node_step env)\<^sup>*\<^sup>* nd1 nd2"
    and second: "prepare_admission env io2 p2 (hq_body req2) nd2 = Inr ad2" "ni_lookup io2"
      "ad_id ad2 = ad_id ad" "ad_generation ad2 = ad_generation ad"
    and exec: "execute env io2 req2 p2 nd2 = (resp2, nd3)"
  shows "nd_tasks nd3 = nd_tasks nd2 \<and> nd_records nd3 = nd_records nd2 \<and> only_metrics nd2 nd3
    \<and> (if ad_version ad2 \<noteq> ad_version ad
       then resp2 = Ok (error_response 409 ''canonicalization_version_mismatch''
         ''execution identity uses an unsupported request canonicalization version'')
       else if p2 \<noteq> p then resp2 = Ok (error_response 403 ''forbidden'' ''execution belongs to another principal'')
       else if ad_digest ad2 \<noteq> ad_digest ad \<or> ad_lease_hash ad2 \<noteq> ad_lease_hash ad
       then resp2 = Ok (error_response 409 ''execution_identity_conflict''
         ''execution identity conflicts with an existing request'')
       else \<exists>src. (resp2, nd3) = event_response env io2 (ad_id ad) (ad_generation ad) 0 src nd2)"
proof -
  let ?i = "ad_id ad" and ?g = "as_i64 (ad_generation ad)"
  from execute_launched [OF first(1,2)] first(3) have "admit_execution env io p ad nd = (resp, nd1)" by force
  from admit_execution_launched [OF this first(2)] obtain r where
    r: "find_exec (nd_store nd1) ?i ?g = Some r" "row_identity r = (uint (ad_version ad), ad_digest ad, p, ad_lease_hash ad)"
    by blast
  have inv1: "node_inv env nd1" using execute_inv [OF node_reachable_inv [OF reach sok] room, of io req p] first(1) by simp
  have "grows env nd1 nd2" by (rule node_steps_grow [OF run])
  then have "keeps_identity (nd_store nd1) (nd_store nd2)" using store_steps_identity by (auto simp: grows_def)
  with r obtain r2 where r2: "find_exec (nd_store nd2) ?i ?g = Some r2"
    "row_identity r2 = (uint (ad_version ad), ad_digest ad, p, ad_lease_hash ad)" unfolding keeps_identity_def by metis
  have "node_inv env nd2" using run inv1 by (induction rule: rtranclp_induct) (auto intro: node_step_inv)
  then have "store_inv (ne_serde env) (nd_store nd2)" by (simp add: node_inv_def)
  from lookup_identity [OF this r2] obtain s where
    look: "lookup_execution (ne_serde env) True ?i (ad_generation ad) (nd_store nd2) = Ok (Some \<lparr>ex_canonical_version = ad_version ad,
      ex_digest = ad_digest ad, ex_principal_id = p, ex_lease_token_hash = ad_lease_hash ad, ex_snapshot = s\<rparr>)" by blast
  have ev: "only_metrics nd2 (snd (event_response env io2 i g after src nd2))" for i g after src
    by (simp add: event_response_def answer_def split: sum.split option.split)
  have "only_metrics nd2 nd3 \<Longrightarrow> nd_tasks nd3 = nd_tasks nd2 \<and> nd_records nd3 = nd_records nd2"
    by (auto simp: only_metrics_def)
  then show ?thesis
    using exec second look ev
    by (auto simp: execute_def replay_execution_def Let_def answer_def dest!: sym [of _ "(resp2, nd3)"]
        split: if_splits dest: arg_cong [where f = snd])
qed

end
