(* ===== verification/Node_End.thy ===== *)
theory Node_End
  imports Node_Props
begin

text \<open>
  How an execution ends: the select loop of its task, the terminal publication, and a restart of the node.
\<close>

section \<open>The select loop\<close>

text \<open>The loop with nothing happening outside, for a number of passes: the chunks it published and how it ended.\<close>

datatype loop_end = LoopBreak select_state | LoopPanic | LoopGoing select_state

fun select_loop :: "nat \<Rightarrow> select_state \<Rightarrow> OutputChunk list \<times> loop_end" where
  "select_loop 0 s = ([], LoopGoing s)"
| "select_loop (Suc n) s =
     (case select_pass [] s of
        PassOutput c s' \<Rightarrow> (case select_loop n s' of (cs, e) \<Rightarrow> (c # cs, e))
      | PassContinue s' \<Rightarrow> select_loop n s'
      | PassBreak s' \<Rightarrow> ([], LoopBreak s')
      | PassPanic \<Rightarrow> ([], LoopPanic))"

text \<open>The local variables agree with the join handle: at most one of them is set, to what the runner returned.\<close>

definition joined :: "(RunnerError + RunnerResult) \<Rightarrow> select_state \<Rightarrow> select_state" where
  "joined r s = (case r of Inr v \<Rightarrow> s\<lparr>sl_result := Some v\<rparr> | Inl e \<Rightarrow> s\<lparr>sl_error := Some e\<rparr>)"

lemma select_loop_output:
  assumes "\<not> sl_output_closed s"
  shows "select_loop (length (sl_queue s) + n) s =
    (case select_loop n (s\<lparr>sl_queue := []\<rparr>) of (cs, e) \<Rightarrow> (sl_queue s @ cs, e))"
  using assms
proof (induction "sl_queue s" arbitrary: s)
  case Nil
  then show ?case by (cases s) (simp split: prod.split)
next
  case (Cons c q)
  let ?s = "s\<lparr>sl_queue := q\<rparr>"
  have pass: "select_pass [] s = PassOutput c ?s" using Cons(2) [symmetric] Cons.prems by (simp add: select_pass_def)
  have "select_loop (length q + n) ?s = (case select_loop n (?s\<lparr>sl_queue := []\<rparr>) of (cs, e) \<Rightarrow> (q @ cs, e))"
    using Cons(1) [of ?s] Cons.prems by simp
  then show ?case using pass Cons(2) [symmetric] by (simp split: prod.split)
qed

text \<open>C37: the loop ends. Once the runner has returned and all senders of output are gone, the loop takes at most two
  passes more than there are queued chunks; it publishes every chunk in order, and leaves with the outcome of the
  runner, unless an error had been joined while the channel was still open: then, and only then, the select has
  no enabled branch left and the task panics.
\<close>

theorem select_loop_ends:
  assumes "sl_senders_gone s" "\<not> sl_output_closed s" "sl_outcome s = Some r"
    and "sl_result s \<noteq> None \<Longrightarrow> sl_error s = None"
  shows "select_loop (length (sl_queue s) + 2) s = (sl_queue s,
    if sl_error s \<noteq> None then LoopPanic
    else LoopBreak ((if sl_result s = None then joined r s else s)\<lparr>sl_queue := [], sl_output_closed := True\<rparr>))"
proof -
  have "select_loop 2 (s\<lparr>sl_queue := []\<rparr>) = ([],
    if sl_error s \<noteq> None then LoopPanic
    else LoopBreak ((if sl_result s = None then joined r s else s)\<lparr>sl_queue := [], sl_output_closed := True\<rparr>))"
    using assms by (cases r) (auto simp: numeral_2_eq_2 select_pass_def poll_join_def Let_def joined_def)
  then show ?thesis using select_loop_output [OF assms(2), of 2] by simp
qed

text \<open>A schedule that gets there: the runner fails while a reader still holds the channel open.\<close>

lemma error_before_close_panics:
  "\<exists>s1. select_pass [RunReturned (Err (Wait ''w''))] select_start = PassContinue s1
    \<and> select_loop 2 (deliver RunSendersGone s1) = ([], LoopPanic)"
  by (simp add: select_pass_def poll_join_def select_start_def deliver_def numeral_2_eq_2)

section \<open>The terminal publication\<close>

text \<open>The limits of the journal leave room for every state event.\<close>

definition state_events_fit :: "'b serde \<Rightarrow> bool" where
  "state_events_fit c \<longleftrightarrow> (\<forall>n s b. event_to_vec c \<lparr>ev_sequence = n, ev_kind = EvState s, ev_metadata = []\<rparr> = Some b
     \<longrightarrow> blob_length c b \<le> MAX_RETAINED_EVENT_BYTES)"

lemma commit_state_event:
  assumes sok: "serde_ok c" and inv: "store_inv c st" and room: "sequence_room st" and fit: "state_events_fit c"
    and live: "journal_view c st (snapshot_key s) = Some (old, n)" "\<not> is_terminal (sn_state old)"
  shows "\<exists>e st'. commit_event c True now s (EvState x) st = (Inr (Some e), st') \<and> ev_kind e = EvState x"
proof -
  let ?i = "sn_execution_id s" and ?g = "as_i64 (sn_generation s)"
  from live(1) obtain r where r: "find_exec st ?i ?g = Some r" by (auto simp: journal_view_def snapshot_key_def)
  obtain now_held where "x_state r = state_name (sn_state now_held)" "journal_view c st (?i, ?g) = Some (now_held, x_next_sequence r)"
    by (rule view_row [OF inv r])
  then have "\<not> is_terminal_name (x_state r)" using live by (simp add: snapshot_key_def terminal_state_name)
  moreover let ?e = "\<lparr>ev_sequence = as_u64 (x_next_sequence r), ev_kind = EvState x, ev_metadata = []\<rparr>"
  have "ExecutionEvent_validate ?e = Inr ()" by (simp add: ExecutionEvent_validate_Ok event_payload_len_def)
  moreover obtain b where b: "event_to_vec c ?e = Some b" using serde_okEe [OF sok] by blast
  moreover have "blob_length c b \<le> MAX_RETAINED_EVENT_BYTES" using fit b by (auto simp: state_events_fit_def)
  moreover obtain sb where "snapshot_to_vec c s = Some sb" using serde_okE [OF sok] by blast
  ultimately show ?thesis using append_event_eq [OF inv r] r by (simp add: commit_event_def Let_def)
qed

lemma execution_result_terminal: "is_terminal (er_state (execution_result v))"
  by (cases "rs_termination v") (simp_all add: execution_result_def is_terminal_def)

lemma failed_result_state: "er_state (failed_result x f sr rr) = x"
  by (simp add: failed_result_def)

lemma outcome_terminal: "is_terminal (er_state (outcome_result rq ended s))"
proof (cases "sl_result s")
  case None
  then show ?thesis by (simp add: outcome_result_def Let_def failed_result_state) (simp add: is_terminal_def)
next
  case (Some v)
  then show ?thesis
    using execution_result_terminal [of v] by (simp add: outcome_result_def Let_def)
qed


section \<open>Restart\<close>

lemma load_table_last:
  "map_of (load_table ss) i = Some a \<Longrightarrow> a < length ss \<and> sn_execution_id (ss ! a) = i
    \<and> (\<forall>b. a < b \<longrightarrow> b < length ss \<longrightarrow> sn_execution_id (ss ! b) \<noteq> i)"
proof (induction ss rule: rev_induct)
  case (snoc s ss)
  have other: "map_of (filter (\<lambda>(j, _). j \<noteq> k) t) i = (if i = k then None else map_of t i)" for t :: "(string \<times> nat) list" and k
    by (induction t) auto
  show ?case
  proof (cases "sn_execution_id s = i")
    case True
    then show ?thesis using snoc.prems by (auto simp: load_table_snoc table_insert_def nth_append)
  next
    case False
    then have "map_of (load_table ss) i = Some a" using snoc.prems other by (simp add: load_table_snoc table_insert_def)
    then show ?thesis using snoc.IH False by (auto simp: nth_append less_Suc_eq)
  qed
qed (simp add: load_table_def)

lemma load_all_sorted:
  assumes inv: "store_inv c st" and ss: "load_all c io st = Ok ss" and b: "a \<le> b" "b < length ss"
    and id: "sn_execution_id (ss ! a) = sn_execution_id (ss ! b)"
  shows "as_i64 (sn_generation (ss ! a)) \<le> as_i64 (sn_generation (ss ! b))"
proof -
  let ?rs = "sort_key (\<lambda>r. (x_execution_id r, x_generation r)) (st_executions st)"
  have keys: "map snapshot_key ss = map row_key ?rs" using load_all_keys [OF inv ss] .
  have "sorted (map (\<lambda>r. (x_execution_id r, x_generation r)) ?rs)" by simp
  then have "sorted (map snapshot_key ss)" unfolding keys by (simp add: row_key_def [abs_def])
  then have "snapshot_key (ss ! a) \<le> snapshot_key (ss ! b)" using b by (simp add: sorted_iff_nth_mono)
  then show ?thesis using id by (simp add: snapshot_key_def)
qed

text \<open>C13: restart. Whatever a node was doing when it stopped, a node started on its database has a record for exactly
  the executions of the journal, each terminal: those that had ended as they were, every other one interrupted,
  by one more event. The table leads to the newest generation of each execution, no task runs, and all permits
  are free.
\<close>

theorem restart_recovers:
  assumes reach: "node_reachable env nd" and sok: "serde_ok (ne_serde env)"
    and room: "\<forall>k s n. journal_view (ne_serde env) (nd_store nd) k = Some (s, n) \<longrightarrow> n < i64_max - 1"
    and start: "dk_store dk = Some (nd_store nd)" "node_start env io cfg dk = Ok nd2"
  shows "nd_tasks nd2 = [] \<and> nd_permits nd2 = unat (nc_max_active_executions cfg)
    \<and> (\<forall>r \<in> set (nd_records nd2). journal_view (ne_serde env) (nd_store nd) (snapshot_key (rc_snapshot r)) \<noteq> None)
    \<and> (\<forall>i g s n. journal_view (ne_serde env) (nd_store nd) (i, g) = Some (s, n) \<longrightarrow>
        (\<exists>r \<in> set (nd_records nd2). rc_snapshot r = (if is_terminal (sn_state s) then s else interrupt_snapshot s)
          \<and> journal_view (ne_serde env) (nd_store nd2) (i, g)
              = Some (rc_snapshot r, if is_terminal (sn_state s) then n else n + 1))
        \<and> (\<exists>a r. map_of (nd_executions nd2) i = Some a \<and> record_at a nd2 = Some r
          \<and> sn_execution_id (rc_snapshot r) = i \<and> g \<le> as_i64 (sn_generation (rc_snapshot r))))"
proof -
  let ?c = "ne_serde env" and ?V = "journal_view (ne_serde env) (nd_store nd)"
  have inv: "store_inv ?c (nd_store nd)" using node_reachable_inv [OF reach sok] by (simp add: node_inv_def)
  have opened: "ExecutionStore_open (dk_store dk) = nd_store nd" by (simp add: start(1) ExecutionStore_open_def)
  from node_start_Ok [OF start(2)] obtain st ss where st: "recover_executions env io (nd_store nd) = Ok st"
    and ss: "load_all ?c (sx_load io) st = Ok ss"
    and nd2: "nd_store nd2 = st" "nd_executions nd2 = load_table ss" "nd_tasks nd2 = []"
      "nd_records nd2 = map (\<lambda>s. recovered_record (sx_instant io) s []) ss"
      "nd_permits nd2 = unat (nc_max_active_executions cfg)" unfolding opened by blast
  have "x_next_sequence r < i64_max - 1" if "r \<in> set (st_executions (nd_store nd))" for r
    using row_snapshot [OF inv that] room by metis
  note rec = recover_executions_spec [OF sok inv this st]
  have snaps: "rc_snapshot ` set (nd_records nd2) = set ss" by (auto simp: nd2 recovered_record_def image_image)
  have known: "?V (snapshot_key s) \<noteq> None" if "s \<in> set ss" for s
    using load_all_spec(2) [OF rec(1) ss that] by (auto simp: rec(2))
  have forth: "\<exists>r \<in> set (nd_records nd2). rc_snapshot r = (if is_terminal (sn_state s) then s else interrupt_snapshot s)
      \<and> journal_view ?c (nd_store nd2) (i, g) = Some (rc_snapshot r, if is_terminal (sn_state s) then n else n + 1)"
    if V: "?V (i, g) = Some (s, n)" for i g s n
  proof -
    have j: "journal_view ?c st (i, g) = Some (if is_terminal (sn_state s) then s else interrupt_snapshot s,
        if is_terminal (sn_state s) then n else n + 1)" using V by (simp add: rec(2) interrupt_view_def)
    from load_all_spec(3) [OF rec(1) ss j] obtain r where "r \<in> set (nd_records nd2)"
      "rc_snapshot r = (if is_terminal (sn_state s) then s else interrupt_snapshot s)"
      unfolding snaps [symmetric] by (metis imageE)
    then show ?thesis using j nd2(1) by (intro bexI [of _ r]) simp_all
  qed
  have latest: "\<exists>a r. map_of (nd_executions nd2) i = Some a \<and> record_at a nd2 = Some r
      \<and> sn_execution_id (rc_snapshot r) = i \<and> g \<le> as_i64 (sn_generation (rc_snapshot r))"
    if V: "?V (i, g) = Some (s, n)" for i g s n
  proof -
    obtain s' n' where j: "journal_view ?c st (i, g) = Some (s', n')" using V by (cases "interrupt_view (s, n)") (simp add: rec(2))
    have s': "s' \<in> set ss" by (rule load_all_spec(3) [OF rec(1) ss j])
    from j obtain r where r: "find_exec st i g = Some r" by (auto simp: journal_view_def)
    obtain x where "snapshot_key x = (i, g)" "journal_view ?c st (i, g) = Some (x, x_next_sequence r)"
      by (rule view_row [OF rec(1) r])
    with j have key: "snapshot_key s' = (i, g)" by simp
    then have "i \<in> fst ` set (load_table ss)" using s' by (auto simp: load_table_ids snapshot_key_def)
    then obtain a where a: "map_of (load_table ss) i = Some a" by (metis map_of_eq_None_iff not_None_eq)
    note l = load_table_last [OF a]
    obtain b where b: "b < length ss" "ss ! b = s'" using s' by (auto simp: in_set_conv_nth)
    have "sn_execution_id (ss ! b) = i" using b(2) key by (simp add: snapshot_key_def)
    then have "b \<le> a" using l b(1) by (metis not_le)
    from load_all_sorted [OF rec(1) ss this] l b key have "g \<le> as_i64 (sn_generation (ss ! a))"
      by (simp add: snapshot_key_def)
    then show ?thesis using a l by (simp add: nd2 record_at_def recovered_record_def)
  qed
  have "?V (snapshot_key (rc_snapshot r)) \<noteq> None" if "r \<in> set (nd_records nd2)" for r
    using known snaps that by blast
  then show ?thesis using forth latest nd2(3,5) by blast
qed

end
