(* ===== verification/Node_Samples.thy ===== *)
theory Node_Samples
  imports Node_End Workspace_Samples Artifact_Props
begin

text \<open>
  A concrete node: started on an empty disk, it admits one execution. The properties of nodes are instantiated
  on it; two more runs show where the code departs from what its comments promise.
\<close>

section \<open>A node\<close>

definition sample_execute :: ExecuteRequest where
  "sample_execute = \<lparr>xq_schema_version = 1, xq_handle = sample_handle, xq_workspace_id = None, xq_spec = sample_spec\<rparr>"

definition sample_node_env :: "(ExecutionSnapshot + ExecutionEvent, WorkspaceManifest, ArtifactRecord) node_env" where
  "sample_node_env = \<lparr>ne_serde = sample_serde, ne_ws = sample_env, ne_art = sample_artifact_serde, ne_sha = sample_sha,
     ne_sha_hex = (\<lambda>_. ''h''), ne_to_vec = (\<lambda>_. Some ''s''), ne_to_vec_ws = (\<lambda>_. Some ''w''),
     ne_resolver = (\<lambda>leaf. if leaf = [1] then Some ''p'' else None), ne_authorize = (\<lambda>p _. p = ''p''),
     ne_execute = (\<lambda>_. Some sample_execute), ne_control = (\<lambda>_. None), ne_missing = (\<lambda>_. None),
     ne_prepare = (\<lambda>_. None), ne_create = (\<lambda>_. None), ne_derive = (\<lambda>_. None)\<rparr>"

definition sample_node_io :: node_io where
  "sample_node_io = \<lparr>ni_metric = (\<lambda>_. True), ni_lookup = True, ni_reserve = True, ni_commit = True, ni_page = True,
     ni_load = True, ni_lease = True, ni_find = True, ni_query = True, ni_verify = sample_verify_io,
     ni_put = sample_put_io, ni_opened = True, ni_retain = True, ni_renew = True, ni_release = True,
     ni_resolve = True, ni_active = (True, True, True), ni_terminal = (True, True), ni_materialize = sample_io,
     ni_manifest = \<lparr>li_query = True, li_size = True, li_delete = True, li_release = True\<rparr>, ni_artifacts = True,
     ni_order = id, ni_reads = [], ni_now_ms = 1000, ni_unix = 1000, ni_unix_store = 1000, ni_instant = 1,
     ni_uuid = ''u''\<rparr>"

definition sample_node_config :: NodeConfig where
  "sample_node_config = \<lparr>nc_node_id = ''n'', nc_execution_root = ''/x'', nc_blob_quota_bytes = 100,
     nc_workspace_quota_bytes = 100, nc_max_active_executions = 2, nc_lease_ttl = 1000,
     nc_client_auth_required = True, nc_default_identity = True, nc_host_telemetry = None\<rparr>"

definition sample_disk :: "(ExecutionSnapshot + ExecutionEvent, WorkspaceManifest, ArtifactRecord) node_disk" where
  "sample_disk = \<lparr>dk_store = None, dk_blobs = None, dk_workspaces = None, dk_artifacts = None, dk_marker = False\<rparr>"

definition sample_start_io :: "WorkspaceManifest start_io" where
  "sample_start_io = \<lparr>sx_lock = LockAcquired, sx_open_store = True, sx_open_blobs = True, sx_open_workspaces = True,
     sx_open_artifacts = True, sx_recover = True, sx_metric = True, sx_retention = True, sx_reference = (\<lambda>_. True),
     sx_manifests = True, sx_reconcile = sample_maintenance, sx_manifest_order = id, sx_load = True, sx_serve = True,
     sx_unix = 1000, sx_now_ms = 1000, sx_instant = 1, sx_capabilities = [''resources.cgroups-v2.cpu'']\<rparr>"

definition sample_node :: "(ExecutionSnapshot + ExecutionEvent, WorkspaceManifest, ArtifactRecord) NodeState" where
  "sample_node = projr (node_start sample_node_env sample_start_io sample_node_config sample_disk)"

lemma sample_recover:
  "recover_executions sample_node_env sample_start_io (ExecutionStore_open None) = Ok (ExecutionStore_open None)"
  using recover_nothing [of "ExecutionStore_open None" sample_serde 1000]
  by (simp add: recover_executions_def sample_node_env_def sample_start_io_def active_rows_def ExecutionStore_open_def)

lemma sample_recover_workspaces:
  "\<exists>wk bl. recover_workspaces sample_node_env sample_start_io sample_manager (BlobStore_open 100 None) = Ok (wk, bl)"
  by (simp add: recover_workspaces_def Let_def sample_start_io_def recover_retention_def recover_manifest_retention_def
      sample_manager_fields reconcile_manifests_def drop_invalid_manifests_def manifest_garbage_collect_def expired_manifests_def
      reference_owners_def sample_maintenance_def fresh_blob_fields)

lemma sample_started:
  "node_start sample_node_env sample_start_io sample_node_config sample_disk = Ok sample_node"
  "nd_store sample_node = ExecutionStore_open None" "nd_permits sample_node = 2" "nd_tasks sample_node = []"
  "nd_records sample_node = []" "nd_executions sample_node = []" "\<not> is_draining sample_node"
  "''resources.cgroups-v2.cpu'' \<in> set (nd_features sample_node)" "nd_lease_ttl sample_node = 1000"
  "nd_execution_root sample_node = ''/x''"
proof -
  obtain wk bl where ws: "recover_workspaces sample_node_env sample_start_io sample_manager (BlobStore_open 100 None) = Ok (wk, bl)"
    using sample_recover_workspaces by blast
  have conf: "check_config sample_node_config = Ok ()"
    by (simp add: check_config_def sample_node_config_def SEMAPHORE_MAX_PERMITS_def)
  have opened: "open_stores sample_node_env sample_start_io sample_node_config sample_disk
      = Ok (ExecutionStore_open None, BlobStore_open 100 None, sample_manager, ArtifactStore_open None)"
    by (simp add: open_stores_def sample_start_io_def sample_node_config_def sample_disk_def sample_node_env_def sample_manager_def)
  have loaded: "load_all (ne_serde sample_node_env) (sx_load sample_start_io) (ExecutionStore_open None) = Ok []"
    by (simp add: load_all_def sample_start_io_def ExecutionStore_open_def)
  have "\<exists>nd. node_start sample_node_env sample_start_io sample_node_config sample_disk = Ok nd
    \<and> nd_store nd = ExecutionStore_open None \<and> nd_permits nd = 2 \<and> nd_tasks nd = [] \<and> nd_records nd = []
    \<and> nd_executions nd = [] \<and> \<not> is_draining nd \<and> ''resources.cgroups-v2.cpu'' \<in> set (nd_features nd)
    \<and> nd_lease_ttl nd = 1000 \<and> nd_execution_root nd = ''/x''"
    unfolding node_start_def conf opened sample_recover ws loaded and_then_simps prod.case sum.case
    by (simp add: sample_start_io_def acquire_state_lock_def ws sample_recover [unfolded sample_start_io_def]
        ws [unfolded sample_start_io_def] loaded [unfolded sample_start_io_def, simplified] sample_node_config_def
        sample_disk_def load_table_def is_draining_def server_capability_features_def)
  then show "node_start sample_node_env sample_start_io sample_node_config sample_disk = Ok sample_node"
    "nd_store sample_node = ExecutionStore_open None" "nd_permits sample_node = 2" "nd_tasks sample_node = []"
    "nd_records sample_node = []" "nd_executions sample_node = []" "\<not> is_draining sample_node"
    "''resources.cgroups-v2.cpu'' \<in> set (nd_features sample_node)" "nd_lease_ttl sample_node = 1000"
    "nd_execution_root sample_node = ''/x''"
    by (auto simp: sample_node_def)
qed

lemma sample_node_reachable: "node_reachable sample_node_env sample_node"
  by (rule reach_start [OF sample_started(1)])
    (simp_all add: sample_disk_def sample_node_env_def empty_store_inv ExecutionStore_open_def
      empty_store_inv [unfolded ExecutionStore_open_def, simplified])

lemma sample_node_serde: "serde_ok (ne_serde sample_node_env)"
  by (simp add: sample_node_env_def sample_serde_ok)

section \<open>An admission\<close>

definition sample_req :: http_request where
  "sample_req = \<lparr>hq_method = ''POST'', hq_path = ''/v1/executions'', hq_query = None,
     hq_tls = Some \<lparr>tl_client_authenticated = True, tl_certificates_present = True, tl_chain = Some [[1]]\<rparr>,
     hq_declared_length = None, hq_body = [Inr [0]]\<rparr>"

definition sample_admission :: admission where
  "sample_admission = \<lparr>ad_id = ''e'', ad_generation = 1, ad_version = CANONICAL_REQUEST_VERSION, ad_digest = ''h'',
     ad_lease_hash = ''h'', ad_workspace_id = None, ad_capture = None,
     ad_request = projr (from_spec sample_spec ''/x'' \<lparr>pv_execution_id = Some ''e'', pv_generation = Some 1\<rparr>)\<rparr>"

lemma sample_prepared_admission:
  assumes "\<not> is_draining nd" "''resources.cgroups-v2.cpu'' \<in> set (nd_features nd)" "nd_execution_root nd = ''/x''"
  shows "prepare_admission sample_node_env sample_node_io ''p'' (hq_body sample_req) nd = Inr sample_admission"
proof -
  have body: "check_body sample_node_env (hq_body sample_req) = Inr sample_execute"
    by (simp add: check_body_def read_limited_body_def sample_req_def MAX_REQUEST_BYTES_def sample_node_env_def)
  have req: "check_request sample_node_env ''p'' nd sample_execute = Inr ()"
    using assms sample_spec_valid
    by (simp add: check_request_def sample_execute_def sample_handle_def authorize_resource_def sample_node_env_def
        API_SCHEMA_VERSION_def ExecutionGeneration_new_def check_isolation_supported_def check_resources_supported_def
        check_network_supported_def Let_def)
      (simp add: sample_spec_def sample_command_def is_required_def)
  show ?thesis
    unfolding prepare_admission_def body req and_then_simps
    using assms(3) sample_spec_valid
    by (simp add: sample_execute_def sample_handle_def sample_admission_def request_digest_with_workspace_def
        request_digest_def sample_node_env_def execution_root_for_def from_spec_def Let_def lease_hash_def)
qed

definition sample_exec :: "ExecutionState \<Rightarrow> int \<Rightarrow> (ExecutionSnapshot + ExecutionEvent) exec_row" where
  "sample_exec s n = \<lparr>x_execution_id = ''e'', x_generation = 1, x_canonical_version = 2, x_digest = ''h'',
     x_principal_id = ''p'', x_lease_token_hash = ''h'', x_lease_expires = 2000, x_last_renewal_id = None,
     x_state = state_name s, x_next_sequence = n, x_snapshot = Inl (sample_snapshot s), x_created = 1000, x_updated = 1000\<rparr>"

definition state_event :: "u64 \<Rightarrow> ExecutionState \<Rightarrow> ExecutionEvent" where
  "state_event n s = \<lparr>ev_sequence = n, ev_kind = EvState s, ev_metadata = []\<rparr>"

definition state_row :: "int \<Rightarrow> ExecutionState \<Rightarrow> (ExecutionSnapshot + ExecutionEvent) event_row" where
  "state_row n s = \<lparr>v_execution_id = ''e'', v_generation = 1, v_sequence = n, v_encoded = Inr (state_event (as_u64 n) s)\<rparr>"

lemmas launch_defs = sample_exec_def state_event_def state_row_def sample_serde_def sample_snapshot_def

lemma sample_node_reserve:
  "reserve sample_serde True 1000 (sample_snapshot Accepted) 2 ''h'' ''p'' ''h'' 2000 (ExecutionStore_open None)
    = (Ok Created, \<lparr>st_executions = [sample_exec Accepted 1], st_events = [], st_metrics = []\<rparr>)"
  by (simp add: reserve_def launch_defs ExecutionStore_open_def find_exec_def newest_def MAX_EXECUTION_IDENTITIES_def)

lemmas commit_defs = commit_event_def find_exec_def key_is_def is_terminal_name_def as_u64_def
  ExecutionEvent_validate_def EventMetadata_validate_def MAX_METADATA_COUNT_def MAX_EVENT_CHUNK_BYTES_def
  MAX_RETAINED_EVENT_BYTES_def MAX_EVENT_BYTES_def append_event_def update_exec_def wrap_i64_def
  trim_events.simps events_fit_def events_of_def ev_key_is_def MAX_RETAINED_EVENTS_def event_payload_len_def

lemma sample_commit_accepted:
  assumes "st_executions st = [sample_exec Accepted 1]" "st_events st = []"
  shows "commit_event sample_serde True 1000 (sample_snapshot Accepted) (EvState Accepted) st
    = (Ok (Some (state_event 1 Accepted)),
       st\<lparr>st_executions := [sample_exec Accepted 2], st_events := [state_row 1 Accepted]\<rparr>)"
  using assms by (simp add: commit_defs launch_defs Let_def)

lemma sample_commit_running:
  assumes "st_executions st = [sample_exec Accepted 2]" "st_events st = [state_row 1 Accepted]"
  shows "commit_event sample_serde True 1000 (sample_snapshot Running) (EvState Running) st
    = (Ok (Some (state_event 2 Running)),
       st\<lparr>st_executions := [sample_exec Running 3], st_events := [state_row 1 Accepted, state_row 2 Running]\<rparr>)"
  using assms by (simp add: commit_defs launch_defs Let_def)

definition sample_record :: "ExecutionState \<Rightarrow> ExecutionEvent list \<Rightarrow> ExecutionRecord" where
  "sample_record s es = \<lparr>rc_snapshot = sample_snapshot s, rc_cancelled = False, rc_events = es, rc_finished = False,
     rc_lease_hash = ''h'', rc_expires_at = 1001, rc_lease_expired = False\<rparr>"

definition sample_task :: "task_phase \<Rightarrow> execution_task" where
  "sample_task ph = \<lparr>xt_record = 0, xt_request = ad_request sample_admission, xt_workspace = None, xt_phase = ph\<rparr>"

definition sample_launched :: "(ExecutionSnapshot + ExecutionEvent, WorkspaceManifest, ArtifactRecord) NodeState" where
  "sample_launched = snd (execute sample_node_env sample_node_io sample_req ''p'' sample_node)"

lemma sample_page:
  assumes "st_executions st = [sample_exec Accepted 2]" "st_events st = [state_row 1 Accepted]"
  shows "load_page sample_serde True ''e'' 1 0 st
    = Ok (Some \<lparr>pg_base_sequence = 1, pg_next_sequence = 2, pg_events = [state_event 1 Accepted]\<rparr>)"
  using assms by (simp add: load_page_def find_exec_def key_is_def launch_defs events_of_def ev_key_is_def as_u64_def
      u64_saturating_add_def Let_def as_i64_def)

definition sample_events_response :: Response where
  "sample_events_response = \<lparr>rp_status = 202, rp_body = BodyEvents ''e'' 1 0 [state_event 1 Accepted] False (Some (0, 1))\<rparr>"

lemma sample_event_response:
  assumes "st_executions (nd_store nd) = [sample_exec Accepted 2]" "st_events (nd_store nd) = [state_row 1 Accepted]"
    and "nd_records nd = [sample_record Accepted [state_event 1 Accepted]]"
  shows "event_response sample_node_env sample_node_io ''e'' 1 0 (SharedRecord 0) nd = (Ok sample_events_response, nd)"
  using assms(3) sample_page [OF assms(1,2)]
  by (simp add: event_response_def sample_node_env_def sample_node_io_def source_snapshot_def subscription_def record_at_def
      sample_record_def sample_snapshot_def is_terminal_def sample_events_response_def u64_saturating_add_def)

lemma sample_accepted: "accepted_snapshot sample_admission = sample_snapshot Accepted"
  by (simp add: accepted_snapshot_def sample_admission_def sample_snapshot_def API_SCHEMA_VERSION_def)

lemma sample_ad:
  "ad_id sample_admission = ''e''" "ad_generation sample_admission = 1" "ad_version sample_admission = 2"
  "ad_digest sample_admission = ''h''" "ad_lease_hash sample_admission = ''h''"
  "ad_workspace_id sample_admission = None" "ad_capture sample_admission = None"
  by (simp_all add: sample_admission_def CANONICAL_REQUEST_VERSION_def)

lemma sample_launch:
  assumes "st_executions (nd_store nd) = [sample_exec Accepted 1]" "st_events (nd_store nd) = []"
    and "nd_records nd = []" "nd_executions nd = []" "nd_tasks nd = []" "nd_permits nd = 2" "nd_lease_ttl nd = 1000"
  shows "\<exists>nd'. launch_execution sample_node_env sample_node_io sample_admission nd = (Ok sample_events_response, nd')
    \<and> st_executions (nd_store nd') = [sample_exec Accepted 2] \<and> st_events (nd_store nd') = [state_row 1 Accepted]
    \<and> nd_records nd' = [sample_record Accepted [state_event 1 Accepted]] \<and> nd_tasks nd' = [sample_task PhaseSpawned]
    \<and> is_draining nd' = is_draining nd \<and> nd_features nd' = nd_features nd \<and> nd_execution_root nd' = nd_execution_root nd"
proof -
  let ?r = "new_record 1 (sample_snapshot Accepted) ''h'' 1000"
  let ?nd1 = "nd\<lparr>nd_records := [?r], nd_executions := table_insert ''e'' 0 [], nd_permits := 1\<rparr>"
  let ?nd2 = "?nd1\<lparr>nd_store := (nd_store nd)\<lparr>st_executions := [sample_exec Accepted 2], st_events := [state_row 1 Accepted]\<rparr>,
    nd_records := [sample_record Accepted [state_event 1 Accepted]]\<rparr>"
  have pub: "publish sample_node_env True 1000 0 Accepted None (EvState Accepted) ?nd1 = ?nd2"
    using sample_commit_accepted [OF assms(1,2)]
    by (simp add: publish_def record_at_def new_record_def sample_node_env_def set_record_def Let_def sample_record_def)
      (simp add: sample_snapshot_def is_terminal_def set_record_def)
  let ?nd3 = "?nd2\<lparr>nd_tasks := [sample_task PhaseSpawned]\<rparr>"
  have "launch_execution sample_node_env sample_node_io sample_admission nd
      = event_response sample_node_env sample_node_io ''e'' 1 0 (SharedRecord 0) ?nd3"
    using assms(3-7) pub unfolding launch_execution_def sample_accepted sample_ad
    by (simp add: Let_def sample_node_io_def sample_task_def)
  also have "\<dots> = (Ok sample_events_response, ?nd3)" by (rule sample_event_response) simp_all
  finally show ?thesis by (simp add: is_draining_def)
qed

lemma sample_executed:
  "execute sample_node_env sample_node_io sample_req ''p'' sample_node = (Ok sample_events_response, sample_launched)"
  "st_executions (nd_store sample_launched) = [sample_exec Accepted 2]"
  "st_events (nd_store sample_launched) = [state_row 1 Accepted]"
  "nd_records sample_launched = [sample_record Accepted [state_event 1 Accepted]]"
  "nd_tasks sample_launched = [sample_task PhaseSpawned]" "\<not> is_draining sample_launched"
  "''resources.cgroups-v2.cpu'' \<in> set (nd_features sample_launched)" "nd_execution_root sample_launched = ''/x''"
proof -
  let ?st = "\<lparr>st_executions = [sample_exec Accepted 1], st_events = [], st_metrics = []\<rparr>"
  obtain ms where ms: "nd_store (count_metric sample_node_io ''executions_accepted'' 1 (sample_node\<lparr>nd_store := ?st\<rparr>))
      = ?st\<lparr>st_metrics := ms\<rparr>"
    "count_metric sample_node_io ''executions_accepted'' 1 (sample_node\<lparr>nd_store := ?st\<rparr>)
      = sample_node\<lparr>nd_store := ?st\<lparr>st_metrics := ms\<rparr>\<rparr>"
    using count_metric_only [of "sample_node\<lparr>nd_store := ?st\<rparr>" sample_node_io "''executions_accepted''" 1]
    by (auto simp: only_metrics_def)
  have "lookup_execution sample_serde True ''e'' 1 (ExecutionStore_open None) = Ok None"
    by (simp add: lookup_execution_def find_exec_def ExecutionStore_open_def)
  then have "execute sample_node_env sample_node_io sample_req ''p'' sample_node
      = admit_execution sample_node_env sample_node_io ''p'' sample_admission sample_node"
    using sample_prepared_admission [of sample_node] sample_started
    by (simp add: execute_def sample_ad) (simp add: sample_node_env_def sample_node_io_def)
  also have "\<dots> = launch_execution sample_node_env sample_node_io sample_admission
      (sample_node\<lparr>nd_store := ?st\<lparr>st_metrics := ms\<rparr>\<rparr>)"
  proof -
    have dl: "lease_deadline sample_node_io sample_node = 2000"
      by (simp add: lease_deadline_def sample_started sample_node_io_def i64_max_def)
    have io: "ne_serde sample_node_env = sample_serde" "ni_reserve sample_node_io" "ni_unix_store sample_node_io = 1000"
      by (simp_all add: sample_node_env_def sample_node_io_def)
    show ?thesis
      unfolding admit_execution_def sample_accepted sample_ad dl io
      using sample_started io
      by (simp add: make_room_def MAX_RECENT_EXECUTIONS_def activate_workspace_def sample_node_reserve ms(2) Let_def)
  qed
  finally have ex: "execute sample_node_env sample_node_io sample_req ''p'' sample_node
      = launch_execution sample_node_env sample_node_io sample_admission (sample_node\<lparr>nd_store := ?st\<lparr>st_metrics := ms\<rparr>\<rparr>)" .
  note launch = sample_launch [of "sample_node\<lparr>nd_store := ?st\<lparr>st_metrics := ms\<rparr>\<rparr>"]
  show "execute sample_node_env sample_node_io sample_req ''p'' sample_node = (Ok sample_events_response, sample_launched)"
    "st_executions (nd_store sample_launched) = [sample_exec Accepted 2]"
    "st_events (nd_store sample_launched) = [state_row 1 Accepted]"
    "nd_records sample_launched = [sample_record Accepted [state_event 1 Accepted]]"
    "nd_tasks sample_launched = [sample_task PhaseSpawned]" "\<not> is_draining sample_launched"
    "''resources.cgroups-v2.cpu'' \<in> set (nd_features sample_launched)" "nd_execution_root sample_launched = ''/x''"
    using launch sample_started by (auto simp: sample_launched_def ex is_draining_def)
qed

lemma sample_dispatch:
  "dispatch sample_node_env sample_node_io sample_req sample_node = (Ok sample_events_response, sample_launched)"
proof -
  have "operation_for (hq_method sample_req) (hq_path sample_req) = Some (OpExecute, RExecute)"
    by (simp add: sample_req_def operation_for_def fixed_routes_def)
  moreover have "authenticated_principal (ne_resolver sample_node_env) (hq_tls sample_req) = Some ''p''"
    by (simp add: authenticated_principal_def sample_req_def sample_node_env_def)
  ultimately show ?thesis
    using sample_executed(1) by (simp add: dispatch_def serve_route_def) (simp add: sample_node_env_def)
qed

lemma sample_sequence_room: "sequence_room (nd_store sample_node)" "sequence_room (nd_store sample_launched)"
  by (simp_all add: sequence_room_def sample_started sample_executed ExecutionStore_open_def sample_exec_def i64_max_def)

lemma sample_launched_reachable: "node_reachable sample_node_env sample_launched"
  by (rule reach_step [OF sample_node_reachable step_request [OF sample_sequence_room(1) sample_dispatch]])

section \<open>Running and ending\<close>

definition sample_running :: "(ExecutionSnapshot + ExecutionEvent, WorkspaceManifest, ArtifactRecord) NodeState" where
  "sample_running = task_begin sample_node_env True 1000 0 sample_launched"

definition sample_drained :: "(ExecutionSnapshot + ExecutionEvent, WorkspaceManifest, ArtifactRecord) NodeState" where
  "sample_drained = task_poll sample_node_env True 1000 [RunSendersGone, RunReturned (Err (Wait ''w''))] 0 sample_running"

definition sample_ended :: select_state where
  "sample_ended = select_start\<lparr>sl_senders_gone := True, sl_outcome := Some (Err (Wait ''w'')), sl_error := Some (Wait ''w'')\<rparr>"

lemma sample_began:
  "sample_running = sample_launched\<lparr>nd_store := (nd_store sample_launched)\<lparr>st_executions := [sample_exec Running 3],
       st_events := [state_row 1 Accepted, state_row 2 Running]\<rparr>,
     nd_records := [sample_record Running [state_event 1 Accepted, state_event 2 Running]],
     nd_tasks := [sample_task (PhaseSelect select_start)]\<rparr>"
proof -
  have "publish sample_node_env True 1000 0 Running None (EvState Running) sample_launched
      = sample_launched\<lparr>nd_store := (nd_store sample_launched)\<lparr>st_executions := [sample_exec Running 3],
          st_events := [state_row 1 Accepted, state_row 2 Running]\<rparr>,
        nd_records := [sample_record Running [state_event 1 Accepted, state_event 2 Running]]\<rparr>"
    using sample_commit_running [OF sample_executed(2,3)] sample_executed(4)
    by (simp add: publish_def record_at_def sample_record_def sample_node_env_def set_record_def Let_def)
      (simp add: sample_snapshot_def is_terminal_def set_record_def)
  then show ?thesis
    using sample_executed(5) by (simp add: sample_running_def task_begin_def sample_task_def set_phase_def)
qed

lemma sample_polled: "sample_drained = sample_running\<lparr>nd_tasks := [sample_task (PhaseDrain sample_ended)]\<rparr>"
  unfolding sample_drained_def
  by (simp add: sample_began task_poll_def sample_task_def select_pass_def select_start_def poll_join_def deliver_def
      set_phase_def sample_ended_def Let_def)

lemma sample_room_running: "sequence_room (nd_store sample_running)" "sequence_room (nd_store sample_drained)"
  by (simp_all add: sequence_room_def sample_polled sample_began sample_exec_def i64_max_def)

lemma sample_began_step: "node_step sample_node_env sample_launched sample_running"
  unfolding sample_running_def by (rule step_begin [OF sample_sequence_room(2)])

lemma sample_drained_reachable: "node_reachable sample_node_env sample_drained"
  unfolding sample_drained_def
  by (rule reach_step [OF reach_step [OF sample_launched_reachable sample_began_step] step_poll [OF sample_room_running(1)]])

definition sample_finish_io :: finish_io where
  "sample_finish_io = \<lparr>fi_walk = sample_walk, fi_capture = sample_capture_io, fi_tree = sample_tree, fi_now_ms = 1000,
     fi_terminal = (True, True), fi_metrics = True, fi_commit = True, fi_unix = 1000\<rparr>"

section \<open>The properties on the sample\<close>


lemma node_consistent_witness:
  "(\<exists>n. journal_view sample_serde (nd_store sample_launched) (''e'', 1) = Some (sample_snapshot Accepted, n))
    \<and> 1 + nd_permits sample_launched = unat (nd_max_active sample_launched)
    \<and> unat (ns_active_executions (node_status sample_launched)) = 1"
  using node_consistent [OF sample_launched_reachable sample_node_serde]
  by (simp add: sample_executed) (simp add: sample_record_def sample_node_env_def sample_snapshot_def snapshot_key_def)

lemma select_loop_ends_witness:
  "select_loop 3 (select_start\<lparr>sl_queue := [\<lparr>oc_stderr = False, oc_bytes = [1]\<rparr>], sl_senders_gone := True,
      sl_outcome := Some (Err (Wait ''w''))\<rparr>)
    = ([\<lparr>oc_stderr = False, oc_bytes = [1]\<rparr>], LoopBreak (sample_ended\<lparr>sl_output_closed := True\<rparr>))"
  using select_loop_ends [of "select_start\<lparr>sl_queue := [\<lparr>oc_stderr = False, oc_bytes = [1]\<rparr>], sl_senders_gone := True,
      sl_outcome := Some (Err (Wait ''w''))\<rparr>" "Err (Wait ''w'')"]
  by (simp add: sample_ended_def select_start_def joined_def numeral_3_eq_3)


lemma execute_once_witness:
  "only_metrics sample_running (snd (execute sample_node_env sample_node_io sample_req ''p'' sample_running))
    \<and> nd_records (snd (execute sample_node_env sample_node_io sample_req ''p'' sample_running)) = nd_records sample_running"
proof -
  have run: "(node_step sample_node_env)\<^sup>*\<^sup>* sample_launched sample_running" using sample_began_step by blast
  have 1: "prepare_admission sample_node_env sample_node_io ''p'' (hq_body sample_req) sample_node = Inr sample_admission"
    by (rule sample_prepared_admission) (simp_all add: sample_started)
  have 2: "prepare_admission sample_node_env sample_node_io ''p'' (hq_body sample_req) sample_running = Inr sample_admission"
    using sample_executed(6-8) by (intro sample_prepared_admission) (simp_all add: sample_began is_draining_def)
  have "nd_tasks sample_launched \<noteq> nd_tasks sample_node" by (simp add: sample_executed sample_started)
  note once = execute_once [OF sample_node_reachable sample_node_serde sample_sequence_room(1) sample_executed(1) this 1 run 2
      _ refl refl surjective_pairing]
  show ?thesis using once by (simp add: sample_node_io_def)
qed


lemma sample_view:
  "journal_view sample_serde (nd_store sample_running) k
    = (if k = (''e'', 1) then Some (sample_snapshot Running, 3) else None)"
  by (cases k) (auto simp: sample_began journal_view_def find_exec_def key_is_def sample_exec_def sample_serde_def)

lemma sample_view_room:
  "\<forall>k s n. journal_view sample_serde (nd_store sample_running) k = Some (s, n) \<longrightarrow> n < i64_max - 1"
  by (simp add: sample_view i64_max_def)

lemma load_all_ok:
  assumes "store_inv c st"
  shows "\<exists>ss. load_all c True st = Ok ss"
proof -
  let ?bs = "map x_snapshot (sort_key (\<lambda>r. (x_execution_id r, x_generation r)) (st_executions st))"
  have "\<exists>s. snapshot_from_slice c (x_snapshot r) = Some s" if "r \<in> set (st_executions st)" for r
    using row_snapshot [OF assms that] by blast
  then have "decode_all (snapshot_from_slice c) ?bs = Ok (map (the \<circ> snapshot_from_slice c) ?bs)"
    by (intro decode_all_Some) auto
  then show ?thesis by (simp add: load_all_def)
qed

lemma sample_restart:
  "\<exists>st ss. recover_executions sample_node_env sample_start_io (nd_store sample_running) = Ok st
    \<and> load_all sample_serde True st = Ok ss"
proof -
  let ?st = "nd_store sample_running"
  have inv: "store_inv sample_serde ?st"
    using node_reachable_inv [OF reach_step [OF sample_launched_reachable sample_began_step] sample_node_serde]
    by (simp add: node_inv_def sample_node_env_def)
  obtain st2 where st2: "recover sample_serde True 1000 ?st = (Ok (recovered_snapshots sample_serde ?st), st2)"
    "store_inv sample_serde st2"
    using recover_spec [OF sample_serde_ok inv sample_view_room, of 1000] by blast
  obtain st3 where st3: "recover_executions sample_node_env sample_start_io ?st = Ok st3" "store_inv sample_serde st3"
    using st2 increment_metrics_inv [OF st2(2) surjective_pairing]
    by (auto simp: recover_executions_def sample_node_env_def sample_start_io_def increment_metric_def)
  obtain ss where "load_all sample_serde True st3 = Ok ss" using load_all_ok [OF st3(2)] by blast
  with st3(1) show ?thesis by blast
qed

definition sample_restart_disk :: "(ExecutionSnapshot + ExecutionEvent, WorkspaceManifest, ArtifactRecord) node_disk" where
  "sample_restart_disk = sample_disk\<lparr>dk_store := Some (nd_store sample_running)\<rparr>"

definition sample_restarted :: "(ExecutionSnapshot + ExecutionEvent, WorkspaceManifest, ArtifactRecord) NodeState" where
  "sample_restarted = projr (node_start sample_node_env sample_start_io sample_node_config sample_restart_disk)"

lemma sample_restarts:
  "node_start sample_node_env sample_start_io sample_node_config sample_restart_disk = Ok sample_restarted"
proof -
  obtain wk bl where ws: "recover_workspaces sample_node_env sample_start_io sample_manager (BlobStore_open 100 None) = Ok (wk, bl)"
    using sample_recover_workspaces by blast
  obtain st ss where st: "recover_executions sample_node_env sample_start_io (nd_store sample_running) = Ok st"
    "load_all sample_serde True st = Ok ss" using sample_restart by blast
  have conf: "check_config sample_node_config = Ok ()"
    by (simp add: check_config_def sample_node_config_def SEMAPHORE_MAX_PERMITS_def)
  have opened: "open_stores sample_node_env sample_start_io sample_node_config sample_restart_disk
      = Ok (nd_store sample_running, BlobStore_open 100 None, sample_manager, ArtifactStore_open None)"
    by (simp add: open_stores_def sample_start_io_def sample_node_config_def sample_disk_def sample_restart_disk_def
        sample_node_env_def sample_manager_def ExecutionStore_open_def)
  have io: "sx_lock sample_start_io = LockAcquired" "sx_load sample_start_io" "sx_serve sample_start_io"
    "ne_serde sample_node_env = sample_serde"
    by (simp_all add: sample_start_io_def sample_node_env_def)
  have "\<exists>nd. node_start sample_node_env sample_start_io sample_node_config sample_restart_disk = Ok nd"
    unfolding node_start_def conf opened and_then_simps prod.case st(1) ws
    by (simp add: io st(2) acquire_state_lock_def)
  then show ?thesis by (auto simp: sample_restarted_def)
qed

lemma restart_recovers_witness:
  "nd_permits sample_restarted = 2 \<and> nd_tasks sample_restarted = []
    \<and> (\<exists>r \<in> set (nd_records sample_restarted). rc_snapshot r = interrupt_snapshot (sample_snapshot Running)
        \<and> journal_view sample_serde (nd_store sample_restarted) (''e'', 1) = Some (rc_snapshot r, 4))"
proof -
  have se: "ne_serde sample_node_env = sample_serde" by (simp add: sample_node_env_def)
  have live: "\<not> is_terminal (sn_state (sample_snapshot Running))" by (simp add: sample_snapshot_def is_terminal_def)
  have "dk_store sample_restart_disk = Some (nd_store sample_running)" by (simp add: sample_restart_disk_def)
  note rec = restart_recovers [OF reach_step [OF sample_launched_reachable sample_began_step] sample_node_serde
      sample_view_room [folded se] this sample_restarts]
  have "\<exists>r \<in> set (nd_records sample_restarted). rc_snapshot r = interrupt_snapshot (sample_snapshot Running)
        \<and> journal_view sample_serde (nd_store sample_restarted) (''e'', 1) = Some (rc_snapshot r, 3 + 1)"
    using rec [THEN conjunct2, THEN conjunct2, THEN conjunct2, THEN spec, THEN spec, THEN spec, THEN spec, THEN mp,
        THEN conjunct1, of "''e''" 1 "sample_snapshot Running" 3] live
    by (simp add: se sample_view)
  then show ?thesis using rec by (simp add: sample_node_config_def)
qed

end
