(* ===== verification/Spec2Isabelle.thy ===== *)
theory Spec2Isabelle
  imports Core_Types Core_Spec Core_Manifest Store Store_Inv Store_Props Blob Blob_Props Workspace_Samples
    Artifact_Props Telemetry_Props Runner_Env Node_Samples
begin

text \<open>
  Verification of eggwork, a single-node remote execution service.

  \<^bold>\<open>The program.\<close> A node accepts authenticated requests to run a command, journals every execution and its events
  in a database, runs the command in a process tree of its own, optionally confined, streams its output, and keeps
  the inputs and outputs as content-addressed blobs. The crates are \<^verbatim>\<open>eggwork-core\<close> (data and validation),
  \<^verbatim>\<open>eggwork-server\<close> (the node and its stores), \<^verbatim>\<open>eggwork-runner\<close> (processes), \<^verbatim>\<open>eggwork-sandbox-helper\<close> (the
  program that confines itself before it executes the command) and \<^verbatim>\<open>eggwork-client\<close>. A request enters the node
  service; the service reserves an execution in the journal, starts a task that drives the runner, and publishes
  every event to the journal before anyone sees it. Workspaces and artifacts pin the blobs they need. A restart
  recovers all stores from their tables.

  \<^bold>\<open>Conventions.\<close> A struct is a record, an enum a datatype, both with the names of the source; an unsigned integer is
  a word where its width matters, and the 64-bit integers of the database are integers cast where the source casts
  them. A fallible operation returns a sum (\<open>Err\<close> left, \<open>Ok\<close> right), a mutating one also the new state. A database
  is the lists of its rows; a transaction that fails leaves them as they were. Code of other packages is an
  argument: JSON, SHA-256, UUIDs, URL parsing, TLS, the resolver of principals and the authorizer, with what is
  assumed of them as named hypotheses (\<open>serde_ok\<close>: decoding an encoded value gives it back). Which system calls and
  statements succeed, the clocks, fresh names and the orders of unordered collections are arguments too, so that
  a theorem holds for all of them.

  \<^bold>\<open>Theories.\<close>
  \<^item> \<open>Egg_Prelude\<close>: results, fixed-width arithmetic, strings and the lemmas all components share; \<open>Ordered_Map\<close>: the
    interface of ordered maps and its instance.
  \<^item> \<open>Core_Types\<close>, \<open>Core_Spec\<close>, \<open>Core_Manifest\<close> (\<^verbatim>\<open>eggwork-core/src/lib.rs\<close>): identifiers and paths; requests,
    events, results and the canonical form that is hashed; manifests and patches. The validators accept exactly a
    declarative condition, an accepted path stays below its directory, the digest of a request forgets exactly the
    order of the unordered fields, and a patch has one result whatever the order of its entries.
  \<^item> \<open>Store\<close>, \<open>Store_Inv\<close>, \<open>Store_Props\<close> (\<^verbatim>\<open>store.rs\<close>): the journal, its invariant and its refinement of an abstract
    journal; terminal executions never change, reservations are fenced, pages have no gaps, recovery is complete.
  \<^item> \<open>Blob\<close>, \<open>Blob_Props\<close>, \<open>Blob_Refs\<close> (\<^verbatim>\<open>blob.rs\<close>): uploads are atomic, every indexed blob has its content,
    collection removes nothing that is referenced and everything that is not; \<open>Blob_Refs\<close> is the interface its
    clients rely on.
  \<^item> \<open>Workspace\<close>, \<open>Workspace_Props\<close>, \<open>Workspace_Sweep\<close>, \<open>Workspace_Samples\<close> (\<^verbatim>\<open>workspace.rs\<close>): a ready workspace is
    the tree of its manifest with its blobs pinned; failures leave nothing behind; the maintenance of retained
    manifests reaches every owner.
  \<^item> \<open>Artifact\<close>, \<open>Artifact_Props\<close> (\<^verbatim>\<open>artifact.rs\<close>): only declared outputs are captured, under the hash of what was read.
  \<^item> \<open>Telemetry\<close>, \<open>Telemetry_Props\<close> (\<^verbatim>\<open>telemetry.rs\<close> and the telemetry types of the core): what a node serves is
    valid, and the cadence of polling.
  \<^item> \<open>Runner\<close>, \<open>Runner_Setup\<close>, \<open>Runner_Run\<close>, \<open>Helper\<close>, \<open>Runner_Props\<close>, \<open>Runner_Env\<close> (\<^verbatim>\<open>eggwork-runner\<close>, \<^verbatim>\<open>eggwork-sandbox-helper\<close>):
    launching, supervising and reaping a command; required isolation is enforced or the launch fails; the captured
    output is exact.
  \<^item> \<open>Node_Route\<close>, \<open>Node\<close>, \<open>Node_Run\<close>, \<open>Node_Life\<close> (\<^verbatim>\<open>eggwork-server/src/lib.rs\<close>): routes; the state of the node and
    every handler; the tasks of an execution; start, shutdown, draining, maintenance, and the step relation of a
    running node. \<open>Node_Inv\<close>, \<open>Node_Step\<close>, \<open>Node_Reach\<close> show that memory and journal agree in every reachable state;
    \<open>Node_Stream\<close>, \<open>Node_Props\<close>, \<open>Node_End\<close> what clients can rely on: exact event streams, authorization, at most
    one launch, an end for every execution, recovery after a restart. \<open>Node_Samples\<close> runs a concrete node.

  \<^bold>\<open>Concurrency.\<close> A step of the running node is a request, a step of a task between two awaits, a turn of a lease
  monitor, or an operator's action; the theorems about the node hold for every interleaving of such steps. A
  request is one step: the awaits inside a handler are not interleaved with other steps.

  \<^bold>\<open>Bounds.\<close> Loops of the source are structural or terminating recursions; \<open>select_loop\<close> takes the number of passes, and
  \<open>select_loop_ends\<close> shows how many are enough. Theorems about sequence numbers assume that an execution has fewer
  than \<open>2\<^sup>6\<^sup>3 - 1\<close> events, the range of the column.

  \<^bold>\<open>Not modelled.\<close> The operator's commands of \<^verbatim>\<open>operations.rs\<close> apart from the drain marker, \<^verbatim>\<open>deployment.rs\<close>,
  \<^verbatim>\<open>bin/eggworkd.rs\<close> and \<^verbatim>\<open>eggwork-client\<close>; the HTTP server, TLS and the scheduler of tasks; the Windows and macOS
  variants of the process code.
\<close>

end
